(* ===== verification/Psi_Calls.thy ===== *)
theory Psi_Calls
  imports Prelude
begin

text \<open>
  The ground of the MySQL instrumentation headers (\<^verbatim>\<open>mysql/psi\<close>): the calls into the
  instrumentation (the functions of \<^verbatim>\<open>PSI_v1\<close>, whose implementation is not in the
  repository), the calls into the system, and programs that make both. Pointers are integers
  with 0 for \<^verbatim>\<open>NULL\<close>. What the calls do is a parameter; a program records them in the
  order it makes them.
\<close>

section \<open>Operations (\<open>psi.h\<close>)\<close>

datatype PSI_mutex_operation = PSI_MUTEX_LOCK | PSI_MUTEX_TRYLOCK

datatype PSI_rwlock_operation =
    PSI_RWLOCK_READLOCK | PSI_RWLOCK_WRITELOCK | PSI_RWLOCK_TRYREADLOCK | PSI_RWLOCK_TRYWRITELOCK
  | PSI_RWLOCK_SHAREDLOCK | PSI_RWLOCK_SHAREDEXCLUSIVELOCK | PSI_RWLOCK_EXCLUSIVELOCK
  | PSI_RWLOCK_TRYSHAREDLOCK | PSI_RWLOCK_TRYSHAREDEXCLUSIVELOCK | PSI_RWLOCK_TRYEXCLUSIVELOCK

datatype PSI_cond_operation = PSI_COND_WAIT | PSI_COND_TIMEDWAIT

datatype PSI_file_operation =
    PSI_FILE_CREATE | PSI_FILE_CREATE_TMP | PSI_FILE_OPEN | PSI_FILE_STREAM_OPEN | PSI_FILE_CLOSE
  | PSI_FILE_STREAM_CLOSE | PSI_FILE_READ | PSI_FILE_WRITE | PSI_FILE_SEEK | PSI_FILE_TELL
  | PSI_FILE_FLUSH | PSI_FILE_STAT | PSI_FILE_FSTAT | PSI_FILE_CHSIZE | PSI_FILE_DELETE
  | PSI_FILE_RENAME | PSI_FILE_SYNC

datatype PSI_table_lock_operation = PSI_TABLE_LOCK | PSI_TABLE_EXTERNAL_LOCK

datatype PSI_socket_state = PSI_SOCKET_STATE_IDLE | PSI_SOCKET_STATE_ACTIVE

datatype PSI_socket_operation =
    PSI_SOCKET_CREATE | PSI_SOCKET_CONNECT | PSI_SOCKET_BIND | PSI_SOCKET_CLOSE | PSI_SOCKET_SEND
  | PSI_SOCKET_RECV | PSI_SOCKET_SENDTO | PSI_SOCKET_RECVFROM | PSI_SOCKET_SENDMSG | PSI_SOCKET_RECVMSG
  | PSI_SOCKET_SEEK | PSI_SOCKET_OPT | PSI_SOCKET_STAT | PSI_SOCKET_SHUTDOWN | PSI_SOCKET_SELECT

text \<open>Where a wait starts: \<open>src_file\<close> and \<open>src_line\<close>.\<close>

type_synonym place = "string \<times> int"

section \<open>Calls\<close>

text \<open>
  The functions of \<^verbatim>\<open>PSI_v1\<close> the headers call, with the arguments that are values; first
  those on what a server does for its clients.
\<close>

datatype (plugins only: code) server_hook =
    Get_thread_statement_locker int int int
  | Start_statement int int nat place
  | Refine_statement int int
  | Set_statement_text int int nat
  | Set_statement_lock_time int nat
  | Set_statement_rows_sent int nat
  | Set_statement_rows_examined int nat
  | End_statement int int
  | Digest_start int
  | Digest_end int int
  | Start_stage int place
  | End_stage
  | Get_thread_transaction_locker int int int bool bool
  | Start_transaction int place
  | Set_transaction_gtid int int int
  | Set_transaction_xid int int int
  | Set_transaction_xa_state int int
  | Set_transaction_trxid int int
  | Inc_transaction_savepoints int nat
  | Inc_transaction_rollback_to_savepoint int nat
  | Inc_transaction_release_savepoint int nat
  | End_transaction int bool
  | Start_table_lock_wait int PSI_table_lock_operation nat place
  | End_table_lock_wait int
  | Unlock_table int
  | Start_idle_wait place
  | End_idle_wait int
  | Create_prepared_stmt int nat int int nat int nat
  | Execute_prepared_stmt int int
  | Destroy_prepared_stmt int
  | Reprepare_prepared_stmt int
  | Start_sp int
  | End_sp int
  | Drop_sp nat int nat int nat
  | Get_sp_share nat int nat int nat

datatype (plugins only: code) hook =
    Register string string int int
  | Init_mutex int int
  | Destroy_mutex int
  | Start_mutex_wait int PSI_mutex_operation place
  | End_mutex_wait int int
  | Unlock_mutex int
  | Init_rwlock int int
  | Destroy_rwlock int
  | Start_rwlock_rdwait int PSI_rwlock_operation place
  | End_rwlock_rdwait int int
  | Start_rwlock_wrwait int PSI_rwlock_operation place
  | End_rwlock_wrwait int int
  | Unlock_rwlock int
  | Init_cond int int
  | Destroy_cond int
  | Start_cond_wait int int PSI_cond_operation place
  | End_cond_wait int int
  | Signal_cond int
  | Broadcast_cond int
  | Spawn_thread int int int int int
  | Get_thread
  | Set_thread_id int int
  | Get_thread_file_stream_locker int PSI_file_operation
  | Get_thread_file_descriptor_locker int PSI_file_operation
  | Get_thread_file_name_locker int PSI_file_operation int "int option"
  | Start_file_wait int nat place
  | End_file_wait int nat
  | Start_file_open_wait int place
  | End_file_open_wait int int
  | End_file_open_wait_and_bind_to_descriptor int int
  | End_temp_file_open_wait_and_bind_to_descriptor int int int
  | Start_file_close_wait int place
  | End_file_close_wait int int
  | Init_socket int int int nat
  | Destroy_socket int
  | Start_socket_wait int PSI_socket_operation nat place
  | End_socket_wait int nat
  | Set_socket_state int PSI_socket_state
  | Set_socket_info int int int nat
  | Set_socket_thread_owner int
  | Of_server server_hook

text \<open>The calls into the system, the thread library and \<^verbatim>\<open>mysys\<close>.\<close>

datatype (plugins only: code) lock_call =
    Pthread_mutex_init int int | Pthread_mutex_lock int | Pthread_mutex_trylock int
  | Pthread_mutex_unlock int | Pthread_mutex_destroy int
  | Safe_mutex_init int int place | Safe_mutex_lock int bool place | Safe_mutex_unlock int place
  | Safe_mutex_destroy int place
  | Pthread_rwlock_init int | Pthread_rwlock_destroy int | Pthread_rwlock_rdlock int
  | Pthread_rwlock_tryrdlock int | Pthread_rwlock_wrlock int | Pthread_rwlock_trywrlock int
  | Pthread_rwlock_unlock int
  | Rw_pr_init int | Rw_pr_destroy int | Rw_pr_rdlock int | Rw_pr_wrlock int | Rw_pr_unlock int
  | Pthread_cond_init int | Pthread_cond_destroy int | Pthread_cond_wait int int
  | Pthread_cond_timedwait int int int | Pthread_cond_signal int | Pthread_cond_broadcast int
  | Safe_cond_wait int int place | Safe_cond_timedwait int int int place

datatype (plugins only: code) file_call =
    Fgets int int int | Fgetc int | Fputs int int | Fputc int int | Vfprintf int int "int list"
  | Fflush int | Feof int | My_fstat int int int | My_stat int int int | My_chsize int int int int
  | My_malloc int int int | My_free int | My_fopen int int int | My_fclose int int
  | My_fread int int nat int | My_fwrite int int nat int | My_fseek int int int int | My_ftell int int
  | My_create int int int int | Create_temp_file int int int int int | My_open int int int | My_close int int
  | My_read int int nat int | My_write int int nat int | My_pread int int nat int int
  | My_pwrite int int nat int int | My_seek int int int int | My_tell int int
  | My_delete int int | My_rename int int int | My_create_with_symlink int int int int int
  | My_delete_with_symlink int int | My_rename_with_symlink int int int | My_sync int int

datatype (plugins only: code) socket_call =
    Socket int int int | Bind int int nat | Getsockname int int int | Connect int int nat
  | Getpeername int int int | Send int int nat int | Recv int int nat int
  | Sendto int int nat int int nat | Recvfrom int int nat int int int
  | Getsockopt int int int int int | Setsockopt int int int int nat
  | Fcntl_getfl int | Fcntl_setfl int int | Listen int int | Accept int int nat
  | Closesocket int | Shutdown int int

datatype (plugins only: code) native = Lock lock_call | File file_call | Sock socket_call

section \<open>Programs\<close>

datatype (plugins only: code) event = Hook hook int | Os native int

record ('s, 'p) host =
  have_psi :: bool
  safe_mutex :: bool
  os_call :: "native \<Rightarrow> 's \<Rightarrow> int \<times> 's"
  os_strlen :: "int \<Rightarrow> 's \<Rightarrow> nat"
  os_errno :: "'s \<Rightarrow> int"
  os_addr_length :: "'s \<Rightarrow> nat"
  psi_call :: "hook \<Rightarrow> 'p \<Rightarrow> int \<times> 'p"

record ('s, 'p) process =
  os :: 's
  psi :: 'p
  events :: "event list"

type_synonym ('s, 'p, 'a) io = "('s, 'p) process \<Rightarrow> 'a \<times> ('s, 'p) process"

definition io_ret :: "'a \<Rightarrow> ('s, 'p, 'a) io" where
  "io_ret x w = (x, w)"

definition io_bind :: "('s, 'p, 'a) io \<Rightarrow> ('a \<Rightarrow> ('s, 'p, 'b) io) \<Rightarrow> ('s, 'p, 'b) io" where
  "io_bind m f w = (case m w of (a, w') \<Rightarrow> f a w')"

definition io_then :: "('s, 'p, 'a) io \<Rightarrow> ('s, 'p, 'b) io \<Rightarrow> ('s, 'p, 'b) io" where
  "io_then m k = io_bind m (\<lambda>_. k)"

definition io_when :: "bool \<Rightarrow> ('s, 'p, 'a) io \<Rightarrow> ('s, 'p, unit) io" where
  "io_when b m = (if b then io_then m (io_ret ()) else io_ret ())"

definition io_look :: "('s \<Rightarrow> 'a) \<Rightarrow> ('s, 'p, 'a) io" where
  "io_look f w = (f (os w), w)"

definition native :: "('s, 'p) host \<Rightarrow> native \<Rightarrow> ('s, 'p, int) io" where
  "native e c w = (case os_call e c (os w) of (r, s) \<Rightarrow> (r, w\<lparr>os := s, events := events w @ [Os c r]\<rparr>))"

definition hook :: "('s, 'p) host \<Rightarrow> hook \<Rightarrow> ('s, 'p, int) io" where
  "hook e h w = (case psi_call e h (psi w) of (r, p) \<Rightarrow> (r, w\<lparr>psi := p, events := events w @ [Hook h r]\<rparr>))"

text \<open>A call that exists only in a build with the instrumentation; without it the answer is \<^verbatim>\<open>NULL\<close>.\<close>

definition ask :: "('s, 'p) host \<Rightarrow> hook \<Rightarrow> ('s, 'p, int) io" where
  "ask e h = (if have_psi e then hook e h else io_ret 0)"

text \<open>\<^verbatim>\<open>(size_t) n\<close> for a 64 bit \<^verbatim>\<open>size_t\<close>.\<close>

definition as_size_t :: "int \<Rightarrow> nat" where
  "as_size_t n = nat (n mod 2 ^ 64)"

section \<open>Waits\<close>

text \<open>
  A wait is open from the call that starts it, if that call names a locker, to the call that
  ends it. While it is open the last result of the system is remembered: what an end call
  reports must be that result.
\<close>

datatype waiting = Idle | Waiting int "int option"

fun starts_wait :: "hook \<Rightarrow> int \<Rightarrow> int option" where
  "starts_wait (Start_mutex_wait h op pl) r = Some r"
| "starts_wait (Start_rwlock_rdwait h op pl) r = Some r"
| "starts_wait (Start_rwlock_wrwait h op pl) r = Some r"
| "starts_wait (Start_cond_wait h m op pl) r = Some r"
| "starts_wait (Start_socket_wait h op n pl) r = Some r"
| "starts_wait (Start_file_wait l n pl) r = Some l"
| "starts_wait (Start_file_open_wait l pl) r = Some l"
| "starts_wait (Start_file_close_wait l pl) r = Some l"
| "starts_wait h r = None"

text \<open>The locker a call ends the wait of, and the result it reports.\<close>

fun ends_wait :: "hook \<Rightarrow> (int \<times> int option) option" where
  "ends_wait (End_mutex_wait l r) = Some (l, Some r)"
| "ends_wait (End_rwlock_rdwait l r) = Some (l, Some r)"
| "ends_wait (End_rwlock_wrwait l r) = Some (l, Some r)"
| "ends_wait (End_cond_wait l r) = Some (l, Some r)"
| "ends_wait (End_file_open_wait l r) = Some (l, Some r)"
| "ends_wait (End_file_open_wait_and_bind_to_descriptor l r) = Some (l, Some r)"
| "ends_wait (End_temp_file_open_wait_and_bind_to_descriptor l r name) = Some (l, Some r)"
| "ends_wait (End_file_close_wait l r) = Some (l, Some r)"
| "ends_wait (End_file_wait l n) = Some (l, None)"
| "ends_wait (End_socket_wait l n) = Some (l, None)"
| "ends_wait h = None"

fun wait_step :: "waiting \<Rightarrow> event \<Rightarrow> waiting option" where
  "wait_step Idle (Os c r) = Some Idle"
| "wait_step (Waiting l seen) (Os c r) = Some (Waiting l (Some r))"
| "wait_step s (Hook h r) =
     (case starts_wait h r of
        Some l \<Rightarrow> if s = Idle then Some (if l = 0 then Idle else Waiting l None) else None
      | None \<Rightarrow>
          (case ends_wait h of
             None \<Rightarrow> Some s
           | Some (l, report) \<Rightarrow>
               (case s of
                  Idle \<Rightarrow> None
                | Waiting l' seen \<Rightarrow> if l = l' \<and> (report = None \<or> report = seen) then Some Idle else None)))"

text \<open>The state after a list of events, if none of them is refused.\<close>

fun run_events :: "('m \<Rightarrow> event \<Rightarrow> 'm option) \<Rightarrow> 'm \<Rightarrow> event list \<Rightarrow> 'm option" where
  "run_events st s [] = Some s"
| "run_events st s (e # es) = (case st s e of None \<Rightarrow> None | Some s' \<Rightarrow> run_events st s' es)"

abbreviation run_waits :: "waiting \<Rightarrow> event list \<Rightarrow> waiting option" where
  "run_waits \<equiv> run_events wait_step"

text \<open>Every wait is ended once, after it was started and with the result of the call it is around.\<close>

definition waits_closed :: "event list \<Rightarrow> bool" where
  "waits_closed es \<longleftrightarrow> run_waits Idle es = Some Idle"

lemma run_events_append: "run_events st s (es @ fs) = Option.bind (run_events st s es) (\<lambda>t. run_events st t fs)"
  by (induction es arbitrary: s) (auto split: option.splits)

section \<open>Standing for a plain program\<close>

fun is_native :: "event \<Rightarrow> bool" where
  "is_native (Os c r) = True"
| "is_native (Hook h r) = False"

text \<open>
  \<open>within s m n Q\<close>: started in the same state of the system, \<open>m\<close> and \<open>n\<close> make the same calls
  into it, in the same order, and leave it in the same state; the calls of \<open>m\<close> into the
  instrumentation take the waits from \<open>s\<close> to a state that \<open>Q\<close> relates to the two results.
\<close>

definition within ::
  "waiting \<Rightarrow> ('s, 'p, 'a) io \<Rightarrow> ('s, 'p, 'b) io \<Rightarrow> ('a \<Rightarrow> 'b \<Rightarrow> waiting \<Rightarrow> bool) \<Rightarrow> bool" where
  "within s m n Q \<longleftrightarrow> (\<forall>w v. os w = os v \<longrightarrow> os (snd (m w)) = os (snd (n v)) \<and>
     (\<exists>es t. events (snd (m w)) = events w @ es \<and> run_waits s es = Some t \<and>
       events (snd (n v)) = events v @ filter is_native es \<and> Q (fst (m w)) (fst (n v)) t))"

lemma withinI:
  assumes "\<And>w v. os w = os v \<Longrightarrow> os (snd (m w)) = os (snd (n v)) \<and>
     (\<exists>es t. events (snd (m w)) = events w @ es \<and> run_waits s es = Some t \<and>
       events (snd (n v)) = events v @ filter is_native es \<and> Q (fst (m w)) (fst (n v)) t)"
  shows "within s m n Q"
  using assms unfolding within_def by blast

lemma withinE:
  assumes "within s m n Q" and "os w = os v"
  obtains es t where "os (snd (m w)) = os (snd (n v))" and "events (snd (m w)) = events w @ es"
    and "run_waits s es = Some t" and "events (snd (n v)) = events v @ filter is_native es"
    and "Q (fst (m w)) (fst (n v)) t"
  using assms unfolding within_def by blast

named_theorems waits \<open>rules that follow a program through its waits\<close>

lemma within_ret [waits]: "Q x y s \<Longrightarrow> within s (io_ret x) (io_ret y) Q"
  by (rule withinI) (simp add: io_ret_def)

lemma within_bind:
  fixes m :: "('s, 'p, 'a) io" and n :: "('s, 'p, 'b) io"
  assumes m: "within s m n R" and f: "\<And>x y t. R x y t \<Longrightarrow> within t (f x) (g y) Q"
  shows "within s (io_bind m f) (io_bind n g) Q"
proof (rule withinI)
  fix w v :: "('s, 'p) process" assume "os w = os v"
  with m obtain es t where es: "os (snd (m w)) = os (snd (n v))" "events (snd (m w)) = events w @ es"
    "run_waits s es = Some t" "events (snd (n v)) = events v @ filter is_native es"
    "R (fst (m w)) (fst (n v)) t" by (rule withinE)
  obtain fs u where fs: "os (snd (f (fst (m w)) (snd (m w)))) = os (snd (g (fst (n v)) (snd (n v))))"
    "events (snd (f (fst (m w)) (snd (m w)))) = events (snd (m w)) @ fs" "run_waits t fs = Some u"
    "events (snd (g (fst (n v)) (snd (n v)))) = events (snd (n v)) @ filter is_native fs"
    "Q (fst (f (fst (m w)) (snd (m w)))) (fst (g (fst (n v)) (snd (n v)))) u"
    using withinE [OF f [OF es(5)] es(1)] by blast
  have "io_bind m f w = f (fst (m w)) (snd (m w))" "io_bind n g v = g (fst (n v)) (snd (n v))"
    by (simp_all add: io_bind_def split_beta)
  then show "os (snd (io_bind m f w)) = os (snd (io_bind n g v)) \<and>
     (\<exists>es t. events (snd (io_bind m f w)) = events w @ es \<and> run_waits s es = Some t \<and>
       events (snd (io_bind n g v)) = events v @ filter is_native es \<and>
       Q (fst (io_bind m f w)) (fst (io_bind n g v)) t)"
    using es fs by (intro conjI exI [of _ "es @ fs"] exI [of _ u]) (simp_all add: run_events_append)
qed

lemma io_bind_ret [simp]: "io_bind m io_ret = m" "io_bind (io_ret x) f = f x"
  by (rule ext, simp add: io_bind_def io_ret_def)+

lemma io_bind_assoc [simp]: "io_bind (io_bind m f) g = io_bind m (\<lambda>x. io_bind (f x) g)"
  by (rule ext) (simp add: io_bind_def split_beta)

text \<open>One call into the instrumentation on the left only.\<close>

lemma within_hook:
  fixes e :: "('s, 'p) host"
  assumes f: "\<And>r. \<exists>t. wait_step s (Hook h r) = Some t \<and> within t (f r) n Q"
  shows "within s (io_bind (hook e h) f) n Q"
proof (rule withinI)
  fix w v :: "('s, 'p) process" assume wv: "os w = os v"
  obtain r p where r: "psi_call e h (psi w) = (r, p)" by force
  obtain t where t: "wait_step s (Hook h r) = Some t" "within t (f r) n Q" using f by blast
  define w1 where "w1 = w\<lparr>psi := p, events := events w @ [Hook h r]\<rparr>"
  have "os w1 = os v" using wv by (simp add: w1_def)
  then obtain es u where es: "os (snd (f r w1)) = os (snd (n v))" "events (snd (f r w1)) = events w1 @ es"
    "run_waits t es = Some u" "events (snd (n v)) = events v @ filter is_native es" "Q (fst (f r w1)) (fst (n v)) u"
    using withinE [OF t(2)] by blast
  have "io_bind (hook e h) f w = f r w1" by (simp add: io_bind_def hook_def r w1_def)
  then show "os (snd (io_bind (hook e h) f w)) = os (snd (n v)) \<and>
     (\<exists>es t. events (snd (io_bind (hook e h) f w)) = events w @ es \<and> run_waits s es = Some t \<and>
       events (snd (n v)) = events v @ filter is_native es \<and> Q (fst (io_bind (hook e h) f w)) (fst (n v)) t)"
    using es t(1) by (intro conjI exI [of _ "Hook h r # es"] exI [of _ u]) (simp_all add: w1_def)
qed

lemma within_neutral:
  "(\<And>r. starts_wait h r = None) \<Longrightarrow> ends_wait h = None \<Longrightarrow> (\<And>r. within s (f r) n Q) \<Longrightarrow>
   within s (io_bind (hook e h) f) n Q"
  by (rule within_hook) (cases s; simp)

lemma within_start:
  "(\<And>r. starts_wait h r = Some r) \<Longrightarrow> within Idle (f 0) n Q \<Longrightarrow>
   (\<And>l. l \<noteq> 0 \<Longrightarrow> within (Waiting l None) (f l) n Q) \<Longrightarrow> within Idle (io_bind (hook e h) f) n Q"
  by (rule within_hook) simp

lemma within_start_known:
  "(\<And>r. starts_wait h r = Some l) \<Longrightarrow> l \<noteq> 0 \<Longrightarrow> (\<And>r. within (Waiting l None) (f r) n Q) \<Longrightarrow>
   within Idle (io_bind (hook e h) f) n Q"
  by (rule within_hook) simp

lemma within_end:
  "(\<And>r. starts_wait h r = None) \<Longrightarrow> ends_wait h \<noteq> None \<Longrightarrow> fst (the (ends_wait h)) = l \<Longrightarrow>
   snd (the (ends_wait h)) = None \<or> snd (the (ends_wait h)) = seen \<Longrightarrow> (\<And>r. within Idle (f r) n Q) \<Longrightarrow>
   within (Waiting l seen) (io_bind (hook e h) f) n Q"
  by (rule within_hook) auto

text \<open>The same for each call.\<close>

lemmas wait_starts [waits] =
  within_start [where h = "Start_mutex_wait a b c" for a b c, simplified]
  within_start [where h = "Start_rwlock_rdwait a b c" for a b c, simplified]
  within_start [where h = "Start_rwlock_wrwait a b c" for a b c, simplified]
  within_start [where h = "Start_cond_wait a b c d" for a b c d, simplified]
  within_start [where h = "Start_socket_wait a b c d" for a b c d, simplified]
  within_start_known [where h = "Start_file_wait a b c" for a b c, simplified]
  within_start_known [where h = "Start_file_open_wait a b" for a b, simplified]
  within_start_known [where h = "Start_file_close_wait a b" for a b, simplified]

lemmas wait_ends [waits] =
  within_end [where h = "End_mutex_wait a b" for a b, simplified]
  within_end [where h = "End_rwlock_rdwait a b" for a b, simplified]
  within_end [where h = "End_rwlock_wrwait a b" for a b, simplified]
  within_end [where h = "End_cond_wait a b" for a b, simplified]
  within_end [where h = "End_socket_wait a b" for a b, simplified]
  within_end [where h = "End_file_wait a b" for a b, simplified]
  within_end [where h = "End_file_open_wait a b" for a b, simplified]
  within_end [where h = "End_file_open_wait_and_bind_to_descriptor a b" for a b, simplified]
  within_end [where h = "End_temp_file_open_wait_and_bind_to_descriptor a b c" for a b c, simplified]
  within_end [where h = "End_file_close_wait a b" for a b, simplified]

lemmas wait_neutral [waits] =
  within_neutral [where h = "Register a b c d" for a b c d, simplified]
  within_neutral [where h = "Init_mutex a b" for a b, simplified]
  within_neutral [where h = "Destroy_mutex a" for a, simplified]
  within_neutral [where h = "Unlock_mutex a" for a, simplified]
  within_neutral [where h = "Init_rwlock a b" for a b, simplified]
  within_neutral [where h = "Destroy_rwlock a" for a, simplified]
  within_neutral [where h = "Unlock_rwlock a" for a, simplified]
  within_neutral [where h = "Init_cond a b" for a b, simplified]
  within_neutral [where h = "Destroy_cond a" for a, simplified]
  within_neutral [where h = "Signal_cond a" for a, simplified]
  within_neutral [where h = "Broadcast_cond a" for a, simplified]
  within_neutral [where h = "Get_thread", simplified]
  within_neutral [where h = "Set_thread_id a b" for a b, simplified]
  within_neutral [where h = "Get_thread_file_stream_locker a b" for a b, simplified]
  within_neutral [where h = "Get_thread_file_descriptor_locker a b" for a b, simplified]
  within_neutral [where h = "Get_thread_file_name_locker a b c d" for a b c d, simplified]
  within_neutral [where h = "Init_socket a b c d" for a b c d, simplified]
  within_neutral [where h = "Destroy_socket a" for a, simplified]
  within_neutral [where h = "Set_socket_state a b" for a b, simplified]
  within_neutral [where h = "Set_socket_info a b c d" for a b c d, simplified]
  within_neutral [where h = "Set_socket_thread_owner a" for a, simplified]

lemma within_if [waits]: "(b \<Longrightarrow> within s m n Q) \<Longrightarrow> (\<not> b \<Longrightarrow> within s k n Q) \<Longrightarrow> within s (if b then m else k) n Q"
  by simp

lemma within_when [waits]:
  "(b \<Longrightarrow> within s (io_bind (hook e h) (\<lambda>_. k)) n Q) \<Longrightarrow> (\<not> b \<Longrightarrow> within s k n Q) \<Longrightarrow>
   within s (io_then (io_when b (hook e h)) k) n Q"
  by (cases b) (simp_all add: io_then_def io_when_def)

lemma within_then [waits]: "within s (io_bind m (\<lambda>_. k)) n Q \<Longrightarrow> within s (io_then m k) n Q"
  by (simp add: io_then_def)

text \<open>Bind over the shapes a first argument can have.\<close>

lemma within_shapes [waits]:
  "(b \<Longrightarrow> within s (io_bind m f) n Q) \<Longrightarrow> (\<not> b \<Longrightarrow> within s (io_bind k f) n Q) \<Longrightarrow>
   within s (io_bind (if b then m else k) f) n Q"
  "within s (f x) n Q \<Longrightarrow> within s (io_bind (io_ret x) f) n Q"
  "within s (io_bind a (\<lambda>x. io_bind (g x) f)) n Q \<Longrightarrow> within s (io_bind (io_bind a g) f) n Q"
  "within s (io_then c (io_bind d f)) n Q \<Longrightarrow> within s (io_bind (io_then c d) f) n Q"
  by (simp_all add: io_then_def)

lemma within_ask [waits]:
  "within s (io_bind (hook e h) f) n Q \<Longrightarrow> within s (f 0) n Q \<Longrightarrow> within s (io_bind (ask e h) f) n Q"
  by (simp add: ask_def)

lemma within_look_then [waits]: "(\<And>x. within s (f x) n Q) \<Longrightarrow> within s (io_bind (io_look g) f) n Q"
  unfolding within_def by (simp add: io_bind_def io_look_def)

text \<open>The same choice, and the same look at the system, on both sides.\<close>

lemma within_choice:
  "(b \<Longrightarrow> within s m m' Q) \<Longrightarrow> (\<not> b \<Longrightarrow> within s k k' Q) \<Longrightarrow>
   within s (if b then m else k) (if b then m' else k') Q"
  by simp

lemma within_look: "(\<And>x. Q x x s) \<Longrightarrow> within s (io_look g) (io_look g) Q"
  unfolding within_def by (simp add: io_look_def)

text \<open>A call into the system on both sides.\<close>

lemma within_native: "within s (native e c) (native e c)
    (\<lambda>x y t. x = y \<and> t = (case s of Idle \<Rightarrow> Idle | Waiting l seen \<Rightarrow> Waiting l (Some x)))"
proof (rule withinI)
  fix w v :: "('a, 'b) process" assume "os w = os v"
  then show "os (snd (native e c w)) = os (snd (native e c v)) \<and>
     (\<exists>es t. events (snd (native e c w)) = events w @ es \<and> run_waits s es = Some t \<and>
       events (snd (native e c v)) = events v @ filter is_native es \<and> fst (native e c w) = fst (native e c v) \<and>
       t = (case s of Idle \<Rightarrow> Idle | Waiting l seen \<Rightarrow> Waiting l (Some (fst (native e c w)))))"
    by (intro conjI exI [of _ "[Os c (fst (os_call e c (os v)))]"] exI)
       (simp_all add: native_def split_beta split: waiting.split)
qed

lemma within_native_bind [waits]:
  "(\<And>r. within Idle (f r) (g r) Q) \<Longrightarrow> within Idle (io_bind (native e c) f) (io_bind (native e c) g) Q"
  "(\<And>r. within (Waiting l (Some r)) (f r) (g r) Q) \<Longrightarrow>
   within (Waiting l seen) (io_bind (native e c) f) (io_bind (native e c) g) Q"
  by (rule within_bind [OF within_native]; simp)+

lemmas within_native_last [waits] = within_native_bind [where g = io_ret, unfolded io_bind_ret(1)]

lemma within_native_only [waits]:
  "(\<And>r. Q r r Idle) \<Longrightarrow> within Idle (native e c) (native e c) Q"
  by (rule within_native_last(1) [where f = io_ret, unfolded io_bind_ret(1)], rule within_ret)

text \<open>
  \<open>m\<close> with its calls into the instrumentation stands for \<open>n\<close> without: the same result (seen
  through \<open>p\<close>), the same calls into the system and the same state of it; and every wait that
  \<open>m\<close> starts it ends, once, with the result of the call in between. Programs over functions
  that stand for others stand for the programs over these.
\<close>

definition stands_for :: "('a \<Rightarrow> 'b) \<Rightarrow> ('s, 'p, 'a) io \<Rightarrow> ('s, 'p, 'b) io \<Rightarrow> bool" where
  "stands_for p m n \<longleftrightarrow> (\<forall>w v. os w = os v \<longrightarrow>
     p (fst (m w)) = fst (n v) \<and> os (snd (m w)) = os (snd (n v)) \<and>
     (\<exists>es. events (snd (m w)) = events w @ es \<and> waits_closed es \<and>
       events (snd (n v)) = events v @ filter is_native es))"

lemma stands_for_within: "stands_for p m n \<longleftrightarrow> within Idle m n (\<lambda>x y t. p x = y \<and> t = Idle)"
  unfolding stands_for_def within_def waits_closed_def by blast

lemmas stands_forI = stands_for_within [THEN iffD2]

lemma stands_for_bind:
  "stands_for p m n \<Longrightarrow> (\<And>x. stands_for q (f x) (g (p x))) \<Longrightarrow> stands_for q (io_bind m f) (io_bind n g)"
  unfolding stands_for_within by (erule within_bind) auto

text \<open>
  The waits on files and sockets are ended with a number of bytes. \<open>reports_count f m\<close>: each number
  \<open>m\<close> reports is \<open>f\<close> of its result and of the state of the system before and after it.
\<close>

fun reported_counts :: "event list \<Rightarrow> nat list" where
  "reported_counts [] = []"
| "reported_counts (Hook (End_file_wait l k) r # es) = k # reported_counts es"
| "reported_counts (Hook (End_socket_wait l k) r # es) = k # reported_counts es"
| "reported_counts (x # es) = reported_counts es"

definition reports_count :: "('a \<Rightarrow> 's \<Rightarrow> 's \<Rightarrow> nat) \<Rightarrow> ('s, 'p, 'a) io \<Rightarrow> bool" where
  "reports_count f m \<longleftrightarrow> (\<forall>w. \<exists>es. events (snd (m w)) = events w @ es \<and>
     (\<forall>k \<in> set (reported_counts es). k = f (fst (m w)) (os w) (os (snd (m w)))))"

text \<open>An instrumented call that stands for the plain one and reports the bytes \<open>f\<close>.\<close>

definition stands_counting :: "('a \<Rightarrow> 's \<Rightarrow> 's \<Rightarrow> nat) \<Rightarrow> ('s, 'p, 'a) io \<Rightarrow> ('s, 'p, 'a) io \<Rightarrow> bool" where
  "stands_counting f m n \<longleftrightarrow> stands_for id m n \<and> reports_count f m"

abbreviation (input) count_is :: "nat \<Rightarrow> 'a \<Rightarrow> 's \<Rightarrow> 's \<Rightarrow> nat" where
  "count_is k \<equiv> (\<lambda>_ _ _. k)"

lemma native_if: "(if b then native e c else native e d) = native e (if b then c else d)"
  by simp

section \<open>Watching a program\<close>

text \<open>
  \<open>judged st s m Q\<close>: the events of \<open>m\<close> take a monitor with the steps \<open>st\<close> from \<open>s\<close>, never
  refused, to a state that \<open>Q\<close> relates to the result.
\<close>

definition judged ::
  "('m \<Rightarrow> event \<Rightarrow> 'm option) \<Rightarrow> 'm \<Rightarrow> ('s, 'p, 'a) io \<Rightarrow> ('a \<Rightarrow> 'm \<Rightarrow> bool) \<Rightarrow> bool" where
  "judged st s m Q \<longleftrightarrow> (\<forall>w. \<exists>es t. events (snd (m w)) = events w @ es \<and> run_events st s es = Some t \<and> Q (fst (m w)) t)"

named_theorems judging \<open>rules that follow a program with a monitor\<close>

lemma judged_ret [judging]: "Q x s \<Longrightarrow> judged st s (io_ret x) Q"
  unfolding judged_def by (simp add: io_ret_def)

lemma judged_mono: "judged st s m R \<Longrightarrow> (\<And>x t. R x t \<Longrightarrow> Q x t) \<Longrightarrow> judged st s m Q"
  unfolding judged_def by meson

lemma judged_bind:
  fixes m :: "('s, 'p, 'a) io"
  assumes m: "judged st s m R" and f: "\<And>x t. R x t \<Longrightarrow> judged st t (f x) Q"
  shows "judged st s (io_bind m f) Q"
  unfolding judged_def
proof (rule allI)
  fix w :: "('s, 'p) process"
  obtain es t where es: "events (snd (m w)) = events w @ es" "run_events st s es = Some t" "R (fst (m w)) t"
    using m unfolding judged_def by blast
  obtain fs u where "events (snd (f (fst (m w)) (snd (m w)))) = events (snd (m w)) @ fs"
    "run_events st t fs = Some u" "Q (fst (f (fst (m w)) (snd (m w)))) u"
    using f [OF es(3)] unfolding judged_def by blast
  then show "\<exists>es t. events (snd (io_bind m f w)) = events w @ es \<and> run_events st s es = Some t \<and> Q (fst (io_bind m f w)) t"
    using es by (intro exI [of _ "es @ fs"] exI [of _ u]) (simp add: io_bind_def split_beta run_events_append)
qed

lemma judged_hook [judging]:
  fixes e :: "('s, 'p) host"
  assumes ok: "\<And>r. st s (Hook h r) \<noteq> None" and f: "\<And>r. judged st (the (st s (Hook h r))) (f r) Q"
  shows "judged st s (io_bind (hook e h) f) Q"
proof (rule judged_bind)
  show "judged st s (hook e h) (\<lambda>r t. st s (Hook h r) = Some t)"
    unfolding judged_def
  proof
    fix w :: "('s, 'p) process"
    obtain t where "st s (Hook h (fst (psi_call e h (psi w)))) = Some t" using ok by blast
    then show "\<exists>es t. events (snd (hook e h w)) = events w @ es \<and> run_events st s es = Some t \<and>
        st s (Hook h (fst (hook e h w))) = Some t"
      by (intro exI [of _ "[Hook h (fst (psi_call e h (psi w)))]"] exI [of _ t]) (simp add: hook_def split_beta)
  qed
  fix r t assume "st s (Hook h r) = Some t"
  then show "judged st t (f r) Q" using f [of r] by simp
qed

lemma judged_native [judging]:
  fixes e :: "('s, 'p) host"
  assumes ok: "\<And>x. st s (Os c (fst (os_call e c x))) \<noteq> None"
    and f: "\<And>x. judged st (the (st s (Os c (fst (os_call e c x))))) (f (fst (os_call e c x))) Q"
  shows "judged st s (io_bind (native e c) f) Q"
proof (rule judged_bind)
  show "judged st s (native e c) (\<lambda>r t. st s (Os c r) = Some t \<and> (\<exists>x. r = fst (os_call e c x)))"
    unfolding judged_def
  proof
    fix w :: "('s, 'p) process"
    obtain t where "st s (Os c (fst (os_call e c (os w)))) = Some t" using ok by blast
    then show "\<exists>es t. events (snd (native e c w)) = events w @ es \<and> run_events st s es = Some t \<and>
        st s (Os c (fst (native e c w))) = Some t \<and> (\<exists>x. fst (native e c w) = fst (os_call e c x))"
      by (intro exI [of _ "[Os c (fst (os_call e c (os w)))]"] exI [of _ t]) (auto simp: native_def split_beta)
  qed
  fix r t assume "st s (Os c r) = Some t \<and> (\<exists>x. r = fst (os_call e c x))"
  then obtain x where "st s (Os c r) = Some t" "r = fst (os_call e c x)" by blast
  then show "judged st t (f r) Q" using f [of x] by simp
qed

lemma judged_last [judging]: "judged st s (io_bind (native e c) io_ret) Q \<Longrightarrow> judged st s (native e c) Q"
  by simp

lemma judged_look [judging]: "(\<And>x. judged st s (f x) Q) \<Longrightarrow> judged st s (io_bind (io_look g) f) Q"
  unfolding judged_def by (simp add: io_bind_def io_look_def)

lemma judged_shapes [judging]:
  "(b \<Longrightarrow> judged st s m Q) \<Longrightarrow> (\<not> b \<Longrightarrow> judged st s k Q) \<Longrightarrow> judged st s (if b then m else k) Q"
  "(b \<Longrightarrow> judged st s (io_bind (hook e h) (\<lambda>_. d)) Q) \<Longrightarrow> (\<not> b \<Longrightarrow> judged st s d Q) \<Longrightarrow>
   judged st s (io_then (io_when b (hook e h)) d) Q"
  "judged st s (io_bind c (\<lambda>_. d)) Q \<Longrightarrow> judged st s (io_then c d) Q"
  "(have_psi e \<Longrightarrow> judged st s (io_bind (hook e h) g) Q) \<Longrightarrow> judged st s (g 0) Q \<Longrightarrow> judged st s (io_bind (ask e h) g) Q"
  by (auto simp: io_then_def io_when_def ask_def)

text \<open>Along a longer run, from the \<open>n\<close>th event on.\<close>

lemma judged_run:
  assumes "judged st M m Q" and "m w = (x, w')" and "n \<le> length (events w)"
    and "run_events st s0 (drop n (events w)) = Some M"
  shows "\<exists>M'. n \<le> length (events w') \<and> run_events st s0 (drop n (events w')) = Some M' \<and> Q x M'"
proof -
  obtain es t where es: "events w' = events w @ es" "run_events st M es = Some t" "Q x t"
    using assms(1,2) unfolding judged_def by (metis fst_conv snd_conv)
  then show ?thesis using assms(3,4) by (intro exI [of _ t]) (simp add: run_events_append)
qed

text \<open>To run a program.\<close>

lemmas io_run = io_bind_def io_then_def io_when_def io_ret_def native_def hook_def io_look_def ask_def

end
