(* ===== verification/Psi_Thread.thy ===== *)
theory Psi_Thread
  imports Psi_Calls
begin

text \<open>
  The locks of \<^verbatim>\<open>thr_mutex.h\<close>, \<^verbatim>\<open>thr_rwlock.h\<close> and \<^verbatim>\<open>thr_cond.h\<close> on a POSIX system, and
  the instrumented locks of \<^verbatim>\<open>mysql_thread.h\<close> around them. The two options of the build,
  \<^verbatim>\<open>SAFE_MUTEX\<close> and the instrumentation, are arguments.
\<close>

section \<open>The plain locks\<close>

definition native_mutex_init :: "('s, 'p) host \<Rightarrow> int \<Rightarrow> int \<Rightarrow> ('s, 'p, int) io" where
  "native_mutex_init e mutex attr = native e (Lock (Pthread_mutex_init mutex attr))"

definition native_mutex_lock :: "('s, 'p) host \<Rightarrow> int \<Rightarrow> ('s, 'p, int) io" where
  "native_mutex_lock e mutex = native e (Lock (Pthread_mutex_lock mutex))"

definition native_mutex_trylock :: "('s, 'p) host \<Rightarrow> int \<Rightarrow> ('s, 'p, int) io" where
  "native_mutex_trylock e mutex = native e (Lock (Pthread_mutex_trylock mutex))"

definition native_mutex_unlock :: "('s, 'p) host \<Rightarrow> int \<Rightarrow> ('s, 'p, int) io" where
  "native_mutex_unlock e mutex = native e (Lock (Pthread_mutex_unlock mutex))"

definition native_mutex_destroy :: "('s, 'p) host \<Rightarrow> int \<Rightarrow> ('s, 'p, int) io" where
  "native_mutex_destroy e mutex = native e (Lock (Pthread_mutex_destroy mutex))"

definition my_mutex_init :: "('s, 'p) host \<Rightarrow> int \<Rightarrow> int \<Rightarrow> place \<Rightarrow> ('s, 'p, int) io" where
  "my_mutex_init e mp attr pl =
     (if safe_mutex e then native e (Lock (Safe_mutex_init mp attr pl)) else native_mutex_init e mp attr)"

definition my_mutex_lock :: "('s, 'p) host \<Rightarrow> int \<Rightarrow> place \<Rightarrow> ('s, 'p, int) io" where
  "my_mutex_lock e mp pl =
     (if safe_mutex e then native e (Lock (Safe_mutex_lock mp False pl)) else native_mutex_lock e mp)"

definition my_mutex_trylock :: "('s, 'p) host \<Rightarrow> int \<Rightarrow> place \<Rightarrow> ('s, 'p, int) io" where
  "my_mutex_trylock e mp pl =
     (if safe_mutex e then native e (Lock (Safe_mutex_lock mp True pl)) else native_mutex_trylock e mp)"

definition my_mutex_unlock :: "('s, 'p) host \<Rightarrow> int \<Rightarrow> place \<Rightarrow> ('s, 'p, int) io" where
  "my_mutex_unlock e mp pl =
     (if safe_mutex e then native e (Lock (Safe_mutex_unlock mp pl)) else native_mutex_unlock e mp)"

definition my_mutex_destroy :: "('s, 'p) host \<Rightarrow> int \<Rightarrow> place \<Rightarrow> ('s, 'p, int) io" where
  "my_mutex_destroy e mp pl =
     (if safe_mutex e then native e (Lock (Safe_mutex_destroy mp pl)) else native_mutex_destroy e mp)"

definition native_rw_init :: "('s, 'p) host \<Rightarrow> int \<Rightarrow> ('s, 'p, int) io" where
  "native_rw_init e rwp = native e (Lock (Pthread_rwlock_init rwp))"

definition native_rw_destroy :: "('s, 'p) host \<Rightarrow> int \<Rightarrow> ('s, 'p, int) io" where
  "native_rw_destroy e rwp = native e (Lock (Pthread_rwlock_destroy rwp))"

definition native_rw_rdlock :: "('s, 'p) host \<Rightarrow> int \<Rightarrow> ('s, 'p, int) io" where
  "native_rw_rdlock e rwp = native e (Lock (Pthread_rwlock_rdlock rwp))"

definition native_rw_tryrdlock :: "('s, 'p) host \<Rightarrow> int \<Rightarrow> ('s, 'p, int) io" where
  "native_rw_tryrdlock e rwp = native e (Lock (Pthread_rwlock_tryrdlock rwp))"

definition native_rw_wrlock :: "('s, 'p) host \<Rightarrow> int \<Rightarrow> ('s, 'p, int) io" where
  "native_rw_wrlock e rwp = native e (Lock (Pthread_rwlock_wrlock rwp))"

definition native_rw_trywrlock :: "('s, 'p) host \<Rightarrow> int \<Rightarrow> ('s, 'p, int) io" where
  "native_rw_trywrlock e rwp = native e (Lock (Pthread_rwlock_trywrlock rwp))"

definition native_rw_unlock :: "('s, 'p) host \<Rightarrow> int \<Rightarrow> ('s, 'p, int) io" where
  "native_rw_unlock e rwp = native e (Lock (Pthread_rwlock_unlock rwp))"

definition native_cond_init :: "('s, 'p) host \<Rightarrow> int \<Rightarrow> ('s, 'p, int) io" where
  "native_cond_init e cond = native e (Lock (Pthread_cond_init cond))"

definition native_cond_destroy :: "('s, 'p) host \<Rightarrow> int \<Rightarrow> ('s, 'p, int) io" where
  "native_cond_destroy e cond = native e (Lock (Pthread_cond_destroy cond))"

definition native_cond_timedwait :: "('s, 'p) host \<Rightarrow> int \<Rightarrow> int \<Rightarrow> int \<Rightarrow> ('s, 'p, int) io" where
  "native_cond_timedwait e cond mutex abstime = native e (Lock (Pthread_cond_timedwait cond mutex abstime))"

definition native_cond_wait :: "('s, 'p) host \<Rightarrow> int \<Rightarrow> int \<Rightarrow> ('s, 'p, int) io" where
  "native_cond_wait e cond mutex = native e (Lock (Pthread_cond_wait cond mutex))"

definition native_cond_signal :: "('s, 'p) host \<Rightarrow> int \<Rightarrow> ('s, 'p, int) io" where
  "native_cond_signal e cond = native e (Lock (Pthread_cond_signal cond))"

definition native_cond_broadcast :: "('s, 'p) host \<Rightarrow> int \<Rightarrow> ('s, 'p, int) io" where
  "native_cond_broadcast e cond = native e (Lock (Pthread_cond_broadcast cond))"

definition my_cond_timedwait :: "('s, 'p) host \<Rightarrow> int \<Rightarrow> int \<Rightarrow> int \<Rightarrow> place \<Rightarrow> ('s, 'p, int) io" where
  "my_cond_timedwait e cond mp abstime pl =
     (if safe_mutex e then native e (Lock (Safe_cond_timedwait cond mp abstime pl)) else native_cond_timedwait e cond mp abstime)"

definition my_cond_wait :: "('s, 'p) host \<Rightarrow> int \<Rightarrow> int \<Rightarrow> place \<Rightarrow> ('s, 'p, int) io" where
  "my_cond_wait e cond mp pl =
     (if safe_mutex e then native e (Lock (Safe_cond_wait cond mp pl)) else native_cond_wait e cond mp)"

section \<open>The instrumented locks\<close>

text \<open>A lock with its instrumentation; the field is \<open>m_psi\<close> in each of the structures.\<close>

record mysql_mutex_t =
  m_mutex :: int
  mutex_psi :: int

record mysql_rwlock_t =
  m_rwlock :: int
  rwlock_psi :: int

record mysql_prlock_t =
  m_prlock :: int
  prlock_psi :: int

record mysql_cond_t =
  m_cond :: int
  cond_psi :: int

definition inline_mysql_mutex_register :: "('s, 'p) host \<Rightarrow> string \<Rightarrow> int \<Rightarrow> int \<Rightarrow> ('s, 'p, unit) io" where
  "inline_mysql_mutex_register e category info count =
     io_when (have_psi e) (hook e (Register ''mutex'' category info count))"

definition inline_mysql_mutex_init :: "('s, 'p) host \<Rightarrow> int \<Rightarrow> mysql_mutex_t \<Rightarrow> int \<Rightarrow> place \<Rightarrow> ('s, 'p, int \<times> mysql_mutex_t) io" where
  "inline_mysql_mutex_init e key that attr pl =
     io_bind (ask e (Init_mutex key (m_mutex that))) (\<lambda>p.
     io_bind (my_mutex_init e (m_mutex that) attr pl) (\<lambda>result.
       io_ret (result, that\<lparr>mutex_psi := p\<rparr>)))"

definition inline_mysql_mutex_destroy :: "('s, 'p) host \<Rightarrow> mysql_mutex_t \<Rightarrow> place \<Rightarrow> ('s, 'p, int \<times> mysql_mutex_t) io" where
  "inline_mysql_mutex_destroy e that pl =
     (let instrumented = have_psi e \<and> mutex_psi that \<noteq> 0 in
      io_then (io_when instrumented (hook e (Destroy_mutex (mutex_psi that))))
     (io_bind (my_mutex_destroy e (m_mutex that) pl) (\<lambda>result.
       io_ret (result, if instrumented then that\<lparr>mutex_psi := 0\<rparr> else that))))"

definition inline_mysql_mutex_lock :: "('s, 'p) host \<Rightarrow> mysql_mutex_t \<Rightarrow> place \<Rightarrow> ('s, 'p, int) io" where
  "inline_mysql_mutex_lock e that pl =
     (if have_psi e \<and> mutex_psi that \<noteq> 0 then
        io_bind (hook e (Start_mutex_wait (mutex_psi that) PSI_MUTEX_LOCK pl)) (\<lambda>locker.
        io_bind (my_mutex_lock e (m_mutex that) pl) (\<lambda>result.
        io_then (io_when (locker \<noteq> 0) (hook e (End_mutex_wait locker result)))
          (io_ret result)))
      else my_mutex_lock e (m_mutex that) pl)"

definition inline_mysql_mutex_trylock :: "('s, 'p) host \<Rightarrow> mysql_mutex_t \<Rightarrow> place \<Rightarrow> ('s, 'p, int) io" where
  "inline_mysql_mutex_trylock e that pl =
     (if have_psi e \<and> mutex_psi that \<noteq> 0 then
        io_bind (hook e (Start_mutex_wait (mutex_psi that) PSI_MUTEX_TRYLOCK pl)) (\<lambda>locker.
        io_bind (my_mutex_trylock e (m_mutex that) pl) (\<lambda>result.
        io_then (io_when (locker \<noteq> 0) (hook e (End_mutex_wait locker result)))
          (io_ret result)))
      else my_mutex_trylock e (m_mutex that) pl)"

definition inline_mysql_mutex_unlock :: "('s, 'p) host \<Rightarrow> mysql_mutex_t \<Rightarrow> place \<Rightarrow> ('s, 'p, int) io" where
  "inline_mysql_mutex_unlock e that pl =
     io_then (io_when (have_psi e \<and> mutex_psi that \<noteq> 0) (hook e (Unlock_mutex (mutex_psi that))))
       (my_mutex_unlock e (m_mutex that) pl)"

definition inline_mysql_rwlock_register :: "('s, 'p) host \<Rightarrow> string \<Rightarrow> int \<Rightarrow> int \<Rightarrow> ('s, 'p, unit) io" where
  "inline_mysql_rwlock_register e category info count =
     io_when (have_psi e) (hook e (Register ''rwlock'' category info count))"

definition inline_mysql_rwlock_init :: "('s, 'p) host \<Rightarrow> int \<Rightarrow> mysql_rwlock_t \<Rightarrow> ('s, 'p, int \<times> mysql_rwlock_t) io" where
  "inline_mysql_rwlock_init e key that =
     io_bind (ask e (Init_rwlock key (m_rwlock that))) (\<lambda>p.
     io_bind (native_rw_init e (m_rwlock that)) (\<lambda>result.
       io_ret (result, that\<lparr>rwlock_psi := p\<rparr>)))"

definition inline_mysql_prlock_init :: "('s, 'p) host \<Rightarrow> int \<Rightarrow> mysql_prlock_t \<Rightarrow> ('s, 'p, int \<times> mysql_prlock_t) io" where
  "inline_mysql_prlock_init e key that =
     io_bind (ask e (Init_rwlock key (m_prlock that))) (\<lambda>p.
     io_bind (native e (Lock (Rw_pr_init (m_prlock that)))) (\<lambda>result.
       io_ret (result, that\<lparr>prlock_psi := p\<rparr>)))"

definition inline_mysql_rwlock_destroy :: "('s, 'p) host \<Rightarrow> mysql_rwlock_t \<Rightarrow> ('s, 'p, int \<times> mysql_rwlock_t) io" where
  "inline_mysql_rwlock_destroy e that =
     (let instrumented = have_psi e \<and> rwlock_psi that \<noteq> 0 in
      io_then (io_when instrumented (hook e (Destroy_rwlock (rwlock_psi that))))
     (io_bind (native_rw_destroy e (m_rwlock that)) (\<lambda>result.
       io_ret (result, if instrumented then that\<lparr>rwlock_psi := 0\<rparr> else that))))"

definition inline_mysql_prlock_destroy :: "('s, 'p) host \<Rightarrow> mysql_prlock_t \<Rightarrow> ('s, 'p, int \<times> mysql_prlock_t) io" where
  "inline_mysql_prlock_destroy e that =
     (let instrumented = have_psi e \<and> prlock_psi that \<noteq> 0 in
      io_then (io_when instrumented (hook e (Destroy_rwlock (prlock_psi that))))
     (io_bind (native e (Lock (Rw_pr_destroy (m_prlock that)))) (\<lambda>result.
       io_ret (result, if instrumented then that\<lparr>prlock_psi := 0\<rparr> else that))))"

definition inline_mysql_rwlock_rdlock :: "('s, 'p) host \<Rightarrow> mysql_rwlock_t \<Rightarrow> place \<Rightarrow> ('s, 'p, int) io" where
  "inline_mysql_rwlock_rdlock e that pl =
     (if have_psi e \<and> rwlock_psi that \<noteq> 0 then
        io_bind (hook e (Start_rwlock_rdwait (rwlock_psi that) PSI_RWLOCK_READLOCK pl)) (\<lambda>locker.
        io_bind (native_rw_rdlock e (m_rwlock that)) (\<lambda>result.
        io_then (io_when (locker \<noteq> 0) (hook e (End_rwlock_rdwait locker result)))
          (io_ret result)))
      else native_rw_rdlock e (m_rwlock that))"

definition inline_mysql_prlock_rdlock :: "('s, 'p) host \<Rightarrow> mysql_prlock_t \<Rightarrow> place \<Rightarrow> ('s, 'p, int) io" where
  "inline_mysql_prlock_rdlock e that pl =
     (if have_psi e \<and> prlock_psi that \<noteq> 0 then
        io_bind (hook e (Start_rwlock_rdwait (prlock_psi that) PSI_RWLOCK_READLOCK pl)) (\<lambda>locker.
        io_bind (native e (Lock (Rw_pr_rdlock (m_prlock that)))) (\<lambda>result.
        io_then (io_when (locker \<noteq> 0) (hook e (End_rwlock_rdwait locker result)))
          (io_ret result)))
      else native e (Lock (Rw_pr_rdlock (m_prlock that))))"

definition inline_mysql_rwlock_wrlock :: "('s, 'p) host \<Rightarrow> mysql_rwlock_t \<Rightarrow> place \<Rightarrow> ('s, 'p, int) io" where
  "inline_mysql_rwlock_wrlock e that pl =
     (if have_psi e \<and> rwlock_psi that \<noteq> 0 then
        io_bind (hook e (Start_rwlock_wrwait (rwlock_psi that) PSI_RWLOCK_WRITELOCK pl)) (\<lambda>locker.
        io_bind (native_rw_wrlock e (m_rwlock that)) (\<lambda>result.
        io_then (io_when (locker \<noteq> 0) (hook e (End_rwlock_wrwait locker result)))
          (io_ret result)))
      else native_rw_wrlock e (m_rwlock that))"

definition inline_mysql_prlock_wrlock :: "('s, 'p) host \<Rightarrow> mysql_prlock_t \<Rightarrow> place \<Rightarrow> ('s, 'p, int) io" where
  "inline_mysql_prlock_wrlock e that pl =
     (if have_psi e \<and> prlock_psi that \<noteq> 0 then
        io_bind (hook e (Start_rwlock_wrwait (prlock_psi that) PSI_RWLOCK_WRITELOCK pl)) (\<lambda>locker.
        io_bind (native e (Lock (Rw_pr_wrlock (m_prlock that)))) (\<lambda>result.
        io_then (io_when (locker \<noteq> 0) (hook e (End_rwlock_wrwait locker result)))
          (io_ret result)))
      else native e (Lock (Rw_pr_wrlock (m_prlock that))))"

definition inline_mysql_rwlock_tryrdlock :: "('s, 'p) host \<Rightarrow> mysql_rwlock_t \<Rightarrow> place \<Rightarrow> ('s, 'p, int) io" where
  "inline_mysql_rwlock_tryrdlock e that pl =
     (if have_psi e \<and> rwlock_psi that \<noteq> 0 then
        io_bind (hook e (Start_rwlock_rdwait (rwlock_psi that) PSI_RWLOCK_TRYREADLOCK pl)) (\<lambda>locker.
        io_bind (native_rw_tryrdlock e (m_rwlock that)) (\<lambda>result.
        io_then (io_when (locker \<noteq> 0) (hook e (End_rwlock_rdwait locker result)))
          (io_ret result)))
      else native_rw_tryrdlock e (m_rwlock that))"

definition inline_mysql_rwlock_trywrlock :: "('s, 'p) host \<Rightarrow> mysql_rwlock_t \<Rightarrow> place \<Rightarrow> ('s, 'p, int) io" where
  "inline_mysql_rwlock_trywrlock e that pl =
     (if have_psi e \<and> rwlock_psi that \<noteq> 0 then
        io_bind (hook e (Start_rwlock_wrwait (rwlock_psi that) PSI_RWLOCK_TRYWRITELOCK pl)) (\<lambda>locker.
        io_bind (native_rw_trywrlock e (m_rwlock that)) (\<lambda>result.
        io_then (io_when (locker \<noteq> 0) (hook e (End_rwlock_wrwait locker result)))
          (io_ret result)))
      else native_rw_trywrlock e (m_rwlock that))"

definition inline_mysql_rwlock_unlock :: "('s, 'p) host \<Rightarrow> mysql_rwlock_t \<Rightarrow> ('s, 'p, int) io" where
  "inline_mysql_rwlock_unlock e that =
     io_then (io_when (have_psi e \<and> rwlock_psi that \<noteq> 0) (hook e (Unlock_rwlock (rwlock_psi that))))
       (native_rw_unlock e (m_rwlock that))"

definition inline_mysql_prlock_unlock :: "('s, 'p) host \<Rightarrow> mysql_prlock_t \<Rightarrow> ('s, 'p, int) io" where
  "inline_mysql_prlock_unlock e that =
     io_then (io_when (have_psi e \<and> prlock_psi that \<noteq> 0) (hook e (Unlock_rwlock (prlock_psi that))))
       (native e (Lock (Rw_pr_unlock (m_prlock that))))"

definition inline_mysql_cond_register :: "('s, 'p) host \<Rightarrow> string \<Rightarrow> int \<Rightarrow> int \<Rightarrow> ('s, 'p, unit) io" where
  "inline_mysql_cond_register e category info count =
     io_when (have_psi e) (hook e (Register ''cond'' category info count))"

definition inline_mysql_cond_init :: "('s, 'p) host \<Rightarrow> int \<Rightarrow> mysql_cond_t \<Rightarrow> ('s, 'p, int \<times> mysql_cond_t) io" where
  "inline_mysql_cond_init e key that =
     io_bind (ask e (Init_cond key (m_cond that))) (\<lambda>p.
     io_bind (native_cond_init e (m_cond that)) (\<lambda>result.
       io_ret (result, that\<lparr>cond_psi := p\<rparr>)))"

definition inline_mysql_cond_destroy :: "('s, 'p) host \<Rightarrow> mysql_cond_t \<Rightarrow> ('s, 'p, int \<times> mysql_cond_t) io" where
  "inline_mysql_cond_destroy e that =
     (let instrumented = have_psi e \<and> cond_psi that \<noteq> 0 in
      io_then (io_when instrumented (hook e (Destroy_cond (cond_psi that))))
     (io_bind (native_cond_destroy e (m_cond that)) (\<lambda>result.
       io_ret (result, if instrumented then that\<lparr>cond_psi := 0\<rparr> else that))))"

definition inline_mysql_cond_wait :: "('s, 'p) host \<Rightarrow> mysql_cond_t \<Rightarrow> mysql_mutex_t \<Rightarrow> place \<Rightarrow> ('s, 'p, int) io" where
  "inline_mysql_cond_wait e that mutex pl =
     (if have_psi e \<and> cond_psi that \<noteq> 0 then
        io_bind (hook e (Start_cond_wait (cond_psi that) (mutex_psi mutex) PSI_COND_WAIT pl)) (\<lambda>locker.
        io_bind (my_cond_wait e (m_cond that) (m_mutex mutex) pl) (\<lambda>result.
        io_then (io_when (locker \<noteq> 0) (hook e (End_cond_wait locker result)))
          (io_ret result)))
      else my_cond_wait e (m_cond that) (m_mutex mutex) pl)"

definition inline_mysql_cond_timedwait :: "('s, 'p) host \<Rightarrow> mysql_cond_t \<Rightarrow> mysql_mutex_t \<Rightarrow> int \<Rightarrow> place \<Rightarrow> ('s, 'p, int) io" where
  "inline_mysql_cond_timedwait e that mutex abstime pl =
     (if have_psi e \<and> cond_psi that \<noteq> 0 then
        io_bind (hook e (Start_cond_wait (cond_psi that) (mutex_psi mutex) PSI_COND_TIMEDWAIT pl)) (\<lambda>locker.
        io_bind (my_cond_timedwait e (m_cond that) (m_mutex mutex) abstime pl) (\<lambda>result.
        io_then (io_when (locker \<noteq> 0) (hook e (End_cond_wait locker result)))
          (io_ret result)))
      else my_cond_timedwait e (m_cond that) (m_mutex mutex) abstime pl)"

definition inline_mysql_cond_signal :: "('s, 'p) host \<Rightarrow> mysql_cond_t \<Rightarrow> ('s, 'p, int) io" where
  "inline_mysql_cond_signal e that =
     io_then (io_when (have_psi e \<and> cond_psi that \<noteq> 0) (hook e (Signal_cond (cond_psi that))))
       (native_cond_signal e (m_cond that))"

definition inline_mysql_cond_broadcast :: "('s, 'p) host \<Rightarrow> mysql_cond_t \<Rightarrow> ('s, 'p, int) io" where
  "inline_mysql_cond_broadcast e that =
     io_then (io_when (have_psi e \<and> cond_psi that \<noteq> 0) (hook e (Broadcast_cond (cond_psi that))))
       (native_cond_broadcast e (m_cond that))"

definition inline_mysql_thread_register :: "('s, 'p) host \<Rightarrow> string \<Rightarrow> int \<Rightarrow> int \<Rightarrow> ('s, 'p, unit) io" where
  "inline_mysql_thread_register e category info count =
     io_when (have_psi e) (hook e (Register ''thread'' category info count))"

text \<open>
  With the instrumentation a thread is created by it, and this function exists only then.
\<close>

definition inline_mysql_thread_create ::
  "('s, 'p) host \<Rightarrow> int \<Rightarrow> int \<Rightarrow> int \<Rightarrow> int \<Rightarrow> int \<Rightarrow> ('s, 'p, int) io" where
  "inline_mysql_thread_create e key thread attr start_routine arg =
     hook e (Spawn_thread key thread attr start_routine arg)"

definition inline_mysql_thread_set_psi_id :: "('s, 'p) host \<Rightarrow> int \<Rightarrow> ('s, 'p, unit) io" where
  "inline_mysql_thread_set_psi_id e thread_id =
     io_bind (hook e Get_thread) (\<lambda>p.
     io_then (hook e (Set_thread_id p thread_id)) (io_ret ()))"

end
