(* ===== verification/Psi_Lives.thy ===== *)
theory Psi_Lives
  imports Psi_Thread "HOL-Library.Multiset"
begin

text \<open>
  The lives of instrumented objects. Initialising an object asks the instrumentation for a
  handle, every use of the object passes it on, and destroying the object gives it back and
  clears the field. The monitor keeps the handles that are out and refuses a call with any other;
  the locale is what an object promises, and its consequence that no call is ever refused.
\<close>

section \<open>Handles\<close>

fun created :: "hook \<Rightarrow> int \<Rightarrow> int multiset" where
  "created (Init_mutex key x) r = (if r = 0 then {#} else {#r#})"
| "created (Init_rwlock key x) r = (if r = 0 then {#} else {#r#})"
| "created (Init_cond key x) r = (if r = 0 then {#} else {#r#})"
| "created h r = {#}"

fun released :: "hook \<Rightarrow> int multiset" where
  "released (Destroy_mutex h) = {#h#}"
| "released (Destroy_rwlock h) = {#h#}"
| "released (Destroy_cond h) = {#h#}"
| "released h = {#}"

text \<open>The handles a call is given; \<^verbatim>\<open>start_cond_wait\<close> may get \<^verbatim>\<open>NULL\<close> for the mutex.\<close>

fun passed :: "hook \<Rightarrow> int set" where
  "passed (Destroy_mutex h) = {h}"
| "passed (Start_mutex_wait h op pl) = {h}"
| "passed (Unlock_mutex h) = {h}"
| "passed (Destroy_rwlock h) = {h}"
| "passed (Start_rwlock_rdwait h op pl) = {h}"
| "passed (Start_rwlock_wrwait h op pl) = {h}"
| "passed (Unlock_rwlock h) = {h}"
| "passed (Destroy_cond h) = {h}"
| "passed (Start_cond_wait h m op pl) = {h} \<union> ({m} - {0})"
| "passed (Signal_cond h) = {h}"
| "passed (Broadcast_cond h) = {h}"
| "passed h = {}"

fun live_step :: "int multiset \<Rightarrow> event \<Rightarrow> int multiset option" where
  "live_step M (Os c r) = Some M"
| "live_step M (Hook h r) = (if passed h \<subseteq> set_mset M then Some (M - released h + created h r) else None)"

definition handle :: "int \<Rightarrow> int multiset" where
  "handle p = (if p = 0 then {#} else {#p#})"

section \<open>Objects\<close>

datatype stage = Raw | Ready | Destroyed

text \<open>
  An object under any sequence of its operations: it is initialised when it is raw or destroyed,
  used when it is ready, or destroyed already, and destroyed when it is ready, or again.
\<close>

inductive life ::
  "('l \<Rightarrow> ('s, 'p, int \<times> 'l) io) set \<Rightarrow> ('l \<Rightarrow> ('s, 'p, int \<times> 'l) io) set \<Rightarrow> ('l \<Rightarrow> ('s, 'p, int) io) set \<Rightarrow>
   stage \<times> 'l \<times> ('s, 'p) process \<Rightarrow> stage \<times> 'l \<times> ('s, 'p) process \<Rightarrow> bool" for inits destroys uses where
  Init: "f \<in> inits \<Longrightarrow> st \<noteq> Ready \<Longrightarrow> f l w = ((r, l'), w') \<Longrightarrow> life inits destroys uses (st, l, w) (Ready, l', w')"
| Use: "f \<in> uses \<Longrightarrow> st \<noteq> Raw \<Longrightarrow> f l w = (r, w') \<Longrightarrow> life inits destroys uses (st, l, w) (st, l, w')"
| Destroy: "f \<in> destroys \<Longrightarrow> st \<noteq> Raw \<Longrightarrow> f l w = ((r, l'), w') \<Longrightarrow>
     life inits destroys uses (st, l, w) (Destroyed, l', w')"

text \<open>
  What an object promises, \<open>others\<close> being the handles of other objects that are out: it can be
  told from the field whether it holds a handle, and the operations call the instrumentation
  with that handle only while they hold it.
\<close>

locale instrumented_object =
  fixes psi_of :: "'l \<Rightarrow> int"
    and inits destroys :: "('l \<Rightarrow> ('s, 'p, int \<times> 'l) io) set"
    and uses :: "('l \<Rightarrow> ('s, 'p, int) io) set"
    and fits :: "'l \<Rightarrow> bool"
    and others :: "int multiset"
  assumes init_live: "f \<in> inits \<Longrightarrow>
      judged live_step others (f l) (\<lambda>(r, l') M. M = others + handle (psi_of l') \<and> fits l')"
    and destroy_live: "f \<in> destroys \<Longrightarrow> fits l \<Longrightarrow>
      judged live_step (others + handle (psi_of l)) (f l) (\<lambda>(r, l') M. M = others \<and> psi_of l' = 0 \<and> fits l')"
    and use_live: "g \<in> uses \<Longrightarrow> fits l \<Longrightarrow>
      judged live_step (others + handle (psi_of l)) (g l) (\<lambda>r M. M = others + handle (psi_of l))"
begin

definition in_order :: "nat \<Rightarrow> stage \<times> 'l \<times> ('s, 'p) process \<Rightarrow> bool" where
  "in_order n = (\<lambda>(st, l, w). n \<le> length (events w) \<and>
     (st \<noteq> Raw \<longrightarrow> fits l) \<and> (st = Destroyed \<longrightarrow> psi_of l = 0) \<and>
     run_events live_step others (drop n (events w)) = Some (if st = Raw then others else others + handle (psi_of l)))"

lemma in_order_step:
  assumes "in_order n s" and "life inits destroys uses s s'"
  shows "in_order n s'"
  using assms(2)
proof cases
  case (Init f st l w r l' w')
  have M: "n \<le> length (events w)" "run_events live_step others (drop n (events w)) = Some others"
    using assms(1) Init(1,4) by (cases st; simp add: in_order_def handle_def)+
  from judged_run [OF init_live [OF Init(3)] Init(5) M] show ?thesis using Init(2) by (auto simp: in_order_def)
next
  case (Use f st l w r w')
  have M: "fits l" "n \<le> length (events w)"
    "run_events live_step others (drop n (events w)) = Some (others + handle (psi_of l))"
    using assms(1) Use(1,4) by (simp_all add: in_order_def)
  from judged_run [OF use_live [OF Use(3) M(1)] Use(5) M(2,3)] show ?thesis
    using Use(1,2,4) assms(1) by (auto simp: in_order_def)
next
  case (Destroy f st l w r l' w')
  have M: "fits l" "n \<le> length (events w)"
    "run_events live_step others (drop n (events w)) = Some (others + handle (psi_of l))"
    using assms(1) Destroy(1,4) by (simp_all add: in_order_def)
  from judged_run [OF destroy_live [OF Destroy(3) M(1)] Destroy(5) M(2,3)] show ?thesis
    using Destroy(2) by (auto simp: in_order_def handle_def)
qed

lemma in_order_reached:
  "(life inits destroys uses)\<^sup>*\<^sup>* s s' \<Longrightarrow> in_order n s \<Longrightarrow> in_order n s'"
  by (induction rule: rtranclp_induct) (auto intro: in_order_step)

text \<open>From a raw object on, no call is refused, and what is out at the end is what the object holds.\<close>

lemma never_refused:
  assumes "(life inits destroys uses)\<^sup>*\<^sup>* (Raw, l, w) (st, l', w')"
  shows "run_events live_step others (drop (length (events w)) (events w')) =
    Some (if st = Ready then others + handle (psi_of l') else others)"
proof -
  have "in_order (length (events w)) (Raw, l, w)" by (simp add: in_order_def)
  then have "in_order (length (events w)) (st, l', w')" using assms in_order_reached by blast
  then show ?thesis by (cases st) (simp_all add: in_order_def handle_def)
qed

end

section \<open>The locks and conditions\<close>

definition mutex_inits :: "('s, 'p) host \<Rightarrow> (mysql_mutex_t \<Rightarrow> ('s, 'p, int \<times> mysql_mutex_t) io) set" where
  "mutex_inits e = {\<lambda>l. inline_mysql_mutex_init e key l attr pl |key attr pl. True}"

definition mutex_destroys :: "('s, 'p) host \<Rightarrow> (mysql_mutex_t \<Rightarrow> ('s, 'p, int \<times> mysql_mutex_t) io) set" where
  "mutex_destroys e = {\<lambda>l. inline_mysql_mutex_destroy e l pl |pl. True}"

definition mutex_uses :: "('s, 'p) host \<Rightarrow> (mysql_mutex_t \<Rightarrow> ('s, 'p, int) io) set" where
  "mutex_uses e = (\<Union>pl. {\<lambda>l. inline_mysql_mutex_lock e l pl, \<lambda>l. inline_mysql_mutex_trylock e l pl,
     \<lambda>l. inline_mysql_mutex_unlock e l pl})"

definition rwlock_inits :: "('s, 'p) host \<Rightarrow> (mysql_rwlock_t \<Rightarrow> ('s, 'p, int \<times> mysql_rwlock_t) io) set" where
  "rwlock_inits e = {\<lambda>l. inline_mysql_rwlock_init e key l |key. True}"

definition rwlock_destroys :: "('s, 'p) host \<Rightarrow> (mysql_rwlock_t \<Rightarrow> ('s, 'p, int \<times> mysql_rwlock_t) io) set" where
  "rwlock_destroys e = {\<lambda>l. inline_mysql_rwlock_destroy e l}"

definition rwlock_uses :: "('s, 'p) host \<Rightarrow> (mysql_rwlock_t \<Rightarrow> ('s, 'p, int) io) set" where
  "rwlock_uses e = (\<Union>pl. {\<lambda>l. inline_mysql_rwlock_rdlock e l pl, \<lambda>l. inline_mysql_rwlock_wrlock e l pl,
     \<lambda>l. inline_mysql_rwlock_tryrdlock e l pl, \<lambda>l. inline_mysql_rwlock_trywrlock e l pl, \<lambda>l. inline_mysql_rwlock_unlock e l})"

definition prlock_inits :: "('s, 'p) host \<Rightarrow> (mysql_prlock_t \<Rightarrow> ('s, 'p, int \<times> mysql_prlock_t) io) set" where
  "prlock_inits e = {\<lambda>l. inline_mysql_prlock_init e key l |key. True}"

definition prlock_destroys :: "('s, 'p) host \<Rightarrow> (mysql_prlock_t \<Rightarrow> ('s, 'p, int \<times> mysql_prlock_t) io) set" where
  "prlock_destroys e = {\<lambda>l. inline_mysql_prlock_destroy e l}"

definition prlock_uses :: "('s, 'p) host \<Rightarrow> (mysql_prlock_t \<Rightarrow> ('s, 'p, int) io) set" where
  "prlock_uses e = (\<Union>pl. {\<lambda>l. inline_mysql_prlock_rdlock e l pl, \<lambda>l. inline_mysql_prlock_wrlock e l pl,
     \<lambda>l. inline_mysql_prlock_unlock e l})"

text \<open>A condition is waited on with a mutex whose handle is out, or that has none.\<close>

definition cond_inits :: "('s, 'p) host \<Rightarrow> (mysql_cond_t \<Rightarrow> ('s, 'p, int \<times> mysql_cond_t) io) set" where
  "cond_inits e = {\<lambda>l. inline_mysql_cond_init e key l |key. True}"

definition cond_destroys :: "('s, 'p) host \<Rightarrow> (mysql_cond_t \<Rightarrow> ('s, 'p, int \<times> mysql_cond_t) io) set" where
  "cond_destroys e = {\<lambda>l. inline_mysql_cond_destroy e l}"

definition cond_uses :: "('s, 'p) host \<Rightarrow> int multiset \<Rightarrow> (mysql_cond_t \<Rightarrow> ('s, 'p, int) io) set" where
  "cond_uses e others = 
     (\<Union>pl. \<Union>abstime. \<Union>m \<in> {m. mutex_psi m = 0 \<or> mutex_psi m \<in># others}.
       {\<lambda>l. inline_mysql_cond_wait e l m pl, \<lambda>l. inline_mysql_cond_timedwait e l m abstime pl,
        \<lambda>l. inline_mysql_cond_signal e l, \<lambda>l. inline_mysql_cond_broadcast e l})"

lemmas lock_life_defs = my_mutex_init_def my_mutex_destroy_def my_mutex_lock_def my_mutex_trylock_def
  my_mutex_unlock_def native_mutex_init_def native_mutex_destroy_def native_mutex_lock_def
  native_mutex_trylock_def native_mutex_unlock_def native_rw_init_def native_rw_destroy_def
  native_rw_rdlock_def native_rw_wrlock_def native_rw_tryrdlock_def native_rw_trywrlock_def native_rw_unlock_def
  my_cond_wait_def my_cond_timedwait_def native_cond_init_def native_cond_destroy_def native_cond_wait_def
  native_cond_timedwait_def native_cond_signal_def native_cond_broadcast_def native_if

interpretation mutex_object: instrumented_object mutex_psi "mutex_inits e" "mutex_destroys e" "mutex_uses e"
  "\<lambda>l. have_psi e \<or> mutex_psi l = 0" others for e :: "('s, 'p) host" and others
proof
  fix f and l :: mysql_mutex_t assume "f \<in> mutex_inits e"
  then obtain key attr pl where f: "f l = inline_mysql_mutex_init e key l attr pl" by (auto simp: mutex_inits_def)
  show "judged live_step others (f l)
      (\<lambda>(r, l') M. M = others + handle (mutex_psi l') \<and> (have_psi e \<or> mutex_psi l' = 0))"
    unfolding f inline_mysql_mutex_init_def lock_life_defs by (intro judging; simp add: handle_def)
next
  fix f and l :: mysql_mutex_t assume "f \<in> mutex_destroys e" and l: "have_psi e \<or> mutex_psi l = 0"
  then obtain pl where f: "f l = inline_mysql_mutex_destroy e l pl" by (auto simp: mutex_destroys_def)
  show "judged live_step (others + handle (mutex_psi l)) (f l)
      (\<lambda>(r, l') M. M = others \<and> mutex_psi l' = 0 \<and> (have_psi e \<or> mutex_psi l' = 0))"
    unfolding f inline_mysql_mutex_destroy_def lock_life_defs Let_def using l by (intro judging; auto simp: handle_def)
next
  fix g and l :: mysql_mutex_t assume "g \<in> mutex_uses e" and l: "have_psi e \<or> mutex_psi l = 0"
  then obtain pl where "g l = inline_mysql_mutex_lock e l pl \<or> g l = inline_mysql_mutex_trylock e l pl \<or>
    g l = inline_mysql_mutex_unlock e l pl" by (auto simp: mutex_uses_def)
  then show "judged live_step (others + handle (mutex_psi l)) (g l) (\<lambda>r M. M = others + handle (mutex_psi l))"
    unfolding inline_mysql_mutex_lock_def inline_mysql_mutex_trylock_def
      inline_mysql_mutex_unlock_def lock_life_defs
    by (elim disjE; simp only:; intro judging; simp add: handle_def)
qed


interpretation rwlock_object: instrumented_object rwlock_psi "rwlock_inits e" "rwlock_destroys e" "rwlock_uses e"
  "\<lambda>l. have_psi e \<or> rwlock_psi l = 0" others for e :: "('s, 'p) host" and others
proof
  fix f and l :: mysql_rwlock_t assume "f \<in> rwlock_inits e"
  then obtain key where f: "f l = inline_mysql_rwlock_init e key l" by (auto simp: rwlock_inits_def)
  show "judged live_step others (f l)
      (\<lambda>(r, l') M. M = others + handle (rwlock_psi l') \<and> (have_psi e \<or> rwlock_psi l' = 0))"
    unfolding f inline_mysql_rwlock_init_def lock_life_defs by (intro judging; simp add: handle_def)
next
  fix f and l :: mysql_rwlock_t assume "f \<in> rwlock_destroys e" and l: "have_psi e \<or> rwlock_psi l = 0"
  then have f: "f l = inline_mysql_rwlock_destroy e l" by (simp add: rwlock_destroys_def)
  show "judged live_step (others + handle (rwlock_psi l)) (f l)
      (\<lambda>(r, l') M. M = others \<and> rwlock_psi l' = 0 \<and> (have_psi e \<or> rwlock_psi l' = 0))"
    unfolding f inline_mysql_rwlock_destroy_def lock_life_defs Let_def using l by (intro judging; auto simp: handle_def)
next
  fix g and l :: mysql_rwlock_t assume "g \<in> rwlock_uses e" and l: "have_psi e \<or> rwlock_psi l = 0"
  then obtain pl where "g l = inline_mysql_rwlock_rdlock e l pl \<or>
    g l = inline_mysql_rwlock_wrlock e l pl \<or>
    g l = inline_mysql_rwlock_tryrdlock e l pl \<or>
    g l = inline_mysql_rwlock_trywrlock e l pl \<or>
    g l = inline_mysql_rwlock_unlock e l" by (auto simp: rwlock_uses_def)
  then show "judged live_step (others + handle (rwlock_psi l)) (g l) (\<lambda>r M. M = others + handle (rwlock_psi l))"
    unfolding inline_mysql_rwlock_rdlock_def
      inline_mysql_rwlock_wrlock_def
      inline_mysql_rwlock_tryrdlock_def
      inline_mysql_rwlock_trywrlock_def
      inline_mysql_rwlock_unlock_def lock_life_defs
    by (elim disjE; simp only:; intro judging; simp add: handle_def)
qed

interpretation prlock_object: instrumented_object prlock_psi "prlock_inits e" "prlock_destroys e" "prlock_uses e"
  "\<lambda>l. have_psi e \<or> prlock_psi l = 0" others for e :: "('s, 'p) host" and others
proof
  fix f and l :: mysql_prlock_t assume "f \<in> prlock_inits e"
  then obtain key where f: "f l = inline_mysql_prlock_init e key l" by (auto simp: prlock_inits_def)
  show "judged live_step others (f l)
      (\<lambda>(r, l') M. M = others + handle (prlock_psi l') \<and> (have_psi e \<or> prlock_psi l' = 0))"
    unfolding f inline_mysql_prlock_init_def lock_life_defs by (intro judging; simp add: handle_def)
next
  fix f and l :: mysql_prlock_t assume "f \<in> prlock_destroys e" and l: "have_psi e \<or> prlock_psi l = 0"
  then have f: "f l = inline_mysql_prlock_destroy e l" by (simp add: prlock_destroys_def)
  show "judged live_step (others + handle (prlock_psi l)) (f l)
      (\<lambda>(r, l') M. M = others \<and> prlock_psi l' = 0 \<and> (have_psi e \<or> prlock_psi l' = 0))"
    unfolding f inline_mysql_prlock_destroy_def lock_life_defs Let_def using l by (intro judging; auto simp: handle_def)
next
  fix g and l :: mysql_prlock_t assume "g \<in> prlock_uses e" and l: "have_psi e \<or> prlock_psi l = 0"
  then obtain pl where "g l = inline_mysql_prlock_rdlock e l pl \<or>
    g l = inline_mysql_prlock_wrlock e l pl \<or>
    g l = inline_mysql_prlock_unlock e l" by (auto simp: prlock_uses_def)
  then show "judged live_step (others + handle (prlock_psi l)) (g l) (\<lambda>r M. M = others + handle (prlock_psi l))"
    unfolding inline_mysql_prlock_rdlock_def
      inline_mysql_prlock_wrlock_def
      inline_mysql_prlock_unlock_def lock_life_defs
    by (elim disjE; simp only:; intro judging; simp add: handle_def)
qed

interpretation cond_object: instrumented_object cond_psi "cond_inits e" "cond_destroys e" "cond_uses e others"
  "\<lambda>l. have_psi e \<or> cond_psi l = 0" others for e :: "('s, 'p) host" and others
proof
  fix f and l :: mysql_cond_t assume "f \<in> cond_inits e"
  then obtain key where f: "f l = inline_mysql_cond_init e key l" by (auto simp: cond_inits_def)
  show "judged live_step others (f l)
      (\<lambda>(r, l') M. M = others + handle (cond_psi l') \<and> (have_psi e \<or> cond_psi l' = 0))"
    unfolding f inline_mysql_cond_init_def lock_life_defs by (intro judging; simp add: handle_def)
next
  fix f and l :: mysql_cond_t assume "f \<in> cond_destroys e" and l: "have_psi e \<or> cond_psi l = 0"
  then have f: "f l = inline_mysql_cond_destroy e l" by (simp add: cond_destroys_def)
  show "judged live_step (others + handle (cond_psi l)) (f l)
      (\<lambda>(r, l') M. M = others \<and> cond_psi l' = 0 \<and> (have_psi e \<or> cond_psi l' = 0))"
    unfolding f inline_mysql_cond_destroy_def lock_life_defs Let_def using l by (intro judging; auto simp: handle_def)
next
  fix g and l :: mysql_cond_t assume "g \<in> cond_uses e others" and l: "have_psi e \<or> cond_psi l = 0"
  then obtain pl abstime m where m: "mutex_psi m = 0 \<or> mutex_psi m \<in># others" and g: "g l = inline_mysql_cond_wait e l m pl \<or>
    g l = inline_mysql_cond_timedwait e l m abstime pl \<or>
    g l = inline_mysql_cond_signal e l \<or>
    g l = inline_mysql_cond_broadcast e l" by (auto simp: cond_uses_def)
  show "judged live_step (others + handle (cond_psi l)) (g l) (\<lambda>r M. M = others + handle (cond_psi l))"
    using g m unfolding inline_mysql_cond_wait_def
      inline_mysql_cond_timedwait_def
      inline_mysql_cond_signal_def
      inline_mysql_cond_broadcast_def lock_life_defs
    by (elim disjE; simp only:; intro judging; auto simp add: handle_def)
qed

end
