(* ===== verification/Psi_File.thy ===== *)
theory Psi_File
  imports Psi_Calls "HOL-Library.Word"
begin

unbundle bit_operations_syntax

text \<open>
  The instrumented files of \<^verbatim>\<open>mysql_file.h\<close>: streams (\<^verbatim>\<open>MYSQL_FILE\<close>), descriptors and
  names. Each function asks the instrumentation for a locker, and with one reports a wait and
  the bytes it moved around the call of \<^verbatim>\<open>mysys\<close> or of the C library.
\<close>

section \<open>Streams\<close>

text \<open>A stream: the address of its structure and the two fields.\<close>

record mysql_file =
  file_addr :: int
  m_file :: int
  file_psi :: int

text \<open>Flags and the error value of \<^verbatim>\<open>my_sys.h\<close>.\<close>

definition MY_FILE_ERROR :: nat where "MY_FILE_ERROR = 18446744073709551615"
definition MY_FNABP :: int where "MY_FNABP = 2"
definition MY_NABP :: int where "MY_NABP = 4"
definition MY_WME :: int where "MY_WME = 16"
definition PSI_NOT_INSTRUMENTED :: int where "PSI_NOT_INSTRUMENTED = 0"

text \<open>
  The bytes a read or write has moved: with \<^verbatim>\<open>MY_NABP\<close> or \<^verbatim>\<open>MY_FNABP\<close> the call
  answers 0 for all of them, otherwise how many.
\<close>

definition moved :: "int \<Rightarrow> nat \<Rightarrow> int \<Rightarrow> nat" where
  "moved flags count result =
     (if flags AND (MY_NABP OR MY_FNABP) \<noteq> 0 then (if result = 0 then count else 0)
      else (if as_size_t result \<noteq> MY_FILE_ERROR then as_size_t result else 0))"

definition inline_mysql_file_register :: "('s, 'p) host \<Rightarrow> string \<Rightarrow> int \<Rightarrow> int \<Rightarrow> ('s, 'p, unit) io" where
  "inline_mysql_file_register e category info count =
     io_when (have_psi e) (hook e (Register ''file'' category info count))"

definition inline_mysql_file_fgets :: "('s, 'p) host \<Rightarrow> place \<Rightarrow> int \<Rightarrow> int \<Rightarrow> mysql_file \<Rightarrow> ('s, 'p, int) io" where
  "inline_mysql_file_fgets e pl str limit file =
     io_bind (ask e (Get_thread_file_stream_locker (file_psi file) PSI_FILE_READ)) (\<lambda>locker.
     if locker \<noteq> 0 then
       io_then (hook e (Start_file_wait locker (as_size_t limit) pl))
      (io_bind (native e (File (Fgets str limit (m_file file)))) (\<lambda>result.
       io_bind (io_look (\<lambda>s. if result \<noteq> 0 then os_strlen e result s else 0)) (\<lambda>bytes.
       io_then (hook e (End_file_wait locker bytes)) (io_ret result))))
     else native e (File (Fgets str limit (m_file file))))"

definition inline_mysql_file_fgetc :: "('s, 'p) host \<Rightarrow> place \<Rightarrow> mysql_file \<Rightarrow> ('s, 'p, int) io" where
  "inline_mysql_file_fgetc e pl file =
     io_bind (ask e (Get_thread_file_stream_locker (file_psi file) PSI_FILE_READ)) (\<lambda>locker.
     if locker \<noteq> 0 then
       io_then (hook e (Start_file_wait locker 1 pl))
      (io_bind (native e (File (Fgetc (m_file file)))) (\<lambda>result.
       io_then (hook e (End_file_wait locker 1)) (io_ret result)))
     else native e (File (Fgetc (m_file file))))"

definition inline_mysql_file_fputs :: "('s, 'p) host \<Rightarrow> place \<Rightarrow> int \<Rightarrow> mysql_file \<Rightarrow> ('s, 'p, int) io" where
  "inline_mysql_file_fputs e pl str file =
     io_bind (ask e (Get_thread_file_stream_locker (file_psi file) PSI_FILE_WRITE)) (\<lambda>locker.
     if locker \<noteq> 0 then
       io_bind (io_look (\<lambda>s. if str \<noteq> 0 then os_strlen e str s else 0)) (\<lambda>bytes.
       io_then (hook e (Start_file_wait locker bytes pl))
      (io_bind (native e (File (Fputs str (m_file file)))) (\<lambda>result.
       io_then (hook e (End_file_wait locker bytes)) (io_ret result))))
     else native e (File (Fputs str (m_file file))))"

definition inline_mysql_file_fputc :: "('s, 'p) host \<Rightarrow> place \<Rightarrow> int \<Rightarrow> mysql_file \<Rightarrow> ('s, 'p, int) io" where
  "inline_mysql_file_fputc e pl c file =
     io_bind (ask e (Get_thread_file_stream_locker (file_psi file) PSI_FILE_WRITE)) (\<lambda>locker.
     if locker \<noteq> 0 then
       io_then (hook e (Start_file_wait locker 1 pl))
      (io_bind (native e (File (Fputc c (m_file file)))) (\<lambda>result.
       io_then (hook e (End_file_wait locker 1)) (io_ret result)))
     else native e (File (Fputc c (m_file file))))"

text \<open>The place is that of the header: \<^verbatim>\<open>__FILE__\<close> and \<^verbatim>\<open>__LINE__\<close>.\<close>

definition inline_mysql_file_fprintf :: "('s, 'p) host \<Rightarrow> mysql_file \<Rightarrow> int \<Rightarrow> int list \<Rightarrow> ('s, 'p, int) io" where
  "inline_mysql_file_fprintf e file format args =
     io_bind (ask e (Get_thread_file_stream_locker (file_psi file) PSI_FILE_WRITE)) (\<lambda>locker.
     if locker \<noteq> 0 then
       io_then (hook e (Start_file_wait locker 0 (''mysql/psi/mysql_file.h'', 650)))
      (io_bind (native e (File (Vfprintf (m_file file) format args))) (\<lambda>result.
       io_then (hook e (End_file_wait locker (as_size_t result))) (io_ret result)))
     else native e (File (Vfprintf (m_file file) format args)))"

definition inline_mysql_file_vfprintf :: "('s, 'p) host \<Rightarrow> place \<Rightarrow> mysql_file \<Rightarrow> int \<Rightarrow> int list \<Rightarrow> ('s, 'p, int) io" where
  "inline_mysql_file_vfprintf e pl file format args =
     io_bind (ask e (Get_thread_file_stream_locker (file_psi file) PSI_FILE_WRITE)) (\<lambda>locker.
     if locker \<noteq> 0 then
       io_then (hook e (Start_file_wait locker 0 pl))
      (io_bind (native e (File (Vfprintf (m_file file) format args))) (\<lambda>result.
       io_then (hook e (End_file_wait locker (as_size_t result))) (io_ret result)))
     else native e (File (Vfprintf (m_file file) format args)))"

definition inline_mysql_file_fflush :: "('s, 'p) host \<Rightarrow> place \<Rightarrow> mysql_file \<Rightarrow> ('s, 'p, int) io" where
  "inline_mysql_file_fflush e pl file =
     io_bind (ask e (Get_thread_file_stream_locker (file_psi file) PSI_FILE_FLUSH)) (\<lambda>locker.
     if locker \<noteq> 0 then
       io_then (hook e (Start_file_wait locker 0 pl))
      (io_bind (native e (File (Fflush (m_file file)))) (\<lambda>result.
       io_then (hook e (End_file_wait locker 0)) (io_ret result)))
     else native e (File (Fflush (m_file file))))"

definition inline_mysql_file_feof :: "('s, 'p) host \<Rightarrow> mysql_file \<Rightarrow> ('s, 'p, int) io" where
  "inline_mysql_file_feof e file = native e (File (Feof (m_file file)))"

text \<open>
  The structure is allocated first and freed again if the stream cannot be opened. Without a
  locker its instrumentation is \<^verbatim>\<open>NULL\<close>.
\<close>

definition inline_mysql_file_fopen ::
  "('s, 'p) host \<Rightarrow> int \<Rightarrow> place \<Rightarrow> int \<Rightarrow> int \<Rightarrow> int \<Rightarrow> ('s, 'p, mysql_file option) io" where
  "inline_mysql_file_fopen e key pl filename flags myFlags =
     io_bind (native e (File (My_malloc PSI_NOT_INSTRUMENTED 16 MY_WME))) (\<lambda>that.
     if that = 0 then io_ret None
     else
       io_bind (ask e (Get_thread_file_name_locker key PSI_FILE_STREAM_OPEN filename (Some that))) (\<lambda>locker.
       if locker \<noteq> 0 then
         io_then (hook e (Start_file_open_wait locker pl))
        (io_bind (native e (File (My_fopen filename flags myFlags))) (\<lambda>stream.
         io_bind (hook e (End_file_open_wait locker stream)) (\<lambda>p.
         if stream = 0 then io_then (native e (File (My_free that))) (io_ret None)
         else io_ret (Some \<lparr>file_addr = that, m_file = stream, file_psi = p\<rparr>))))
       else
         io_bind (native e (File (My_fopen filename flags myFlags))) (\<lambda>stream.
         if stream = 0 then io_then (native e (File (My_free that))) (io_ret None)
         else io_ret (Some \<lparr>file_addr = that, m_file = stream, file_psi = 0\<rparr>))))"

definition inline_mysql_file_fclose :: "('s, 'p) host \<Rightarrow> place \<Rightarrow> mysql_file option \<Rightarrow> int \<Rightarrow> ('s, 'p, int) io" where
  "inline_mysql_file_fclose e pl file flags =
     (case file of
        None \<Rightarrow> io_ret 0
      | Some file \<Rightarrow>
          io_bind (ask e (Get_thread_file_stream_locker (file_psi file) PSI_FILE_STREAM_CLOSE)) (\<lambda>locker.
          if locker \<noteq> 0 then
            io_then (hook e (Start_file_close_wait locker pl))
           (io_bind (native e (File (My_fclose (m_file file) flags))) (\<lambda>result.
            io_then (hook e (End_file_close_wait locker result))
           (io_then (native e (File (My_free (file_addr file)))) (io_ret result))))
          else
            io_bind (native e (File (My_fclose (m_file file) flags))) (\<lambda>result.
            io_then (native e (File (My_free (file_addr file)))) (io_ret result))))"

text \<open>The same without the instrumentation, on the streams of the C library.\<close>

definition plain_fopen :: "('s, 'p) host \<Rightarrow> int \<Rightarrow> int \<Rightarrow> int \<Rightarrow> ('s, 'p, int option) io" where
  "plain_fopen e filename flags myFlags =
     io_bind (native e (File (My_malloc PSI_NOT_INSTRUMENTED 16 MY_WME))) (\<lambda>that.
     if that = 0 then io_ret None
     else
       io_bind (native e (File (My_fopen filename flags myFlags))) (\<lambda>stream.
       if stream = 0 then io_bind (native e (File (My_free that))) (\<lambda>_. io_ret None)
       else io_ret (Some stream)))"

definition plain_fclose :: "('s, 'p) host \<Rightarrow> (int \<times> int) option \<Rightarrow> int \<Rightarrow> ('s, 'p, int) io" where
  "plain_fclose e file flags =
     (case file of
        None \<Rightarrow> io_ret 0
      | Some (that, stream) \<Rightarrow>
          io_bind (native e (File (My_fclose stream flags))) (\<lambda>result.
          io_bind (native e (File (My_free that))) (\<lambda>_. io_ret result)))"

definition inline_mysql_file_fread :: "('s, 'p) host \<Rightarrow> place \<Rightarrow> mysql_file \<Rightarrow> int \<Rightarrow> nat \<Rightarrow> int \<Rightarrow> ('s, 'p, int) io" where
  "inline_mysql_file_fread e pl file buffer count flags =
     io_bind (ask e (Get_thread_file_stream_locker (file_psi file) PSI_FILE_READ)) (\<lambda>locker.
     if locker \<noteq> 0 then
       io_then (hook e (Start_file_wait locker count pl))
      (io_bind (native e (File (My_fread (m_file file) buffer count flags))) (\<lambda>result.
       io_then (hook e (End_file_wait locker (moved flags count result))) (io_ret result)))
     else native e (File (My_fread (m_file file) buffer count flags)))"

definition inline_mysql_file_fwrite :: "('s, 'p) host \<Rightarrow> place \<Rightarrow> mysql_file \<Rightarrow> int \<Rightarrow> nat \<Rightarrow> int \<Rightarrow> ('s, 'p, int) io" where
  "inline_mysql_file_fwrite e pl file buffer count flags =
     io_bind (ask e (Get_thread_file_stream_locker (file_psi file) PSI_FILE_WRITE)) (\<lambda>locker.
     if locker \<noteq> 0 then
       io_then (hook e (Start_file_wait locker count pl))
      (io_bind (native e (File (My_fwrite (m_file file) buffer count flags))) (\<lambda>result.
       io_then (hook e (End_file_wait locker (moved flags count result))) (io_ret result)))
     else native e (File (My_fwrite (m_file file) buffer count flags)))"

definition inline_mysql_file_fseek :: "('s, 'p) host \<Rightarrow> place \<Rightarrow> mysql_file \<Rightarrow> int \<Rightarrow> int \<Rightarrow> int \<Rightarrow> ('s, 'p, int) io" where
  "inline_mysql_file_fseek e pl file pos whence flags =
     io_bind (ask e (Get_thread_file_stream_locker (file_psi file) PSI_FILE_SEEK)) (\<lambda>locker.
     if locker \<noteq> 0 then
       io_then (hook e (Start_file_wait locker 0 pl))
      (io_bind (native e (File (My_fseek (m_file file) pos whence flags))) (\<lambda>result.
       io_then (hook e (End_file_wait locker 0)) (io_ret result)))
     else native e (File (My_fseek (m_file file) pos whence flags)))"

definition inline_mysql_file_ftell :: "('s, 'p) host \<Rightarrow> place \<Rightarrow> mysql_file \<Rightarrow> int \<Rightarrow> ('s, 'p, int) io" where
  "inline_mysql_file_ftell e pl file flags =
     io_bind (ask e (Get_thread_file_stream_locker (file_psi file) PSI_FILE_TELL)) (\<lambda>locker.
     if locker \<noteq> 0 then
       io_then (hook e (Start_file_wait locker 0 pl))
      (io_bind (native e (File (My_ftell (m_file file) flags))) (\<lambda>result.
       io_then (hook e (End_file_wait locker 0)) (io_ret result)))
     else native e (File (My_ftell (m_file file) flags)))"

section \<open>Descriptors and names\<close>

definition inline_mysql_file_fstat :: "('s, 'p) host \<Rightarrow> place \<Rightarrow> int \<Rightarrow> int \<Rightarrow> int \<Rightarrow> ('s, 'p, int) io" where
  "inline_mysql_file_fstat e pl filenr stat_area flags =
     io_bind (ask e (Get_thread_file_descriptor_locker filenr PSI_FILE_FSTAT)) (\<lambda>locker.
     if locker \<noteq> 0 then
       io_then (hook e (Start_file_wait locker 0 pl))
      (io_bind (native e (File (My_fstat filenr stat_area flags))) (\<lambda>result.
       io_then (hook e (End_file_wait locker 0)) (io_ret result)))
     else native e (File (My_fstat filenr stat_area flags)))"

definition inline_mysql_file_stat :: "('s, 'p) host \<Rightarrow> int \<Rightarrow> place \<Rightarrow> int \<Rightarrow> int \<Rightarrow> int \<Rightarrow> ('s, 'p, int) io" where
  "inline_mysql_file_stat e key pl path stat_area flags =
     io_bind (ask e (Get_thread_file_name_locker key PSI_FILE_STAT path None)) (\<lambda>locker.
     if locker \<noteq> 0 then
       io_then (hook e (Start_file_open_wait locker pl))
      (io_bind (native e (File (My_stat path stat_area flags))) (\<lambda>result.
       io_then (hook e (End_file_open_wait locker result)) (io_ret result)))
     else native e (File (My_stat path stat_area flags)))"

definition inline_mysql_file_chsize :: "('s, 'p) host \<Rightarrow> place \<Rightarrow> int \<Rightarrow> int \<Rightarrow> int \<Rightarrow> int \<Rightarrow> ('s, 'p, int) io" where
  "inline_mysql_file_chsize e pl file newlength filler flags =
     io_bind (ask e (Get_thread_file_descriptor_locker file PSI_FILE_CHSIZE)) (\<lambda>locker.
     if locker \<noteq> 0 then
       io_then (hook e (Start_file_wait locker (as_size_t newlength) pl))
      (io_bind (native e (File (My_chsize file newlength filler flags))) (\<lambda>result.
       io_then (hook e (End_file_wait locker (as_size_t newlength))) (io_ret result)))
     else native e (File (My_chsize file newlength filler flags)))"

definition inline_mysql_file_create :: "('s, 'p) host \<Rightarrow> int \<Rightarrow> place \<Rightarrow> int \<Rightarrow> int \<Rightarrow> int \<Rightarrow> int \<Rightarrow> ('s, 'p, int) io" where
  "inline_mysql_file_create e key pl filename create_flags access_flags myFlags =
     io_bind (ask e (Get_thread_file_name_locker key PSI_FILE_CREATE filename None)) (\<lambda>locker.
     if locker \<noteq> 0 then
       io_then (hook e (Start_file_open_wait locker pl))
      (io_bind (native e (File (My_create filename create_flags access_flags myFlags))) (\<lambda>result.
       io_then (hook e (End_file_open_wait_and_bind_to_descriptor locker result)) (io_ret result)))
     else native e (File (My_create filename create_flags access_flags myFlags)))"

definition inline_mysql_file_create_temp :: "('s, 'p) host \<Rightarrow> int \<Rightarrow> place \<Rightarrow> int \<Rightarrow> int \<Rightarrow> int \<Rightarrow> int \<Rightarrow> int \<Rightarrow> ('s, 'p, int) io" where
  "inline_mysql_file_create_temp e key pl to dir pfx mode myFlags =
     io_bind (ask e (Get_thread_file_name_locker key PSI_FILE_CREATE 0 None)) (\<lambda>locker.
     if locker \<noteq> 0 then
       io_then (hook e (Start_file_open_wait locker pl))
      (io_bind (native e (File (Create_temp_file to dir pfx mode myFlags))) (\<lambda>result.
       io_then (hook e (End_temp_file_open_wait_and_bind_to_descriptor locker result to)) (io_ret result)))
     else native e (File (Create_temp_file to dir pfx mode myFlags)))"

definition inline_mysql_file_open :: "('s, 'p) host \<Rightarrow> int \<Rightarrow> place \<Rightarrow> int \<Rightarrow> int \<Rightarrow> int \<Rightarrow> ('s, 'p, int) io" where
  "inline_mysql_file_open e key pl filename flags myFlags =
     io_bind (ask e (Get_thread_file_name_locker key PSI_FILE_OPEN filename None)) (\<lambda>locker.
     if locker \<noteq> 0 then
       io_then (hook e (Start_file_open_wait locker pl))
      (io_bind (native e (File (My_open filename flags myFlags))) (\<lambda>result.
       io_then (hook e (End_file_open_wait_and_bind_to_descriptor locker result)) (io_ret result)))
     else native e (File (My_open filename flags myFlags)))"

definition inline_mysql_file_close :: "('s, 'p) host \<Rightarrow> place \<Rightarrow> int \<Rightarrow> int \<Rightarrow> ('s, 'p, int) io" where
  "inline_mysql_file_close e pl file flags =
     io_bind (ask e (Get_thread_file_descriptor_locker file PSI_FILE_CLOSE)) (\<lambda>locker.
     if locker \<noteq> 0 then
       io_then (hook e (Start_file_close_wait locker pl))
      (io_bind (native e (File (My_close file flags))) (\<lambda>result.
       io_then (hook e (End_file_close_wait locker result)) (io_ret result)))
     else native e (File (My_close file flags)))"

definition inline_mysql_file_read :: "('s, 'p) host \<Rightarrow> place \<Rightarrow> int \<Rightarrow> int \<Rightarrow> nat \<Rightarrow> int \<Rightarrow> ('s, 'p, int) io" where
  "inline_mysql_file_read e pl file buffer count flags =
     io_bind (ask e (Get_thread_file_descriptor_locker file PSI_FILE_READ)) (\<lambda>locker.
     if locker \<noteq> 0 then
       io_then (hook e (Start_file_wait locker count pl))
      (io_bind (native e (File (My_read file buffer count flags))) (\<lambda>result.
       io_then (hook e (End_file_wait locker (moved flags count result))) (io_ret result)))
     else native e (File (My_read file buffer count flags)))"

definition inline_mysql_file_write :: "('s, 'p) host \<Rightarrow> place \<Rightarrow> int \<Rightarrow> int \<Rightarrow> nat \<Rightarrow> int \<Rightarrow> ('s, 'p, int) io" where
  "inline_mysql_file_write e pl file buffer count flags =
     io_bind (ask e (Get_thread_file_descriptor_locker file PSI_FILE_WRITE)) (\<lambda>locker.
     if locker \<noteq> 0 then
       io_then (hook e (Start_file_wait locker count pl))
      (io_bind (native e (File (My_write file buffer count flags))) (\<lambda>result.
       io_then (hook e (End_file_wait locker (moved flags count result))) (io_ret result)))
     else native e (File (My_write file buffer count flags)))"

definition inline_mysql_file_pread :: "('s, 'p) host \<Rightarrow> place \<Rightarrow> int \<Rightarrow> int \<Rightarrow> nat \<Rightarrow> int \<Rightarrow> int \<Rightarrow> ('s, 'p, int) io" where
  "inline_mysql_file_pread e pl file buffer count offset flags =
     io_bind (ask e (Get_thread_file_descriptor_locker file PSI_FILE_READ)) (\<lambda>locker.
     if locker \<noteq> 0 then
       io_then (hook e (Start_file_wait locker count pl))
      (io_bind (native e (File (My_pread file buffer count offset flags))) (\<lambda>result.
       io_then (hook e (End_file_wait locker (moved flags count result))) (io_ret result)))
     else native e (File (My_pread file buffer count offset flags)))"

definition inline_mysql_file_pwrite :: "('s, 'p) host \<Rightarrow> place \<Rightarrow> int \<Rightarrow> int \<Rightarrow> nat \<Rightarrow> int \<Rightarrow> int \<Rightarrow> ('s, 'p, int) io" where
  "inline_mysql_file_pwrite e pl file buffer count offset flags =
     io_bind (ask e (Get_thread_file_descriptor_locker file PSI_FILE_WRITE)) (\<lambda>locker.
     if locker \<noteq> 0 then
       io_then (hook e (Start_file_wait locker count pl))
      (io_bind (native e (File (My_pwrite file buffer count offset flags))) (\<lambda>result.
       io_then (hook e (End_file_wait locker (moved flags count result))) (io_ret result)))
     else native e (File (My_pwrite file buffer count offset flags)))"

definition inline_mysql_file_seek :: "('s, 'p) host \<Rightarrow> place \<Rightarrow> int \<Rightarrow> int \<Rightarrow> int \<Rightarrow> int \<Rightarrow> ('s, 'p, int) io" where
  "inline_mysql_file_seek e pl file pos whence flags =
     io_bind (ask e (Get_thread_file_descriptor_locker file PSI_FILE_SEEK)) (\<lambda>locker.
     if locker \<noteq> 0 then
       io_then (hook e (Start_file_wait locker 0 pl))
      (io_bind (native e (File (My_seek file pos whence flags))) (\<lambda>result.
       io_then (hook e (End_file_wait locker 0)) (io_ret result)))
     else native e (File (My_seek file pos whence flags)))"

definition inline_mysql_file_tell :: "('s, 'p) host \<Rightarrow> place \<Rightarrow> int \<Rightarrow> int \<Rightarrow> ('s, 'p, int) io" where
  "inline_mysql_file_tell e pl file flags =
     io_bind (ask e (Get_thread_file_descriptor_locker file PSI_FILE_TELL)) (\<lambda>locker.
     if locker \<noteq> 0 then
       io_then (hook e (Start_file_wait locker 0 pl))
      (io_bind (native e (File (My_tell file flags))) (\<lambda>result.
       io_then (hook e (End_file_wait locker 0)) (io_ret result)))
     else native e (File (My_tell file flags)))"

definition inline_mysql_file_delete :: "('s, 'p) host \<Rightarrow> int \<Rightarrow> place \<Rightarrow> int \<Rightarrow> int \<Rightarrow> ('s, 'p, int) io" where
  "inline_mysql_file_delete e key pl name flags =
     io_bind (ask e (Get_thread_file_name_locker key PSI_FILE_DELETE name None)) (\<lambda>locker.
     if locker \<noteq> 0 then
       io_then (hook e (Start_file_close_wait locker pl))
      (io_bind (native e (File (My_delete name flags))) (\<lambda>result.
       io_then (hook e (End_file_close_wait locker result)) (io_ret result)))
     else native e (File (My_delete name flags)))"

definition inline_mysql_file_rename :: "('s, 'p) host \<Rightarrow> int \<Rightarrow> place \<Rightarrow> int \<Rightarrow> int \<Rightarrow> int \<Rightarrow> ('s, 'p, int) io" where
  "inline_mysql_file_rename e key pl old to flags =
     io_bind (ask e (Get_thread_file_name_locker key PSI_FILE_RENAME to None)) (\<lambda>locker.
     if locker \<noteq> 0 then
       io_then (hook e (Start_file_wait locker 0 pl))
      (io_bind (native e (File (My_rename old to flags))) (\<lambda>result.
       io_then (hook e (End_file_wait locker 0)) (io_ret result)))
     else native e (File (My_rename old to flags)))"

definition inline_mysql_file_create_with_symlink :: "('s, 'p) host \<Rightarrow> int \<Rightarrow> place \<Rightarrow> int \<Rightarrow> int \<Rightarrow> int \<Rightarrow> int \<Rightarrow> int \<Rightarrow> ('s, 'p, int) io" where
  "inline_mysql_file_create_with_symlink e key pl linkname filename create_flags access_flags flags =
     io_bind (ask e (Get_thread_file_name_locker key PSI_FILE_CREATE filename None)) (\<lambda>locker.
     if locker \<noteq> 0 then
       io_then (hook e (Start_file_open_wait locker pl))
      (io_bind (native e (File (My_create_with_symlink linkname filename create_flags access_flags flags))) (\<lambda>result.
       io_then (hook e (End_file_open_wait_and_bind_to_descriptor locker result)) (io_ret result)))
     else native e (File (My_create_with_symlink linkname filename create_flags access_flags flags)))"

definition inline_mysql_file_delete_with_symlink :: "('s, 'p) host \<Rightarrow> int \<Rightarrow> place \<Rightarrow> int \<Rightarrow> int \<Rightarrow> ('s, 'p, int) io" where
  "inline_mysql_file_delete_with_symlink e key pl name flags =
     io_bind (ask e (Get_thread_file_name_locker key PSI_FILE_DELETE name None)) (\<lambda>locker.
     if locker \<noteq> 0 then
       io_then (hook e (Start_file_close_wait locker pl))
      (io_bind (native e (File (My_delete_with_symlink name flags))) (\<lambda>result.
       io_then (hook e (End_file_close_wait locker result)) (io_ret result)))
     else native e (File (My_delete_with_symlink name flags)))"

definition inline_mysql_file_rename_with_symlink :: "('s, 'p) host \<Rightarrow> int \<Rightarrow> place \<Rightarrow> int \<Rightarrow> int \<Rightarrow> int \<Rightarrow> ('s, 'p, int) io" where
  "inline_mysql_file_rename_with_symlink e key pl old to flags =
     io_bind (ask e (Get_thread_file_name_locker key PSI_FILE_RENAME to None)) (\<lambda>locker.
     if locker \<noteq> 0 then
       io_then (hook e (Start_file_wait locker 0 pl))
      (io_bind (native e (File (My_rename_with_symlink old to flags))) (\<lambda>result.
       io_then (hook e (End_file_wait locker 0)) (io_ret result)))
     else native e (File (My_rename_with_symlink old to flags)))"

definition inline_mysql_file_sync :: "('s, 'p) host \<Rightarrow> place \<Rightarrow> int \<Rightarrow> int \<Rightarrow> ('s, 'p, int) io" where
  "inline_mysql_file_sync e pl fd flags =
     io_bind (ask e (Get_thread_file_descriptor_locker fd PSI_FILE_SYNC)) (\<lambda>locker.
     if locker \<noteq> 0 then
       io_then (hook e (Start_file_wait locker 0 pl))
      (io_bind (native e (File (My_sync fd flags))) (\<lambda>result.
       io_then (hook e (End_file_wait locker 0)) (io_ret result)))
     else native e (File (My_sync fd flags)))"

end
