(* ===== verification/Psi_Socket.thy ===== *)
theory Psi_Socket
  imports Psi_Calls "HOL-Library.Word"
begin

unbundle bit_operations_syntax

text \<open>
  The instrumented sockets of \<^verbatim>\<open>mysql_socket.h\<close>. A socket is passed by value, its descriptor
  with its instrumentation; a wait is reported around every call, with the bytes sent or
  received.
\<close>

section \<open>The structure\<close>

record mysql_socket =
  sock_fd :: int
  sock_psi :: int

definition INVALID_SOCKET :: int where "INVALID_SOCKET = -1"

definition mysql_socket_invalid :: mysql_socket where
  "mysql_socket_invalid = \<lparr>sock_fd = INVALID_SOCKET, sock_psi = 0\<rparr>"

definition mysql_socket_set_address :: "('s, 'p) host \<Rightarrow> mysql_socket \<Rightarrow> int \<Rightarrow> nat \<Rightarrow> ('s, 'p, unit) io" where
  "mysql_socket_set_address e socket addr addr_len =
     io_when (have_psi e \<and> sock_psi socket \<noteq> 0) (hook e (Set_socket_info (sock_psi socket) 0 addr addr_len))"

definition mysql_socket_set_thread_owner :: "('s, 'p) host \<Rightarrow> mysql_socket \<Rightarrow> ('s, 'p, unit) io" where
  "mysql_socket_set_thread_owner e socket =
     io_when (have_psi e \<and> sock_psi socket \<noteq> 0) (hook e (Set_socket_thread_owner (sock_psi socket)))"

definition mysql_socket_getfd :: "mysql_socket \<Rightarrow> int" where
  "mysql_socket_getfd mysql_socket = sock_fd mysql_socket"

text \<open>The socket behind the pointer, if it is not \<^verbatim>\<open>NULL\<close>.\<close>

definition mysql_socket_setfd :: "mysql_socket option \<Rightarrow> int \<Rightarrow> mysql_socket option" where
  "mysql_socket_setfd mysql_socket fd = map_option (\<lambda>s. s\<lparr>sock_fd := fd\<rparr>) mysql_socket"

section \<open>The calls of the wait macros\<close>

definition inline_mysql_start_socket_wait ::
  "('s, 'p) host \<Rightarrow> mysql_socket \<Rightarrow> PSI_socket_operation \<Rightarrow> nat \<Rightarrow> place \<Rightarrow> ('s, 'p, int) io" where
  "inline_mysql_start_socket_wait e mysql_socket op byte_count pl =
     (if sock_psi mysql_socket \<noteq> 0 then hook e (Start_socket_wait (sock_psi mysql_socket) op byte_count pl)
      else io_ret 0)"

definition inline_mysql_end_socket_wait :: "('s, 'p) host \<Rightarrow> int \<Rightarrow> nat \<Rightarrow> ('s, 'p, unit) io" where
  "inline_mysql_end_socket_wait e locker byte_count = io_when (locker \<noteq> 0) (hook e (End_socket_wait locker byte_count))"

definition inline_mysql_socket_set_state :: "('s, 'p) host \<Rightarrow> mysql_socket \<Rightarrow> PSI_socket_state \<Rightarrow> ('s, 'p, unit) io" where
  "inline_mysql_socket_set_state e socket state =
     io_when (sock_psi socket \<noteq> 0) (hook e (Set_socket_state (sock_psi socket) state))"

definition inline_mysql_socket_register :: "('s, 'p) host \<Rightarrow> string \<Rightarrow> int \<Rightarrow> int \<Rightarrow> ('s, 'p, unit) io" where
  "inline_mysql_socket_register e category info count =
     io_then (hook e (Register ''socket'' category info count)) (io_ret ())"

section \<open>The calls on sockets\<close>

definition inline_mysql_socket_socket :: "('s, 'p) host \<Rightarrow> int \<Rightarrow> int \<Rightarrow> int \<Rightarrow> int \<Rightarrow> ('s, 'p, mysql_socket) io" where
  "inline_mysql_socket_socket e key domain type protocol =
     io_bind (native e (Sock (Socket domain type protocol))) (\<lambda>fd.
     io_bind (if have_psi e \<and> fd \<noteq> INVALID_SOCKET then hook e (Init_socket key fd 0 0) else io_ret 0) (\<lambda>p.
       io_ret \<lparr>sock_fd = fd, sock_psi = p\<rparr>))"

definition inline_mysql_socket_bind :: "('s, 'p) host \<Rightarrow> place \<Rightarrow> mysql_socket \<Rightarrow> int \<Rightarrow> nat \<Rightarrow> ('s, 'p, int) io" where
  "inline_mysql_socket_bind e pl mysql_socket addr len =
     (if have_psi e \<and> sock_psi mysql_socket \<noteq> 0 then
        io_bind (hook e (Start_socket_wait (sock_psi mysql_socket) PSI_SOCKET_BIND 0 pl)) (\<lambda>locker.
        io_bind (native e (Sock (Bind (sock_fd mysql_socket) addr len))) (\<lambda>result.
        io_then (io_when (result = 0) (hook e (Set_socket_info (sock_psi mysql_socket) 0 addr len)))
       (io_then (io_when (locker \<noteq> 0) (hook e (End_socket_wait locker 0)))
          (io_ret result))))
      else native e (Sock (Bind (sock_fd mysql_socket) addr len)))"

definition inline_mysql_socket_getsockname :: "('s, 'p) host \<Rightarrow> place \<Rightarrow> mysql_socket \<Rightarrow> int \<Rightarrow> int \<Rightarrow> ('s, 'p, int) io" where
  "inline_mysql_socket_getsockname e pl mysql_socket addr len_at =
     (if have_psi e \<and> sock_psi mysql_socket \<noteq> 0 then
        io_bind (hook e (Start_socket_wait (sock_psi mysql_socket) PSI_SOCKET_BIND 0 pl)) (\<lambda>locker.
        io_bind (native e (Sock (Getsockname (sock_fd mysql_socket) addr len_at))) (\<lambda>result.
        io_then (io_when (locker \<noteq> 0) (hook e (End_socket_wait locker 0)))
          (io_ret result)))
      else native e (Sock (Getsockname (sock_fd mysql_socket) addr len_at)))"

definition inline_mysql_socket_connect :: "('s, 'p) host \<Rightarrow> place \<Rightarrow> mysql_socket \<Rightarrow> int \<Rightarrow> nat \<Rightarrow> ('s, 'p, int) io" where
  "inline_mysql_socket_connect e pl mysql_socket addr len =
     (if have_psi e \<and> sock_psi mysql_socket \<noteq> 0 then
        io_bind (hook e (Start_socket_wait (sock_psi mysql_socket) PSI_SOCKET_CONNECT 0 pl)) (\<lambda>locker.
        io_bind (native e (Sock (Connect (sock_fd mysql_socket) addr len))) (\<lambda>result.
        io_then (io_when (locker \<noteq> 0) (hook e (End_socket_wait locker 0)))
          (io_ret result)))
      else native e (Sock (Connect (sock_fd mysql_socket) addr len)))"

definition inline_mysql_socket_getpeername :: "('s, 'p) host \<Rightarrow> place \<Rightarrow> mysql_socket \<Rightarrow> int \<Rightarrow> int \<Rightarrow> ('s, 'p, int) io" where
  "inline_mysql_socket_getpeername e pl mysql_socket addr len_at =
     (if have_psi e \<and> sock_psi mysql_socket \<noteq> 0 then
        io_bind (hook e (Start_socket_wait (sock_psi mysql_socket) PSI_SOCKET_BIND 0 pl)) (\<lambda>locker.
        io_bind (native e (Sock (Getpeername (sock_fd mysql_socket) addr len_at))) (\<lambda>result.
        io_then (io_when (locker \<noteq> 0) (hook e (End_socket_wait locker 0)))
          (io_ret result)))
      else native e (Sock (Getpeername (sock_fd mysql_socket) addr len_at)))"

text \<open>The bytes a call has moved: its result unless that is negative.\<close>

definition sent_bytes :: "int \<Rightarrow> nat" where
  "sent_bytes result = (if result > -1 then as_size_t result else 0)"

definition inline_mysql_socket_send :: "('s, 'p) host \<Rightarrow> place \<Rightarrow> mysql_socket \<Rightarrow> int \<Rightarrow> nat \<Rightarrow> int \<Rightarrow> ('s, 'p, int) io" where
  "inline_mysql_socket_send e pl mysql_socket buf n flags =
     (if have_psi e \<and> sock_psi mysql_socket \<noteq> 0 then
        io_bind (hook e (Start_socket_wait (sock_psi mysql_socket) PSI_SOCKET_SEND n pl)) (\<lambda>locker.
        io_bind (native e (Sock (Send (sock_fd mysql_socket) buf n flags))) (\<lambda>result.
        io_then (io_when (locker \<noteq> 0) (hook e (End_socket_wait locker (sent_bytes result))))
          (io_ret result)))
      else native e (Sock (Send (sock_fd mysql_socket) buf n flags)))"

definition inline_mysql_socket_recv :: "('s, 'p) host \<Rightarrow> place \<Rightarrow> mysql_socket \<Rightarrow> int \<Rightarrow> nat \<Rightarrow> int \<Rightarrow> ('s, 'p, int) io" where
  "inline_mysql_socket_recv e pl mysql_socket buf n flags =
     (if have_psi e \<and> sock_psi mysql_socket \<noteq> 0 then
        io_bind (hook e (Start_socket_wait (sock_psi mysql_socket) PSI_SOCKET_RECV 0 pl)) (\<lambda>locker.
        io_bind (native e (Sock (Recv (sock_fd mysql_socket) buf n flags))) (\<lambda>result.
        io_then (io_when (locker \<noteq> 0) (hook e (End_socket_wait locker (sent_bytes result))))
          (io_ret result)))
      else native e (Sock (Recv (sock_fd mysql_socket) buf n flags)))"

definition inline_mysql_socket_sendto :: "('s, 'p) host \<Rightarrow> place \<Rightarrow> mysql_socket \<Rightarrow> int \<Rightarrow> nat \<Rightarrow> int \<Rightarrow> int \<Rightarrow> nat \<Rightarrow> ('s, 'p, int) io" where
  "inline_mysql_socket_sendto e pl mysql_socket buf n flags addr addr_len =
     (if have_psi e \<and> sock_psi mysql_socket \<noteq> 0 then
        io_bind (hook e (Start_socket_wait (sock_psi mysql_socket) PSI_SOCKET_SEND n pl)) (\<lambda>locker.
        io_bind (native e (Sock (Sendto (sock_fd mysql_socket) buf n flags addr addr_len))) (\<lambda>result.
        io_then (io_when (locker \<noteq> 0) (hook e (End_socket_wait locker (sent_bytes result))))
          (io_ret result)))
      else native e (Sock (Sendto (sock_fd mysql_socket) buf n flags addr addr_len)))"

definition inline_mysql_socket_recvfrom :: "('s, 'p) host \<Rightarrow> place \<Rightarrow> mysql_socket \<Rightarrow> int \<Rightarrow> nat \<Rightarrow> int \<Rightarrow> int \<Rightarrow> int \<Rightarrow> ('s, 'p, int) io" where
  "inline_mysql_socket_recvfrom e pl mysql_socket buf n flags addr len_at =
     (if have_psi e \<and> sock_psi mysql_socket \<noteq> 0 then
        io_bind (hook e (Start_socket_wait (sock_psi mysql_socket) PSI_SOCKET_RECV 0 pl)) (\<lambda>locker.
        io_bind (native e (Sock (Recvfrom (sock_fd mysql_socket) buf n flags addr len_at))) (\<lambda>result.
        io_then (io_when (locker \<noteq> 0) (hook e (End_socket_wait locker (sent_bytes result))))
          (io_ret result)))
      else native e (Sock (Recvfrom (sock_fd mysql_socket) buf n flags addr len_at)))"

definition inline_mysql_socket_getsockopt :: "('s, 'p) host \<Rightarrow> place \<Rightarrow> mysql_socket \<Rightarrow> int \<Rightarrow> int \<Rightarrow> int \<Rightarrow> int \<Rightarrow> ('s, 'p, int) io" where
  "inline_mysql_socket_getsockopt e pl mysql_socket level optname optval optlen_at =
     (if have_psi e \<and> sock_psi mysql_socket \<noteq> 0 then
        io_bind (hook e (Start_socket_wait (sock_psi mysql_socket) PSI_SOCKET_OPT 0 pl)) (\<lambda>locker.
        io_bind (native e (Sock (Getsockopt (sock_fd mysql_socket) level optname optval optlen_at))) (\<lambda>result.
        io_then (io_when (locker \<noteq> 0) (hook e (End_socket_wait locker 0)))
          (io_ret result)))
      else native e (Sock (Getsockopt (sock_fd mysql_socket) level optname optval optlen_at)))"

definition inline_mysql_socket_setsockopt :: "('s, 'p) host \<Rightarrow> place \<Rightarrow> mysql_socket \<Rightarrow> int \<Rightarrow> int \<Rightarrow> int \<Rightarrow> nat \<Rightarrow> ('s, 'p, int) io" where
  "inline_mysql_socket_setsockopt e pl mysql_socket level optname optval optlen =
     (if have_psi e \<and> sock_psi mysql_socket \<noteq> 0 then
        io_bind (hook e (Start_socket_wait (sock_psi mysql_socket) PSI_SOCKET_OPT 0 pl)) (\<lambda>locker.
        io_bind (native e (Sock (Setsockopt (sock_fd mysql_socket) level optname optval optlen))) (\<lambda>result.
        io_then (io_when (locker \<noteq> 0) (hook e (End_socket_wait locker 0)))
          (io_ret result)))
      else native e (Sock (Setsockopt (sock_fd mysql_socket) level optname optval optlen)))"

text \<open>The flag of a POSIX system on Linux.\<close>

definition O_NONBLOCK :: int where "O_NONBLOCK = 2048"

definition set_socket_nonblock :: "('s, 'p) host \<Rightarrow> int \<Rightarrow> ('s, 'p, int) io" where
  "set_socket_nonblock e fd =
     io_bind (native e (Sock (Fcntl_getfl fd))) (\<lambda>fd_flags.
     if fd_flags < 0 then io_look (os_errno e)
     else
       io_bind (native e (Sock (Fcntl_setfl fd (fd_flags OR O_NONBLOCK)))) (\<lambda>r.
       if r = -1 then io_look (os_errno e) else io_ret 0))"

definition inline_mysql_sock_set_nonblocking :: "('s, 'p) host \<Rightarrow> place \<Rightarrow> mysql_socket \<Rightarrow> ('s, 'p, int) io" where
  "inline_mysql_sock_set_nonblocking e pl mysql_socket =
     (if have_psi e \<and> sock_psi mysql_socket \<noteq> 0 then
        io_bind (hook e (Start_socket_wait (sock_psi mysql_socket) PSI_SOCKET_OPT 0 pl)) (\<lambda>locker.
        io_bind (set_socket_nonblock e (sock_fd mysql_socket)) (\<lambda>result.
        io_then (io_when (locker \<noteq> 0) (hook e (End_socket_wait locker 0)))
          (io_ret result)))
      else set_socket_nonblock e (sock_fd mysql_socket))"

definition inline_mysql_socket_listen :: "('s, 'p) host \<Rightarrow> place \<Rightarrow> mysql_socket \<Rightarrow> int \<Rightarrow> ('s, 'p, int) io" where
  "inline_mysql_socket_listen e pl mysql_socket backlog =
     (if have_psi e \<and> sock_psi mysql_socket \<noteq> 0 then
        io_bind (hook e (Start_socket_wait (sock_psi mysql_socket) PSI_SOCKET_CONNECT 0 pl)) (\<lambda>locker.
        io_bind (native e (Sock (Listen (sock_fd mysql_socket) backlog))) (\<lambda>result.
        io_then (io_when (locker \<noteq> 0) (hook e (End_socket_wait locker 0)))
          (io_ret result)))
      else native e (Sock (Listen (sock_fd mysql_socket) backlog)))"

text \<open>
  \<open>addr_len\<close> is what the caller's pointer points to. \<open>accept\<close> gets the address of a copy, whose
  new value goes to the instrumentation; the caller's variable is not written.
\<close>

definition inline_mysql_socket_accept ::
  "('s, 'p) host \<Rightarrow> place \<Rightarrow> int \<Rightarrow> mysql_socket \<Rightarrow> int \<Rightarrow> nat option \<Rightarrow> ('s, 'p, mysql_socket) io" where
  "inline_mysql_socket_accept e pl key socket_listen addr addr_len =
     (let addr_length = (case addr_len of None \<Rightarrow> 0 | Some n \<Rightarrow> n) in
      io_bind
        (if have_psi e \<and> sock_psi socket_listen \<noteq> 0 then
           io_bind (hook e (Start_socket_wait (sock_psi socket_listen) PSI_SOCKET_CONNECT 0 pl)) (\<lambda>locker.
           io_bind (native e (Sock (Accept (sock_fd socket_listen) addr addr_length))) (\<lambda>fd.
           io_then (io_when (locker \<noteq> 0) (hook e (End_socket_wait locker 0)))
             (io_ret fd)))
         else native e (Sock (Accept (sock_fd socket_listen) addr addr_length))) (\<lambda>fd.
      io_bind (io_look (os_addr_length e)) (\<lambda>addr_length.
      io_bind (if have_psi e \<and> fd \<noteq> INVALID_SOCKET then hook e (Init_socket key fd addr addr_length) else io_ret 0) (\<lambda>p.
        io_ret \<lparr>sock_fd = fd, sock_psi = p\<rparr>))))"

definition inline_mysql_socket_close :: "('s, 'p) host \<Rightarrow> place \<Rightarrow> mysql_socket \<Rightarrow> ('s, 'p, int) io" where
  "inline_mysql_socket_close e pl mysql_socket =
     (if have_psi e \<and> sock_psi mysql_socket \<noteq> 0 then
        io_bind (hook e (Start_socket_wait (sock_psi mysql_socket) PSI_SOCKET_CLOSE 0 pl)) (\<lambda>locker.
        io_bind (native e (Sock (Closesocket (sock_fd mysql_socket)))) (\<lambda>result.
        io_then (io_when (locker \<noteq> 0) (hook e (End_socket_wait locker 0)))
       (io_then (io_when (sock_psi mysql_socket \<noteq> 0) (hook e (Destroy_socket (sock_psi mysql_socket))))
          (io_ret result))))
      else native e (Sock (Closesocket (sock_fd mysql_socket))))"

definition inline_mysql_socket_shutdown :: "('s, 'p) host \<Rightarrow> place \<Rightarrow> mysql_socket \<Rightarrow> int \<Rightarrow> ('s, 'p, int) io" where
  "inline_mysql_socket_shutdown e pl mysql_socket how =
     (if have_psi e \<and> sock_psi mysql_socket \<noteq> 0 then
        io_bind (hook e (Start_socket_wait (sock_psi mysql_socket) PSI_SOCKET_SHUTDOWN 0 pl)) (\<lambda>locker.
        io_bind (native e (Sock (Shutdown (sock_fd mysql_socket) how))) (\<lambda>result.
        io_then (io_when (locker \<noteq> 0) (hook e (End_socket_wait locker 0)))
          (io_ret result)))
      else native e (Sock (Shutdown (sock_fd mysql_socket) how)))"

end
