(* ===== verification/Psi_Statement.thy ===== *)
theory Psi_Statement
  imports Psi_Calls "HOL-Library.Word"
begin

text \<open>
  The instrumentation of what a server does for its clients: statements and their digests
  (\<^verbatim>\<open>mysql_statement.h\<close>), transactions (\<^verbatim>\<open>mysql_transaction.h\<close>), stages and their progress
  (\<^verbatim>\<open>mysql_stage.h\<close>), table locks (\<^verbatim>\<open>mysql_table.h\<close>), idle waits (\<^verbatim>\<open>mysql_idle.h\<close>),
  prepared statements (\<^verbatim>\<open>mysql_ps.h\<close>), stored programs (\<^verbatim>\<open>mysql_sp.h\<close>) and the registration of
  memory (\<^verbatim>\<open>mysql_memory.h\<close>). Each function tests its locker and makes one call or none; a
  caller keeps the locker from a start to an end.
\<close>

section \<open>The code\<close>

definition when_not_null :: "('s, 'p) host \<Rightarrow> int \<Rightarrow> server_hook \<Rightarrow> ('s, 'p, unit) io" where
  "when_not_null e p h = io_then (io_when (p \<noteq> 0) (hook e (Of_server h))) (io_ret ())"

definition inline_mysql_statement_register :: "('s, 'p) host \<Rightarrow> string \<Rightarrow> int \<Rightarrow> int \<Rightarrow> ('s, 'p, unit) io" where
  "inline_mysql_statement_register e category info count =
     io_then (hook e (Register ''statement'' category info count)) (io_ret ())"

definition inline_mysql_digest_start :: "('s, 'p) host \<Rightarrow> int \<Rightarrow> ('s, 'p, int) io" where
  "inline_mysql_digest_start e locker = (if locker \<noteq> 0 then hook e (Of_server (Digest_start locker)) else io_ret 0)"

definition inline_mysql_digest_end :: "('s, 'p) host \<Rightarrow> int \<Rightarrow> int \<Rightarrow> ('s, 'p, unit) io" where
  "inline_mysql_digest_end e locker digest = when_not_null e locker (Digest_end locker digest)"

definition inline_mysql_start_statement ::
  "('s, 'p) host \<Rightarrow> int \<Rightarrow> int \<Rightarrow> nat \<Rightarrow> int \<Rightarrow> int \<Rightarrow> place \<Rightarrow> ('s, 'p, int) io" where
  "inline_mysql_start_statement e key db db_len charset sp_share pl =
     io_bind (hook e (Of_server (Get_thread_statement_locker key charset sp_share))) (\<lambda>locker.
     io_then (io_when (locker \<noteq> 0) (hook e (Of_server (Start_statement locker db db_len pl))))
       (io_ret locker))"

definition inline_mysql_refine_statement :: "('s, 'p) host \<Rightarrow> int \<Rightarrow> int \<Rightarrow> ('s, 'p, int) io" where
  "inline_mysql_refine_statement e locker key =
     (if locker \<noteq> 0 then hook e (Of_server (Refine_statement locker key)) else io_ret locker)"

definition inline_mysql_set_statement_text :: "('s, 'p) host \<Rightarrow> int \<Rightarrow> int \<Rightarrow> nat \<Rightarrow> ('s, 'p, unit) io" where
  "inline_mysql_set_statement_text e locker txt text_len = when_not_null e locker (Set_statement_text locker txt text_len)"

definition inline_mysql_set_statement_lock_time :: "('s, 'p) host \<Rightarrow> int \<Rightarrow> nat \<Rightarrow> ('s, 'p, unit) io" where
  "inline_mysql_set_statement_lock_time e locker count = when_not_null e locker (Set_statement_lock_time locker count)"

definition inline_mysql_set_statement_rows_sent :: "('s, 'p) host \<Rightarrow> int \<Rightarrow> nat \<Rightarrow> ('s, 'p, unit) io" where
  "inline_mysql_set_statement_rows_sent e locker count = when_not_null e locker (Set_statement_rows_sent locker count)"

definition inline_mysql_set_statement_rows_examined :: "('s, 'p) host \<Rightarrow> int \<Rightarrow> nat \<Rightarrow> ('s, 'p, unit) io" where
  "inline_mysql_set_statement_rows_examined e locker count =
     when_not_null e locker (Set_statement_rows_examined locker count)"

definition inline_mysql_end_statement :: "('s, 'p) host \<Rightarrow> int \<Rightarrow> int \<Rightarrow> ('s, 'p, unit) io" where
  "inline_mysql_end_statement e locker stmt_da =
     io_then (hook e (Of_server End_stage)) (when_not_null e locker (End_statement locker stmt_da))"

definition inline_mysql_start_transaction ::
  "('s, 'p) host \<Rightarrow> int \<Rightarrow> int \<Rightarrow> int \<Rightarrow> bool \<Rightarrow> bool \<Rightarrow> place \<Rightarrow> ('s, 'p, int) io" where
  "inline_mysql_start_transaction e xid trxid isolation_level read_only autocommit pl =
     io_bind (hook e (Of_server (Get_thread_transaction_locker xid trxid isolation_level read_only autocommit))) (\<lambda>locker.
     io_then (io_when (locker \<noteq> 0) (hook e (Of_server (Start_transaction locker pl))))
       (io_ret locker))"

definition inline_mysql_set_transaction_gtid :: "('s, 'p) host \<Rightarrow> int \<Rightarrow> int \<Rightarrow> int \<Rightarrow> ('s, 'p, unit) io" where
  "inline_mysql_set_transaction_gtid e locker sid gtid_spec = when_not_null e locker (Set_transaction_gtid locker sid gtid_spec)"

definition inline_mysql_set_transaction_xid :: "('s, 'p) host \<Rightarrow> int \<Rightarrow> int \<Rightarrow> int \<Rightarrow> ('s, 'p, unit) io" where
  "inline_mysql_set_transaction_xid e locker xid xa_state = when_not_null e locker (Set_transaction_xid locker xid xa_state)"

definition inline_mysql_set_transaction_xa_state :: "('s, 'p) host \<Rightarrow> int \<Rightarrow> int \<Rightarrow> ('s, 'p, unit) io" where
  "inline_mysql_set_transaction_xa_state e locker xa_state = when_not_null e locker (Set_transaction_xa_state locker xa_state)"

definition inline_mysql_set_transaction_trxid :: "('s, 'p) host \<Rightarrow> int \<Rightarrow> int \<Rightarrow> ('s, 'p, unit) io" where
  "inline_mysql_set_transaction_trxid e locker trxid = when_not_null e locker (Set_transaction_trxid locker trxid)"

definition inline_mysql_inc_transaction_savepoints :: "('s, 'p) host \<Rightarrow> int \<Rightarrow> nat \<Rightarrow> ('s, 'p, unit) io" where
  "inline_mysql_inc_transaction_savepoints e locker count = when_not_null e locker (Inc_transaction_savepoints locker count)"

definition inline_mysql_inc_transaction_rollback_to_savepoint :: "('s, 'p) host \<Rightarrow> int \<Rightarrow> nat \<Rightarrow> ('s, 'p, unit) io" where
  "inline_mysql_inc_transaction_rollback_to_savepoint e locker count =
     when_not_null e locker (Inc_transaction_rollback_to_savepoint locker count)"

definition inline_mysql_inc_transaction_release_savepoint :: "('s, 'p) host \<Rightarrow> int \<Rightarrow> nat \<Rightarrow> ('s, 'p, unit) io" where
  "inline_mysql_inc_transaction_release_savepoint e locker count =
     when_not_null e locker (Inc_transaction_release_savepoint locker count)"

definition inline_mysql_rollback_transaction :: "('s, 'p) host \<Rightarrow> int \<Rightarrow> ('s, 'p, unit) io" where
  "inline_mysql_rollback_transaction e locker = when_not_null e locker (End_transaction locker False)"

definition inline_mysql_commit_transaction :: "('s, 'p) host \<Rightarrow> int \<Rightarrow> ('s, 'p, unit) io" where
  "inline_mysql_commit_transaction e locker = when_not_null e locker (End_transaction locker True)"

definition inline_mysql_start_table_lock_wait ::
  "('s, 'p) host \<Rightarrow> int \<Rightarrow> PSI_table_lock_operation \<Rightarrow> nat \<Rightarrow> place \<Rightarrow> ('s, 'p, int) io" where
  "inline_mysql_start_table_lock_wait e table op flags pl =
     (if table \<noteq> 0 then hook e (Of_server (Start_table_lock_wait table op flags pl)) else io_ret 0)"

definition inline_mysql_end_table_lock_wait :: "('s, 'p) host \<Rightarrow> int \<Rightarrow> ('s, 'p, unit) io" where
  "inline_mysql_end_table_lock_wait e locker = when_not_null e locker (End_table_lock_wait locker)"

definition inline_mysql_unlock_table :: "('s, 'p) host \<Rightarrow> int \<Rightarrow> ('s, 'p, unit) io" where
  "inline_mysql_unlock_table e table = when_not_null e table (Unlock_table table)"

definition inline_mysql_start_idle_wait :: "('s, 'p) host \<Rightarrow> place \<Rightarrow> ('s, 'p, int) io" where
  "inline_mysql_start_idle_wait e pl = hook e (Of_server (Start_idle_wait pl))"

definition inline_mysql_end_idle_wait :: "('s, 'p) host \<Rightarrow> int \<Rightarrow> ('s, 'p, unit) io" where
  "inline_mysql_end_idle_wait e locker = when_not_null e locker (End_idle_wait locker)"

definition inline_mysql_create_prepared_stmt ::
  "('s, 'p) host \<Rightarrow> int \<Rightarrow> nat \<Rightarrow> int \<Rightarrow> int \<Rightarrow> nat \<Rightarrow> int \<Rightarrow> nat \<Rightarrow> ('s, 'p, int) io" where
  "inline_mysql_create_prepared_stmt e identity stmt_id locker stmt_name stmt_name_length sqltext sqltext_length =
     (if locker = 0 then io_ret 0
      else hook e (Of_server (Create_prepared_stmt identity stmt_id locker stmt_name stmt_name_length sqltext sqltext_length)))"

definition inline_mysql_execute_prepared_stmt :: "('s, 'p) host \<Rightarrow> int \<Rightarrow> int \<Rightarrow> ('s, 'p, unit) io" where
  "inline_mysql_execute_prepared_stmt e locker prepared_stmt =
     io_then (io_when (prepared_stmt \<noteq> 0 \<and> locker \<noteq> 0) (hook e (Of_server (Execute_prepared_stmt locker prepared_stmt))))
       (io_ret ())"

definition inline_mysql_destroy_prepared_stmt :: "('s, 'p) host \<Rightarrow> int \<Rightarrow> ('s, 'p, unit) io" where
  "inline_mysql_destroy_prepared_stmt e prepared_stmt = when_not_null e prepared_stmt (Destroy_prepared_stmt prepared_stmt)"

definition inline_mysql_reprepare_prepared_stmt :: "('s, 'p) host \<Rightarrow> int \<Rightarrow> ('s, 'p, unit) io" where
  "inline_mysql_reprepare_prepared_stmt e prepared_stmt = when_not_null e prepared_stmt (Reprepare_prepared_stmt prepared_stmt)"

definition inline_mysql_start_sp :: "('s, 'p) host \<Rightarrow> int \<Rightarrow> ('s, 'p, int) io" where
  "inline_mysql_start_sp e sp_share = hook e (Of_server (Start_sp sp_share))"

definition inline_mysql_end_sp :: "('s, 'p) host \<Rightarrow> int \<Rightarrow> ('s, 'p, unit) io" where
  "inline_mysql_end_sp e locker = when_not_null e locker (End_sp locker)"

definition inline_mysql_drop_sp :: "('s, 'p) host \<Rightarrow> nat \<Rightarrow> int \<Rightarrow> nat \<Rightarrow> int \<Rightarrow> nat \<Rightarrow> ('s, 'p, unit) io" where
  "inline_mysql_drop_sp e sp_type schema_name schema_name_length object_name object_name_length =
     io_then (hook e (Of_server (Drop_sp sp_type schema_name schema_name_length object_name object_name_length))) (io_ret ())"

definition inline_mysql_get_sp_share :: "('s, 'p) host \<Rightarrow> nat \<Rightarrow> int \<Rightarrow> nat \<Rightarrow> int \<Rightarrow> nat \<Rightarrow> ('s, 'p, int) io" where
  "inline_mysql_get_sp_share e sp_type schema_name schema_name_length object_name object_name_length =
     hook e (Of_server (Get_sp_share sp_type schema_name schema_name_length object_name object_name_length))"

definition inline_mysql_memory_register :: "('s, 'p) host \<Rightarrow> string \<Rightarrow> int \<Rightarrow> int \<Rightarrow> ('s, 'p, unit) io" where
  "inline_mysql_memory_register e category info count =
     io_when (have_psi e) (hook e (Register ''memory'' category info count))"

definition inline_mysql_stage_register :: "('s, 'p) host \<Rightarrow> string \<Rightarrow> int \<Rightarrow> int \<Rightarrow> ('s, 'p, unit) io" where
  "inline_mysql_stage_register e category info count =
     io_then (hook e (Register ''stage'' category info count)) (io_ret ())"

definition inline_mysql_set_stage :: "('s, 'p) host \<Rightarrow> int \<Rightarrow> place \<Rightarrow> ('s, 'p, int) io" where
  "inline_mysql_set_stage e key pl = hook e (Of_server (Start_stage key pl))"

definition inline_mysql_end_stage :: "('s, 'p) host \<Rightarrow> ('s, 'p, unit) io" where
  "inline_mysql_end_stage e = io_then (hook e (Of_server End_stage)) (io_ret ())"

text \<open>The progress of a stage, behind a pointer that may be \<^verbatim>\<open>NULL\<close>: the setters test it, the getters do not.\<close>

record stage_progress =
  m_work_completed :: "64 word"
  m_work_estimated :: "64 word"

definition inline_mysql_stage_set_work_completed :: "stage_progress option \<Rightarrow> 64 word \<Rightarrow> stage_progress option" where
  "inline_mysql_stage_set_work_completed progress val = map_option (\<lambda>p. p\<lparr>m_work_completed := val\<rparr>) progress"

definition inline_mysql_stage_get_work_completed :: "stage_progress option \<Rightarrow> 64 word res" where
  "inline_mysql_stage_get_work_completed progress =
     (case progress of None \<Rightarrow> Inl Null_Deref | Some p \<Rightarrow> Inr (m_work_completed p))"

definition inline_mysql_stage_inc_work_completed :: "stage_progress option \<Rightarrow> 64 word \<Rightarrow> stage_progress option" where
  "inline_mysql_stage_inc_work_completed progress val =
     map_option (\<lambda>p. p\<lparr>m_work_completed := m_work_completed p + val\<rparr>) progress"

definition inline_mysql_stage_set_work_estimated :: "stage_progress option \<Rightarrow> 64 word \<Rightarrow> stage_progress option" where
  "inline_mysql_stage_set_work_estimated progress val = map_option (\<lambda>p. p\<lparr>m_work_estimated := val\<rparr>) progress"

definition inline_mysql_stage_get_work_estimated :: "stage_progress option \<Rightarrow> 64 word res" where
  "inline_mysql_stage_get_work_estimated progress =
     (case progress of None \<Rightarrow> Inl Null_Deref | Some p \<Rightarrow> Inr (m_work_estimated p))"

section \<open>Sessions\<close>

text \<open>
  The part a call plays in a session: it names a locker, begins the named session, opens one by
  itself, exchanges the locker for another, passes it on, or ends the session.
\<close>

datatype role = Names | Begins int | Opens | Exchanges int | Passes int | Ends int | Apart

datatype session = Closed | Named int | Open int

definition open_with :: "int \<Rightarrow> session" where
  "open_with l = (if l = 0 then Closed else Open l)"

text \<open>Only the locker of the session may be passed, and only while the session is open.\<close>

fun session_step :: "(server_hook \<Rightarrow> role) \<Rightarrow> session \<Rightarrow> event \<Rightarrow> session option" where
  "session_step part s (Hook (Of_server h) r) =
     (case part h of
        Names \<Rightarrow> if s = Closed then Some (if r = 0 then Closed else Named r) else None
      | Begins l \<Rightarrow> if s = Named l then Some (Open l) else None
      | Opens \<Rightarrow> if s = Closed then Some (open_with r) else None
      | Exchanges l \<Rightarrow> if s = Open l then Some (open_with r) else None
      | Passes l \<Rightarrow> if s = Open l then Some s else None
      | Ends l \<Rightarrow> if s = Open l then Some Closed else None
      | Apart \<Rightarrow> Some s)"
| "session_step part s x = Some s"

fun statement_role :: "server_hook \<Rightarrow> role" where
  "statement_role (Get_thread_statement_locker key cs share) = Names"
| "statement_role (Start_statement l db n pl) = Begins l"
| "statement_role (Refine_statement l key) = Exchanges l"
| "statement_role (Set_statement_text l txt n) = Passes l"
| "statement_role (Set_statement_lock_time l n) = Passes l"
| "statement_role (Set_statement_rows_sent l n) = Passes l"
| "statement_role (Set_statement_rows_examined l n) = Passes l"
| "statement_role (Digest_start l) = Passes l"
| "statement_role (End_statement l da) = Ends l"
| "statement_role h = Apart"

fun transaction_role :: "server_hook \<Rightarrow> role" where
  "transaction_role (Get_thread_transaction_locker xid trx level ro ac) = Names"
| "transaction_role (Start_transaction l pl) = Begins l"
| "transaction_role (Set_transaction_gtid l sid spec) = Passes l"
| "transaction_role (Set_transaction_xid l xid st) = Passes l"
| "transaction_role (Set_transaction_xa_state l st) = Passes l"
| "transaction_role (Set_transaction_trxid l trx) = Passes l"
| "transaction_role (Inc_transaction_savepoints l n) = Passes l"
| "transaction_role (Inc_transaction_rollback_to_savepoint l n) = Passes l"
| "transaction_role (Inc_transaction_release_savepoint l n) = Passes l"
| "transaction_role (End_transaction l commit) = Ends l"
| "transaction_role h = Apart"

fun table_role :: "server_hook \<Rightarrow> role" where
  "table_role (Start_table_lock_wait t op fl pl) = Opens"
| "table_role (End_table_lock_wait l) = Ends l"
| "table_role h = Apart"

fun idle_role :: "server_hook \<Rightarrow> role" where
  "idle_role (Start_idle_wait pl) = Opens"
| "idle_role (End_idle_wait l) = Ends l"
| "idle_role h = Apart"

fun prepared_role :: "server_hook \<Rightarrow> role" where
  "prepared_role (Create_prepared_stmt i n l s sl q ql) = Opens"
| "prepared_role (Execute_prepared_stmt l ps) = Passes ps"
| "prepared_role (Reprepare_prepared_stmt ps) = Passes ps"
| "prepared_role (Destroy_prepared_stmt ps) = Ends ps"
| "prepared_role h = Apart"

fun program_role :: "server_hook \<Rightarrow> role" where
  "program_role (Start_sp share) = Opens"
| "program_role (End_sp l) = Ends l"
| "program_role h = Apart"

text \<open>The functions of a kind of session: what starts one, what is done in it with its locker, what ends it.\<close>

record ('s, 'p) session_kind =
  part_of :: "server_hook \<Rightarrow> role"
  starts :: "('s, 'p, int) io set"
  updates :: "(int \<Rightarrow> ('s, 'p, int) io) set"
  finishes :: "(int \<Rightarrow> ('s, 'p, unit) io) set"

text \<open>A function that leaves the locker as it is.\<close>

definition keeping :: "(int \<Rightarrow> ('s, 'p, 'a) io) \<Rightarrow> int \<Rightarrow> ('s, 'p, int) io" where
  "keeping f l = io_then (f l) (io_ret l)"

definition statements :: "('s, 'p) host \<Rightarrow> ('s, 'p) session_kind" where
  "statements e = \<lparr>part_of = statement_role,
     starts = {inline_mysql_start_statement e key db n cs share pl |key db n cs share pl. True},
     updates = {\<lambda>l. inline_mysql_refine_statement e l key |key. True} \<union>
       keeping ` ({\<lambda>l. inline_mysql_set_statement_text e l txt n |txt n. True} \<union>
         {\<lambda>l. inline_mysql_set_statement_lock_time e l n |n. True} \<union>
         {\<lambda>l. inline_mysql_set_statement_rows_sent e l n |n. True} \<union>
         {\<lambda>l. inline_mysql_set_statement_rows_examined e l n |n. True}) \<union>
       {keeping (inline_mysql_digest_start e)},
     finishes = {\<lambda>l. inline_mysql_end_statement e l da |da. True}\<rparr>"

definition transactions :: "('s, 'p) host \<Rightarrow> ('s, 'p) session_kind" where
  "transactions e = \<lparr>part_of = transaction_role,
     starts = {inline_mysql_start_transaction e xid trx level ro ac pl |xid trx level ro ac pl. True},
     updates = keeping ` ({\<lambda>l. inline_mysql_set_transaction_gtid e l sid spec |sid spec. True} \<union>
         {\<lambda>l. inline_mysql_set_transaction_xid e l xid st |xid st. True} \<union>
         {\<lambda>l. inline_mysql_set_transaction_xa_state e l st |st. True} \<union>
         {\<lambda>l. inline_mysql_set_transaction_trxid e l trx |trx. True} \<union>
         {\<lambda>l. inline_mysql_inc_transaction_savepoints e l n |n. True} \<union>
         {\<lambda>l. inline_mysql_inc_transaction_rollback_to_savepoint e l n |n. True} \<union>
         {\<lambda>l. inline_mysql_inc_transaction_release_savepoint e l n |n. True}),
     finishes = {inline_mysql_commit_transaction e, inline_mysql_rollback_transaction e}\<rparr>"

definition table_waits :: "('s, 'p) host \<Rightarrow> ('s, 'p) session_kind" where
  "table_waits e = \<lparr>part_of = table_role,
     starts = {inline_mysql_start_table_lock_wait e table op fl pl |table op fl pl. True},
     updates = keeping ` {\<lambda>l. inline_mysql_unlock_table e table |table. True},
     finishes = {inline_mysql_end_table_lock_wait e}\<rparr>"

definition idle_waits :: "('s, 'p) host \<Rightarrow> ('s, 'p) session_kind" where
  "idle_waits e = \<lparr>part_of = idle_role, starts = {inline_mysql_start_idle_wait e pl |pl. True},
     updates = {}, finishes = {inline_mysql_end_idle_wait e}\<rparr>"

definition prepared_statements :: "('s, 'p) host \<Rightarrow> ('s, 'p) session_kind" where
  "prepared_statements e = \<lparr>part_of = prepared_role,
     starts = {inline_mysql_create_prepared_stmt e i n l nm nl q ql |i n l nm nl q ql. True},
     updates = keeping ` ({\<lambda>ps. inline_mysql_execute_prepared_stmt e l ps |l. True} \<union>
         {inline_mysql_reprepare_prepared_stmt e}),
     finishes = {inline_mysql_destroy_prepared_stmt e}\<rparr>"

definition stored_programs :: "('s, 'p) host \<Rightarrow> ('s, 'p) session_kind" where
  "stored_programs e = \<lparr>part_of = program_role, starts = {inline_mysql_start_sp e share |share. True},
     updates = keeping ` ({\<lambda>l. inline_mysql_drop_sp e ty s sl ob ol |ty s sl ob ol. True}),
     finishes = {inline_mysql_end_sp e}\<rparr>"

text \<open>A caller that starts a session, works in it with the locker it was given last, and ends it.\<close>

inductive session_run ::
  "('s, 'p) session_kind \<Rightarrow> bool \<times> int \<times> ('s, 'p) process \<Rightarrow> bool \<times> int \<times> ('s, 'p) process \<Rightarrow> bool" for k where
  Start: "f \<in> starts k \<Longrightarrow> f w = (l', w') \<Longrightarrow> session_run k (False, l, w) (True, l', w')"
| Update: "g \<in> updates k \<Longrightarrow> g l w = (l', w') \<Longrightarrow> session_run k (True, l, w) (True, l', w')"
| Finish: "h \<in> finishes k \<Longrightarrow> h l w = (u, w') \<Longrightarrow> session_run k (True, l, w) (False, l, w')"

text \<open>What a kind of session promises, and that its calls are then in order in every run.\<close>

locale instrumented_session =
  fixes k :: "('s, 'p) session_kind"
  assumes start_ok: "f \<in> starts k \<Longrightarrow> judged (session_step (part_of k)) Closed f (\<lambda>l s. s = open_with l)"
    and update_ok: "g \<in> updates k \<Longrightarrow>
      judged (session_step (part_of k)) (open_with l) (g l) (\<lambda>l' s. s = open_with l')"
    and finish_ok: "h \<in> finishes k \<Longrightarrow> judged (session_step (part_of k)) (open_with l) (h l) (\<lambda>_ s. s = Closed)"
begin

definition followed :: "nat \<Rightarrow> bool \<times> int \<times> ('s, 'p) process \<Rightarrow> bool" where
  "followed n = (\<lambda>(b, l, w). n \<le> length (events w) \<and>
     run_events (session_step (part_of k)) Closed (drop n (events w)) = Some (if b then open_with l else Closed))"

lemma followed_step:
  assumes "followed n s" and "session_run k s s'"
  shows "followed n s'"
  using assms(2)
proof cases
  case (Start f w l' w' l)
  then show ?thesis using judged_run [OF start_ok [OF Start(3)] Start(4)] assms(1) by (auto simp: followed_def)
next
  case (Update g l w l' w')
  then show ?thesis using judged_run [OF update_ok [OF Update(3)] Update(4)] assms(1) by (auto simp: followed_def)
next
  case (Finish h l w u w')
  then show ?thesis using judged_run [OF finish_ok [OF Finish(3)] Finish(4)] assms(1) by (auto simp: followed_def)
qed

lemma followed_reached: "(session_run k)\<^sup>*\<^sup>* s s' \<Longrightarrow> followed n s \<Longrightarrow> followed n s'"
  by (induction rule: rtranclp_induct) (auto intro: followed_step)

lemma calls_in_order:
  assumes "(session_run k)\<^sup>*\<^sup>* (False, l, w) (b, l', w')"
  shows "run_events (session_step (part_of k)) Closed (drop (length (events w)) (events w')) =
    Some (if b then open_with l' else Closed)"
proof -
  have "followed (length (events w)) (False, l, w)" by (simp add: followed_def)
  then have "followed (length (events w)) (b, l', w')" using assms followed_reached by blast
  then show ?thesis by (simp add: followed_def)
qed

end

section \<open>The kinds of sessions\<close>

lemmas statement_defs = inline_mysql_start_statement_def inline_mysql_refine_statement_def
  inline_mysql_set_statement_text_def inline_mysql_set_statement_lock_time_def
  inline_mysql_set_statement_rows_sent_def inline_mysql_set_statement_rows_examined_def
  inline_mysql_digest_start_def inline_mysql_end_statement_def

lemmas transaction_defs = inline_mysql_start_transaction_def inline_mysql_set_transaction_gtid_def
  inline_mysql_set_transaction_xid_def inline_mysql_set_transaction_xa_state_def
  inline_mysql_set_transaction_trxid_def inline_mysql_inc_transaction_savepoints_def
  inline_mysql_inc_transaction_rollback_to_savepoint_def inline_mysql_inc_transaction_release_savepoint_def
  inline_mysql_commit_transaction_def inline_mysql_rollback_transaction_def

lemmas other_session_defs = inline_mysql_start_table_lock_wait_def inline_mysql_end_table_lock_wait_def
  inline_mysql_unlock_table_def inline_mysql_start_idle_wait_def inline_mysql_end_idle_wait_def
  inline_mysql_create_prepared_stmt_def inline_mysql_execute_prepared_stmt_def
  inline_mysql_destroy_prepared_stmt_def inline_mysql_reprepare_prepared_stmt_def
  inline_mysql_start_sp_def inline_mysql_end_sp_def inline_mysql_drop_sp_def

text \<open>A last call into the instrumentation.\<close>

lemma judged_hook_last [judging]:
  "judged st s (io_bind (hook e h) io_ret) Q \<Longrightarrow> judged st s (hook e h) Q"
  by simp

lemma judged_guarded [judging]:
  fixes e :: "('s, 'p) host"
  assumes "p \<noteq> 0 \<Longrightarrow> judged st s (io_bind (hook e (Of_server h)) (\<lambda>_. io_ret ())) Q"
    and "p = 0 \<Longrightarrow> judged st s (io_ret () :: ('s, 'p, unit) io) Q"
  shows "judged st s (when_not_null e p h) Q"
  unfolding when_not_null_def using assms by (cases "p = 0") (simp_all add: io_then_def io_when_def)

lemma judged_keeping:
  assumes "judged st s (f l) (\<lambda>_ t. Q l t)"
  shows "judged st s (keeping f l) Q"
  unfolding keeping_def io_then_def using assms by (rule judged_bind) (rule judged_ret)

interpretation statement_sessions: instrumented_session "statements e" for e :: "('s, 'p) host"
proof
  fix f assume "f \<in> starts (statements e)"
  then show "judged (session_step (part_of (statements e))) Closed f (\<lambda>l s. s = open_with l)"
    unfolding statements_def session_kind.simps
    by clarify (unfold statement_defs; intro judging; simp add: open_with_def)
next
  fix g l assume "g \<in> updates (statements e)"
  then show "judged (session_step (part_of (statements e))) (open_with l) (g l) (\<lambda>l' s. s = open_with l')"
    unfolding statements_def session_kind.simps
    by (elim UnE imageE CollectE exE conjE insertE emptyE; hypsubst?; (intro judged_keeping)?;
        unfold statement_defs; intro judging; simp add: open_with_def)
next
  fix h l assume "h \<in> finishes (statements e)"
  then show "judged (session_step (part_of (statements e))) (open_with l) (h l) (\<lambda>_ s. s = Closed)"
    unfolding statements_def session_kind.simps
    by (elim CollectE exE conjE insertE emptyE; hypsubst; unfold statement_defs; intro judging; simp add: open_with_def)
qed

interpretation transaction_sessions: instrumented_session "transactions e" for e :: "('s, 'p) host"
proof
  fix f assume "f \<in> starts (transactions e)"
  then show "judged (session_step (part_of (transactions e))) Closed f (\<lambda>l s. s = open_with l)"
    unfolding transactions_def session_kind.simps
    by clarify (unfold transaction_defs; intro judging; simp add: open_with_def)
next
  fix g l assume "g \<in> updates (transactions e)"
  then show "judged (session_step (part_of (transactions e))) (open_with l) (g l) (\<lambda>l' s. s = open_with l')"
    unfolding transactions_def session_kind.simps
    by (elim UnE imageE CollectE exE conjE insertE emptyE; hypsubst?; (intro judged_keeping)?;
        unfold transaction_defs; intro judging; simp add: open_with_def)
next
  fix h l assume "h \<in> finishes (transactions e)"
  then show "judged (session_step (part_of (transactions e))) (open_with l) (h l) (\<lambda>_ s. s = Closed)"
    unfolding transactions_def session_kind.simps
    by (elim CollectE exE conjE insertE emptyE; hypsubst; unfold transaction_defs; intro judging; simp add: open_with_def)
qed

interpretation table_sessions: instrumented_session "table_waits e" for e :: "('s, 'p) host"
proof
  fix f assume "f \<in> starts (table_waits e)"
  then show "judged (session_step (part_of (table_waits e))) Closed f (\<lambda>l s. s = open_with l)"
    unfolding table_waits_def session_kind.simps
    by clarify (unfold other_session_defs; intro judging; simp add: open_with_def)
next
  fix g l assume "g \<in> updates (table_waits e)"
  then show "judged (session_step (part_of (table_waits e))) (open_with l) (g l) (\<lambda>l' s. s = open_with l')"
    unfolding table_waits_def session_kind.simps
    by (elim UnE imageE CollectE exE conjE insertE emptyE; hypsubst?; (intro judged_keeping)?;
        unfold other_session_defs; intro judging; simp add: open_with_def)
next
  fix h l assume "h \<in> finishes (table_waits e)"
  then show "judged (session_step (part_of (table_waits e))) (open_with l) (h l) (\<lambda>_ s. s = Closed)"
    unfolding table_waits_def session_kind.simps
    by (elim CollectE exE conjE insertE emptyE; hypsubst; unfold other_session_defs; intro judging; simp add: open_with_def)
qed

interpretation idle_sessions: instrumented_session "idle_waits e" for e :: "('s, 'p) host"
proof
  fix f assume "f \<in> starts (idle_waits e)"
  then show "judged (session_step (part_of (idle_waits e))) Closed f (\<lambda>l s. s = open_with l)"
    unfolding idle_waits_def session_kind.simps
    by clarify (unfold other_session_defs; intro judging; simp add: open_with_def)
next
  fix g l assume "g \<in> updates (idle_waits e)"
  then show "judged (session_step (part_of (idle_waits e))) (open_with l) (g l) (\<lambda>l' s. s = open_with l')"
    unfolding idle_waits_def session_kind.simps
    by (elim UnE imageE CollectE exE conjE insertE emptyE; hypsubst?; (intro judged_keeping)?;
        unfold other_session_defs; intro judging; simp add: open_with_def)
next
  fix h l assume "h \<in> finishes (idle_waits e)"
  then show "judged (session_step (part_of (idle_waits e))) (open_with l) (h l) (\<lambda>_ s. s = Closed)"
    unfolding idle_waits_def session_kind.simps
    by (elim CollectE exE conjE insertE emptyE; hypsubst; unfold other_session_defs; intro judging; simp add: open_with_def)
qed

interpretation prepared_sessions: instrumented_session "prepared_statements e" for e :: "('s, 'p) host"
proof
  fix f assume "f \<in> starts (prepared_statements e)"
  then show "judged (session_step (part_of (prepared_statements e))) Closed f (\<lambda>l s. s = open_with l)"
    unfolding prepared_statements_def session_kind.simps
    by clarify (unfold other_session_defs; intro judging; simp add: open_with_def)
next
  fix g l assume "g \<in> updates (prepared_statements e)"
  then show "judged (session_step (part_of (prepared_statements e))) (open_with l) (g l) (\<lambda>l' s. s = open_with l')"
    unfolding prepared_statements_def session_kind.simps
    by (elim UnE imageE CollectE exE conjE insertE emptyE; hypsubst?; (intro judged_keeping)?;
        unfold other_session_defs; intro judging; simp add: open_with_def)
next
  fix h l assume "h \<in> finishes (prepared_statements e)"
  then show "judged (session_step (part_of (prepared_statements e))) (open_with l) (h l) (\<lambda>_ s. s = Closed)"
    unfolding prepared_statements_def session_kind.simps
    by (elim CollectE exE conjE insertE emptyE; hypsubst; unfold other_session_defs; intro judging; simp add: open_with_def)
qed

interpretation program_sessions: instrumented_session "stored_programs e" for e :: "('s, 'p) host"
proof
  fix f assume "f \<in> starts (stored_programs e)"
  then show "judged (session_step (part_of (stored_programs e))) Closed f (\<lambda>l s. s = open_with l)"
    unfolding stored_programs_def session_kind.simps
    by clarify (unfold other_session_defs; intro judging; simp add: open_with_def)
next
  fix g l assume "g \<in> updates (stored_programs e)"
  then show "judged (session_step (part_of (stored_programs e))) (open_with l) (g l) (\<lambda>l' s. s = open_with l')"
    unfolding stored_programs_def session_kind.simps
    by (elim UnE imageE CollectE exE conjE insertE emptyE; hypsubst?; (intro judged_keeping)?;
        unfold other_session_defs; intro judging; simp add: open_with_def)
next
  fix h l assume "h \<in> finishes (stored_programs e)"
  then show "judged (session_step (part_of (stored_programs e))) (open_with l) (h l) (\<lambda>_ s. s = Closed)"
    unfolding stored_programs_def session_kind.simps
    by (elim CollectE exE conjE insertE emptyE; hypsubst; unfold other_session_defs; intro judging; simp add: open_with_def)
qed

text \<open>The kinds together.\<close>

definition session_kinds :: "('s, 'p) host \<Rightarrow> ('s, 'p) session_kind set" where
  "session_kinds e = {statements e, transactions e, table_waits e, idle_waits e, prepared_statements e, stored_programs e}"

lemma session_calls_in_order:
  assumes "k \<in> session_kinds e" and "(session_run k)\<^sup>*\<^sup>* (False, l, w) (b, l', w')"
  shows "run_events (session_step (part_of k)) Closed (drop (length (events w)) (events w')) =
    Some (if b then open_with l' else Closed)"
  using assms unfolding session_kinds_def
  by (elim insertE emptyE; hypsubst)
     (simp_all only: statement_sessions.calls_in_order transaction_sessions.calls_in_order
       table_sessions.calls_in_order idle_sessions.calls_in_order prepared_sessions.calls_in_order
       program_sessions.calls_in_order)

section \<open>The progress of a stage\<close>

lemma stage_counters:
  "inline_mysql_stage_get_work_completed (inline_mysql_stage_inc_work_completed
     (inline_mysql_stage_set_work_completed (Some p) v) d) = Inr (v + d)"
  "inline_mysql_stage_get_work_estimated (inline_mysql_stage_set_work_estimated (Some p) v) = Inr v"
  "inline_mysql_stage_get_work_completed (inline_mysql_stage_set_work_completed None v) = Inl Null_Deref"
  by (simp_all add: inline_mysql_stage_get_work_completed_def inline_mysql_stage_inc_work_completed_def
      inline_mysql_stage_set_work_completed_def inline_mysql_stage_get_work_estimated_def
      inline_mysql_stage_set_work_estimated_def)

end
