(* ===== verification/Psi_Properties.thy ===== *)
theory Psi_Properties
  imports Psi_Lives Psi_File Psi_Socket Psi_Statement
begin

text \<open>
  The properties of the instrumentation headers: an instrumented call is the plain call, with
  its waits closed; the instrumentation is handed only what it has handed out; and the bytes it
  is told of.
\<close>

lemmas lock_defs = native_mutex_init_def native_mutex_lock_def native_mutex_trylock_def native_mutex_unlock_def native_mutex_destroy_def my_mutex_init_def my_mutex_lock_def my_mutex_trylock_def my_mutex_unlock_def my_mutex_destroy_def native_rw_init_def native_rw_destroy_def native_rw_rdlock_def native_rw_tryrdlock_def native_rw_wrlock_def native_rw_trywrlock_def native_rw_unlock_def native_cond_init_def native_cond_destroy_def native_cond_timedwait_def native_cond_wait_def native_cond_signal_def native_cond_broadcast_def my_cond_timedwait_def my_cond_wait_def inline_mysql_mutex_init_def inline_mysql_mutex_destroy_def inline_mysql_mutex_lock_def inline_mysql_mutex_trylock_def inline_mysql_mutex_unlock_def inline_mysql_rwlock_init_def inline_mysql_prlock_init_def inline_mysql_rwlock_destroy_def inline_mysql_prlock_destroy_def inline_mysql_rwlock_rdlock_def inline_mysql_prlock_rdlock_def inline_mysql_rwlock_wrlock_def inline_mysql_prlock_wrlock_def inline_mysql_rwlock_tryrdlock_def inline_mysql_rwlock_trywrlock_def inline_mysql_rwlock_unlock_def inline_mysql_prlock_unlock_def inline_mysql_cond_init_def inline_mysql_cond_destroy_def inline_mysql_cond_wait_def inline_mysql_cond_timedwait_def inline_mysql_cond_signal_def inline_mysql_cond_broadcast_def

text \<open>C36: An instrumented lock is the lock: whatever the instrumentation answers, in a build with or
  without it, each function of \<^verbatim>\<open>mysql_thread.h\<close> makes the calls of the plain function in their
  order, returns its result and leaves the system in its state; and every wait it announces it ends
  exactly once, with that result.\<close>

theorem instrumented_locks_transparent:
  "stands_for fst (inline_mysql_mutex_init e key m attr pl) (my_mutex_init e (m_mutex m) attr pl) \<and>
    stands_for fst (inline_mysql_mutex_destroy e m pl) (my_mutex_destroy e (m_mutex m) pl) \<and>
    stands_for id (inline_mysql_mutex_lock e m pl) (my_mutex_lock e (m_mutex m) pl) \<and>
    stands_for id (inline_mysql_mutex_trylock e m pl) (my_mutex_trylock e (m_mutex m) pl) \<and>
    stands_for id (inline_mysql_mutex_unlock e m pl) (my_mutex_unlock e (m_mutex m) pl) \<and>
    stands_for fst (inline_mysql_rwlock_init e key rw) (native_rw_init e (m_rwlock rw)) \<and>
    stands_for fst (inline_mysql_prlock_init e key pr) (native e (Lock (Rw_pr_init (m_prlock pr)))) \<and>
    stands_for fst (inline_mysql_rwlock_destroy e rw) (native_rw_destroy e (m_rwlock rw)) \<and>
    stands_for fst (inline_mysql_prlock_destroy e pr) (native e (Lock (Rw_pr_destroy (m_prlock pr)))) \<and>
    stands_for id (inline_mysql_rwlock_rdlock e rw pl) (native_rw_rdlock e (m_rwlock rw)) \<and>
    stands_for id (inline_mysql_prlock_rdlock e pr pl) (native e (Lock (Rw_pr_rdlock (m_prlock pr)))) \<and>
    stands_for id (inline_mysql_rwlock_wrlock e rw pl) (native_rw_wrlock e (m_rwlock rw)) \<and>
    stands_for id (inline_mysql_prlock_wrlock e pr pl) (native e (Lock (Rw_pr_wrlock (m_prlock pr)))) \<and>
    stands_for id (inline_mysql_rwlock_tryrdlock e rw pl) (native_rw_tryrdlock e (m_rwlock rw)) \<and>
    stands_for id (inline_mysql_rwlock_trywrlock e rw pl) (native_rw_trywrlock e (m_rwlock rw)) \<and>
    stands_for id (inline_mysql_rwlock_unlock e rw) (native_rw_unlock e (m_rwlock rw)) \<and>
    stands_for id (inline_mysql_prlock_unlock e pr) (native e (Lock (Rw_pr_unlock (m_prlock pr)))) \<and>
    stands_for fst (inline_mysql_cond_init e key c) (native_cond_init e (m_cond c)) \<and>
    stands_for fst (inline_mysql_cond_destroy e c) (native_cond_destroy e (m_cond c)) \<and>
    stands_for id (inline_mysql_cond_wait e c m pl) (my_cond_wait e (m_cond c) (m_mutex m) pl) \<and>
    stands_for id (inline_mysql_cond_timedwait e c m abstime pl) (my_cond_timedwait e (m_cond c) (m_mutex m) abstime pl) \<and>
    stands_for id (inline_mysql_cond_signal e c) (native_cond_signal e (m_cond c)) \<and>
    stands_for id (inline_mysql_cond_broadcast e c) (native_cond_broadcast e (m_cond c))"
  unfolding lock_defs native_if Let_def by (intro conjI stands_forI waits; simp)

lemmas file_defs = inline_mysql_file_fgets_def inline_mysql_file_fgetc_def inline_mysql_file_fputs_def inline_mysql_file_fputc_def inline_mysql_file_fprintf_def inline_mysql_file_vfprintf_def inline_mysql_file_fflush_def inline_mysql_file_fread_def inline_mysql_file_fwrite_def inline_mysql_file_fseek_def inline_mysql_file_ftell_def inline_mysql_file_fstat_def inline_mysql_file_stat_def inline_mysql_file_chsize_def inline_mysql_file_create_def inline_mysql_file_create_temp_def inline_mysql_file_open_def inline_mysql_file_close_def inline_mysql_file_read_def inline_mysql_file_write_def inline_mysql_file_pread_def inline_mysql_file_pwrite_def inline_mysql_file_seek_def inline_mysql_file_tell_def inline_mysql_file_delete_def inline_mysql_file_rename_def inline_mysql_file_create_with_symlink_def inline_mysql_file_delete_with_symlink_def inline_mysql_file_rename_with_symlink_def inline_mysql_file_sync_def

lemma fopen_stands: "stands_for (map_option m_file) (inline_mysql_file_fopen e key pl filename flags myFlags)
    (plain_fopen e filename flags myFlags)"
  unfolding inline_mysql_file_fopen_def plain_fopen_def
  by (rule stands_forI, rule within_native_bind, rule within_choice, rule within_ret, simp, rule within_ask;
    intro within_choice waits; simp)

lemma fclose_stands: "stands_for id (inline_mysql_file_fclose e pl opened flags)
    (plain_fclose e (map_option (\<lambda>s. (file_addr s, m_file s)) opened) flags)"
proof (cases opened)
  case None
  then show ?thesis by (simp add: inline_mysql_file_fclose_def plain_fclose_def stands_forI within_ret)
next
  case (Some s)
  then show ?thesis
    by (simp add: inline_mysql_file_fclose_def plain_fclose_def del: io_bind_ret)
       (rule stands_forI, intro waits; simp)
qed

lemmas socket_defs = inline_mysql_socket_bind_def inline_mysql_socket_getsockname_def inline_mysql_socket_connect_def inline_mysql_socket_getpeername_def inline_mysql_socket_send_def inline_mysql_socket_recv_def inline_mysql_socket_sendto_def inline_mysql_socket_recvfrom_def inline_mysql_socket_getsockopt_def inline_mysql_socket_setsockopt_def inline_mysql_socket_listen_def inline_mysql_socket_close_def inline_mysql_socket_shutdown_def inline_mysql_socket_socket_def inline_mysql_socket_accept_def

lemma set_socket_nonblock_within:
  "within Idle (set_socket_nonblock e fd) (set_socket_nonblock e fd) (\<lambda>x y t. x = y \<and> t = Idle)"
  "within (Waiting l seen) (set_socket_nonblock e fd) (set_socket_nonblock e fd) (\<lambda>x y t. x = y \<and> (\<exists>z. t = Waiting l z))"
  unfolding set_socket_nonblock_def by (intro within_choice within_look waits; simp)+

lemma set_nonblocking_stands:
  "stands_for id (inline_mysql_sock_set_nonblocking e pl s) (set_socket_nonblock e (sock_fd s))"
proof -
  have around: "within (Waiting l None) (io_bind (set_socket_nonblock e (sock_fd s)) (\<lambda>result.
      io_then (io_when (l \<noteq> 0) (hook e (End_socket_wait l 0))) (io_ret result)))
      (io_bind (set_socket_nonblock e (sock_fd s)) io_ret) (\<lambda>x y t. id x = y \<and> t = Idle)" if "l \<noteq> 0" for l
    by (rule within_bind [OF set_socket_nonblock_within(2)], elim conjE exE, hypsubst, intro waits; simp add: that)
  have alone: "within Idle (set_socket_nonblock e (sock_fd s)) (set_socket_nonblock e (sock_fd s)) (\<lambda>x y t. id x = y \<and> t = Idle)"
    using set_socket_nonblock_within(1) by simp
  show ?thesis
    unfolding inline_mysql_sock_set_nonblocking_def
    by (rule stands_forI, rule within_if, rule wait_starts)
       (use around alone in \<open>simp_all add: io_then_def io_when_def\<close>)
qed

lemma nonblocking_counts: "reports_count (count_is 0) (inline_mysql_sock_set_nonblocking e pl s)"
  by (simp add: reports_count_def inline_mysql_sock_set_nonblocking_def set_socket_nonblock_def io_run split_beta)

text \<open>
  \<open>accept\<close> is not in the next property. The instrumented function hands the system a copy \<open>n\<close> of the
  caller's length; the length the system writes goes to the instrumentation only, and the caller's
  variable keeps \<open>n\<close>, where \<^verbatim>\<open>accept\<close> would have written it. In the rest it is \<^verbatim>\<open>accept\<close>.
\<close>

lemma accept_on_a_copy:
  "stands_for sock_fd (inline_mysql_socket_accept e pl key s addr (Some n)) (native e (Sock (Accept (sock_fd s) addr n)))"
  unfolding inline_mysql_socket_accept_def Let_def option.case by (rule stands_forI, intro waits; simp)

lemma accept_counts: "reports_count (count_is 0) (inline_mysql_socket_accept e pl key s addr known)"
  by (simp add: inline_mysql_socket_accept_def Let_def reports_count_def io_run split_beta)

text \<open>C37: For files (streams, descriptors and names) and sockets: each function but \<open>accept\<close> makes
  the calls of the plain function, returns its result and leaves the system in its state, whatever the
  instrumentation answers; it ends every wait it announces exactly once, with the result of the call,
  or, where a number of bytes is reported, with exactly that of the call (\<open>moved\<close>, \<open>sent_bytes\<close>, the
  length of the string, the new size, 1 for a character, otherwise 0). \<open>fopen\<close> and \<open>fclose\<close> stand for the
  calls that allocate and free the structure around the C library's, and what is put between the
  start and the end of the wait macros behaves as if it were alone.\<close>

theorem instrumented_io_transparent:
  "stands_counting (\<lambda>r _ s. if r \<noteq> 0 then os_strlen e r s else 0) (inline_mysql_file_fgets e pl str limit stream) (native e (File (Fgets str limit (m_file stream)))) \<and>
    stands_counting (count_is 1) (inline_mysql_file_fgetc e pl stream) (native e (File (Fgetc (m_file stream)))) \<and>
    stands_counting (\<lambda>_ s _. if str \<noteq> 0 then os_strlen e str s else 0) (inline_mysql_file_fputs e pl str stream) (native e (File (Fputs str (m_file stream)))) \<and>
    stands_counting (count_is 1) (inline_mysql_file_fputc e pl c stream) (native e (File (Fputc c (m_file stream)))) \<and>
    stands_counting (\<lambda>r _ _. as_size_t r) (inline_mysql_file_fprintf e stream format args) (native e (File (Vfprintf (m_file stream) format args))) \<and>
    stands_counting (\<lambda>r _ _. as_size_t r) (inline_mysql_file_vfprintf e pl stream format args) (native e (File (Vfprintf (m_file stream) format args))) \<and>
    stands_counting (count_is 0) (inline_mysql_file_fflush e pl stream) (native e (File (Fflush (m_file stream)))) \<and>
    stands_counting (\<lambda>r _ _. moved flags n r) (inline_mysql_file_fread e pl stream buffer n flags) (native e (File (My_fread (m_file stream) buffer n flags))) \<and>
    stands_counting (\<lambda>r _ _. moved flags n r) (inline_mysql_file_fwrite e pl stream buffer n flags) (native e (File (My_fwrite (m_file stream) buffer n flags))) \<and>
    stands_counting (count_is 0) (inline_mysql_file_fseek e pl stream pos whence flags) (native e (File (My_fseek (m_file stream) pos whence flags))) \<and>
    stands_counting (count_is 0) (inline_mysql_file_ftell e pl stream flags) (native e (File (My_ftell (m_file stream) flags))) \<and>
    stands_counting (count_is 0) (inline_mysql_file_fstat e pl filenr stat_area flags) (native e (File (My_fstat filenr stat_area flags))) \<and>
    stands_for id (inline_mysql_file_stat e key pl path stat_area flags) (native e (File (My_stat path stat_area flags))) \<and>
    stands_counting (count_is (as_size_t newlength)) (inline_mysql_file_chsize e pl file newlength filler flags) (native e (File (My_chsize file newlength filler flags))) \<and>
    stands_for id (inline_mysql_file_create e key pl filename create_flags access_flags myFlags) (native e (File (My_create filename create_flags access_flags myFlags))) \<and>
    stands_for id (inline_mysql_file_create_temp e key pl to dir pfx mode myFlags) (native e (File (Create_temp_file to dir pfx mode myFlags))) \<and>
    stands_for id (inline_mysql_file_open e key pl filename flags myFlags) (native e (File (My_open filename flags myFlags))) \<and>
    stands_for id (inline_mysql_file_close e pl file flags) (native e (File (My_close file flags))) \<and>
    stands_counting (\<lambda>r _ _. moved flags n r) (inline_mysql_file_read e pl file buffer n flags) (native e (File (My_read file buffer n flags))) \<and>
    stands_counting (\<lambda>r _ _. moved flags n r) (inline_mysql_file_write e pl file buffer n flags) (native e (File (My_write file buffer n flags))) \<and>
    stands_counting (\<lambda>r _ _. moved flags n r) (inline_mysql_file_pread e pl file buffer n offset flags) (native e (File (My_pread file buffer n offset flags))) \<and>
    stands_counting (\<lambda>r _ _. moved flags n r) (inline_mysql_file_pwrite e pl file buffer n offset flags) (native e (File (My_pwrite file buffer n offset flags))) \<and>
    stands_counting (count_is 0) (inline_mysql_file_seek e pl file pos whence flags) (native e (File (My_seek file pos whence flags))) \<and>
    stands_counting (count_is 0) (inline_mysql_file_tell e pl file flags) (native e (File (My_tell file flags))) \<and>
    stands_for id (inline_mysql_file_delete e key pl name flags) (native e (File (My_delete name flags))) \<and>
    stands_counting (count_is 0) (inline_mysql_file_rename e key pl old to flags) (native e (File (My_rename old to flags))) \<and>
    stands_for id (inline_mysql_file_create_with_symlink e key pl linkname filename create_flags access_flags flags) (native e (File (My_create_with_symlink linkname filename create_flags access_flags flags))) \<and>
    stands_for id (inline_mysql_file_delete_with_symlink e key pl name flags) (native e (File (My_delete_with_symlink name flags))) \<and>
    stands_counting (count_is 0) (inline_mysql_file_rename_with_symlink e key pl old to flags) (native e (File (My_rename_with_symlink old to flags))) \<and>
    stands_counting (count_is 0) (inline_mysql_file_sync e pl fd flags) (native e (File (My_sync fd flags))) \<and>
    stands_for (map_option m_file) (inline_mysql_file_fopen e key pl filename flags myFlags) (plain_fopen e filename flags myFlags) \<and>
    stands_for id (inline_mysql_file_fclose e pl opened flags) (plain_fclose e (map_option (\<lambda>s. (file_addr s, m_file s)) opened) flags) \<and>
    stands_counting (count_is 0) (inline_mysql_socket_bind e pl s addr len) (native e (Sock (Bind (sock_fd s) addr len))) \<and>
    stands_counting (count_is 0) (inline_mysql_socket_getsockname e pl s addr len_at) (native e (Sock (Getsockname (sock_fd s) addr len_at))) \<and>
    stands_counting (count_is 0) (inline_mysql_socket_connect e pl s addr len) (native e (Sock (Connect (sock_fd s) addr len))) \<and>
    stands_counting (count_is 0) (inline_mysql_socket_getpeername e pl s addr len_at) (native e (Sock (Getpeername (sock_fd s) addr len_at))) \<and>
    stands_counting (\<lambda>r _ _. sent_bytes r) (inline_mysql_socket_send e pl s buf n flags) (native e (Sock (Send (sock_fd s) buf n flags))) \<and>
    stands_counting (\<lambda>r _ _. sent_bytes r) (inline_mysql_socket_recv e pl s buf n flags) (native e (Sock (Recv (sock_fd s) buf n flags))) \<and>
    stands_counting (\<lambda>r _ _. sent_bytes r) (inline_mysql_socket_sendto e pl s buf n flags addr addr_len) (native e (Sock (Sendto (sock_fd s) buf n flags addr addr_len))) \<and>
    stands_counting (\<lambda>r _ _. sent_bytes r) (inline_mysql_socket_recvfrom e pl s buf n flags addr len_at) (native e (Sock (Recvfrom (sock_fd s) buf n flags addr len_at))) \<and>
    stands_counting (count_is 0) (inline_mysql_socket_getsockopt e pl s level optname optval optlen_at) (native e (Sock (Getsockopt (sock_fd s) level optname optval optlen_at))) \<and>
    stands_counting (count_is 0) (inline_mysql_socket_setsockopt e pl s level optname optval optlen) (native e (Sock (Setsockopt (sock_fd s) level optname optval optlen))) \<and>
    stands_counting (count_is 0) (inline_mysql_socket_listen e pl s backlog) (native e (Sock (Listen (sock_fd s) backlog))) \<and>
    stands_counting (count_is 0) (inline_mysql_socket_close e pl s) (native e (Sock (Closesocket (sock_fd s)))) \<and>
    stands_counting (count_is 0) (inline_mysql_socket_shutdown e pl s how) (native e (Sock (Shutdown (sock_fd s) how))) \<and>
    stands_for sock_fd (inline_mysql_socket_socket e key domain type protocol) (native e (Sock (Socket domain type protocol))) \<and>
    stands_counting (count_is 0) (inline_mysql_sock_set_nonblocking e pl s) (set_socket_nonblock e (sock_fd s)) \<and>
    stands_counting (count_is k) (io_bind (inline_mysql_start_socket_wait e s op n pl) (\<lambda>locker. io_bind (native e call) (\<lambda>r.
      io_then (inline_mysql_end_socket_wait e locker k) (io_ret r)))) (native e call)"
  unfolding stands_counting_def
  by (intro conjI fopen_stands fclose_stands set_nonblocking_stands nonblocking_counts;
    (unfold file_defs socket_defs inline_mysql_start_socket_wait_def inline_mysql_end_socket_wait_def Let_def,
     (rule stands_forI, intro waits; simp | simp add: reports_count_def io_run split_beta)))

section \<open>Handles\<close>

text \<open>C38: The instrumentation is handed only what it has handed out: over any sequence of operations
  on a mutex, a lock or a condition (initialised, used, destroyed, used or destroyed again,
  initialised again), every call passes a handle that an init has returned and no destroy has given
  back. A ready object has one handle out, or none if the instrumentation declined; no other is out.\<close>

theorem lock_handles_in_order:
  assumes "(life (mutex_inits e) (mutex_destroys e) (mutex_uses e))\<^sup>*\<^sup>* (Raw, m, w1) (st1, m', w1')"
    and "(life (rwlock_inits e) (rwlock_destroys e) (rwlock_uses e))\<^sup>*\<^sup>* (Raw, l, w2) (st2, l', w2')"
    and "(life (prlock_inits e) (prlock_destroys e) (prlock_uses e))\<^sup>*\<^sup>* (Raw, p, w3) (st3, p', w3')"
    and "(life (cond_inits e) (cond_destroys e) (cond_uses e others))\<^sup>*\<^sup>* (Raw, c, w4) (st4, c', w4')"
  shows "run_events live_step others (drop (length (events w1)) (events w1')) =
      Some (if st1 = Ready then others + handle (mutex_psi m') else others) \<and>
    run_events live_step others (drop (length (events w2)) (events w2')) =
      Some (if st2 = Ready then others + handle (rwlock_psi l') else others) \<and>
    run_events live_step others (drop (length (events w3)) (events w3')) =
      Some (if st3 = Ready then others + handle (prlock_psi p') else others) \<and>
    run_events live_step others (drop (length (events w4)) (events w4')) =
      Some (if st4 = Ready then others + handle (cond_psi c') else others)"
  using mutex_object.never_refused [OF assms(1)] rwlock_object.never_refused [OF assms(2)]
    prlock_object.never_refused [OF assms(3)] cond_object.never_refused [OF assms(4)] by blast

text \<open>A system in which every call returns 0 and an instrumentation that answers 5.\<close>

definition quiet_host :: "int \<Rightarrow> (unit, unit) host" where
  "quiet_host r = \<lparr>have_psi = True, safe_mutex = False, os_call = (\<lambda>c s. (r, s)), os_strlen = (\<lambda>p s. 0),
     os_errno = (\<lambda>s. 0), os_addr_length = (\<lambda>s. 0), psi_call = (\<lambda>h p. (5, p))\<rparr>"

definition quiet :: "(unit, unit) process" where
  "quiet = \<lparr>os = (), psi = (), events = []\<rparr>"

theorem lock_handles_in_order_witness:
  "\<exists>m' w. (life (mutex_inits (quiet_host 0)) (mutex_destroys (quiet_host 0)) (mutex_uses (quiet_host 0)))\<^sup>*\<^sup>*
      (Raw, \<lparr>m_mutex = 1, mutex_psi = 9\<rparr>, quiet) (Destroyed, m', w) \<and> length (events w) = 7 \<and>
     run_events live_step {#} (events w) = Some {#}"
proof -
  let ?e = "quiet_host 0"
  let ?m = "\<lparr>m_mutex = 1, mutex_psi = 9\<rparr>" and ?n = "\<lparr>m_mutex = 1, mutex_psi = 5\<rparr>"
  define i where "i = (\<lambda>l. inline_mysql_mutex_init ?e 3 l 0 ([], 0))"
  define u where "u = (\<lambda>l. inline_mysql_mutex_lock ?e l ([], 0))"
  define d where "d = (\<lambda>l. inline_mysql_mutex_destroy ?e l ([], 0))"
  have sets: "i \<in> mutex_inits ?e" "u \<in> mutex_uses ?e" "d \<in> mutex_destroys ?e"
    by (auto simp: mutex_inits_def mutex_uses_def mutex_destroys_def i_def u_def d_def)
  note run = io_run quiet_host_def quiet_def lock_life_defs
  obtain w1 where w1: "i ?m quiet = ((0, ?n), w1)" "length (events w1) = 2"
    by (simp add: i_def inline_mysql_mutex_init_def run)
  obtain w2 where w2: "u ?n w1 = (0, w2)" "length (events w2) = 5"
    using w1(2) by (simp add: u_def inline_mysql_mutex_lock_def run)
  obtain m' w3 where w3: "d ?n w2 = ((0, m'), w3)" "length (events w3) = 7"
    using w2(2) by (simp add: d_def inline_mysql_mutex_destroy_def run)
  have "life (mutex_inits ?e) (mutex_destroys ?e) (mutex_uses ?e) (Raw, ?m, quiet) (Ready, ?n, w1)"
    using sets(1) _ w1(1) by (rule Init) simp
  moreover have "life (mutex_inits ?e) (mutex_destroys ?e) (mutex_uses ?e) (Ready, ?n, w1) (Ready, ?n, w2)"
    using sets(2) _ w2(1) by (rule Use) simp
  moreover have "life (mutex_inits ?e) (mutex_destroys ?e) (mutex_uses ?e) (Ready, ?n, w2) (Destroyed, m', w3)"
    using sets(3) _ w3(1) by (rule Destroy) simp
  ultimately have r: "(life (mutex_inits ?e) (mutex_destroys ?e) (mutex_uses ?e))\<^sup>*\<^sup>*
      (Raw, ?m, quiet) (Destroyed, m', w3)"
    by (meson converse_rtranclp_into_rtranclp rtranclp.rtrancl_refl)
  from lock_handles_in_order [OF r rtranclp.rtrancl_refl rtranclp.rtrancl_refl rtranclp.rtrancl_refl, of "{#}"]
  have "run_events live_step {#} (events w3) = Some {#}" by (simp add: quiet_def)
  then show ?thesis using r w3(2) by blast
qed

section \<open>Sessions\<close>

text \<open>C39: For a caller that keeps the locker it was given last and works between a start and an end,
  the calls on statements, transactions, table locks, idle waits, prepared statements and stored
  programs are in order in every run: the instrumentation is passed only the locker of the session
  that is open, it is told of the end of each session it has opened once, and if it declines a
  session it is told nothing of it.\<close>

theorem sessions_in_order:
  assumes "k \<in> session_kinds e" and "(session_run k)\<^sup>*\<^sup>* (False, l, w) (b, l', w')"
  shows "run_events (session_step (part_of k)) Closed (drop (length (events w)) (events w')) =
    Some (if b then open_with l' else Closed)"
  using assms by (rule session_calls_in_order)

theorem sessions_in_order_witness:
  "\<exists>l w. (session_run (statements (quiet_host 0)))\<^sup>*\<^sup>* (False, 0, quiet) (False, l, w) \<and> length (events w) = 5 \<and>
     run_events (session_step statement_role) Closed (events w) = Some Closed"
proof -
  let ?e = "quiet_host 0"
  define f where "f = inline_mysql_start_statement ?e 1 2 3 4 5 ([], 0)"
  define g where "g = keeping (\<lambda>l. inline_mysql_set_statement_rows_sent ?e l 7)"
  define h where "h = (\<lambda>l. inline_mysql_end_statement ?e l 8)"
  have sets: "f \<in> starts (statements ?e)" "g \<in> updates (statements ?e)" "h \<in> finishes (statements ?e)"
    unfolding statements_def session_kind.simps f_def g_def h_def by blast+
  note run = io_run quiet_host_def quiet_def when_not_null_def keeping_def
  obtain w1 where w1: "f quiet = (5, w1)" "length (events w1) = 2"
    by (simp add: f_def inline_mysql_start_statement_def run)
  obtain w2 where w2: "g 5 w1 = (5, w2)" "length (events w2) = 3"
    using w1(2) by (simp add: g_def inline_mysql_set_statement_rows_sent_def run)
  obtain w3 where w3: "h 5 w2 = ((), w3)" "length (events w3) = 5"
    using w2(2) by (simp add: h_def inline_mysql_end_statement_def run)
  have r: "(session_run (statements ?e))\<^sup>*\<^sup>* (False, 0, quiet) (False, 5, w3)"
    using Start [OF sets(1) w1(1), of 0] Update [OF sets(2) w2(1)] Finish [OF sets(3) w3(1)]
    by (meson converse_rtranclp_into_rtranclp rtranclp.rtrancl_refl)
  have "statements ?e \<in> session_kinds ?e" by (simp add: session_kinds_def)
  from sessions_in_order [OF this r] have "run_events (session_step statement_role) Closed (events w3) = Some Closed"
    by (simp add: quiet_def statements_def)
  then show ?thesis using r w3(2) by blast
qed

section \<open>Bytes\<close>

text \<open>How many bytes a call asks for, and the results such a call can have: an error, or no more.\<close>

fun asked_bytes :: "native \<Rightarrow> nat option" where
  "asked_bytes (File (My_fread f b n fl)) = Some n"
| "asked_bytes (File (My_fwrite f b n fl)) = Some n"
| "asked_bytes (File (My_read f b n fl)) = Some n"
| "asked_bytes (File (My_write f b n fl)) = Some n"
| "asked_bytes (File (My_pread f b n off fl)) = Some n"
| "asked_bytes (File (My_pwrite f b n off fl)) = Some n"
| "asked_bytes (Sock (Send fd b n fl)) = Some n"
| "asked_bytes (Sock (Recv fd b n fl)) = Some n"
| "asked_bytes (Sock (Sendto fd b n fl a l)) = Some n"
| "asked_bytes (Sock (Recvfrom fd b n fl a l)) = Some n"
| "asked_bytes c = None"

definition within_asked :: "('s, 'p) host \<Rightarrow> bool" where
  "within_asked e \<longleftrightarrow> (\<forall>c s n. asked_bytes c = Some n \<longrightarrow>
     fst (os_call e c s) = -1 \<or> 0 \<le> fst (os_call e c s) \<and> nat (fst (os_call e c s)) \<le> n)"

fun bytes_step :: "nat \<Rightarrow> unit \<Rightarrow> event \<Rightarrow> unit option" where
  "bytes_step n u (Hook (End_file_wait l k) r) = (if k \<le> n then Some () else None)"
| "bytes_step n u (Hook (End_socket_wait l k) r) = (if k \<le> n then Some () else None)"
| "bytes_step n u x = Some ()"

definition reports_at_most :: "nat \<Rightarrow> ('s, 'p, 'a) io \<Rightarrow> bool" where
  "reports_at_most n m \<longleftrightarrow> judged (bytes_step n) () m (\<lambda>_ _. True)"

lemma as_size_t_le: "0 \<le> r \<Longrightarrow> nat r \<le> n \<Longrightarrow> as_size_t r \<le> n"
  unfolding as_size_t_def by (smt (verit) nat_mono zmod_le_nonneg_dividend le_trans)

lemma within_askedD:
  "within_asked e \<Longrightarrow> asked_bytes c = Some n \<Longrightarrow>
   fst (os_call e c s) = -1 \<or> 0 \<le> fst (os_call e c s) \<and> nat (fst (os_call e c s)) \<le> n"
  by (simp add: within_asked_def)

lemma moved_at_most:
  assumes "within_asked e" and "asked_bytes c = Some n"
  shows "moved flags n (fst (os_call e c s)) \<le> n"
  using within_askedD [OF assms, of s]
proof
  assume "fst (os_call e c s) = -1"
  then show ?thesis by (simp add: moved_def as_size_t_def MY_FILE_ERROR_def)
next
  assume "0 \<le> fst (os_call e c s) \<and> nat (fst (os_call e c s)) \<le> n"
  then have "as_size_t (fst (os_call e c s)) \<le> n" by (simp add: as_size_t_le)
  then show ?thesis by (simp add: moved_def)
qed

lemma sent_at_most:
  assumes "within_asked e" and "asked_bytes c = Some n"
  shows "sent_bytes (fst (os_call e c s)) \<le> n"
  using within_askedD [OF assms, of s] by (auto simp: sent_bytes_def as_size_t_le)

text \<open>C40: The bytes the instrumentation is told of are at most the bytes asked for, on errors and short
  counts too, if the system calls return an error or no more than they were asked for.\<close>

theorem reported_bytes_bounded:
  assumes "within_asked e"
  shows "reports_at_most n (inline_mysql_file_fread e pl stream b n flags) \<and>
    reports_at_most n (inline_mysql_file_fwrite e pl stream b n flags) \<and>
    reports_at_most n (inline_mysql_file_read e pl fd b n flags) \<and>
    reports_at_most n (inline_mysql_file_write e pl fd b n flags) \<and>
    reports_at_most n (inline_mysql_file_pread e pl fd b n offset flags) \<and>
    reports_at_most n (inline_mysql_file_pwrite e pl fd b n offset flags) \<and>
    reports_at_most n (inline_mysql_socket_send e pl s b n flags) \<and>
    reports_at_most n (inline_mysql_socket_recv e pl s b n flags) \<and>
    reports_at_most n (inline_mysql_socket_sendto e pl s b n flags addr addr_len) \<and>
    reports_at_most n (inline_mysql_socket_recvfrom e pl s b n flags addr len_at)"
  unfolding file_defs socket_defs reports_at_most_def
  by (intro conjI judging; simp add: moved_at_most [OF assms] sent_at_most [OF assms])

text \<open>A system that does all it is asked.\<close>

definition full_host :: "(unit, unit) host" where
  "full_host = (quiet_host 0)\<lparr>os_call := (\<lambda>c s. (case asked_bytes c of None \<Rightarrow> 0 | Some n \<Rightarrow> int n, s))\<rparr>"

theorem reported_bytes_bounded_witness:
  "reports_at_most 10 (inline_mysql_file_read full_host ([], 0) 3 0 10 0) \<and>
   events (snd (inline_mysql_file_read full_host ([], 0) 3 0 10 0 quiet)) =
     [Hook (Get_thread_file_descriptor_locker 3 PSI_FILE_READ) 5, Hook (Start_file_wait 5 10 ([], 0)) 5,
      Os (File (My_read 3 0 10 0)) 10, Hook (End_file_wait 5 10) 5]"
proof
  have "within_asked full_host" by (simp add: within_asked_def full_host_def quiet_host_def)
  then show "reports_at_most 10 (inline_mysql_file_read full_host ([], 0) 3 0 10 0)"
    using reported_bytes_bounded by blast
qed (simp add: inline_mysql_file_read_def io_run full_host_def quiet_host_def quiet_def moved_def as_size_t_def
    MY_FILE_ERROR_def MY_NABP_def MY_FNABP_def)

text \<open>
  The formatted output functions are different: a negative result is reported as a number of
  bytes, \<open>2 ^ 64 - 1\<close> for -1.
\<close>

lemma failed_vfprintf_reported:
  assumes "have_psi e" and "psi_call e (Get_thread_file_stream_locker (file_psi stream) PSI_FILE_WRITE) (psi w) = (locker, p)"
    and "locker \<noteq> 0" and "os_call e (File (Vfprintf (m_file stream) format args)) (os w) = (-1, s)"
  shows "\<exists>es r. events (snd (inline_mysql_file_vfprintf e pl stream format args w)) =
    events w @ es @ [Hook (End_file_wait locker (2 ^ 64 - 1)) r]"
  using assms by (simp add: inline_mysql_file_vfprintf_def io_run as_size_t_def split_beta)

end
