(* ===== verification/C_Memory.thy ===== *)
theory C_Memory
  imports Prelude
begin

text \<open>
  The part of C the program is written in: blocks of bytes with bounds and
  indeterminate contents, pointers into them, the integer promotion of \<open>char\<close>, and
  the functions of \<^verbatim>\<open>string.h\<close> / \<^verbatim>\<open>stdlib.h\<close> the sources call. Blocks are passed by
  value: a function that writes through a pointer returns the updated pointer.
\<close>

section \<open>Characters\<close>

text \<open>\<open>char\<close> is a signed byte; \<open>c_int\<close> is its promotion, \<open>to_char\<close> the conversion back.\<close>

abbreviation NUL :: char where "NUL \<equiv> CHR 0x00"

definition c_int :: "char \<Rightarrow> int" where
  "c_int c = (let n = of_char c in if n < 128 then n else n - 256)"

definition to_char :: "int \<Rightarrow> char" where
  "to_char i = char_of (i mod 256)"

definition crlf :: string where
  "crlf = [CHR 0x0D, CHR 0x0A]"

lemma of_char_bounds: "0 \<le> (of_char c :: int)" "(of_char c :: int) < 256"
proof -
  have "(of_char c :: int) = int (of_char c)" by (metis of_nat_of_char)
  then show "0 \<le> (of_char c :: int)" "(of_char c :: int) < 256"
    using nat_of_char_less_256 [of c] by linarith+
qed

lemma to_char_c_int [simp]: "to_char (c_int c) = c"
proof -
  have "c_int c mod 256 = of_char c"
    using of_char_bounds [of c] by (simp add: c_int_def Let_def)
  then show ?thesis by (simp add: to_char_def)
qed

lemma c_int_inject [simp]: "c_int c = c_int d \<longleftrightarrow> c = d"
  by (metis to_char_c_int)

section \<open>Blocks and pointers\<close>

text \<open>\<open>None\<close> is a byte that was never written.\<close>

type_synonym block = "char option list"

datatype ptr = Null | Ptr block int

definition padd :: "ptr \<Rightarrow> int \<Rightarrow> ptr" where
  "padd p k = (case p of Null \<Rightarrow> Null | Ptr b i \<Rightarrow> Ptr b (i + k))"

definition load :: "ptr \<Rightarrow> int \<Rightarrow> char res" where
  "load p k = (case p of
       Null \<Rightarrow> Inl Null_Deref
     | Ptr b i \<Rightarrow>
         if 0 \<le> i + k \<and> i + k < int (length b)
         then (case b ! nat (i + k) of None \<Rightarrow> Inl Uninit_Read | Some c \<Rightarrow> Inr c)
         else Inl Out_Of_Bounds)"

definition store :: "ptr \<Rightarrow> int \<Rightarrow> char \<Rightarrow> ptr res" where
  "store p k c = (case p of
       Null \<Rightarrow> Inl Null_Deref
     | Ptr b i \<Rightarrow>
         if 0 \<le> i + k \<and> i + k < int (length b)
         then Inr (Ptr (b[nat (i + k) := Some c]) i)
         else Inl Buffer_Overflow)"

text \<open>
  \<open>malloc\<close>: the argument is a \<open>size_t\<close>, so a negative \<open>int\<close> asks for more than any
  allocator gives and the result is null. Exhaustion of memory is not modelled.
\<close>

definition malloc :: "int \<Rightarrow> ptr" where
  "malloc n = (if n < 0 then Null else Ptr (replicate (nat n) None) 0)"

definition realloc :: "ptr \<Rightarrow> int \<Rightarrow> ptr" where
  "realloc p n = (case p of
       Null \<Rightarrow> malloc n
     | Ptr b i \<Rightarrow> if n < 0 then Null
         else Ptr (take (nat n) b @ replicate (nat n - length b) None) 0)"

text \<open>Conversion of an \<open>int\<close> argument to \<open>size_t\<close> (64 bits), as a number and as a count.\<close>

definition to_size_t :: "int \<Rightarrow> int" where
  "to_size_t n = (if n < 0 then n + 18446744073709551616 else n)"

definition size_t :: "int \<Rightarrow> nat" where
  "size_t n = nat (to_size_t n)"

definition literal :: "string \<Rightarrow> ptr" where
  "literal s = Ptr (map Some s @ [Some NUL]) 0"

text \<open>The bytes from a pointer on (none for a pointer outside its block).\<close>

definition from_ptr :: "ptr \<Rightarrow> block res" where
  "from_ptr p = (case p of
       Null \<Rightarrow> Inl Null_Deref
     | Ptr b i \<Rightarrow> if 0 \<le> i \<and> i \<le> int (length b) then Inr (drop (nat i) b)
         else Inl Out_Of_Bounds)"

section \<open>The C library\<close>

fun chars_to_nul :: "block \<Rightarrow> string res" where
  "chars_to_nul [] = Inl Out_Of_Bounds"
| "chars_to_nul (None # b) = Inl Uninit_Read"
| "chars_to_nul (Some c # b) =
     (if c = NUL then Inr [] else rmap (Cons c) (chars_to_nul b))"

definition c_string :: "ptr \<Rightarrow> string res" where
  "c_string p = rbind (from_ptr p) chars_to_nul"

definition strlen :: "ptr \<Rightarrow> int res" where
  "strlen p = rmap (\<lambda>s. int (length s)) (c_string p)"

text \<open>
  \<open>strncmp\<close> compares as unsigned characters, stops at the first difference, at a
  terminator or after \<open>n\<close> characters, and reads no byte beyond that point.
\<close>

fun cmp_bytes :: "nat \<Rightarrow> block \<Rightarrow> block \<Rightarrow> int res" where
  "cmp_bytes 0 a b = Inr 0"
| "cmp_bytes (Suc n) (Some c # a) (Some d # b) =
     (if c \<noteq> d then Inr (of_char c - of_char d)
      else if c = NUL then Inr 0 else cmp_bytes n a b)"
| "cmp_bytes (Suc n) [] b = Inl Out_Of_Bounds"
| "cmp_bytes (Suc n) (None # a) b = Inl Uninit_Read"
| "cmp_bytes (Suc n) (Some c # a) [] = Inl Out_Of_Bounds"
| "cmp_bytes (Suc n) (Some c # a) (None # b) = Inl Uninit_Read"

definition strncmp :: "ptr \<Rightarrow> ptr \<Rightarrow> nat \<Rightarrow> int res" where
  "strncmp p q n =
     (if n = 0 then Inr 0
      else rbind (from_ptr p) (\<lambda>a. rbind (from_ptr q) (\<lambda>b. cmp_bytes n a b)))"

fun copy_bytes :: "nat \<Rightarrow> block \<Rightarrow> string res" where
  "copy_bytes 0 b = Inr []"
| "copy_bytes (Suc n) [] = Inl Out_Of_Bounds"
| "copy_bytes (Suc n) (None # b) = Inl Uninit_Read"
| "copy_bytes (Suc n) (Some c # b) =
     (if c = NUL then Inr (replicate (Suc n) NUL) else rmap (Cons c) (copy_bytes n b))"

definition put_bytes :: "ptr \<Rightarrow> string \<Rightarrow> ptr res" where
  "put_bytes p cs = (case p of
       Null \<Rightarrow> Inl Null_Deref
     | Ptr b i \<Rightarrow>
         if 0 \<le> i \<and> i + int (length cs) \<le> int (length b)
         then Inr (Ptr (take (nat i) b @ map Some cs @ drop (nat i + length cs) b) i)
         else Inl Buffer_Overflow)"

definition room :: "ptr \<Rightarrow> int res" where
  "room p = (case p of Null \<Rightarrow> Inl Null_Deref | Ptr b i \<Rightarrow> Inr (int (length b) - i))"

text \<open>
  \<open>strncpy\<close> writes exactly \<open>n\<close> bytes, padding with terminators; its \<open>size_t\<close> count is
  given here as the \<open>int\<close> the callers pass.
\<close>

definition strncpy :: "ptr \<Rightarrow> ptr \<Rightarrow> int \<Rightarrow> ptr res" where
  "strncpy d s n =
     (if n = 0 then Inr d
      else rbind (room d) (\<lambda>r. if r < to_size_t n then Inl Buffer_Overflow
        else rbind (from_ptr s) (\<lambda>b. rbind (copy_bytes (size_t n) b) (put_bytes d))))"

text \<open>
  The idiom \<^verbatim>\<open>d=malloc(n+1); strncpy(d,src,n); d[n]=0;\<close> that the sources repeat.
\<close>

definition copy_n :: "ptr \<Rightarrow> int \<Rightarrow> ptr res" where
  "copy_n src n =
     rbind (strncpy (malloc (n + 1)) src n) (\<lambda>d. store d n NUL)"

definition strcmp :: "string \<Rightarrow> string \<Rightarrow> int" where
  "strcmp a b = (if a = b then 0 else if lexordp (\<lambda>x y. (of_char x :: nat) < of_char y) a b then -1 else 1)"

section \<open>What a pointer to a C string reads\<close>

text \<open>
  \<open>c_string p = Inr s\<close> says that \<open>p\<close> points to the terminated string \<open>s\<close>. The
  lemmas below turn every access through such a pointer into a fact about the list \<open>s\<close>.
\<close>

lemma chars_to_nul_iff:
  "chars_to_nul b = Inr s \<longleftrightarrow>
     (\<exists>r. b = map Some s @ Some NUL # r) \<and> NUL \<notin> set s"
proof (induction b arbitrary: s rule: chars_to_nul.induct)
  case (3 c b)
  show ?case
  proof (cases "c = NUL")
    case True
    then show ?thesis by (cases s) auto
  next
    case False
    then show ?thesis using 3 by (cases s) (auto simp: rmap_eq_Inr)
  qed
qed (auto simp: Cons_eq_append_conv)

lemma from_ptr_Inr:
  "from_ptr p = Inr b \<longleftrightarrow>
     (\<exists>c i. p = Ptr c i \<and> 0 \<le> i \<and> i \<le> int (length c) \<and> b = drop (nat i) c)"
  by (auto simp: from_ptr_def split: ptr.splits if_splits)

lemma c_stringE:
  assumes "c_string p = Inr s"
  obtains b i r where "p = Ptr b i" and "0 \<le> i" and "i \<le> int (length b)"
    and "drop (nat i) b = map Some s @ Some NUL # r" and "NUL \<notin> set s"
  using assms unfolding c_string_def rbind_eq_Inr from_ptr_Inr chars_to_nul_iff
  by (elim exE conjE) (rule that, auto)

lemma c_stringI:
  "0 \<le> i \<Longrightarrow> i \<le> int (length b) \<Longrightarrow> drop (nat i) b = map Some s @ Some NUL # r \<Longrightarrow>
     NUL \<notin> set s \<Longrightarrow> c_string (Ptr b i) = Inr s"
  by (auto simp: c_string_def from_ptr_def chars_to_nul_iff)

lemma c_string_no_nul [cstr]: "c_string p = Inr s \<Longrightarrow> NUL \<notin> set s"
  by (erule c_stringE) simp

lemma c_string_not_Null [cstr]: "c_string p = Inr s \<Longrightarrow> p \<noteq> Null"
  by (auto simp: c_string_def from_ptr_def)

lemma c_string_Null [simp]: "c_string Null = Inl Null_Deref"
  by (simp add: c_string_def from_ptr_def)

lemma drop_eq_append_nth:
  assumes "drop n b = xs @ ys" and "k < length xs"
  shows "n + k < length b \<and> b ! (n + k) = xs ! k"
proof -
  have *: "length (drop n b) = length xs + length ys" by (simp add: assms(1))
  then have len: "n + k < length b" using assms(2) by simp
  have "b ! (n + k) = drop n b ! k" using len by simp
  then show ?thesis using len assms by (simp add: nth_append)
qed

lemma c_string_load [cstr]:
  assumes "c_string p = Inr s" and "0 \<le> k" and "k < int (length s)"
  shows "load p k = Inr (s ! nat k)"
proof -
  obtain b i r where p: "p = Ptr b i" "0 \<le> i"
    and d: "drop (nat i) b = map Some s @ Some NUL # r"
    using assms(1) by (rule c_stringE)
  have "nat k < length (map Some s)" using assms(2,3) by simp
  from drop_eq_append_nth [OF d this] have "nat i + nat k < length b"
    and "b ! (nat i + nat k) = Some (s ! nat k)"
    using assms(2,3) by simp_all
  then show ?thesis using p assms(2) by (simp add: load_def nat_add_distrib)
qed

lemma c_string_load_end [cstr]:
  assumes "c_string p = Inr s" and "k = int (length s)"
  shows "load p k = Inr NUL"
proof -
  obtain b i r where p: "p = Ptr b i" "0 \<le> i"
    and d: "drop (nat i) b = map Some s @ Some NUL # r"
    using assms(1) by (rule c_stringE)
  have "drop (nat i) b = (map Some s @ [Some NUL]) @ r" using d by simp
  from drop_eq_append_nth [OF this, of "length s"]
  have "nat i + nat k < length b" and "b ! (nat i + nat k) = Some NUL"
    using assms(2) by (simp_all add: nth_append)
  then show ?thesis using p assms(2) by (simp add: load_def nat_add_distrib)
qed

lemma c_string_padd [cstr]:
  assumes "c_string p = Inr s" and "0 \<le> k" and "k \<le> int (length s)"
  shows "c_string (padd p k) = Inr (drop (nat k) s)"
proof -
  obtain b i r where p: "p = Ptr b i" "0 \<le> i" "i \<le> int (length b)"
    and d: "drop (nat i) b = map Some s @ Some NUL # r" and n: "NUL \<notin> set s"
    using assms(1) by (rule c_stringE)
  have "length (drop (nat i) b) = length s + 1 + length r" by (simp add: d)
  then have le: "i + k \<le> int (length b)" using p assms(3) by simp
  have "drop (nat (i + k)) b = drop (nat k) (drop (nat i) b)"
    using p assms(2) by (simp add: nat_add_distrib add.commute)
  also have "\<dots> = map Some (drop (nat k) s) @ Some NUL # r"
    using assms(2,3) by (simp add: d drop_map)
  finally show ?thesis
    using p le assms(2) n by (auto simp: padd_def intro!: c_stringI dest: in_set_dropD)
qed

lemma padd_0 [simp]: "padd p 0 = p"
  by (simp add: padd_def split: ptr.splits)

lemma padd_padd [simp]: "padd (padd p j) k = padd p (j + k)"
  by (simp add: padd_def add.assoc split: ptr.splits)

lemma padd_Null [simp]: "padd Null k = Null"
  by (simp add: padd_def)

lemma load_Null [simp]: "load Null k = Inl Null_Deref"
  by (simp add: load_def)

lemma load_padd [simp]: "load (padd p j) k = load p (j + k)"
  by (simp add: padd_def load_def add.assoc split: ptr.splits)

lemma c_string_literal: "NUL \<notin> set s \<Longrightarrow> c_string (literal s) = Inr s"
  by (auto simp: literal_def intro!: c_stringI)

lemma strlen_c_string [cstr]: "c_string p = Inr s \<Longrightarrow> strlen p = Inr (int (length s))"
  by (simp add: strlen_def)

lemma strlen_Null [simp]: "strlen Null = Inl Null_Deref"
  by (simp add: strlen_def)

lemma load_ok_bounds:
  "load (Ptr b i) k = Inr c \<Longrightarrow> 0 \<le> i + k \<and> i + k < int (length b)"
  by (auto simp: load_def split: if_splits)

text \<open>How far a pointer can be read: the measure of the scanning loops.\<close>

definition readable :: "ptr \<Rightarrow> int \<Rightarrow> nat" where
  "readable p k = (case p of Null \<Rightarrow> 0 | Ptr b i \<Rightarrow> nat (int (length b) - (i + k)))"

lemma readable_step: "load p k = Inr c \<Longrightarrow> readable p (k + 1) < readable p k"
  by (cases p) (auto simp: readable_def dest: load_ok_bounds)

section \<open>Comparing and copying strings\<close>

lemma of_char_eq_0_iff [simp]: "of_char c = (0 :: int) \<longleftrightarrow> c = NUL"
proof -
  have "of_char NUL = (0 :: int)" by simp
  then show ?thesis by (metis of_char_eq_iff)
qed

lemma cmp_bytes_strings:
  assumes "NUL \<notin> set s" and "NUL \<notin> set t"
  shows "\<exists>v. cmp_bytes n (map Some s @ Some NUL # r) (map Some t @ Some NUL # q) = Inr v
    \<and> (v = 0 \<longleftrightarrow> take n s = take n t)"
  using assms
proof (induction n arbitrary: s t)
  case 0
  then show ?case by simp
next
  case (Suc n)
  show ?case
  proof (cases s)
    case Nil
    then show ?thesis using Suc.prems by (cases t) auto
  next
    case s: (Cons c s')
    show ?thesis
    proof (cases t)
      case Nil
      then show ?thesis using Suc.prems s by auto
    next
      case (Cons d t')
      then show ?thesis using Suc.prems s Suc.IH [of s' t'] by auto
    qed
  qed
qed

lemma c_string_from_ptr:
  assumes "c_string p = Inr s"
  obtains r where "from_ptr p = Inr (map Some s @ Some NUL # r)" and "NUL \<notin> set s"
proof -
  obtain b i r where "p = Ptr b i" "0 \<le> i" "i \<le> int (length b)"
    "drop (nat i) b = map Some s @ Some NUL # r" "NUL \<notin> set s"
    using assms by (rule c_stringE)
  then show ?thesis using that by (simp add: from_ptr_def)
qed

lemma strncmp_c_string:
  assumes "c_string p = Inr s" and "c_string q = Inr t"
  obtains v where "strncmp p q n = Inr v" and "v = 0 \<longleftrightarrow> take n s = take n t"
proof -
  obtain r where r: "from_ptr p = Inr (map Some s @ Some NUL # r)" "NUL \<notin> set s"
    using assms(1) by (rule c_string_from_ptr)
  obtain r' where r': "from_ptr q = Inr (map Some t @ Some NUL # r')" "NUL \<notin> set t"
    using assms(2) by (rule c_string_from_ptr)
  obtain v where "cmp_bytes n (map Some s @ Some NUL # r) (map Some t @ Some NUL # r') = Inr v"
    and "v = 0 \<longleftrightarrow> take n s = take n t"
    using cmp_bytes_strings [OF r(2) r'(2)] by blast
  with r r' that show ?thesis by (cases "n = 0") (auto simp: strncmp_def)
qed

lemma copy_bytes_string:
  assumes "NUL \<notin> set s"
  shows "copy_bytes n (map Some s @ Some NUL # r) =
    Inr (take n s @ replicate (n - length s) NUL)"
  using assms
proof (induction n arbitrary: s)
  case (Suc n)
  then show ?case by (cases s) auto
qed simp

lemma size_t_nonneg [simp]: "0 \<le> n \<Longrightarrow> size_t n = nat n"
  by (simp add: size_t_def to_size_t_def)

lemma store_last:
  assumes "length b = nat n + 1" and "0 \<le> n"
  shows "store (Ptr b 0) n c = Inr (Ptr (take (nat n) b @ [Some c]) 0)"
proof -
  have "b[nat n := Some c] = take (nat n) b @ [Some c]"
    using assms by (simp add: upd_conv_take_nth_drop)
  then show ?thesis using assms by (simp add: store_def)
qed

lemma copy_n_ok:
  assumes src: "c_string src = Inr s" and n: "0 \<le> n"
  obtains d where "copy_n src n = Inr d" and "c_string d = Inr (take (nat n) s)"
proof -
  obtain r where f: "from_ptr src = Inr (map Some s @ Some NUL # r)" and s: "NUL \<notin> set s"
    using src by (rule c_string_from_ptr)
  define pad where "pad = take (nat n) s @ replicate (nat n - length s) NUL"
  have len: "length pad = nat n" by (simp add: pad_def)
  have m: "malloc (n + 1) = Ptr (replicate (nat n) None @ [None]) 0"
    using n by (simp add: malloc_def nat_add_distrib replicate_append_same)
  have "strncpy (malloc (n + 1)) src n = Inr (Ptr (map Some pad @ [None]) 0)"
  proof (cases "n = 0")
    case True
    then show ?thesis using n len m by (simp add: strncpy_def)
  next
    case False
    then show ?thesis using n len
      by (simp add: m strncpy_def to_size_t_def room_def f copy_bytes_string [OF s] put_bytes_def
          flip: pad_def)
  qed
  then have "copy_n src n = store (Ptr (map Some pad @ [None]) 0) n NUL"
    by (simp add: copy_n_def)
  also have "\<dots> = Inr (Ptr (map Some pad @ [Some NUL]) 0)"
    using n len by (subst store_last) simp_all
  finally have *: "copy_n src n = Inr (Ptr (map Some pad @ [Some NUL]) 0)" .
  have "c_string (Ptr (map Some pad @ [Some NUL]) 0) = Inr (take (nat n) s)"
  proof (cases "nat n \<le> length s")
    case True
    then show ?thesis using s
      by (auto simp: pad_def intro!: c_stringI dest: in_set_takeD)
  next
    case False
    then obtain k where k: "nat n - length s = Suc k" by (metis Suc_diff_Suc not_le)
    have "map Some pad @ [Some NUL] = map Some s @ Some NUL # (replicate k (Some NUL) @ [Some NUL])"
      using False by (simp add: pad_def k)
    then show ?thesis using s False by (auto intro!: c_stringI)
  qed
  with * show ?thesis by (rule that)
qed

text \<open>
  With a negative count the idiom is an overflow: \<open>malloc(0)\<close> and a \<open>strncpy\<close> of
  \<open>SIZE_MAX\<close> bytes, or a null destination.
\<close>

text \<open>
  \<open>free\<close> takes NULL or the start of a block. Blocks are values, so a freed one is a variable
  that is not used again.
\<close>

definition at_start :: "ptr \<Rightarrow> bool" where
  "at_start p \<longleftrightarrow> (case p of Null \<Rightarrow> True | Ptr b i \<Rightarrow> i = 0)"

lemma at_start_store: "store p k c = Inr q \<Longrightarrow> at_start p \<Longrightarrow> at_start q"
  by (auto simp: at_start_def store_def split: ptr.splits if_splits)

lemma at_start_realloc: "at_start (realloc p n)"
  by (auto simp: at_start_def realloc_def malloc_def split: ptr.splits)

lemma at_start_malloc: "at_start (malloc n)"
  by (auto simp: at_start_def malloc_def)

definition free :: "ptr \<Rightarrow> unit res" where
  "free p = (case p of Null \<Rightarrow> Inr () | Ptr b i \<Rightarrow> if i = 0 then Inr () else Inl Bad_Free)"

lemma free_start [simp]: "at_start p \<Longrightarrow> free p = Inr ()"
  by (auto simp: free_def at_start_def split: ptr.splits)

lemma at_start_simps [simp]: "at_start Null" "at_start (Ptr b i) \<longleftrightarrow> i = 0"
  by (simp_all add: at_start_def)

lemma at_start_put: "put_bytes p s = Inr q \<Longrightarrow> at_start p \<Longrightarrow> at_start q"
  by (auto simp: put_bytes_def split: ptr.splits if_splits)

lemma at_start_copy_n: "copy_n src n = Inr d \<Longrightarrow> at_start d"
  using at_start_malloc [of "n + 1"]
  by (auto simp: copy_n_def strncpy_def rbind_eq_Inr dest: at_start_put at_start_store split: if_splits)

lemma copy_n_negative:
  assumes "n < 0" and "- 9223372036854775808 \<le> n"
  shows "copy_n src n = Inl (if n = -1 then Buffer_Overflow else Null_Deref)"
  using assms
  by (auto simp: copy_n_def strncpy_def malloc_def room_def to_size_t_def)

lemma strcmp_0_iff [simp]: "strcmp a b = 0 \<longleftrightarrow> a = b"
  by (simp add: strcmp_def)

lemma c_int_to_char:
  assumes "-128 \<le> i" and "i < 128"
  shows "c_int (to_char i) = i"
proof (cases "0 \<le> i")
  case True
  then show ?thesis using assms by (simp add: c_int_def to_char_def Let_def)
next
  case False
  have "i mod 256 = (i + 256) mod 256" by simp
  also have "\<dots> = i + 256" using assms False by (intro mod_pos_pos_trivial) simp_all
  finally show ?thesis using assms False by (simp add: c_int_def to_char_def Let_def)
qed

lemma store_c_string:
  assumes "c_string p = Inr s" and "0 \<le> k" and "k < int (length s)" and "c \<noteq> NUL"
  obtains p' where "store p k c = Inr p'" and "c_string p' = Inr (s[nat k := c])"
proof -
  obtain b i r where p: "p = Ptr b i" "0 \<le> i" "i \<le> int (length b)"
    and d: "drop (nat i) b = map Some s @ Some NUL # r" and n: "NUL \<notin> set s"
    using assms(1) by (rule c_stringE)
  have "length (drop (nat i) b) = length s + 1 + length r" by (simp add: d)
  then have lt: "i + k < int (length b)" using p assms(3) by simp
  have "drop (nat i) (b[nat (i + k) := Some c]) = (drop (nat i) b)[nat k := Some c]"
    using p assms(2) by (simp add: drop_update_swap nat_add_distrib)
  also have "\<dots> = map Some (s[nat k := c]) @ Some NUL # r"
    using assms(2,3) by (simp add: d list_update_append map_update nat_less_iff)
  finally have "c_string (Ptr (b[nat (i + k) := Some c]) i) = Inr (s[nat k := c])"
    using p n assms(4) set_update_subset_insert [of s "nat k" c]
    by (intro c_stringI) auto
  moreover have "store p k c = Inr (Ptr (b[nat (i + k) := Some c]) i)"
    using p lt assms(2) by (simp add: store_def)
  ultimately show ?thesis using that by blast
qed

text \<open>A buffer that was filled from its start; its string ends at the first terminator.\<close>

lemma chars_to_nul_takeWhile:
  "chars_to_nul (map Some t @ Some NUL # r) = Inr (takeWhile (\<lambda>c. c \<noteq> NUL) t)"
  by (induction t) auto

lemma chars_to_nul_uninit: "NUL \<notin> set t \<Longrightarrow> chars_to_nul (map Some t @ None # r) = Inl Uninit_Read"
  by (induction t) auto

lemma c_string_takeWhile:
  "take (Suc (length t)) b = map Some t @ [Some NUL] \<Longrightarrow>
     c_string (Ptr b 0) = Inr (takeWhile (\<lambda>c. c \<noteq> NUL) t)"
proof -
  assume "take (Suc (length t)) b = map Some t @ [Some NUL]"
  then have "b = map Some t @ Some NUL # drop (Suc (length t)) b"
    by (metis append.assoc append_Cons append_Nil append_take_drop_id)
  then have "chars_to_nul b = Inr (takeWhile (\<lambda>c. c \<noteq> NUL) t)"
    using chars_to_nul_takeWhile by metis
  then show ?thesis by (simp add: c_string_def from_ptr_def)
qed

lemma store_filled:
  assumes "take (length t) b = map Some t" and "length t < length b"
  obtains b' where "store (Ptr b 0) (int (length t)) c = Inr (Ptr b' 0)"
    and "take (Suc (length t)) b' = map Some (t @ [c])" and "length b' = length b"
proof
  show "store (Ptr b 0) (int (length t)) c = Inr (Ptr (b[length t := Some c]) 0)"
    using assms(2) by (simp add: store_def)
  show "take (Suc (length t)) (b[length t := Some c]) = map Some (t @ [c])"
    using assms by (simp add: take_Suc_conv_app_nth)
qed simp

lemma copy_n_nonneg: "copy_n src n = Inr d \<Longrightarrow> 0 \<le> n"
  by (rule ccontr)
    (auto simp: copy_n_def malloc_def strncpy_def to_size_t_def room_def store_def rbind_eq_Inr
      split: if_splits)

section \<open>Numbers as text\<close>

definition digit :: "nat \<Rightarrow> char" where
  "digit d = char_of (48 + d)"

definition is_digit :: "char \<Rightarrow> bool" where
  "is_digit c \<longleftrightarrow> 48 \<le> (of_char c :: nat) \<and> (of_char c :: nat) \<le> 57"

fun dec_nat :: "nat \<Rightarrow> string" where
  "dec_nat n = (if n < 10 then [digit n] else dec_nat (n div 10) @ [digit (n mod 10)])"

declare dec_nat.simps [simp del]

text \<open>\<open>dec i\<close> is what \<^verbatim>\<open>%d\<close> prints.\<close>

definition dec :: "int \<Rightarrow> string" where
  "dec i = (if i < 0 then CHR ''-'' # dec_nat (nat (- i)) else dec_nat (nat i))"

fun digits_val :: "nat \<Rightarrow> string \<Rightarrow> nat" where
  "digits_val a [] = a"
| "digits_val a (c # s) = (if is_digit c then digits_val (10 * a + (of_char c - 48)) s else a)"

definition is_space :: "char \<Rightarrow> bool" where
  "is_space c \<longleftrightarrow> c = CHR '' '' \<or> 9 \<le> (of_char c :: nat) \<and> (of_char c :: nat) \<le> 13"

text \<open>\<open>atoi\<close>; a value that is not an \<open>int\<close> is undefined behaviour.\<close>

definition atoi :: "string \<Rightarrow> int res" where
  "atoi s =
     (let t = dropWhile is_space s;
          v = (case t of
                 [] \<Rightarrow> 0
               | c # u \<Rightarrow> if c = CHR ''-'' then - int (digits_val 0 u)
                         else if c = CHR ''+'' then int (digits_val 0 u)
                         else int (digits_val 0 t))
      in if v < -2147483648 \<or> 2147483647 < v then Inl Int_Overflow else Inr v)"

text \<open>\<open>sprintf\<close> of an already formatted text into a buffer.\<close>

definition sprintf :: "ptr \<Rightarrow> string \<Rightarrow> ptr res" where
  "sprintf p s = put_bytes p (s @ [NUL])"

lemma of_char_digit: "d < 10 \<Longrightarrow> (of_char (digit d) :: nat) = 48 + d"
  by (simp add: digit_def)

lemma is_digit_digit [simp]: "d < 10 \<Longrightarrow> is_digit (digit d)"
  by (simp add: is_digit_def of_char_digit)

lemma digits_val_append:
  "\<forall>c \<in> set s. is_digit c \<Longrightarrow> digits_val a (s @ t) = digits_val (digits_val a s) t"
  by (induction s arbitrary: a) auto

lemma dec_nat_digits: "c \<in> set (dec_nat n) \<Longrightarrow> is_digit c"
proof (induction n rule: dec_nat.induct)
  case (1 n)
  then show ?case by (subst (asm) (2) dec_nat.simps) (auto split: if_splits)
qed

lemma dec_chars: "c \<in> set (dec i) \<Longrightarrow> is_digit c \<or> c = CHR ''-''"
  by (auto simp: dec_def dest: dec_nat_digits split: if_splits)

lemma dec_nat_not_Nil: "dec_nat n \<noteq> []"
  by (subst dec_nat.simps) simp

lemma digits_val_dec_nat: "digits_val 0 (dec_nat n) = n"
proof (induction n rule: dec_nat.induct)
  case (1 n)
  show ?case
  proof (cases "n < 10")
    case True
    then show ?thesis by (subst dec_nat.simps) (simp add: of_char_digit)
  next
    case False
    have "digits_val 0 (dec_nat (n div 10) @ [digit (n mod 10)]) = 10 * (n div 10) + n mod 10"
      using 1 False dec_nat_digits by (subst digits_val_append) (auto simp: of_char_digit)
    then show ?thesis using False by (subst dec_nat.simps) simp
  qed
qed

lemma is_digit_not_special: "is_digit c \<Longrightarrow> c \<noteq> NUL \<and> c \<noteq> CHR ''-'' \<and> c \<noteq> CHR ''+'' \<and> \<not> is_space c \<and>
    c \<noteq> CHR 0x0D \<and> c \<noteq> CHR ''|'' \<and> c \<noteq> CHR 0x27"
  by (auto simp: is_digit_def is_space_def)

lemma atoi_dec:
  assumes "-2147483648 \<le> i" and "i \<le> 2147483647"
  shows "atoi (dec i) = Inr i"
proof (cases "i < 0")
  case True
  have "\<not> is_space CHR ''-''" by (simp add: is_space_def)
  then show ?thesis using True assms by (simp add: atoi_def dec_def digits_val_dec_nat Let_def)
next
  case False
  obtain c u where cu: "dec_nat (nat i) = c # u" using dec_nat_not_Nil by (meson list.exhaust)
  then have "is_digit c" using dec_nat_digits [of c "nat i"] by simp
  then have "atoi (dec i) = Inr (int (digits_val 0 (dec_nat (nat i))))"
    using False assms is_digit_not_special [of c] digits_val_dec_nat [of "nat i"]
    by (auto simp: atoi_def dec_def Let_def cu)
  then show ?thesis using False by (simp add: digits_val_dec_nat)
qed

lemma dec_no_nul: "NUL \<notin> set (dec i)"
  using dec_nat_digits is_digit_not_special by (auto simp: dec_def)

text \<open>How long the text of an \<open>int\<close> can be.\<close>

lemma length_dec_nat: "n < 10 ^ Suc k \<Longrightarrow> length (dec_nat n) \<le> Suc k"
proof (induction k arbitrary: n)
  case 0
  then show ?case by (subst dec_nat.simps) simp
next
  case (Suc k)
  show ?case
  proof (cases "n < 10")
    case True
    then show ?thesis by (subst dec_nat.simps) simp
  next
    case False
    have "n div 10 < 10 ^ Suc k" using Suc.prems by (simp add: less_mult_imp_div_less)
    then show ?thesis using Suc.IH [of "n div 10"] False by (subst dec_nat.simps) simp
  qed
qed

lemma length_dec: "-2147483648 \<le> i \<Longrightarrow> i \<le> 2147483647 \<Longrightarrow> length (dec i) \<le> 11"
proof -
  assume i: "-2147483648 \<le> i" "i \<le> 2147483647"
  have "nat i < 10000000000" "nat (- i) < 10000000000" using i by linarith+
  moreover have "(10000000000 :: nat) = 10 ^ Suc 9" by simp
  ultimately have "nat i < 10 ^ Suc 9" "nat (- i) < 10 ^ Suc 9" by (simp_all only:)
  then have "length (dec_nat (nat i)) \<le> Suc 9" "length (dec_nat (nat (- i))) \<le> Suc 9"
    using length_dec_nat [of "nat i" 9] length_dec_nat [of "nat (- i)" 9] by blast+
  then show "length (dec i) \<le> 11" by (simp add: dec_def)
qed

lemma atoi_range: "atoi s = Inr i \<Longrightarrow> -2147483648 \<le> i \<and> i \<le> 2147483647"
  by (auto simp: atoi_def Let_def split: if_splits)

lemma atoi_dec_length: "atoi s = Inr i \<Longrightarrow> length (dec i) \<le> 11"
  using atoi_range [of s i] length_dec by blast

end
