(* ===== verification/Dic_List.thy ===== *)
theory Dic_List
  imports C_Memory
begin

text \<open>
  \<^verbatim>\<open>list.c\<close>: the singly linked dictionary with a tail pointer. It is modelled twice: on a
  heap of cells with addresses, with the code's pointer updates and frees, and as the
  list of its entries, which is what the other components use. The refinement between
  the two is the interpretation of the locale \<open>dictionary\<close> at the end.
\<close>

section \<open>The heap\<close>

text \<open>
  A cell is the text of a string object or a \<^verbatim>\<open>struct _node\<close>. Address 0 is NULL. Fresh
  addresses come from a counter, so an address is never used twice and a freed one is
  recognised as dangling for ever.
\<close>

datatype cell = Text string | Node nat nat nat

record mem =
  cells :: "nat \<Rightarrow> cell option"
  brk :: nat

record dic_list =
  head :: nat
  tail :: nat

definition new_cell :: "cell \<Rightarrow> mem \<Rightarrow> nat \<times> mem" where
  "new_cell c m = (brk m, m\<lparr>cells := (cells m)(brk m := Some c), brk := Suc (brk m)\<rparr>)"

definition free_cell :: "nat \<Rightarrow> mem \<Rightarrow> mem res" where
  "free_cell a m =
     (if a = 0 then Inr m
      else case cells m a of
        None \<Rightarrow> Inl Bad_Free
      | Some _ \<Rightarrow> Inr (m\<lparr>cells := (cells m)(a := None)\<rparr>))"

definition get_node :: "mem \<Rightarrow> nat \<Rightarrow> (nat \<times> nat \<times> nat) res" where
  "get_node m a =
     (if a = 0 then Inl Null_Deref
      else case cells m a of
        Some (Node k v n) \<Rightarrow> Inr (k, v, n)
      | _ \<Rightarrow> Inl Dangling)"

definition get_text :: "mem \<Rightarrow> nat \<Rightarrow> string res" where
  "get_text m a =
     (if a = 0 then Inl Null_Deref
      else case cells m a of
        Some (Text s) \<Rightarrow> Inr s
      | _ \<Rightarrow> Inl Dangling)"

definition set_next :: "mem \<Rightarrow> nat \<Rightarrow> nat \<Rightarrow> mem res" where
  "set_next m a p = rbind (get_node m a) (\<lambda>(k, v, _).
     Inr (m\<lparr>cells := (cells m)(a := Some (Node k v p))\<rparr>))"

section \<open>The code on the heap\<close>

definition add_data_h :: "mem \<Rightarrow> dic_list \<Rightarrow> nat \<Rightarrow> nat \<Rightarrow> (mem \<times> dic_list) res" where
  "add_data_h m l key value =
     (let (p, m) = new_cell (Node key value 0) m in
      if head l = 0 \<and> tail l = 0
      then Inr (m, l\<lparr>head := p, tail := p\<rparr>)
      else rbind (set_next m (tail l) p) (\<lambda>m. Inr (m, l\<lparr>tail := p\<rparr>)))"

text \<open>The loops follow \<open>next\<close> pointers; \<open>None\<close> is a loop that never reaches NULL.\<close>

partial_function (option) clear_from :: "mem \<Rightarrow> nat \<Rightarrow> mem res option" where
  "clear_from m it =
     (if it = 0 then Some (Inr m)
      else case get_node m it of
        Inl e \<Rightarrow> Some (Inl e)
      | Inr t \<Rightarrow>
          (case rbind (free_cell (fst t) m) (\<lambda>m. rbind (free_cell (fst (snd t)) m) (free_cell it)) of
             Inl e \<Rightarrow> Some (Inl e)
           | Inr m' \<Rightarrow> clear_from m' (snd (snd t))))"

definition clear_list_h :: "mem \<Rightarrow> dic_list \<Rightarrow> mem res option" where
  "clear_list_h m l = clear_from m (head l)"

partial_function (option) find_from :: "mem \<Rightarrow> nat \<Rightarrow> string \<Rightarrow> nat res option" where
  "find_from m it key =
     (if it = 0 then Some (Inr 0)
      else case get_node m it of
        Inl e \<Rightarrow> Some (Inl e)
      | Inr t \<Rightarrow>
          (case get_text m (fst t) of
             Inl e \<Rightarrow> Some (Inl e)
           | Inr k \<Rightarrow> if strcmp k key = 0 then Some (Inr (fst (snd t)))
                      else find_from m (snd (snd t)) key))"

definition find_value_h :: "mem \<Rightarrow> dic_list \<Rightarrow> string \<Rightarrow> nat res option" where
  "find_value_h m l key = find_from m (head l) key"

text \<open>
  The callers hand \<open>add_data\<close> two freshly allocated strings (a key may be NULL in a
  multipart body without a name).
\<close>

definition new_text :: "string option \<Rightarrow> mem \<Rightarrow> nat \<times> mem" where
  "new_text s m = (case s of None \<Rightarrow> (0, m) | Some t \<Rightarrow> new_cell (Text t) m)"

definition add_copy :: "string option \<Rightarrow> string \<Rightarrow> mem \<times> dic_list \<Rightarrow> (mem \<times> dic_list) res" where
  "add_copy key value d =
     (let (k, m) = new_text key (fst d);
          (v, m) = new_text (Some value) m
      in add_data_h m (snd d) k v)"

section \<open>The entries\<close>

type_synonym dic = "(string option \<times> string) list"

definition add_data :: "dic \<Rightarrow> string option \<Rightarrow> string \<Rightarrow> dic" where
  "add_data d key value = d @ [(key, value)]"

fun find_value :: "dic \<Rightarrow> string \<Rightarrow> string option res" where
  "find_value [] key = Inr None"
| "find_value ((None, v) # d) key = Inl Null_Deref"
| "find_value ((Some k, v) # d) key =
     (if strcmp k key = 0 then Inr (Some v) else find_value d key)"

section \<open>Well-formed lists on the heap\<close>

fun seg :: "mem \<Rightarrow> nat \<Rightarrow> (nat \<times> nat \<times> nat) list \<Rightarrow> nat \<Rightarrow> bool" where
  "seg m p [] q \<longleftrightarrow> p = q"
| "seg m p ((a, k, v) # ts) q \<longleftrightarrow> p = a \<and> a \<noteq> 0 \<and>
     (case cells m a of Some (Node k' v' n) \<Rightarrow> k' = k \<and> v' = v \<and> seg m n ts q | _ \<Rightarrow> False)"

definition reads :: "mem \<Rightarrow> nat \<times> nat \<times> nat \<Rightarrow> string option \<times> string \<Rightarrow> bool" where
  "reads m t e \<longleftrightarrow> (case t of (a, k, v) \<Rightarrow> case e of (ko, s) \<Rightarrow>
     (if k = 0 then ko = None else (\<exists>x. ko = Some x \<and> cells m k = Some (Text x))) \<and>
     v \<noteq> 0 \<and> cells m v = Some (Text s))"

definition foot :: "nat \<times> nat \<times> nat \<Rightarrow> nat list" where
  "foot t = (case t of (a, k, v) \<Rightarrow> (if k = 0 then [a, v] else [a, k, v]))"

definition footprint :: "(nat \<times> nat \<times> nat) list \<Rightarrow> nat list" where
  "footprint ts = concat (map foot ts)"

definition mem_ok :: "mem \<Rightarrow> bool" where
  "mem_ok m \<longleftrightarrow> 0 < brk m \<and> cells m 0 = None \<and> (\<forall>a \<ge> brk m. cells m a = None)"

definition list_at :: "mem \<Rightarrow> dic_list \<Rightarrow> (nat \<times> nat \<times> nat) list \<Rightarrow> dic \<Rightarrow> bool" where
  "list_at m l ts kvs \<longleftrightarrow> mem_ok m \<and> seg m (head l) ts 0 \<and>
     tail l = (if ts = [] then 0 else fst (last ts)) \<and>
     list_all2 (reads m) ts kvs \<and> distinct (footprint ts)"

definition dic_repr :: "mem \<times> dic_list \<Rightarrow> dic \<Rightarrow> bool" where
  "dic_repr d kvs \<longleftrightarrow> (\<exists>ts. list_at (fst d) (snd d) ts kvs)"

lemma footprint_simps [simp]:
  "footprint [] = []"
  "footprint (t # ts) = foot t @ footprint ts"
  "footprint (ts @ us) = footprint ts @ footprint us"
  by (simp_all add: footprint_def)

lemma seg_append: "seg m p (ts @ us) q \<longleftrightarrow> (\<exists>r. seg m p ts r \<and> seg m r us q)"
  by (induction ts arbitrary: p) (auto split: option.splits cell.splits)

lemma seg_frame:
  "seg m p ts q \<Longrightarrow> (\<And>a. a \<in> set (footprint ts) \<Longrightarrow> cells m' a = cells m a) \<Longrightarrow> seg m' p ts q"
  by (induction ts arbitrary: p) (auto simp: foot_def split: option.splits cell.splits if_splits)

lemma reads_frame:
  "reads m t e \<Longrightarrow> (\<And>a. a \<in> set (foot t) \<Longrightarrow> cells m' a = cells m a) \<Longrightarrow> reads m' t e"
  by (auto simp: reads_def foot_def split: prod.splits if_splits)

lemma reads_all_frame:
  assumes "list_all2 (reads m) ts kvs"
    and "\<And>a. a \<in> set (footprint ts) \<Longrightarrow> cells m' a = cells m a"
  shows "list_all2 (reads m') ts kvs"
  using assms by (induction rule: list_all2_induct) (auto intro: reads_frame)

lemma reads_cells: "reads m t e \<Longrightarrow> cells m (fst t) = Some c \<Longrightarrow> a \<in> set (foot t) \<Longrightarrow> cells m a \<noteq> None"
  by (auto simp: reads_def foot_def split: prod.splits if_splits)

lemma footprint_used:
  assumes "seg m p ts q" and "list_all2 (reads m) ts kvs" and "a \<in> set (footprint ts)"
  shows "cells m a \<noteq> None"
  using assms(2,1,3)
proof (induction arbitrary: p rule: list_all2_induct)
  case (Cons t ts e kvs)
  then show ?case
    by (cases t) (auto split: option.splits cell.splits dest: reads_cells)
qed simp

section \<open>Lookup and clearing return on well-formed lists\<close>

lemma find_from_ok:
  assumes "seg m p ts 0" and "list_all2 (reads m) ts kvs"
  shows "\<exists>r. find_from m p key = Some r \<and>
    (case find_value kvs key of
       Inl e \<Rightarrow> r = Inl e
     | Inr None \<Rightarrow> r = Inr 0
     | Inr (Some s) \<Rightarrow> \<exists>v. r = Inr v \<and> get_text m v = Inr s)"
  using assms(2,1)
proof (induction arbitrary: p rule: list_all2_induct)
  case Nil
  then show ?case by (simp add: find_from.simps)
next
  case (Cons t ts e kvs)
  obtain a k v where t: "t = (a, k, v)" by (cases t)
  obtain n where n: "cells m a = Some (Node k v n)" "p = a" "a \<noteq> 0" "seg m n ts 0"
    using Cons.prems by (auto simp: t split: option.splits cell.splits)
  obtain ko s where e: "e = (ko, s)" by (cases e)
  have g: "get_node m p = Inr (k, v, n)" using n by (simp add: get_node_def)
  have unfold: "find_from m p key = (case get_text m k of
      Inl e \<Rightarrow> Some (Inl e)
    | Inr x \<Rightarrow> if strcmp x key = 0 then Some (Inr v) else find_from m n key)"
    using n(3) g by (subst find_from.simps) (simp add: n(2) split: sum.split)
  have v: "get_text m v = Inr s" using Cons.hyps(1) by (auto simp: reads_def t e get_text_def)
  show ?case
  proof (cases ko)
    case None
    then have "get_text m k = Inl Null_Deref"
      using Cons.hyps(1) by (auto simp: reads_def t e get_text_def split: if_splits)
    then show ?thesis by (simp add: unfold e None)
  next
    case (Some x)
    then have "get_text m k = Inr x"
      using Cons.hyps(1) by (auto simp: reads_def t e get_text_def split: if_splits)
    then show ?thesis using Cons.IH [OF n(4)] v by (auto simp: unfold e Some)
  qed
qed

definition erase :: "mem \<Rightarrow> nat set \<Rightarrow> mem" where
  "erase m A = m\<lparr>cells := (\<lambda>a. if a \<in> A then None else cells m a)\<rparr>"

lemma erase_empty [simp]: "erase m {} = m"
  by (simp add: erase_def)

lemma erase_erase [simp]: "erase (erase m A) B = erase m (A \<union> B)"
  by (simp add: erase_def) (rule arg_cong [where f = "\<lambda>c. m\<lparr>cells := c\<rparr>"], auto)

lemma cells_erase [simp]: "cells (erase m A) a = (if a \<in> A then None else cells m a)"
  by (simp add: erase_def)

lemma free_cell_erase:
  "a = 0 \<or> cells m a \<noteq> None \<Longrightarrow> free_cell a m = Inr (if a = 0 then m else erase m {a})"
  by (auto simp: free_cell_def erase_def fun_upd_def split: option.splits
      intro!: arg_cong [where f = "\<lambda>c. m\<lparr>cells := c\<rparr>"])

lemma free_node:
  assumes "reads m (a, k, v) e" and "cells m a \<noteq> None" and "a \<noteq> 0" and "distinct (foot (a, k, v))"
  shows "rbind (free_cell k m) (\<lambda>m. rbind (free_cell v m) (free_cell a)) =
    Inr (erase m (set (foot (a, k, v))))"
  using assms
  by (cases "k = 0") (auto simp: reads_def foot_def free_cell_erase insert_commute split: prod.splits)

lemma clear_from_ok:
  assumes "seg m p ts 0" and "list_all2 (reads m) ts kvs" and "distinct (footprint ts)"
  shows "clear_from m p = Some (Inr (erase m (set (footprint ts))))"
  using assms
proof (induction ts arbitrary: p m kvs)
  case Nil
  then show ?case by (simp add: clear_from.simps)
next
  case (Cons t ts)
  obtain a k v where t: "t = (a, k, v)" by (cases t)
  obtain n where n: "cells m a = Some (Node k v n)" "p = a" "a \<noteq> 0" "seg m n ts 0"
    using Cons.prems(1) by (auto simp: t split: option.splits cell.splits)
  obtain e kvs' where e: "reads m (a, k, v) e" "list_all2 (reads m) ts kvs'"
    using Cons.prems(2) by (auto simp: list_all2_Cons1 t)
  define m' where "m' = erase m (set (foot (a, k, v)))"
  have frame: "\<And>b. b \<in> set (footprint ts) \<Longrightarrow> cells m' b = cells m b"
    using Cons.prems(3) by (auto simp: m'_def t)
  have g: "get_node m a = Inr (k, v, n)" using n by (simp add: get_node_def)
  have d: "distinct (foot (a, k, v))" using Cons.prems(3) by (simp add: t)
  have "cells m a \<noteq> None" using n(1) by simp
  note f = free_node [OF e(1) this n(3) d, folded m'_def]
  have "clear_from m p = clear_from m' n"
    using n(3) g f by (subst clear_from.simps) (simp add: n(2))
  also have "\<dots> = Some (Inr (erase m' (set (footprint ts))))"
  proof (rule Cons.IH)
    show "seg m' n ts 0" using n(4) frame by (rule seg_frame)
    show "list_all2 (reads m') ts kvs'" using e(2) frame by (rule reads_all_frame)
    show "distinct (footprint ts)" using Cons.prems(3) by simp
  qed
  finally show ?case by (simp add: m'_def t)
qed

section \<open>Appending an entry\<close>

lemma footprint_below_brk:
  assumes "list_at m l ts kvs" and "a \<in> set (footprint ts)"
  shows "a < brk m" "a \<noteq> 0"
proof -
  have "cells m a \<noteq> None"
    using assms footprint_used [of m "head l" ts 0 kvs a] by (simp add: list_at_def)
  moreover have "mem_ok m" using assms(1) by (simp add: list_at_def)
  ultimately show "a < brk m" "a \<noteq> 0"
    unfolding mem_ok_def by (meson not_le, metis)
qed

lemma seg_set_last:
  assumes "seg m p (ts @ [(a, k, v)]) 0" and "distinct (footprint (ts @ [(a, k, v)]))"
    and "cells m' a = Some (Node k v q)"
    and "\<And>b. b \<in> set (footprint ts) \<Longrightarrow> cells m' b = cells m b"
  shows "seg m' p (ts @ [(a, k, v)]) q"
proof -
  obtain r where r: "seg m p ts r" "seg m r [(a, k, v)] 0"
    using assms(1) by (auto simp: seg_append)
  have "seg m' p ts r" using r(1) assms(4) by (rule seg_frame)
  moreover have "seg m' r [(a, k, v)] q" using r(2) assms(3) by auto
  ultimately show ?thesis by (auto simp: seg_append)
qed

lemma list_at_snoc:
  assumes l: "list_at m l ts kvs" and us: "ts = us @ [(a, ka, va)]"
    and c: "cells m2 a = Some (Node ka va p)" "cells m2 p = Some (Node k v 0)"
      "\<And>b. b \<noteq> a \<Longrightarrow> b \<noteq> p \<Longrightarrow> cells m2 b = cells m b"
    and ok: "mem_ok m2" "p \<noteq> 0" "cells m p = None" and a: "cells m a = Some (Node ka va 0)"
    and e: "reads m (p, k, v) (ko, s)"
    and dist: "distinct (footprint (ts @ [(p, k, v)]))"
  shows "list_at m2 (l\<lparr>tail := p\<rparr>) (ts @ [(p, k, v)]) (kvs @ [(ko, s)])"
proof -
  have sg: "seg m (head l) (us @ [(a, ka, va)]) 0" using l by (simp add: list_at_def us)
  have "b \<noteq> a \<and> b \<noteq> p" if "b \<in> set (footprint us)" for b
    using that dist by (auto simp: us foot_def split: if_splits)
  then have "seg m2 (head l) (us @ [(a, ka, va)]) p"
    using sg l c by (intro seg_set_last [OF sg]) (auto simp: list_at_def us)
  moreover have "seg m2 p [(p, k, v)] 0" using c ok by simp
  ultimately have "seg m2 (head l) (ts @ [(p, k, v)]) 0"
    unfolding us seg_append [of m2 _ "us @ [(a, ka, va)]"] by auto
  moreover have tx: "cells m2 b = Some (Text x)" if "cells m b = Some (Text x)" for b x
    using that a ok c by (metis cell.distinct(1) option.distinct(1) option.inject)
  have rd: "reads m2 t y" if "reads m t y" for t y
    using that tx by (auto simp: reads_def split: prod.splits if_splits)
  have "list_all2 (reads m) ts kvs" using l by (simp add: list_at_def)
  then have "list_all2 (reads m2) ts kvs" using rd by (rule list_all2_mono)
  then have "list_all2 (reads m2) (ts @ [(p, k, v)]) (kvs @ [(ko, s)])"
    using rd [OF e] by (auto intro: list_all2_appendI)
  ultimately show ?thesis using ok dist by (simp add: list_at_def)
qed

lemma add_data_h_ok:
  assumes l: "list_at m l ts kvs"
    and e: "reads m (brk m, k, v) (ko, s)"
    and new: "set (foot (brk m, k, v)) \<inter> set (footprint ts) = {}" "k = 0 \<or> k \<noteq> v"
  obtains m' l' where "add_data_h m l k v = Inr (m', l')"
    and "list_at m' l' (ts @ [(brk m, k, v)]) (kvs @ [(ko, s)])"
    and "brk m' = Suc (brk m)"
    and "\<And>b. b \<noteq> brk m \<Longrightarrow> b \<notin> set (footprint ts) \<Longrightarrow> cells m' b = cells m b"
proof -
  define p where "p = brk m"
  define m1 where "m1 = snd (new_cell (Node k v 0) m)"
  have m1: "new_cell (Node k v 0) m = (p, m1)"
    by (simp add: m1_def p_def new_cell_def)
  have ok: "mem_ok m" "p \<noteq> 0" "cells m p = None" using l by (auto simp: list_at_def mem_ok_def p_def)
  have c1: "cells m1 p = Some (Node k v 0)" "\<And>a. a \<noteq> p \<Longrightarrow> cells m1 a = cells m a" "brk m1 = Suc p"
    by (auto simp: m1_def new_cell_def p_def)
  have ok1: "mem_ok m1" using ok c1 by (auto simp: mem_ok_def p_def)
  have kv: "k \<noteq> p" "v \<noteq> p" using e ok by (auto simp: reads_def split: if_splits)
  have dist: "distinct (footprint (ts @ [(p, k, v)]))"
    using l new kv by (auto simp: list_at_def foot_def p_def)
  show ?thesis
  proof (cases "ts = []")
    case True
    then have hd: "head l = 0" "tail l = 0" "kvs = []" using l by (auto simp: list_at_def)
    have "add_data_h m l k v = Inr (m1, l\<lparr>head := p, tail := p\<rparr>)"
      by (simp add: add_data_h_def m1 hd)
    moreover have "list_at m1 (l\<lparr>head := p, tail := p\<rparr>) (ts @ [(p, k, v)]) (kvs @ [(ko, s)])"
      using ok1 ok c1 dist e kv True
      by (auto simp: list_at_def hd reads_def p_def split: if_splits)
    ultimately show ?thesis using that c1 by (simp add: p_def)
  next
    case False
    then obtain us a ka va where us: "ts = us @ [(a, ka, va)]"
      by (metis prod_cases3 rev_exhaust)
    have tl: "tail l = a" using l by (simp add: list_at_def us)
    have s: "seg m (head l) (us @ [(a, ka, va)]) 0" using l by (simp add: list_at_def us)
    then have a: "a \<noteq> 0" "cells m a = Some (Node ka va 0)"
      by (auto simp: seg_append split: option.splits cell.splits)
    have ap: "a \<noteq> p" using a ok by auto
    define m2 where "m2 = m1\<lparr>cells := (cells m1)(a := Some (Node ka va p))\<rparr>"
    have c2: "cells m2 a = Some (Node ka va p)" "cells m2 p = Some (Node k v 0)"
      "\<And>b. b \<noteq> a \<Longrightarrow> b \<noteq> p \<Longrightarrow> cells m2 b = cells m b"
      using ap c1 by (auto simp: m2_def)
    have "add_data_h m l k v = Inr (m2, l\<lparr>tail := p\<rparr>)"
      using a ap c1 by (simp add: add_data_h_def m1 tl set_next_def get_node_def m2_def)
    moreover have "list_at m2 (l\<lparr>tail := p\<rparr>) (ts @ [(p, k, v)]) (kvs @ [(ko, s)])"
    proof (rule list_at_snoc [OF l us c2 _ ok(2,3) a(2) e [folded p_def] dist])
      show "mem_ok m2" using ok1 ap c1 a ok by (auto simp: mem_ok_def m2_def p_def)
    qed
    moreover have "brk m2 = Suc p" using c1 by (simp add: m2_def)
    moreover have "cells m2 b = cells m b" if "b \<noteq> p" "b \<notin> set (footprint ts)" for b
    proof -
      have "b \<noteq> a" using that(2) by (auto simp: us foot_def split: if_splits)
      then show ?thesis using c2(3) that(1) by simp
    qed
    ultimately show ?thesis using that by (simp add: p_def)
  qed
qed

lemma list_at_frame:
  assumes l: "list_at m l ts kvs" and "mem_ok m'"
    and fr: "\<And>a. a \<in> set (footprint ts) \<Longrightarrow> cells m' a = cells m a"
  shows "list_at m' l ts kvs"
proof -
  have "seg m' (head l) ts 0" using l fr by (auto simp: list_at_def intro: seg_frame)
  moreover have "list_all2 (reads m') ts kvs"
    using l fr by (auto simp: list_at_def intro: reads_all_frame)
  ultimately show ?thesis using l assms(2) by (simp add: list_at_def)
qed

text \<open>
  \<open>owns m0 d kvs\<close>: the dictionary \<open>d\<close> was built in the heap \<open>m0\<close>: it holds the entries
  \<open>kvs\<close> in cells of its own, and the rest of the heap is as it was.
\<close>

definition owns :: "mem \<Rightarrow> mem \<times> dic_list \<Rightarrow> dic \<Rightarrow> bool" where
  "owns m0 d kvs \<longleftrightarrow> brk m0 \<le> brk (fst d) \<and> (\<exists>ts. list_at (fst d) (snd d) ts kvs \<and>
     (\<forall>a. a \<in> set (footprint ts) \<longrightarrow> brk m0 \<le> a) \<and>
     (\<forall>a. a \<notin> set (footprint ts) \<longrightarrow> cells (fst d) a = cells m0 a))"

definition empty_dic :: dic_list where
  "empty_dic = \<lparr>head = 0, tail = 0\<rparr>"

lemma owns_empty: "mem_ok m0 \<Longrightarrow> owns m0 (m0, empty_dic) []"
  by (auto simp: owns_def list_at_def empty_dic_def)

lemma new_text_facts:
  assumes "mem_ok m" and "new_text ko m = (k, m')"
  shows "mem_ok m'" "brk m \<le> brk m'" "ko = None \<longleftrightarrow> k = 0" "k \<noteq> 0 \<Longrightarrow> k = brk m \<and> brk m < brk m'"
    "\<And>x. ko = Some x \<Longrightarrow> cells m' k = Some (Text x)"
    "\<And>a. a < brk m \<Longrightarrow> cells m' a = cells m a" "\<And>a. a \<noteq> k \<Longrightarrow> cells m' a = cells m a"
  using assms by (auto simp: new_text_def new_cell_def mem_ok_def split: option.splits)

lemma add_copy_owns:
  assumes o: "owns m0 d kvs"
  shows "\<exists>d'. add_copy key value d = Inr d' \<and> owns m0 d' (add_data kvs key value)"
proof -
  obtain m l where d: "d = (m, l)" by (cases d)
  obtain ts where ts: "list_at m l ts kvs" "\<forall>a. a \<in> set (footprint ts) \<longrightarrow> brk m0 \<le> a"
    "\<forall>a. a \<notin> set (footprint ts) \<longrightarrow> cells m a = cells m0 a" and b0: "brk m0 \<le> brk m"
    using o by (auto simp: owns_def d)
  have ok: "mem_ok m" using ts(1) by (simp add: list_at_def)
  have below: "a < brk m" if "a \<in> set (footprint ts)" for a
    using footprint_below_brk(1) [OF ts(1) that] .
  obtain k m1 where m1: "new_text key m = (k, m1)" by force
  note f1 = new_text_facts [OF ok m1]
  obtain v m2 where m2: "new_text (Some value) m1 = (v, m2)" by force
  note f2 = new_text_facts [OF f1(1) m2]
  have v: "v = brk m1" "brk m1 < brk m2" "v \<noteq> 0" using f2(3,4) by auto
  have l2: "list_at m2 l ts kvs"
    using ts(1) f2(1)
  proof (rule list_at_frame)
    fix a assume "a \<in> set (footprint ts)"
    then show "cells m2 a = cells m a" using below f1(2,6) f2(6) by (metis less_le_trans)
  qed
  have kv: "k = 0 \<or> k \<noteq> v" using v f1(4) by auto
  have r: "reads m2 (brk m2, k, v) (key, value)"
    using f1(3,5) f2(5) f2(7) kv v(3) by (auto simp: reads_def)
  have fresh: "set (foot (brk m2, k, v)) \<inter> set (footprint ts) = {}"
    using below v f1(2,4) by (fastforce simp: foot_def split: if_splits)
  obtain m' l' where a: "add_data_h m2 l k v = Inr (m', l')"
    "list_at m' l' (ts @ [(brk m2, k, v)]) (kvs @ [(key, value)])" "brk m' = Suc (brk m2)"
    "\<And>b. b \<noteq> brk m2 \<Longrightarrow> b \<notin> set (footprint ts) \<Longrightarrow> cells m' b = cells m2 b"
    by (rule add_data_h_ok [OF l2 r fresh kv]) blast
  have "owns m0 (m', l') (kvs @ [(key, value)])"
    unfolding owns_def fst_conv snd_conv
  proof (intro conjI exI [of _ "ts @ [(brk m2, k, v)]"] allI impI)
    show "brk m0 \<le> brk m'" using a(3) v f1(2) b0 by simp
    show "list_at m' l' (ts @ [(brk m2, k, v)]) (kvs @ [(key, value)])" by (rule a(2))
  next
    fix b assume "b \<in> set (footprint (ts @ [(brk m2, k, v)]))"
    then show "brk m0 \<le> b" using ts(2) b0 f1(2,4) v by (fastforce simp: foot_def split: if_splits)
  next
    fix b assume b: "b \<notin> set (footprint (ts @ [(brk m2, k, v)]))"
    then have "b \<noteq> brk m2" "b \<notin> set (footprint ts)" "b \<noteq> v" "b \<noteq> k \<or> k = 0"
      by (auto simp: foot_def split: if_splits)
    then show "cells m' b = cells m0 b"
      using a(4) f2(7) f1(7) f1(1) f2(1) ts(3) ok by (metis mem_ok_def)
  qed
  then show ?thesis
    using a(1) by (auto simp: add_copy_def d m1 m2 Let_def add_data_def)
qed

section \<open>The dictionary interface\<close>

text \<open>
  What the request parser and the handlers rely on: appending an entry, and a lookup that
  answers as \<open>find_value\<close> on the list of entries. \<open>repr d kvs\<close> relates the
  representation to its entries.
\<close>

locale dictionary =
  fixes empty :: 'd
    and add :: "string option \<Rightarrow> string \<Rightarrow> 'd \<Rightarrow> 'd res"
    and find :: "'d \<Rightarrow> string \<Rightarrow> string option res option"
    and repr :: "'d \<Rightarrow> dic \<Rightarrow> bool"
  assumes repr_empty: "repr empty []"
    and repr_add: "repr d kvs \<Longrightarrow> \<exists>d'. add k v d = Inr d' \<and> repr d' (add_data kvs k v)"
    and repr_find: "repr d kvs \<Longrightarrow> find d key = Some (find_value kvs key)"

definition add_each :: "(string option \<Rightarrow> string \<Rightarrow> 'd \<Rightarrow> 'd res) \<Rightarrow> 'd \<Rightarrow> dic \<Rightarrow> 'd res" where
  "add_each add d es = foldl (\<lambda>r (k, v). rbind r (add k v)) (Inr d) es"

context dictionary
begin

lemma add_each_repr:
  assumes "repr d kvs"
  shows "\<exists>d'. add_each add d es = Inr d' \<and> repr d' (kvs @ es)"
proof (induction es rule: rev_induct)
  case Nil
  then show ?case using assms by (simp add: add_each_def)
next
  case (snoc e es)
  obtain k v where e: "e = (k, v)" by (cases e)
  obtain d1 where d1: "add_each add d es = Inr d1" "repr d1 (kvs @ es)" using snoc by blast
  then show ?case
    using repr_add [OF d1(2), of k v] by (auto simp: add_each_def e add_data_def)
qed

lemma lookup_after_adds:
  "\<exists>d'. add_each add empty es = Inr d' \<and> find d' key = Some (find_value es key)"
  using add_each_repr [OF repr_empty, of es] repr_find by fastforce

end

text \<open>\<open>find_value\<close> returns the value's pointer; this reads the string behind it.\<close>

definition lookup_h :: "mem \<times> dic_list \<Rightarrow> string \<Rightarrow> string option res option" where
  "lookup_h d key = (case find_value_h (fst d) (snd d) key of
       None \<Rightarrow> None
     | Some r \<Rightarrow> Some (rbind r (\<lambda>v. if v = 0 then Inr None else rmap Some (get_text (fst d) v))))"

lemma lookup_h_list_at:
  assumes "list_at m l ts kvs"
  shows "lookup_h (m, l) key = Some (find_value kvs key)"
proof -
  obtain r where r: "find_from m (head l) key = Some r"
    "case find_value kvs key of Inl e \<Rightarrow> r = Inl e | Inr None \<Rightarrow> r = Inr 0
     | Inr (Some s) \<Rightarrow> \<exists>v. r = Inr v \<and> get_text m v = Inr s"
    using find_from_ok [of m "head l" ts kvs key] assms by (auto simp: list_at_def)
  have "v \<noteq> 0" if "get_text m v = Inr s" for v s
    using that by (auto simp: get_text_def split: if_splits)
  then show ?thesis using r
    by (auto simp: lookup_h_def find_value_h_def split: sum.splits option.splits)
qed

definition empty_mem :: mem where
  "empty_mem = \<lparr>cells = (\<lambda>_. None), brk = 1\<rparr>"

lemma mem_ok_empty: "mem_ok empty_mem"
  by (simp add: mem_ok_def empty_mem_def)

interpretation heap_dic: dictionary "(empty_mem, empty_dic)" add_copy lookup_h "owns empty_mem"
proof unfold_locales
  show "owns empty_mem (empty_mem, empty_dic) []" using mem_ok_empty by (rule owns_empty)
next
  fix d kvs k v assume "owns empty_mem d kvs"
  then show "\<exists>d'. add_copy k v d = Inr d' \<and> owns empty_mem d' (add_data kvs k v)"
    by (rule add_copy_owns)
next
  fix d kvs key assume "owns empty_mem d kvs"
  then show "lookup_h d key = Some (find_value kvs key)"
    by (cases d) (auto simp: owns_def intro: lookup_h_list_at)
qed

interpretation list_dic: dictionary "[]" "\<lambda>k v d. Inr (add_data d k v)" "\<lambda>d key. Some (find_value d key)" "(=)"
  by unfold_locales auto

lemma clear_list_owns:
  assumes "owns m0 (m, l) kvs" and "mem_ok m0"
  shows "\<exists>m'. clear_list_h m l = Some (Inr m') \<and> cells m' = cells m0"
proof -
  obtain ts where ts: "list_at m l ts kvs" "\<forall>a. a \<in> set (footprint ts) \<longrightarrow> brk m0 \<le> a"
    "\<forall>a. a \<notin> set (footprint ts) \<longrightarrow> cells m a = cells m0 a"
    using assms(1) by (auto simp: owns_def)
  have "clear_list_h m l = Some (Inr (erase m (set (footprint ts))))"
    using ts(1) unfolding clear_list_h_def list_at_def by (blast intro: clear_from_ok)
  moreover have "cells (erase m (set (footprint ts))) = cells m0"
    using ts assms(2) by (auto simp: mem_ok_def)
  ultimately show ?thesis by blast
qed

end
