(* ===== verification/Request_Memory.thy ===== *)
theory Request_Memory
  imports Dic_List
begin

text \<open>
  The memory of a request (\<^verbatim>\<open>http.h\<close>, \<open>clear_requset\<close> of \<^verbatim>\<open>http.c\<close>): four strings and two
  lists on one heap, allocated in the order \<open>parse_request\<close> allocates them, and what
  \<open>clear_requset\<close> gives back. The two \<^verbatim>\<open>dic_list\<close> structs themselves, which it does not
  free, are not cells of this heap.
\<close>

record request_h =
  h_method :: nat
  h_path :: nat
  h_version :: nat
  h_header :: dic_list
  h_body :: nat
  h_parameter :: dic_list

definition clear_requset :: "mem \<Rightarrow> request_h \<Rightarrow> mem res option" where
  "clear_requset m req =
     (case rbind (free_cell (h_body req) m) (\<lambda>m.
           rbind (free_cell (h_method req) m) (\<lambda>m.
           rbind (free_cell (h_path req) m) (\<lambda>m.
             free_cell (h_version req) m))) of
        Inl e \<Rightarrow> Some (Inl e)
      | Inr m \<Rightarrow>
          (case clear_list_h m (h_header req) of
             None \<Rightarrow> None
           | Some (Inl e) \<Rightarrow> Some (Inl e)
           | Some (Inr m) \<Rightarrow> clear_list_h m (h_parameter req)))"

definition build_request ::
  "mem \<Rightarrow> string \<Rightarrow> string \<Rightarrow> string \<Rightarrow> dic \<Rightarrow> string option \<Rightarrow> dic \<Rightarrow> (mem \<times> request_h) res" where
  "build_request m method path version header body parameter =
     (let (a, m) = new_text (Some method) m;
          (b, m) = new_text (Some path) m;
          (c, m) = new_text (Some version) m
      in rbind (add_each add_copy (m, empty_dic) header) (\<lambda>(m, lh).
         let (d, m) = new_text body m
         in rbind (add_each add_copy (m, empty_dic) parameter) (\<lambda>(m, lp).
           Inr (m, \<lparr>h_method = a, h_path = b, h_version = c, h_header = lh, h_body = d, h_parameter = lp\<rparr>))))"

section \<open>Clearing\<close>

lemma heap_dictionary:
  assumes "mem_ok m0"
  shows "dictionary (m0, empty_dic) add_copy lookup_h (owns m0)"
proof unfold_locales
  show "owns m0 (m0, empty_dic) []" using assms by (rule owns_empty)
next
  fix d kvs k v assume "owns m0 d kvs"
  then show "\<exists>d'. add_copy k v d = Inr d' \<and> owns m0 d' (add_data kvs k v)" by (rule add_copy_owns)
next
  fix d kvs key assume "owns m0 d kvs"
  then show "lookup_h d key = Some (find_value kvs key)"
    by (cases d) (auto simp: owns_def intro: lookup_h_list_at)
qed

lemma build_list:
  assumes "mem_ok m0"
  obtains m l ts where "add_each add_copy (m0, empty_dic) es = Inr (m, l)" and "list_at m l ts es"
    and "brk m0 \<le> brk m" and "\<And>a. a \<in> set (footprint ts) \<Longrightarrow> brk m0 \<le> a"
    and "\<And>a. a \<notin> set (footprint ts) \<Longrightarrow> cells m a = cells m0 a"
proof -
  obtain d where d: "add_each add_copy (m0, empty_dic) es = Inr d" "owns m0 d es"
    using dictionary.add_each_repr [OF heap_dictionary [OF assms] owns_empty [OF assms], of es] by auto
  then show ?thesis using that by (cases d) (auto simp: owns_def)
qed

lemma mem_ok_erase: "mem_ok m \<Longrightarrow> mem_ok (erase m A)"
  by (auto simp: mem_ok_def erase_def)

lemma clear_list_erase:
  assumes l: "list_at m l ts kvs" and A: "A \<inter> set (footprint ts) = {}"
  shows "clear_list_h (erase m A) l = Some (Inr (erase m (A \<union> set (footprint ts))))"
proof -
  have "list_at (erase m A) l ts kvs"
    using l A by (intro list_at_frame [OF l]) (auto simp: list_at_def mem_ok_erase)
  then have "clear_list_h (erase m A) l = Some (Inr (erase (erase m A) (set (footprint ts))))"
    unfolding clear_list_h_def list_at_def by (blast intro: clear_from_ok)
  then show ?thesis by simp
qed

text \<open>A string or NULL is freed by erasing its cell, if it is still there.\<close>

definition text_at :: "mem \<Rightarrow> nat \<Rightarrow> bool" where
  "text_at m a \<longleftrightarrow> a = 0 \<or> cells m a \<noteq> None"

lemma free_text: "text_at m a \<Longrightarrow> a \<notin> A - {0} \<Longrightarrow> free_cell a (erase m A) = Inr (erase m (A \<union> ({a} - {0})))"
  using free_cell_erase [of a "erase m A"] by (cases "a = 0") (auto simp: text_at_def free_cell_def)

lemma clear_requset_erase:
  assumes h: "list_at m (h_header r) ts hs" and p: "list_at m (h_parameter r) us ps"
    and t: "\<forall>a \<in> set [h_body r, h_method r, h_path r, h_version r]. text_at m a"
    and d: "distinct (filter (\<lambda>a. a \<noteq> 0) [h_body r, h_method r, h_path r, h_version r] @ footprint ts @ footprint us)"
  shows "clear_requset m r = Some (Inr (erase m
    (({h_body r, h_method r, h_path r, h_version r} - {0}) \<union> set (footprint ts) \<union> set (footprint us))))"
proof -
  define A where "A = {h_body r, h_method r, h_path r, h_version r} - {0}"
  have nz: "0 \<notin> A" by (simp add: A_def)
  have "rbind (free_cell (h_body r) m) (\<lambda>m. rbind (free_cell (h_method r) m) (\<lambda>m.
      rbind (free_cell (h_path r) m) (free_cell (h_version r)))) = Inr (erase m A)"
  proof -
    have n: "h_method r \<notin> ({h_body r} - {0}) - {0}" "h_path r \<notin> ({h_body r, h_method r} - {0}) - {0}"
      "h_version r \<notin> ({h_body r, h_method r, h_path r} - {0}) - {0}"
      using d by (auto split: if_splits)
    have u: "A0 - {0} \<union> ({x} - {0}) = insert x A0 - {0}" for A0 :: "nat set" and x by auto
    note f = free_text [of m _ "_ - {0}", unfolded u]
    have "free_cell (h_body r) m = Inr (erase m ({h_body r} - {0}))"
      using free_text [of m "h_body r" "{}"] t by simp
    then show ?thesis
      using t f [of "h_method r" "{h_body r}"] f [of "h_path r" "{h_method r, h_body r}"]
        f [of "h_version r" "{h_path r, h_method r, h_body r}"] n
      by (simp add: A_def insert_commute)
  qed
  moreover have "A \<inter> set (footprint ts) = {}" "(A \<union> set (footprint ts)) \<inter> set (footprint us) = {}"
    using d by (auto simp: A_def split: if_splits)
  ultimately show ?thesis
    using clear_list_erase [OF h] clear_list_erase [OF p]
    by (simp add: clear_requset_def A_def)
qed

section \<open>A request that is built and cleared\<close>

text \<open>
  \<open>allocated m0 m As\<close>: the heap \<open>m\<close> is \<open>m0\<close> with the new cells \<open>As\<close>. Allocations compose, and
  what was allocated before stays as it is.
\<close>

definition allocated :: "mem \<Rightarrow> mem \<Rightarrow> nat list \<Rightarrow> bool" where
  "allocated m0 m As \<longleftrightarrow> mem_ok m0 \<and> mem_ok m \<and> brk m0 \<le> brk m \<and> distinct As \<and>
     (\<forall>a \<in> set As. brk m0 \<le> a \<and> a < brk m) \<and> (\<forall>a. a \<notin> set As \<longrightarrow> cells m a = cells m0 a)"

lemma allocated_mem_ok: "allocated m0 m As \<Longrightarrow> mem_ok m"
  by (simp add: allocated_def)

lemma allocated_trans: "allocated m0 m As \<Longrightarrow> allocated m m' Bs \<Longrightarrow> allocated m0 m' (As @ Bs)"
  by (fastforce simp: allocated_def)

lemma allocated_text: "mem_ok m \<Longrightarrow> new_text t m = (a, m') \<Longrightarrow> allocated m m' (filter (\<lambda>a. a \<noteq> 0) [a]) \<and> text_at m' a"
  by (auto simp: allocated_def text_at_def new_text_def new_cell_def mem_ok_def split: option.splits)

lemma allocated_list:
  assumes "mem_ok m"
  shows "\<exists>m' l ts. add_each add_copy (m, empty_dic) es = Inr (m', l) \<and> list_at m' l ts es \<and> allocated m m' (footprint ts)"
proof -
  obtain m' l ts where b: "add_each add_copy (m, empty_dic) es = Inr (m', l)" "list_at m' l ts es" "brk m \<le> brk m'"
    "\<And>a. a \<in> set (footprint ts) \<Longrightarrow> brk m \<le> a" "\<And>a. a \<notin> set (footprint ts) \<Longrightarrow> cells m' a = cells m a"
    using build_list [OF assms, of es] by blast
  have "allocated m m' (footprint ts)"
    using assms b footprint_below_brk(1) [OF b(2)] by (simp add: allocated_def list_at_def)
  then show ?thesis using b by blast
qed

lemma text_at_allocated: "text_at m a \<Longrightarrow> allocated m m' As \<Longrightarrow> text_at m' a"
  by (cases "a \<in> set As") (auto simp: text_at_def allocated_def mem_ok_def)

lemma list_at_allocated:
  assumes "list_at m l ts kvs" and "allocated m m' As"
  shows "list_at m' l ts kvs"
  using assms(1)
proof (rule list_at_frame)
  show "mem_ok m'" using assms(2) by (rule allocated_mem_ok)
  fix a assume "a \<in> set (footprint ts)"
  then have "a < brk m" using footprint_below_brk(1) [OF assms(1)] by blast
  then have "a \<notin> set As" using assms(2) by (metis allocated_def leD)
  then show "cells m' a = cells m a" using assms(2) by (simp add: allocated_def)
qed

lemma erase_allocated: "allocated m0 m As \<Longrightarrow> set As = A \<Longrightarrow> cells (erase m A) = cells m0"
  by (auto simp: allocated_def mem_ok_def erase_def fun_eq_iff)

lemma build_clear_request:
  assumes ok: "mem_ok m0"
  shows "\<exists>m r m'. build_request m0 method path version header body parameter = Inr (m, r) \<and>
    clear_requset m r = Some (Inr m') \<and> mem_ok m' \<and> cells m' = cells m0"
proof -
  define nz where "nz = filter (\<lambda>a. a \<noteq> (0 :: nat))"
  obtain a m1 where a: "new_text (Some method) m0 = (a, m1)" by force
  then have ga: "allocated m0 m1 (nz [a])" "text_at m1 a" using allocated_text [OF ok a] by (auto simp: nz_def)
  obtain b m2 where b: "new_text (Some path) m1 = (b, m2)" by force
  then have gb: "allocated m1 m2 (nz [b])" "text_at m2 b"
    using allocated_text [OF allocated_mem_ok [OF ga(1)] b] by (auto simp: nz_def)
  obtain c m3 where c: "new_text (Some version) m2 = (c, m3)" by force
  then have gc: "allocated m2 m3 (nz [c])" "text_at m3 c"
    using allocated_text [OF allocated_mem_ok [OF gb(1)] c] by (auto simp: nz_def)
  obtain m4 lh ts where h: "add_each add_copy (m3, empty_dic) header = Inr (m4, lh)" "list_at m4 lh ts header"
      and gh: "allocated m3 m4 (footprint ts)"
    using allocated_list [OF allocated_mem_ok [OF gc(1)]] by blast
  obtain d m5 where d: "new_text body m4 = (d, m5)" by force
  then have gd: "allocated m4 m5 (nz [d])" "text_at m5 d"
    using allocated_text [OF allocated_mem_ok [OF gh] d] by (auto simp: nz_def)
  obtain m6 lp us where p: "add_each add_copy (m5, empty_dic) parameter = Inr (m6, lp)" "list_at m6 lp us parameter"
      and gp: "allocated m5 m6 (footprint us)"
    using allocated_list [OF allocated_mem_ok [OF gd(1)]] by blast
  define r where "r = \<lparr>h_method = a, h_path = b, h_version = c, h_header = lh, h_body = d, h_parameter = lp\<rparr>"
  have build: "build_request m0 method path version header body parameter = Inr (m6, r)"
    by (simp add: build_request_def a b c h(1) d p(1) r_def)
  note g46 = allocated_trans [OF gd(1) gp]
  note g36 = allocated_trans [OF gh g46]
  note g26 = allocated_trans [OF gc(1) g36]
  note g16 = allocated_trans [OF gb(1) g26]
  note g06 = allocated_trans [OF ga(1) g16]
  have t: "text_at m6 x" if "x \<in> set [d, a, b, c]" for x
    using that text_at_allocated [OF ga(2) g16] text_at_allocated [OF gb(2) g26] text_at_allocated [OF gc(2) g36]
      text_at_allocated [OF gd(2) gp] by auto
  have "distinct (nz [a] @ nz [b] @ nz [c] @ footprint ts @ nz [d] @ footprint us)"
    using g06 by (simp only: allocated_def)
  then have dist: "distinct (nz [d, a, b, c] @ footprint ts @ footprint us)"
    by (auto simp: nz_def split: if_splits)
  have cells: "set (nz [a] @ nz [b] @ nz [c] @ footprint ts @ nz [d] @ footprint us) =
      ({d, a, b, c} - {0}) \<union> set (footprint ts) \<union> set (footprint us)"
    by (auto simp: nz_def)
  have "clear_requset m6 r = Some (Inr (erase m6 (({d, a, b, c} - {0}) \<union> set (footprint ts) \<union> set (footprint us))))"
    using clear_requset_erase [of m6 r ts header us parameter] list_at_allocated [OF h(2) g46] p(2) t dist
    by (simp add: r_def nz_def)
  then show ?thesis
    using build erase_allocated [OF g06 cells] mem_ok_erase [OF allocated_mem_ok [OF g06]] by blast
qed

end
