(* ===== verification/Stream_IO.thy ===== *)
theory Stream_IO
  imports C_Memory
begin

text \<open>
  \<^verbatim>\<open>stream.c\<close>: a buffered reader over a descriptor, reading lines and counted blocks, and a
  growing string writer. The reader's environment is the list of results that the
  \<^verbatim>\<open>read\<close> calls on the descriptor will give; after the last one the peer has closed.
\<close>

section \<open>The environment: \<^verbatim>\<open>read\<close>\<close>

datatype read_result = Data string | Failed

type_synonym input = "read_result list"

fun sys_read :: "input \<Rightarrow> int \<Rightarrow> int \<times> string \<times> input" where
  "sys_read [] n = (0, [], [])"
| "sys_read (Failed # inp) n = (-1, [], inp)"
| "sys_read (Data bs # inp) n =
     (if int (length bs) \<le> n then (int (length bs), bs, inp)
      else (n, take (nat n) bs, Data (drop (nat n) bs) # inp))"

section \<open>The code\<close>

definition BUF_SIZE :: int where "BUF_SIZE = 1024"

definition INT_MAX :: int where "INT_MAX = 2147483647"

abbreviation EOF_char :: char where "EOF_char \<equiv> CHR 0xFF"

record stream =
  st_fds :: int
  st_buf :: ptr
  st_cnt :: int
  st_len :: int

type_synonym reader = "stream \<times> input"

definition read_fds :: "reader \<Rightarrow> (int \<times> reader) res" where
  "read_fds st = (case st of (s, inp) \<Rightarrow>
     (case sys_read inp BUF_SIZE of (n, bs, inp') \<Rightarrow>
       rbind (put_bytes (st_buf s) bs) (\<lambda>b.
         let s' = s\<lparr>st_buf := b, st_len := n, st_cnt := 0\<rparr>
         in if n \<le> 0 then Inr (-1, (s', inp')) else Inr (0, (s', inp')))))"

definition fetch :: "reader \<Rightarrow> (char \<times> reader) res" where
  "fetch st = (case st of (s, inp) \<Rightarrow>
     rbind (load (st_buf s) (st_cnt s)) (\<lambda>c. Inr (c, (s\<lparr>st_cnt := st_cnt s + 1\<rparr>, inp))))"

definition get_char :: "reader \<Rightarrow> (char \<times> reader) res" where
  "get_char st =
     (if st_cnt (fst st) = st_len (fst st)
      then rbind (read_fds st) (\<lambda>(r, st).
        if r \<noteq> 0 then Inr (to_char (-1), st) else fetch st)
      else fetch st)"

definition stream_read_init :: "int \<Rightarrow> stream" where
  "stream_read_init fds =
     \<lparr>st_fds = fds, st_buf = malloc BUF_SIZE, st_cnt = 0, st_len = 0\<rparr>"

definition stream_write_init :: stream where
  "stream_write_init = \<lparr>st_fds = 0, st_buf = malloc 10, st_cnt = 0, st_len = 10\<rparr>"

text \<open>Growing a buffer by half: \<open>sz*3\<close> is an \<open>int\<close> product, undefined past \<open>INT_MAX\<close>.\<close>

definition grown :: "int \<Rightarrow> int res" where
  "grown sz = (if sz * 3 > INT_MAX then Inl Int_Overflow else Inr (sz * 3 div 2))"

definition input_size :: "input \<Rightarrow> nat" where
  "input_size inp = (\<Sum>r\<leftarrow>inp. case r of Data bs \<Rightarrow> length bs + 1 | Failed \<Rightarrow> 1)"

lemma sys_read_size:
  "sys_read inp n = (k, bs, inp') \<Longrightarrow> 0 < k \<Longrightarrow> 0 < n \<Longrightarrow> input_size inp' < input_size inp"
  by (cases "(inp, n)" rule: sys_read.cases) (auto simp: input_size_def split: if_splits)

lemma fetch_progress:
  "fetch (s, inp) = Inr (c, (s', inp')) \<Longrightarrow>
     inp' = inp \<and> st_buf s' = st_buf s \<and> readable (st_buf s') (st_cnt s') < readable (st_buf s) (st_cnt s)"
  by (auto simp: fetch_def rbind_eq_Inr intro: readable_step)

text \<open>
  What a reader can still deliver before the descriptor is exhausted: the results to come,
  then what its buffer holds. Every character read makes it smaller; the end-of-stream
  character leaves it as it is at most.
\<close>

definition still_due :: "reader \<Rightarrow> nat \<times> nat" where
  "still_due st = (input_size (snd st),
     if st_cnt (fst st) = st_len (fst st) then 0
     else readable (st_buf (fst st)) (st_cnt (fst st)))"

definition progress_rel :: "(reader \<times> reader) set" where
  "progress_rel = inv_image (less_than <*lex*> less_than) still_due"

lemma wf_progress_rel: "wf progress_rel"
  by (simp add: progress_rel_def wf_lex_prod wf_less_than wf_inv_image)

lemma progress_rel_iff:
  "(st', st) \<in> progress_rel \<longleftrightarrow> fst (still_due st') < fst (still_due st) \<or>
     fst (still_due st') = fst (still_due st) \<and> snd (still_due st') < snd (still_due st)"
  by (cases "still_due st'"; cases "still_due st") (simp add: progress_rel_def)

lemma get_char_still_due:
  assumes "get_char st = Inr (c, st')"
  shows "(st', st) \<in> progress_rel \<or> c_int c = -1 \<and> still_due st' = still_due st"
proof (cases "st_cnt (fst st) = st_len (fst st)")
  case False
  then have "fetch (fst st, snd st) = Inr (c, (fst st', snd st'))"
    using assms(1) by (simp add: get_char_def)
  from fetch_progress [OF this] show ?thesis using False by (auto simp: progress_rel_iff still_due_def)
next
  case True
  obtain s inp where st: "st = (s, inp)" by (cases st)
  obtain k bs inp1 where r: "sys_read inp BUF_SIZE = (k, bs, inp1)" by (metis prod_cases3)
  obtain b where b: "put_bytes (st_buf s) bs = Inr b"
    using assms True by (auto simp: get_char_def read_fds_def st r rbind_eq_Inr)
  define s1 where "s1 = s\<lparr>st_buf := b, st_len := k, st_cnt := 0\<rparr>"
  have g: "get_char st = (if k \<le> 0 then Inr (to_char (-1), (s1, inp1)) else fetch (s1, inp1))"
    using True by (simp add: get_char_def read_fds_def st r b s1_def Let_def)
  show ?thesis
  proof (cases "k \<le> 0")
    case k: True
    have "input_size inp1 < input_size inp \<or> inp1 = inp \<and> k = 0"
      using r k by (cases "(inp, BUF_SIZE)" rule: sys_read.cases)
        (auto simp: input_size_def BUF_SIZE_def split: if_splits)
    moreover have "c = to_char (-1)" "st' = (s1, inp1)" using assms k by (simp_all add: g)
    ultimately show ?thesis using True
      by (auto simp: st progress_rel_iff still_due_def s1_def c_int_to_char)
  next
    case False
    then have "fetch (s1, inp1) = Inr (c, (fst st', snd st'))" using assms by (simp add: g)
    then have "snd st' = inp1" using fetch_progress by blast
    moreover have "input_size inp1 < input_size inp"
      using sys_read_size [OF r] False by (simp add: BUF_SIZE_def)
    ultimately show ?thesis by (simp add: progress_rel_iff still_due_def st)
  qed
qed

lemma get_char_progress:
  "get_char st = Inr (c, st') \<Longrightarrow> c_int c \<noteq> -1 \<Longrightarrow> (st', st) \<in> progress_rel"
  using get_char_still_due by blast

function get_line_loop ::
  "reader \<Rightarrow> ptr \<Rightarrow> int \<Rightarrow> ptr \<Rightarrow> int \<Rightarrow> int \<Rightarrow> (ptr \<times> int \<times> reader) res" where
  "get_line_loop st delimiter del_len line sz len =
     rbind (if len < del_len then Inr True
            else rmap (\<lambda>r. r \<noteq> 0) (strncmp (padd line (len - 2)) delimiter (size_t del_len))) (\<lambda>go.
     if \<not> go then Inr (line, len, st)
     else rbind (if len + 1 = sz then rmap (\<lambda>sz'. (sz', realloc line sz')) (grown sz)
                 else Inr (sz, line)) (\<lambda>t.
     rbind (get_char st) (\<lambda>u.
     rbind (store (snd t) len (fst u)) (\<lambda>line'.
       if c_int (fst u) = -1 then Inr (line', len, snd u)
       else get_line_loop (snd u) delimiter del_len line' (fst t) (len + 1)))))"
  by pat_completeness auto
termination
proof (relation "inv_image progress_rel (\<lambda>(st, d, n, l, sz, k). st)", goal_cases)
  case 1
  show ?case using wf_progress_rel by (rule wf_inv_image)
next
  case (2 st d n l sz k go t u l')
  then show ?case using get_char_progress [of st "fst u" "snd u"] by simp
qed

declare get_line_loop.simps [simp del]

text \<open>Every line that is returned consumed at least one byte: the header loop ends.\<close>

lemma get_line_loop_progress:
  assumes "get_line_loop st d n line sz len = Inr (line', len', st')" and "at_start line"
  shows "at_start line' \<and> len \<le> len' \<and> (len < len' \<longrightarrow> (st', st) \<in> progress_rel) \<and>
    ((st', st) \<in> progress_rel \<or> still_due st' = still_due st)"
  using assms
proof (induction st d n line sz len rule: get_line_loop.induct)
  case (1 st d n line sz len)
  obtain go where go: "(if len < n then Inr True
      else rmap (\<lambda>r. r \<noteq> 0) (strncmp (padd line (len - 2)) d (size_t n))) = Inr go"
    using 1(2) unfolding get_line_loop.simps [of st d n line sz len] by (rule rbind_okE)
  show ?case
  proof (cases go)
    case False
    then show ?thesis using 1(2,3) unfolding get_line_loop.simps [of st d n line sz len] go by simp
  next
    case True
    obtain t where t: "(if len + 1 = sz then rmap (\<lambda>sz'. (sz', realloc line sz')) (grown sz)
        else Inr (sz, line)) = Inr t"
      and r1: "rbind (get_char st) (\<lambda>u. rbind (store (snd t) len (fst u)) (\<lambda>line'.
        if c_int (fst u) = -1 then Inr (line', len, snd u)
        else get_line_loop (snd u) d n line' (fst t) (len + 1))) = Inr (line', len', st')"
      using 1(2) True unfolding get_line_loop.simps [of st d n line sz len] go rbind_simps
      by (auto elim: rbind_okE)
    obtain u l where u: "get_char st = Inr u" and l: "store (snd t) len (fst u) = Inr l"
      and r2: "(if c_int (fst u) = -1 then Inr (l, len, snd u)
        else get_line_loop (snd u) d n l (fst t) (len + 1)) = Inr (line', len', st')"
      using r1 by (auto elim!: rbind_okE)
    have "at_start (snd t)"
      using t 1(3) at_start_realloc by (auto simp: rmap_eq_Inr split: if_splits)
    then have s: "at_start l" using l at_start_store by blast
    have sup: "(snd u, st) \<in> progress_rel \<or> c_int (fst u) = -1 \<and> still_due (snd u) = still_due st"
      using get_char_still_due [of st "fst u" "snd u"] u by simp
    show ?thesis
    proof (cases "c_int (fst u) = -1")
      case eof: True
      then show ?thesis using r2 s sup by auto
    next
      case neq: False
      then have g: "get_line_loop (snd u) d n l (fst t) (len + 1) = Inr (line', len', st')" using r2 by simp
      have "\<not> \<not> go" using True by simp
      from 1(1) [OF go this t u l neq g s] sup neq show ?thesis
        by (auto simp: progress_rel_iff)
    qed
  qed
qed

definition get_line :: "reader \<Rightarrow> ptr \<Rightarrow> (ptr \<times> reader) res" where
  "get_line st delimiter =
     rbind (strlen delimiter) (\<lambda>del_len.
     rbind (get_line_loop st delimiter del_len (malloc 10) 10 0) (\<lambda>(line, len, st).
     rbind (strncmp (padd line (len - 2)) delimiter (size_t del_len)) (\<lambda>r.
     let len = (if r = 0 then len - del_len else len) in
     rbind (store line len NUL) (\<lambda>line.
     rbind (if len = 0 then Inr True
            else rbind (c_string line) (\<lambda>l. rmap (\<lambda>d. strcmp l d = 0) (c_string delimiter))) (\<lambda>empty.
     if empty then rbind (free line) (\<lambda>_. Inr (Null, st)) else Inr (line, st))))))"

lemma get_line_progress:
  assumes "get_line st (literal crlf) = Inr (line, st')"
  shows "(st', st) \<in> progress_rel"
proof -
  have c: "strlen (literal crlf) = Inr 2"
    using c_string_literal [of crlf] by (simp add: strlen_c_string crlf_def)
  obtain l n st1 where l: "get_line_loop st (literal crlf) 2 (malloc 10) 10 0 = Inr (l, n, st1)"
    using assms by (auto simp: get_line_def c rbind_eq_Inr)
  note pr = get_line_loop_progress [OF l at_start_malloc]
  obtain v where v: "strncmp (padd l (n - 2)) (literal crlf) (size_t 2) = Inr v" and st1: "st' = st1"
    using assms by (auto simp: get_line_def c l rbind_eq_Inr Let_def split: if_splits)
  have "n \<noteq> 0"
  proof
    assume "n = 0"
    then show False using v pr
      by (auto simp: strncmp_def from_ptr_def padd_def at_start_def rbind_eq_Inr split: ptr.splits if_splits)
  qed
  then show ?thesis using pr st1 by simp
qed

lemma at_start_get_line:
  assumes "get_line st d = Inr (line, st')"
  shows "at_start line"
proof -
  obtain n where n: "strlen d = Inr n" using assms by (auto simp: get_line_def rbind_eq_Inr)
  obtain l k st1 where l: "get_line_loop st d n (malloc 10) 10 0 = Inr (l, k, st1)"
    using assms by (auto simp: get_line_def n rbind_eq_Inr)
  then have "at_start l" using get_line_loop_progress [OF l at_start_malloc] by simp
  then show ?thesis
    using assms by (auto simp: get_line_def n l rbind_eq_Inr Let_def dest: at_start_store split: if_splits)
qed

function read_sz_loop :: "reader \<Rightarrow> ptr \<Rightarrow> int \<Rightarrow> int \<Rightarrow> (ptr \<times> reader) res" where
  "read_sz_loop st buf sz i =
     (if i < sz then
        rbind (get_char st) (\<lambda>(c, st).
        rbind (store buf i c) (\<lambda>buf. read_sz_loop st buf sz (i + 1)))
      else Inr (buf, st))"
  by pat_completeness auto
termination
  by (relation "measure (\<lambda>(st, buf, sz, i). nat (sz - i))") auto

declare read_sz_loop.simps [simp del]

text \<open>The size of the buffer, \<open>sz+1\<close>, is an \<open>int\<close> sum.\<close>

definition read_sz :: "reader \<Rightarrow> int \<Rightarrow> (ptr \<times> reader) res" where
  "read_sz st sz =
     (if sz + 1 > INT_MAX then Inl Int_Overflow
      else
        rbind (read_sz_loop st (malloc (sz + 1)) sz 0) (\<lambda>(buf, st).
        rbind (store buf sz NUL) (\<lambda>buf. Inr (buf, st))))"

text \<open>
  The growth loop of \<open>write_stream\<close>. A capacity that the step does not increase (0 or 1)
  would repeat for ever; it is the \<open>Diverges\<close> branch.
\<close>

function grow_loop :: "ptr \<Rightarrow> int \<Rightarrow> nat \<Rightarrow> (ptr \<times> int) res" where
  "grow_loop b len need =
     (if need > size_t len then
        rbind (grown len) (\<lambda>len'.
          if len' \<le> len then Inl Diverges else grow_loop (realloc b len') len' need)
      else Inr (b, len))"
  by pat_completeness auto
termination
  by (relation "measure (\<lambda>(b, len, need). nat (INT_MAX - len))")
     (auto simp: grown_def split: if_splits)

declare grow_loop.simps [simp del]

definition write_stream :: "stream \<Rightarrow> ptr \<Rightarrow> stream res" where
  "write_stream s str =
     rbind (strlen str) (\<lambda>len.
     rbind (grow_loop (st_buf s) (st_len s) (size_t (st_cnt s) + nat len + 1)) (\<lambda>(b, l).
     rbind (strncpy (padd b (st_cnt s)) str len) (\<lambda>b.
     let b = padd b (- st_cnt s); cnt = st_cnt s + len in
     rbind (store b cnt NUL) (\<lambda>b.
       Inr (s\<lparr>st_buf := b, st_cnt := cnt, st_len := l\<rparr>)))))"

definition stream_destory :: "stream \<Rightarrow> unit res" where
  "stream_destory s = free (st_buf s)"

section \<open>The reader as a source of bytes\<close>

text \<open>
  What a reader still has to deliver: the unread part of its buffer, then the data of the
  results to come. The invariant \<open>rd_ok\<close>: a buffer of \<open>BUF_SIZE\<close> bytes, written up to
  \<open>st_len\<close>, and a descriptor on which no \<^verbatim>\<open>read\<close> fails.
\<close>

definition clean :: "input \<Rightarrow> bool" where
  "clean inp \<longleftrightarrow> Failed \<notin> set inp \<and> Data [] \<notin> set inp"

lemma clean_iff: "clean inp \<longleftrightarrow> (\<forall>r \<in> set inp. \<exists>bs. r = Data bs \<and> bs \<noteq> [])"
proof -
  have "(\<exists>bs. r = Data bs \<and> bs \<noteq> []) \<longleftrightarrow> r \<noteq> Failed \<and> r \<noteq> Data []" for r by (cases r) auto
  then show ?thesis by (auto simp: clean_def)
qed

fun data_of :: "input \<Rightarrow> string" where
  "data_of [] = []"
| "data_of (Data bs # inp) = bs @ data_of inp"
| "data_of (Failed # inp) = data_of inp"

definition unread :: "stream \<Rightarrow> block" where
  "unread s = (case st_buf s of Null \<Rightarrow> []
     | Ptr b i \<Rightarrow> take (nat (st_len s - st_cnt s)) (drop (nat (st_cnt s)) b))"

definition pending :: "reader \<Rightarrow> string" where
  "pending st = map the (unread (fst st)) @ data_of (snd st)"

definition rd_ok :: "reader \<Rightarrow> bool" where
  "rd_ok st \<longleftrightarrow> clean (snd st) \<and>
     (\<exists>b. st_buf (fst st) = Ptr b 0 \<and> int (length b) = BUF_SIZE \<and>
       0 \<le> st_cnt (fst st) \<and> st_cnt (fst st) \<le> st_len (fst st) \<and> st_len (fst st) \<le> BUF_SIZE) \<and>
     None \<notin> set (unread (fst st))"

locale byte_source =
  fixes get :: "'s \<Rightarrow> (char \<times> 's) res"
    and rest :: "'s \<Rightarrow> string"
    and inv :: "'s \<Rightarrow> bool"
  assumes get_end: "inv st \<Longrightarrow> rest st = [] \<Longrightarrow>
      \<exists>st'. get st = Inr (EOF_char, st') \<and> inv st' \<and> rest st' = []"
    and get_next: "inv st \<Longrightarrow> rest st = c # cs \<Longrightarrow>
      \<exists>st'. get st = Inr (c, st') \<and> inv st' \<and> rest st' = cs"

fun take_chars :: "('s \<Rightarrow> (char \<times> 's) res) \<Rightarrow> nat \<Rightarrow> 's \<Rightarrow> (string \<times> 's) res" where
  "take_chars get 0 st = Inr ([], st)"
| "take_chars get (Suc n) st =
     rbind (get st) (\<lambda>(c, st). rmap (\<lambda>(cs, st). (c # cs, st)) (take_chars get n st))"

context byte_source
begin

lemma get_char_of_rest:
  assumes "inv st"
  obtains st' where "get st = Inr (if rest st = [] then EOF_char else hd (rest st), st')"
    and "inv st'" and "rest st' = tl (rest st)"
  using get_end [OF assms] get_next [OF assms] that
  by (cases "rest st") fastforce+

lemma take_chars_rest:
  assumes "inv st"
  shows "\<exists>st'. take_chars get n st = Inr (take n (rest st) @ replicate (n - length (rest st)) EOF_char, st')
    \<and> inv st' \<and> rest st' = drop n (rest st)"
  using assms
proof (induction n arbitrary: st)
  case (Suc n)
  obtain st1 where st1: "get st = Inr (if rest st = [] then EOF_char else hd (rest st), st1)"
    "inv st1" "rest st1 = tl (rest st)"
    using Suc.prems by (rule get_char_of_rest)
  show ?case using st1 Suc.IH [OF st1(2)] by (cases "rest st") auto
qed simp

end

lemma data_of_clean_Nil: "clean inp \<Longrightarrow> data_of inp = [] \<longleftrightarrow> inp = []"
  by (cases inp rule: data_of.cases) (auto simp: clean_iff)

lemma sys_read_clean:
  assumes "clean inp" and "inp \<noteq> []" and "0 < n"
  obtains bs inp' where "sys_read inp n = (int (length bs), bs, inp')" and "bs \<noteq> []"
    and "int (length bs) \<le> n" and "clean inp'" and "data_of inp = bs @ data_of inp'"
proof -
  obtain bs r where inp: "inp = Data bs # r" "bs \<noteq> []" "clean r"
    using assms(1,2) by (cases inp) (auto simp: clean_iff)
  show ?thesis
  proof (cases "int (length bs) \<le> n")
    case True
    then show ?thesis using inp by (intro that [of bs r]) simp_all
  next
    case False
    then show ?thesis using inp assms(3)
      by (intro that [of "take (nat n) bs" "Data (drop (nat n) bs) # r"])
        (auto simp: clean_iff)
  qed
qed

lemma fetch_rd_ok:
  assumes ok: "rd_ok st" and lt: "st_cnt (fst st) < st_len (fst st)"
  obtains c st' where "fetch st = Inr (c, st')" and "rd_ok st'" and "pending st = c # pending st'"
proof -
  obtain s inp where st: "st = (s, inp)" by (cases st)
  obtain b where b: "st_buf s = Ptr b 0" "int (length b) = BUF_SIZE" "0 \<le> st_cnt s"
    "st_len s \<le> BUF_SIZE" and clean: "clean inp" and some: "None \<notin> set (unread s)"
    using ok by (auto simp: rd_ok_def st)
  define i where "i = nat (st_cnt s)"
  have i: "i < length b" "st_cnt s = int i" "nat (st_len s - st_cnt s) = Suc (nat (st_len s - (st_cnt s + 1)))"
    using b lt by (auto simp: i_def st)
  have u: "unread s = b ! i # take (nat (st_len s - (st_cnt s + 1))) (drop (Suc i) b)"
    using i by (simp add: unread_def b(1) Cons_nth_drop_Suc [symmetric])
  then obtain c where c: "b ! i = Some c" using some by (cases "b ! i") auto
  define s' where "s' = s\<lparr>st_cnt := st_cnt s + 1\<rparr>"
  have u': "unread s = Some c # unread s'"
    using u i by (simp add: c s'_def unread_def b(1) nat_add_distrib)
  have "fetch st = Inr (c, (s', inp))"
    using i c by (simp add: fetch_def st load_def b(1) s'_def)
  moreover have "rd_ok (s', inp)"
    using b clean some u' lt by (auto simp: rd_ok_def s'_def st)
  moreover have "pending st = c # pending (s', inp)" by (simp add: pending_def st u')
  ultimately show ?thesis by (rule that)
qed

lemma read_fds_rd_ok:
  assumes ok: "rd_ok (s, inp)" and eq: "st_cnt s = st_len s" and ne: "inp \<noteq> []"
  obtains st' where "read_fds (s, inp) = Inr (0, st')" and "rd_ok st'"
    and "pending st' = pending (s, inp)" and "st_cnt (fst st') < st_len (fst st')"
proof -
  obtain b where b: "st_buf s = Ptr b 0" "int (length b) = BUF_SIZE" and clean: "clean inp"
    using ok by (auto simp: rd_ok_def)
  obtain bs inp' where r: "sys_read inp BUF_SIZE = (int (length bs), bs, inp')" "bs \<noteq> []"
    "int (length bs) \<le> BUF_SIZE" "clean inp'" "data_of inp = bs @ data_of inp'"
    using sys_read_clean [OF clean ne, of BUF_SIZE] by (auto simp: BUF_SIZE_def)
  define b' where "b' = map Some bs @ drop (length bs) b"
  have len: "int (length b') = BUF_SIZE" using b r(3) by (simp add: b'_def)
  have put: "put_bytes (st_buf s) bs = Inr (Ptr b' 0)"
    using b r(3) by (simp add: put_bytes_def b'_def)
  define s' where "s' = s\<lparr>st_buf := Ptr b' 0, st_len := int (length bs), st_cnt := 0\<rparr>"
  have u: "unread s' = map Some bs" by (simp add: s'_def unread_def b'_def)
  have u0: "unread s = []" using eq by (simp add: unread_def split: ptr.splits)
  have "read_fds (s, inp) = Inr (0, (s', inp'))"
    using r(1,2) by (simp add: read_fds_def put s'_def Let_def)
  moreover have "rd_ok (s', inp')"
    using r(3,4) len u by (auto simp: rd_ok_def s'_def)
  moreover have "pending (s', inp') = pending (s, inp)"
    using r(5) by (simp add: pending_def u u0 comp_def)
  moreover have "st_cnt s' < st_len s'" using r(2) by (simp add: s'_def)
  ultimately show ?thesis using that by simp
qed

lemma read_fds_closed:
  assumes ok: "rd_ok (s, [])" and eq: "st_cnt s = st_len s"
  obtains st' where "read_fds (s, []) = Inr (-1, st')" and "rd_ok st'" and "pending st' = []"
proof -
  obtain b where b: "st_buf s = Ptr b 0" "int (length b) = BUF_SIZE"
    using ok by (auto simp: rd_ok_def)
  define s' where "s' = s\<lparr>st_buf := Ptr b 0, st_len := 0, st_cnt := 0\<rparr>"
  have "read_fds (s, []) = Inr (-1, (s', []))"
    using b by (simp add: read_fds_def put_bytes_def s'_def Let_def)
  moreover have "rd_ok (s', [])" "pending (s', []) = []"
    using b by (auto simp: rd_ok_def s'_def clean_iff unread_def pending_def BUF_SIZE_def)
  ultimately show ?thesis by (rule that)
qed

lemma get_char_end:
  assumes ok: "rd_ok st" and p: "pending st = []"
  shows "\<exists>st'. get_char st = Inr (EOF_char, st') \<and> rd_ok st' \<and> pending st' = []"
proof -
  obtain s inp where st: "st = (s, inp)" by (cases st)
  have eq: "st_cnt s = st_len s"
  proof (rule ccontr)
    assume "st_cnt s \<noteq> st_len s"
    then have "st_cnt (fst st) < st_len (fst st)" using ok by (auto simp: rd_ok_def st)
    then show False using fetch_rd_ok [OF ok] p by (metis list.distinct(1))
  qed
  have inp: "inp = []"
    using p ok data_of_clean_Nil [of inp] by (simp add: pending_def st rd_ok_def)
  obtain st' where st': "read_fds (s, []) = Inr (-1, st')" "rd_ok st'" "pending st' = []"
    using read_fds_closed [of s] ok eq by (auto simp: st inp)
  have "to_char (-1) = EOF_char" by (simp add: to_char_def char_of_def bit_iff_odd)
  then show ?thesis using st' eq by (simp add: get_char_def st inp)
qed

lemma get_char_next:
  assumes ok: "rd_ok st" and p: "pending st = c # cs"
  shows "\<exists>st'. get_char st = Inr (c, st') \<and> rd_ok st' \<and> pending st' = cs"
proof -
  obtain s inp where st: "st = (s, inp)" by (cases st)
  show ?thesis
  proof (cases "st_cnt s = st_len s")
    case False
    then have "st_cnt (fst st) < st_len (fst st)" using ok by (auto simp: rd_ok_def st)
    from fetch_rd_ok [OF ok this] obtain c' st' where "fetch st = Inr (c', st')" "rd_ok st'"
      "pending st = c' # pending st'" .
    then show ?thesis using p False by (simp add: get_char_def st)
  next
    case True
    have "unread s = []" using True by (simp add: unread_def split: ptr.splits)
    then have "inp \<noteq> []" using p by (auto simp: pending_def st)
    from read_fds_rd_ok [OF ok [unfolded st] True this]
    obtain st1 where st1: "read_fds (s, inp) = Inr (0, st1)" "rd_ok st1"
      "pending st1 = pending (s, inp)" "st_cnt (fst st1) < st_len (fst st1)" .
    from fetch_rd_ok [OF st1(2,4)] obtain c' st' where "fetch st1 = Inr (c', st')" "rd_ok st'"
      "pending st1 = c' # pending st'" .
    then show ?thesis using p True st1(1,3) by (simp add: get_char_def st)
  qed
qed

interpretation reader: byte_source get_char pending rd_ok
  by unfold_locales (fact get_char_end, fact get_char_next)

lemma destory_reader: "rd_ok st \<Longrightarrow> stream_destory (fst st) = Inr ()"
  by (auto simp: rd_ok_def stream_destory_def)

lemma stream_read_init_ok:
  assumes "clean inp"
  shows "rd_ok (stream_read_init fds, inp)" and "pending (stream_read_init fds, inp) = data_of inp"
  using assms by (auto simp: rd_ok_def stream_read_init_def malloc_def BUF_SIZE_def unread_def pending_def)

section \<open>Counted reads\<close>

lemma read_sz_loop_take_chars:
  assumes "take_chars get_char n st = Inr (cs, st')"
    and "take (length acc) b = map Some acc" and "length b = Suc (length acc + n)"
  shows "\<exists>b'. read_sz_loop st (Ptr b 0) (int (length acc + n)) (int (length acc)) = Inr (Ptr b' 0, st')
    \<and> take (length acc + n) b' = map Some (acc @ cs) \<and> length b' = length b \<and> length cs = n"
  using assms
proof (induction n arbitrary: st cs acc b)
  case 0
  then show ?case by (subst read_sz_loop.simps) simp
next
  case (Suc n)
  obtain c st1 cs1 where g: "get_char st = Inr (c, st1)" "take_chars get_char n st1 = Inr (cs1, st')"
    and cs: "cs = c # cs1"
    using Suc.prems(1) by (auto simp: rbind_eq_Inr rmap_eq_Inr)
  have "length acc < length b" using Suc.prems(3) by simp
  with Suc.prems(2) obtain b1 where b1: "store (Ptr b 0) (int (length acc)) c = Inr (Ptr b1 0)"
    "take (Suc (length acc)) b1 = map Some (acc @ [c])" "length b1 = length b"
    by (rule store_filled)
  have "\<exists>b'. read_sz_loop st1 (Ptr b1 0) (int (length (acc @ [c]) + n)) (int (length (acc @ [c]))) = Inr (Ptr b' 0, st')
    \<and> take (length (acc @ [c]) + n) b' = map Some ((acc @ [c]) @ cs1) \<and> length b' = length b1 \<and> length cs1 = n"
    using g(2) b1(2,3) Suc.prems(3) by (intro Suc.IH) simp_all
  then show ?case using b1(1,3) g(1) cs
    by (subst read_sz_loop.simps) (simp add: add.commute add.left_commute)
qed

text \<open>
  \<open>read_sz\<close> delivers the next \<open>sz\<close> bytes, padded with 0xFF when the peer closes early.
\<close>

lemma read_sz_ok:
  assumes ok: "rd_ok st" and small: "int n < INT_MAX"
  shows "\<exists>b st'. read_sz st (int n) = Inr (b, st') \<and> rd_ok st' \<and> pending st' = drop n (pending st) \<and>
    c_string b = Inr (takeWhile (\<lambda>c. c \<noteq> NUL)
      (take n (pending st) @ replicate (n - length (pending st)) EOF_char))"
proof -
  define cs where "cs = take n (pending st) @ replicate (n - length (pending st)) EOF_char"
  obtain st' where st': "take_chars get_char n st = Inr (cs, st')" "rd_ok st'"
    "pending st' = drop n (pending st)"
    using reader.take_chars_rest [OF ok, of n] by (auto simp: cs_def)
  have m: "malloc (int n + 1) = Ptr (replicate (Suc n) None) 0"
    by (simp add: malloc_def nat_add_distrib)
  have "\<exists>b'. read_sz_loop st (Ptr (replicate (Suc n) None) 0) (int n) 0 = Inr (Ptr b' 0, st')
    \<and> take n b' = map Some cs \<and> length b' = Suc n \<and> length cs = n"
    using read_sz_loop_take_chars [OF st'(1), of "[]" "replicate (Suc n) None"] by simp
  then obtain b where b: "read_sz_loop st (malloc (int n + 1)) (int n) 0 = Inr (Ptr b 0, st')"
    "take n b = map Some cs" "length b = Suc n" "length cs = n"
    unfolding m by blast
  have "take (length cs) b = map Some cs" "length cs < length b" using b by simp_all
  then obtain b' where b': "store (Ptr b 0) (int (length cs)) NUL = Inr (Ptr b' 0)"
    "take (Suc (length cs)) b' = map Some (cs @ [NUL])"
    by (rule store_filled)
  have "c_string (Ptr b' 0) = Inr (takeWhile (\<lambda>c. c \<noteq> NUL) cs)"
    using b' by (intro c_string_takeWhile) simp
  moreover have "read_sz st (int n) = Inr (Ptr b' 0, st')"
    using b(1) b'(1) small by (simp add: read_sz_def b(4))
  ultimately show ?thesis using st' by (auto simp: cs_def)
qed

lemma read_sz_negative:
  assumes "sz < 0"
  shows "read_sz st sz = Inl (if sz = -1 then Buffer_Overflow else Null_Deref)"
proof -
  have "read_sz_loop st (malloc (sz + 1)) sz 0 = Inr (malloc (sz + 1), st)"
    using assms by (subst read_sz_loop.simps) simp
  then show ?thesis using assms by (auto simp: read_sz_def malloc_def store_def INT_MAX_def)
qed

lemma read_sz_overflow: "INT_MAX \<le> sz \<Longrightarrow> read_sz st sz = Inl Int_Overflow"
  by (simp add: read_sz_def)

section \<open>Lines\<close>

text \<open>
  What \<open>get_line\<close> with delimiter CRLF does to the bytes to come: it stops before the
  delimiter, at a byte 0xFF (which it takes for the end of the stream) or at the end.
\<close>

definition ends_crlf :: "string \<Rightarrow> bool" where
  "ends_crlf acc \<longleftrightarrow> 2 \<le> length acc \<and> drop (length acc - 2) acc = crlf"

fun line_scan :: "string \<Rightarrow> string \<Rightarrow> string \<times> bool \<times> string" where
  "line_scan acc [] = (acc, ends_crlf acc, [])"
| "line_scan acc (c # cs) =
     (if ends_crlf acc then (acc, True, c # cs)
      else if c = EOF_char then (acc, False, cs)
      else line_scan (acc @ [c]) cs)"

text \<open>The line (if any) and the bytes left; \<open>None\<close> is the read before the buffer.\<close>

definition line_of :: "string \<Rightarrow> (string option \<times> string) option" where
  "line_of p = (case line_scan [] p of (acc, found, r) \<Rightarrow>
     if found then
       (let t = take (length acc - 2) acc
        in Some (if t = [] then None else Some (takeWhile (\<lambda>c. c \<noteq> NUL) t), r))
     else if length acc < 2 then None
     else Some (Some (takeWhile (\<lambda>c. c \<noteq> NUL) acc), r))"

lemma ends_crlf_append: "ends_crlf (acc @ crlf)"
  by (simp add: ends_crlf_def crlf_def)

lemma ends_crlfE:
  assumes "ends_crlf acc"
  obtains t where "acc = t @ crlf"
  using assms by (metis append_take_drop_id ends_crlf_def)

lemma line_scan_found:
  "line_scan acc p = (acc', found, r) \<Longrightarrow> found = ends_crlf acc'"
  by (induction acc p rule: line_scan.induct) (auto split: if_splits)

lemma line_scan_extends: "line_scan acc p = (acc', found, r) \<Longrightarrow> \<exists>u. acc' = acc @ u"
  by (induction acc p rule: line_scan.induct) (auto split: if_splits)

lemma line_scan_prefix:
  assumes "line_scan acc p = (acc', found, r)" and "length acc \<le> k" and "k < length acc'"
  shows "\<not> ends_crlf (take k acc')"
  using assms
proof (induction acc p rule: line_scan.induct)
  case (2 acc c cs)
  show ?case
  proof (cases "ends_crlf acc \<or> c = EOF_char")
    case True
    then show ?thesis using 2 by (auto split: if_splits)
  next
    case False
    then have l: "line_scan (acc @ [c]) cs = (acc', found, r)" using 2 by simp
    then have "take (length acc) acc' = acc" using line_scan_extends by fastforce
    show ?thesis
    proof (cases "length acc = k")
      case True
      then show ?thesis using \<open>take (length acc) acc' = acc\<close> False by simp
    next
      case neq: False
      then show ?thesis using 2 False l by simp
    qed
  qed
qed auto

lemma line_scan_no_crlf_prefix:
  assumes "line_scan [] p = (acc, found, r)" and "take 2 acc = crlf"
  shows "acc = crlf"
proof (rule ccontr)
  assume "acc \<noteq> crlf"
  have "length (take 2 acc) = 2" using assms(2) by (simp add: crlf_def)
  then have "2 \<le> length acc" by simp
  moreover have "length acc \<noteq> 2" using \<open>acc \<noteq> crlf\<close> assms(2) by auto
  ultimately have "\<not> ends_crlf (take 2 acc)" using line_scan_prefix [OF assms(1)] by simp
  then show False using assms(2) by (simp add: ends_crlf_def crlf_def)
qed

text \<open>The comparison of the last two bytes of the line with the delimiter.\<close>

lemma strncmp_tail:
  assumes d: "c_string d = Inr crlf" and b: "take (length acc) b = map Some acc"
    and le: "2 \<le> length acc"
  obtains v where "strncmp (padd (Ptr b 0) (int (length acc) - 2)) d 2 = Inr v"
    and "v = 0 \<longleftrightarrow> ends_crlf acc"
proof -
  obtain r where r: "from_ptr d = Inr (map Some crlf @ Some NUL # r)"
    using d by (rule c_string_from_ptr)
  have "length (drop (length acc - 2) acc) = Suc (Suc 0)" using le by simp
  then obtain x y where xy: "drop (length acc - 2) acc = [x, y]"
    by (auto simp only: length_Suc_conv length_0_conv)
  have len: "length acc \<le> length b"
    using arg_cong [OF b, of length] by simp
  have "drop (length acc - 2) b = drop (length acc - 2) (take (length acc) b @ drop (length acc) b)"
    by simp
  also have "\<dots> = map Some (drop (length acc - 2) acc) @ drop (length acc) b"
    unfolding b using le by (simp add: drop_map)
  finally have db: "drop (length acc - 2) b = Some x # Some y # drop (length acc) b"
    by (simp add: xy)
  have "nat (int (length acc) - 2) = length acc - 2" using le by simp
  then have f: "from_ptr (padd (Ptr b 0) (int (length acc) - 2)) = Inr (Some x # Some y # drop (length acc) b)"
    using le len db by (simp add: padd_def from_ptr_def)
  have e: "ends_crlf acc \<longleftrightarrow> x = CHR 0x0D \<and> y = CHR 0x0A"
    using le xy by (auto simp: ends_crlf_def crlf_def)
  show ?thesis
  proof (cases "x = CHR 0x0D \<and> y = CHR 0x0A")
    case True
    then show ?thesis
      by (intro that [of 0]) (simp_all add: e strncmp_def f r crlf_def numeral_2_eq_2)
  next
    case False
    define v where "v = (if x \<noteq> CHR 0x0D then of_char x - of_char CHR 0x0D
      else of_char y - of_char CHR 0x0A :: int)"
    have "strncmp (padd (Ptr b 0) (int (length acc) - 2)) d 2 = Inr v"
      using False by (auto simp: strncmp_def f r crlf_def numeral_2_eq_2 v_def)
    moreover have "v \<noteq> 0" using False by (auto simp: v_def simp del: of_char_Char)
    ultimately show ?thesis using e False by (intro that [of v]) auto
  qed
qed

lemma c_int_eq_EOF: "c_int c = -1 \<longleftrightarrow> c = EOF_char"
proof -
  have "c_int EOF_char = -1" by (simp add: c_int_def)
  then show ?thesis by (metis c_int_inject)
qed

lemma loop_guard:
  assumes "c_string d = Inr crlf" and "take (length acc) b = map Some acc"
  shows "(if int (length acc) < 2 then Inr True
      else rmap (\<lambda>r. r \<noteq> 0) (strncmp (padd (Ptr b 0) (int (length acc) - 2)) d (size_t 2))) =
    Inr (\<not> ends_crlf acc)"
proof (cases "length acc < 2")
  case True
  then show ?thesis by (simp add: ends_crlf_def)
next
  case False
  then obtain v where "strncmp (padd (Ptr b 0) (int (length acc) - 2)) d 2 = Inr v"
    "v = 0 \<longleftrightarrow> ends_crlf acc"
    using strncmp_tail [OF assms] by (metis not_less)
  then show ?thesis using False by simp
qed

text \<open>The largest line the doubling arithmetic can hold: \<open>sz * 3\<close> must stay an \<open>int\<close>.\<close>

definition LINE_MAX :: nat where "LINE_MAX = 715827881"

lemma loop_grow:
  assumes "take (length acc) b = map Some acc" and "length acc < length b" and "10 \<le> length b"
    and "length acc \<le> LINE_MAX"
  obtains b1 where "(if int (length acc) + 1 = int (length b)
      then rmap (\<lambda>sz'. (sz', realloc (Ptr b 0) sz')) (grown (int (length b)))
      else Inr (int (length b), Ptr b 0)) = Inr (int (length b1), Ptr b1 0)"
    and "take (length acc) b1 = map Some acc" and "Suc (length acc) < length b1" and "10 \<le> length b1"
proof (cases "int (length acc) + 1 = int (length b)")
  case True
  define n where "n = length b * 3 div 2"
  have n: "int (length b) * 3 div 2 = int n" by (simp add: n_def zdiv_int)
  have g: "grown (int (length b)) = Inr (int n)"
    using True assms(4) by (simp add: grown_def INT_MAX_def LINE_MAX_def n)
  have "length b < n" using assms(3) by (simp add: n_def)
  then have "length (b @ replicate (n - length b) None) = n" by simp
  then show ?thesis using True assms g \<open>length b < n\<close>
    by (intro that [of "b @ replicate (n - length b) None"]) (simp_all add: realloc_def)
next
  case False
  then show ?thesis using assms by (intro that [of b]) simp_all
qed

text \<open>One round of the loop that does not find the delimiter yet.\<close>

lemma get_line_loop_round:
  assumes d: "c_string d = Inr crlf" and acc: "take (length acc) b = map Some acc" "length acc < length b"
    and len: "10 \<le> length b" "length acc \<le> LINE_MAX"
    and no: "\<not> ends_crlf acc" and c: "get_char st = Inr (c, st1)"
  obtains b2 where "get_line_loop st d 2 (Ptr b 0) (int (length b)) (int (length acc)) =
      (if c = EOF_char then Inr (Ptr b2 0, int (length acc), st1)
       else get_line_loop st1 d 2 (Ptr b2 0) (int (length b2)) (int (length (acc @ [c]))))"
    and "take (length acc) b2 = map Some acc" and "take (length (acc @ [c])) b2 = map Some (acc @ [c])"
    and "length (acc @ [c]) < length b2" and "10 \<le> length b2"
proof -
  obtain b1 where b1: "(if int (length acc) + 1 = int (length b)
      then rmap (\<lambda>sz'. (sz', realloc (Ptr b 0) sz')) (grown (int (length b)))
      else Inr (int (length b), Ptr b 0)) = Inr (int (length b1), Ptr b1 0)"
      "take (length acc) b1 = map Some acc" "Suc (length acc) < length b1" "10 \<le> length b1"
    using loop_grow [OF acc len] .
  obtain b2 where b2: "store (Ptr b1 0) (int (length acc)) c = Inr (Ptr b2 0)"
      "take (Suc (length acc)) b2 = map Some (acc @ [c])" "length b2 = length b1"
    using store_filled [OF b1(2)] b1(3) by (metis Suc_lessD)
  have "get_line_loop st d 2 (Ptr b 0) (int (length b)) (int (length acc)) =
      (if c = EOF_char then Inr (Ptr b2 0, int (length acc), st1)
       else get_line_loop st1 d 2 (Ptr b2 0) (int (length b2)) (int (length (acc @ [c]))))"
    using no loop_guard [OF d acc(1)] b1(1) c b2(1,3)
    by (subst get_line_loop.simps) (simp add: c_int_eq_EOF add.commute)
  moreover have "take (length acc) b2 = map Some acc"
    using arg_cong [OF b2(2), of "take (length acc)"] by simp
  ultimately show ?thesis using that b2 b1(3,4) by simp
qed

lemma get_line_loop_ok:
  assumes "rd_ok st" and d: "c_string d = Inr crlf"
    and "take (length acc) b = map Some acc" and "length acc < length b" and "10 \<le> length b"
    and "length acc + length (pending st) \<le> LINE_MAX"
    and "line_scan acc (pending st) = (acc', found, r)"
  shows "\<exists>b' st'. get_line_loop st d 2 (Ptr b 0) (int (length b)) (int (length acc)) =
      Inr (Ptr b' 0, int (length acc'), st') \<and> rd_ok st' \<and> pending st' = r \<and>
      take (length acc') b' = map Some acc' \<and> length acc' < length b'"
  using assms
proof (induction "pending st" arbitrary: st b acc)
  case Nil
  then have small: "length acc \<le> LINE_MAX" by simp
  show ?case
  proof (cases "ends_crlf acc")
    case True
    then show ?thesis using loop_guard [OF d Nil.prems(3)] Nil by (subst get_line_loop.simps) auto
  next
    case False
    obtain st1 where st1: "get_char st = Inr (EOF_char, st1)" "rd_ok st1" "pending st1 = []"
      using get_char_end [OF Nil.prems(1)] Nil.hyps by auto
    obtain b2 where "get_line_loop st d 2 (Ptr b 0) (int (length b)) (int (length acc)) =
        Inr (Ptr b2 0, int (length acc), st1)"
      "take (length acc) b2 = map Some acc" "length (acc @ [EOF_char]) < length b2"
      using get_line_loop_round [OF d Nil.prems(3-5) small False st1(1)] by (metis (full_types))
    then show ?thesis using Nil False st1 by auto
  qed
next
  case (Cons c cs)
  then have small: "length acc \<le> LINE_MAX" by simp
  show ?case
  proof (cases "ends_crlf acc")
    case True
    then show ?thesis using loop_guard [OF d Cons.prems(3)] Cons.prems Cons.hyps(2) [symmetric]
      by (subst get_line_loop.simps) auto
  next
    case False
    obtain st1 where st1: "get_char st = Inr (c, st1)" "rd_ok st1" "pending st1 = cs"
      using get_char_next [OF Cons.prems(1)] Cons.hyps(2) by metis
    obtain b2 where b2: "get_line_loop st d 2 (Ptr b 0) (int (length b)) (int (length acc)) =
      (if c = EOF_char then Inr (Ptr b2 0, int (length acc), st1)
       else get_line_loop st1 d 2 (Ptr b2 0) (int (length b2)) (int (length (acc @ [c]))))"
      "take (length acc) b2 = map Some acc" "take (length (acc @ [c])) b2 = map Some (acc @ [c])"
      "length (acc @ [c]) < length b2" "10 \<le> length b2"
      using get_line_loop_round [OF d Cons.prems(3-5) small False st1(1)] .
    show ?thesis
    proof (cases "c = EOF_char")
      case True
      then show ?thesis
        using b2 False Cons.prems(7) Cons.hyps(2) [symmetric] st1 by auto
    next
      case neq: False
      have "\<exists>b' st'. get_line_loop st1 d 2 (Ptr b2 0) (int (length b2)) (int (length (acc @ [c]))) =
          Inr (Ptr b' 0, int (length acc'), st') \<and> rd_ok st' \<and> pending st' = r \<and>
          take (length acc') b' = map Some acc' \<and> length acc' < length b'"
        using Cons.prems(6,7) Cons.hyps(2) [symmetric] neq False st1
        by (intro Cons.hyps(1) d b2(3-5)) auto
      then show ?thesis using b2(1) neq by simp
    qed
  qed
qed

text \<open>\<open>line_result q l\<close>: the pointer returned is NULL for no line, or points to the line.\<close>

definition line_result :: "ptr \<Rightarrow> string option \<Rightarrow> bool" where
  "line_result q l = (case l of None \<Rightarrow> q = Null | Some s \<Rightarrow> c_string q = Inr s)"

lemma get_line_finish:
  assumes d: "c_string d = Inr crlf" and b: "take (length t) b = map Some t" "length t < length b"
    and no: "t \<noteq> [] \<Longrightarrow> take 2 t \<noteq> crlf"
  shows "\<exists>q. rbind (store (Ptr b 0) (int (length t)) NUL) (\<lambda>line.
     rbind (if int (length t) = 0 then Inr True
            else rbind (c_string line) (\<lambda>l. rmap (\<lambda>d. strcmp l d = 0) (c_string d))) (\<lambda>empty.
     if empty then rbind (free line) (\<lambda>_. Inr (Null, st)) else Inr (line, st))) = Inr (q, st) \<and>
     line_result q (if t = [] then None else Some (takeWhile (\<lambda>c. c \<noteq> NUL) t))"
proof -
  obtain b' where b': "store (Ptr b 0) (int (length t)) NUL = Inr (Ptr b' 0)"
    "take (Suc (length t)) b' = map Some (t @ [NUL])"
    using b by (rule store_filled)
  have c: "c_string (Ptr b' 0) = Inr (takeWhile (\<lambda>c. c \<noteq> NUL) t)"
    using b'(2) by (intro c_string_takeWhile) simp
  have "takeWhile (\<lambda>c. c \<noteq> NUL) t \<noteq> crlf" if "t \<noteq> []"
  proof
    assume "takeWhile (\<lambda>c. c \<noteq> NUL) t = crlf"
    then have "t = crlf @ dropWhile (\<lambda>c. c \<noteq> NUL) t" by (metis takeWhile_dropWhile_id)
    then have "take 2 t = crlf" by (metis append_eq_conv_conj crlf_def length_Cons list.size(3) numeral_2_eq_2)
    then show False using no that by blast
  qed
  then show ?thesis using b'(1) c d by (auto simp: line_result_def)
qed

lemma get_line_ok:
  assumes ok: "rd_ok st" and d: "c_string d = Inr crlf" and small: "length (pending st) \<le> LINE_MAX"
  shows "case line_of (pending st) of
      None \<Rightarrow> get_line st d = Inl Out_Of_Bounds
    | Some (l, r) \<Rightarrow> \<exists>q st'. get_line st d = Inr (q, st') \<and> rd_ok st' \<and> pending st' = r \<and> line_result q l"
proof -
  obtain acc found r where sc: "line_scan [] (pending st) = (acc, found, r)" by (metis prod_cases3)
  have m: "malloc 10 = Ptr (replicate 10 None) 0" by (simp add: malloc_def)
  have "\<exists>b' st'. get_line_loop st d 2 (Ptr (replicate 10 None) 0) (int (length (replicate 10 (None :: char option)))) (int (length ([] :: string))) =
      Inr (Ptr b' 0, int (length acc), st') \<and> rd_ok st' \<and> pending st' = r \<and>
      take (length acc) b' = map Some acc \<and> length acc < length b'"
    by (rule get_line_loop_ok [OF ok d]) (use small sc in simp_all)
  then obtain b st' where b: "get_line_loop st d 2 (malloc 10) 10 0 = Inr (Ptr b 0, int (length acc), st')"
    "rd_ok st'" "pending st' = r" "take (length acc) b = map Some acc" "length acc < length b"
    unfolding m by auto
  have len2: "strlen d = Inr 2" using d by (simp add: strlen_c_string crlf_def)
  show ?thesis
  proof (cases "length acc < 2")
    case True
    then have "found = False" using line_scan_found [OF sc] by (simp add: ends_crlf_def)
    moreover have "strncmp (padd (Ptr b 0) (int (length acc) - 2)) d (size_t 2) = Inl Out_Of_Bounds"
      using True by (simp add: strncmp_def padd_def from_ptr_def)
    ultimately show ?thesis using True b(1)
      by (simp add: line_of_def sc get_line_def len2)
  next
    case False
    then obtain v where v: "strncmp (padd (Ptr b 0) (int (length acc) - 2)) d 2 = Inr v"
      "v = 0 \<longleftrightarrow> ends_crlf acc"
      using strncmp_tail [OF d b(4)] by (metis not_less)
    define t where "t = (if found then take (length acc - 2) acc else acc)"
    have lt: "int (length t) = (if v = 0 then int (length acc) - 2 else int (length acc))"
      using False v(2) line_scan_found [OF sc] by (simp add: t_def)
    have tb: "take (length t) b = map Some t"
      using arg_cong [OF b(4), of "take (length t)"] by (simp add: t_def take_map)
    have "take 2 t \<noteq> crlf" if "t \<noteq> []"
    proof
      assume a: "take 2 t = crlf"
      obtain u where u: "acc = t @ u" by (metis append_Nil2 append_take_drop_id t_def)
      have "2 \<le> length t" using arg_cong [OF a, of length] by (simp add: crlf_def)
      then have "take 2 acc = crlf" using a by (simp add: u)
      then have acc: "acc = crlf" by (rule line_scan_no_crlf_prefix [OF sc])
      then have "ends_crlf acc" using ends_crlf_append [of "[]"] by simp
      then show False using acc that line_scan_found [OF sc] by (simp add: t_def crlf_def)
    qed
    moreover have "length t < length b" using b(5) by (auto simp: t_def)
    ultimately obtain q where "rbind (store (Ptr b 0) (int (length t)) NUL) (\<lambda>line.
       rbind (if int (length t) = 0 then Inr True
              else rbind (c_string line) (\<lambda>l. rmap (\<lambda>d. strcmp l d = 0) (c_string d))) (\<lambda>empty.
       if empty then rbind (free line) (\<lambda>_. Inr (Null, st')) else Inr (line, st'))) = Inr (q, st')"
      and q: "line_result q (if t = [] then None else Some (takeWhile (\<lambda>c. c \<noteq> NUL) t))"
      using get_line_finish [OF d tb, of st'] by blast
    then have "get_line st d = Inr (q, st')"
      using v(1) by (simp add: get_line_def len2 b(1) lt Let_def)
    moreover have "line_of (pending st) = Some (if t = [] then None else Some (takeWhile (\<lambda>c. c \<noteq> NUL) t), r)"
      using False by (auto simp: line_of_def sc t_def Let_def)
    ultimately show ?thesis using b(2,3) q by auto
  qed
qed

text \<open>A well-formed line: no CR and no 0xFF before its CRLF.\<close>

lemma line_scan_line:
  assumes "CHR 0x0D \<notin> set l" and "EOF_char \<notin> set l" and "CHR 0x0D \<notin> set acc"
  shows "line_scan acc (l @ crlf @ r) = (acc @ l @ crlf, True, r)"
  using assms
proof (induction l arbitrary: acc)
  case Nil
  have no: "\<not> ends_crlf a" if "a = acc \<or> a = acc @ [CHR 0x0D]" for a
  proof
    assume "ends_crlf a"
    then obtain t where "a = t @ crlf" by (rule ends_crlfE)
    then show False using that Nil.prems(3) by (auto simp: crlf_def)
  qed
  have e: "ends_crlf (acc @ [CHR 0x0D, CHR 0x0A])" using ends_crlf_append [of acc] by (simp add: crlf_def)
  show ?case using no e by (cases r) (simp_all add: crlf_def)
next
  case (Cons c l)
  have no: "\<not> ends_crlf acc"
    using Cons.prems(3) by (auto simp: crlf_def elim!: ends_crlfE)
  then show ?case using Cons by auto
qed

lemma line_of_line:
  assumes "CHR 0x0D \<notin> set l" and "EOF_char \<notin> set l" and "NUL \<notin> set l"
  shows "line_of (l @ crlf @ r) = Some (if l = [] then None else Some l, r)"
proof -
  have tw: "takeWhile (\<lambda>c. c \<noteq> NUL) l = l"
    using assms(3) by (auto simp: takeWhile_eq_all_conv)
  have "line_scan [] (l @ crlf @ r) = (l @ crlf, True, r)"
    using line_scan_line [OF assms(1,2), of "[]" r] by simp
  moreover have "length (l @ crlf) - 2 = length l" by (simp add: crlf_def)
  ultimately show ?thesis by (simp add: line_of_def tw del: length_append)
qed

section \<open>The string writer\<close>

lemma grow_loop_ok:
  assumes "2 \<le> length b" and "need \<le> Suc LINE_MAX"
  shows "\<exists>b'. grow_loop (Ptr b 0) (int (length b)) need = Inr (Ptr b' 0, int (length b')) \<and>
    need \<le> length b' \<and> length b \<le> length b' \<and> take (length b) b' = b"
  using assms(1)
proof (induction "need - length b" arbitrary: b rule: less_induct)
  case less
  show ?case
  proof (cases "length b < need")
    case False
    then show ?thesis by (subst grow_loop.simps) auto
  next
    case True
    define n where "n = length b * 3 div 2"
    have n: "int (length b) * 3 div 2 = int n" by (simp add: n_def zdiv_int)
    have g: "grown (int (length b)) = Inr (int n)"
      using True assms(2) by (simp add: grown_def INT_MAX_def LINE_MAX_def n)
    have lt: "length b < n" using less.prems by (simp add: n_def)
    define b1 where "b1 = b @ replicate (n - length b) None"
    have b1: "length b1 = n" "realloc (Ptr b 0) (int n) = Ptr b1 0"
      using lt by (simp_all add: b1_def realloc_def)
    have "grow_loop (Ptr b 0) (int (length b)) need = grow_loop (Ptr b1 0) (int (length b1)) need"
      using True lt by (subst grow_loop.simps) (simp add: g b1)
    moreover obtain b' where "grow_loop (Ptr b1 0) (int (length b1)) need = Inr (Ptr b' 0, int (length b'))"
      "need \<le> length b'" "length b1 \<le> length b'" "take (length b1) b' = b1"
    proof -
      have "need - length b1 < need - length b" "2 \<le> length b1"
        using True lt less.prems b1(1) by (simp_all add: diff_less_mono2)
      then show ?thesis using less.hyps [of b1] that by blast
    qed
    moreover from this(4) have "take (length b) b' = b"
      using lt b1(1) by (metis b1_def append_eq_conv_conj less_imp_le min.absorb1 take_take)
    ultimately show ?thesis using lt b1(1) by auto
  qed
qed

definition ws_ok :: "stream \<Rightarrow> string \<Rightarrow> bool" where
  "ws_ok s t \<longleftrightarrow> NUL \<notin> set t \<and> st_cnt s = int (length t) \<and>
     (\<exists>b. st_buf s = Ptr b 0 \<and> st_len s = int (length b) \<and> length t < length b \<and> 10 \<le> length b \<and>
       take (length t) b = map Some t)"

lemma destory_writer: "ws_ok s t \<Longrightarrow> stream_destory s = Inr ()"
  by (auto simp: ws_ok_def stream_destory_def)

lemma stream_write_init_ok: "ws_ok stream_write_init []"
  by (simp add: ws_ok_def stream_write_init_def malloc_def)

lemma write_stream_ok:
  assumes ws: "ws_ok s t" and u: "c_string p = Inr u" and small: "length t + length u \<le> LINE_MAX"
  shows "\<exists>s'. write_stream s p = Inr s' \<and> ws_ok s' (t @ u) \<and> c_string (st_buf s') = Inr (t @ u)"
proof -
  obtain b where b: "NUL \<notin> set t" "st_cnt s = int (length t)" "st_buf s = Ptr b 0"
    "st_len s = int (length b)" "length t < length b" "10 \<le> length b" "take (length t) b = map Some t"
    using ws by (auto simp: ws_ok_def)
  have nu: "NUL \<notin> set u" using u by (rule c_string_no_nul)
  have "2 \<le> length b" "length t + length u + 1 \<le> Suc LINE_MAX" using b(6) small by simp_all
  from grow_loop_ok [OF this] obtain b1 where b1:
    "grow_loop (Ptr b 0) (int (length b)) (length t + length u + 1) = Inr (Ptr b1 0, int (length b1))"
    "length t + length u + 1 \<le> length b1" "length b \<le> length b1" "take (length b) b1 = b" by blast
  have t1: "take (length t) b1 = map Some t"
    using b(5,7) b1(4) by (metis less_imp_le min.absorb1 take_take)
  define b2 where "b2 = take (length t) b1 @ map Some u @ drop (length t + length u) b1"
  have len2: "length b2 = length b1" using b1(2) by (simp add: b2_def)
  have cp: "rbind (strncpy (padd (Ptr b1 0) (int (length t))) p (int (length u))) f = f (Ptr b2 (int (length t)))" for f :: "ptr \<Rightarrow> stream res"
  proof (cases "u = []")
    case True
    then show ?thesis by (simp add: strncpy_def padd_def b2_def)
  next
    case False
    obtain r where r: "from_ptr p = Inr (map Some u @ Some NUL # r)"
      using u by (rule c_string_from_ptr)
    show ?thesis using False b1(2)
      by (simp add: strncpy_def to_size_t_def padd_def room_def r copy_bytes_string [OF nu] put_bytes_def b2_def)
  qed
  have t2: "take (length (t @ u)) b2 = map Some (t @ u)"
    using b1(2) by (simp add: b2_def t1)
  have "length (t @ u) < length b2" using b1(2) len2 by simp
  with t2 obtain b3 where b3: "store (Ptr b2 0) (int (length (t @ u))) NUL = Inr (Ptr b3 0)"
    "take (Suc (length (t @ u))) b3 = map Some ((t @ u) @ [NUL])" "length b3 = length b2"
    by (rule store_filled)
  define s' where "s' = s\<lparr>st_buf := Ptr b3 0, st_cnt := int (length (t @ u)), st_len := int (length b1)\<rparr>"
  have w: "write_stream s p = Inr s'"
    using b3(1) by (simp add: write_stream_def strlen_c_string [OF u] b(2,3,4) b1(1) [simplified] cp Let_def s'_def)
      (simp add: padd_def)
  have t3: "take (length (t @ u)) b3 = map Some (t @ u)"
    using arg_cong [OF b3(2), of "take (length (t @ u))"] by simp
  have "takeWhile (\<lambda>c. c \<noteq> NUL) (t @ u) = t @ u"
    using b(1) nu by (auto simp: takeWhile_eq_all_conv simp del: takeWhile_append)
  then have "c_string (Ptr b3 0) = Inr (t @ u)"
    using c_string_takeWhile [of "t @ u" b3] b3(2) by simp
  moreover have "ws_ok s' (t @ u)"
    using b(1,6) nu b1(2,3) len2 b3(3) t3 by (auto simp: ws_ok_def s'_def)
  ultimately show ?thesis using w by (auto simp: s'_def)
qed

text \<open>The interface the handlers build their JSON bodies with.\<close>

locale string_builder =
  fixes start :: 's
    and append :: "'s \<Rightarrow> string \<Rightarrow> 's res"
    and holds :: "'s \<Rightarrow> string \<Rightarrow> bool"
    and view :: "'s \<Rightarrow> string res"
    and capacity :: nat
  assumes start_holds: "holds start []"
    and append_holds: "holds s t \<Longrightarrow> NUL \<notin> set u \<Longrightarrow> length t + length u \<le> capacity \<Longrightarrow>
      \<exists>s'. append s u = Inr s' \<and> holds s' (t @ u) \<and> view s' = Inr (t @ u)"

definition append_all :: "('s \<Rightarrow> string \<Rightarrow> 's res) \<Rightarrow> 's \<Rightarrow> string list \<Rightarrow> 's res" where
  "append_all app s us = foldl (\<lambda>r u. rbind r (\<lambda>s. app s u)) (Inr s) us"

lemma append_all_simps [simp]:
  "append_all app s [] = Inr s"
  "append_all app s (us @ [u]) = rbind (append_all app s us) (\<lambda>s. app s u)"
  by (simp_all add: append_all_def)

context string_builder
begin

lemma append_all_holds:
  assumes "holds s t" and "\<forall>u \<in> set us. NUL \<notin> set u" and "length t + length (concat us) \<le> capacity"
  shows "\<exists>s'. append_all append s us = Inr s' \<and> holds s' (t @ concat us) \<and>
    (us \<noteq> [] \<longrightarrow> view s' = Inr (t @ concat us))"
  using assms(2,3)
proof (induction us rule: rev_induct)
  case Nil
  then show ?case using assms(1) by simp
next
  case (snoc u us)
  then obtain s1 where s1: "append_all append s us = Inr s1" "holds s1 (t @ concat us)" by auto
  show ?case using append_holds [OF s1(2), of u] s1(1) snoc.prems by auto
qed

end

definition write_lit :: "stream \<Rightarrow> string \<Rightarrow> stream res" where
  "write_lit s u = write_stream s (literal u)"

interpretation writer: string_builder stream_write_init write_lit ws_ok "\<lambda>s. c_string (st_buf s)" LINE_MAX
proof unfold_locales
  show "ws_ok stream_write_init []" by (rule stream_write_init_ok)
next
  fix s t u assume "ws_ok s t" "NUL \<notin> set u" "length t + length u \<le> LINE_MAX"
  then show "\<exists>s'. write_lit s u = Inr s' \<and> ws_ok s' (t @ u) \<and> c_string (st_buf s') = Inr (t @ u)"
    unfolding write_lit_def by (intro write_stream_ok c_string_literal)
qed

end
