(* ===== verification/String_Util.thy ===== *)
theory String_Util
  imports C_Memory
begin

text \<open>
  \<^verbatim>\<open>string_util.c\<close>: index searches, prefix comparison, hexadecimal digits and lower-casing.
  The loops are index loops over checked reads, as in the source; each is then shown to
  compute a function of the string it is given.
\<close>

section \<open>The code\<close>

function find_idx_from :: "ptr \<Rightarrow> char \<Rightarrow> int \<Rightarrow> int res" where
  "find_idx_from s ch i =
     rbind (load s i) (\<lambda>c.
       if c = NUL then Inr (-1)
       else if c = ch then Inr i
       else find_idx_from s ch (i + 1))"
  by pat_completeness auto
termination
  by (relation "measure (\<lambda>(s, ch, i). readable s i)") (auto intro: readable_step)

declare find_idx_from.simps [simp del]

definition find_idx :: "ptr \<Rightarrow> char \<Rightarrow> int res" where
  "find_idx s ch = find_idx_from s ch 0"

function find_str_from :: "ptr \<Rightarrow> ptr \<Rightarrow> int \<Rightarrow> int \<Rightarrow> int res" where
  "find_str_from s p len i =
     rbind (load s i) (\<lambda>c.
       if c = NUL then Inr (-1)
       else rbind (if i \<ge> len - 1 then strncmp (padd s (i - len + 1)) p (size_t len) else Inr 1) (\<lambda>r.
         if i \<ge> len - 1 \<and> r = 0 then Inr i
         else find_str_from s p len (i + 1)))"
  by pat_completeness auto
termination
  by (relation "measure (\<lambda>(s, p, len, i). readable s i)") (auto intro: readable_step)

declare find_str_from.simps [simp del]

definition find_str :: "ptr \<Rightarrow> ptr \<Rightarrow> int res" where
  "find_str s p = rbind (strlen p) (\<lambda>len. find_str_from s p len 0)"

definition min_c :: "int \<Rightarrow> int \<Rightarrow> int" where
  "min_c a b = (if a < b then a else b)"

definition prefixcmp :: "ptr \<Rightarrow> ptr \<Rightarrow> int res" where
  "prefixcmp a b =
     rbind (strlen a) (\<lambda>la. rbind (strlen b) (\<lambda>lb.
       let len = min_c la lb in strncmp a b (size_t len)))"

definition isHex :: "char \<Rightarrow> bool" where
  "isHex ch \<longleftrightarrow>
     (c_int ch \<ge> c_int CHR ''0'' \<and> c_int ch \<le> c_int CHR ''9'') \<or>
     (c_int ch \<ge> c_int CHR ''a'' \<and> c_int ch \<le> c_int CHR ''f'') \<or>
     (c_int ch \<ge> c_int CHR ''A'' \<and> c_int ch \<le> c_int CHR ''F'')"

definition toHex :: "char \<Rightarrow> int" where
  "toHex ch =
     (if c_int ch \<ge> c_int CHR ''0'' \<and> c_int ch \<le> c_int CHR ''9'' then c_int ch - c_int CHR ''0''
      else if c_int ch \<ge> c_int CHR ''a'' \<and> c_int ch \<le> c_int CHR ''f'' then c_int ch - c_int CHR ''a'' + 10
      else if c_int ch \<ge> c_int CHR ''A'' \<and> c_int ch \<le> c_int CHR ''F'' then c_int ch - c_int CHR ''A'' + 10
      else -1)"

function toLower_from :: "ptr \<Rightarrow> int \<Rightarrow> ptr res" where
  "toLower_from str i =
     rbind (load str i) (\<lambda>c.
       if c = NUL then Inr str
       else rbind
         (if c_int c \<ge> c_int CHR ''A'' \<and> c_int c \<le> c_int CHR ''Z''
          then store str i (to_char (c_int c + (c_int CHR ''a'' - c_int CHR ''A'')))
          else Inr str)
         (\<lambda>str'. toLower_from str' (i + 1)))"
  by pat_completeness auto
termination
proof (relation "measure (\<lambda>(s, i). readable s i)", goal_cases)
  case (2 str i c str')
  have "readable str' (i + 1) = readable str (i + 1)"
    using 2(3) by (auto simp: store_def readable_def split: if_splits ptr.splits)
  then show ?case using readable_step [OF 2(1)] by simp
qed simp

declare toLower_from.simps [simp del]

definition toLower :: "ptr \<Rightarrow> ptr res" where
  "toLower str = toLower_from str 0"

section \<open>What the searches compute\<close>

definition index_of :: "char \<Rightarrow> string \<Rightarrow> int" where
  "index_of ch s = (if ch \<in> set s then int (length (takeWhile (\<lambda>x. x \<noteq> ch) s)) else -1)"

lemma index_of_Cons:
  "index_of ch (c # s) =
     (if c = ch then 0 else if index_of ch s = -1 then -1 else index_of ch s + 1)"
  by (auto simp: index_of_def)

lemma index_of_Nil [simp]: "index_of ch [] = -1"
  by (simp add: index_of_def)

lemma index_of_eq_neg1 [simp]: "index_of ch s = -1 \<longleftrightarrow> ch \<notin> set s"
  by (auto simp: index_of_def)

lemma index_of_less: "index_of ch s < int (length s) \<or> s = []"
  by (auto simp: index_of_def length_takeWhile_less_iff)

lemma index_of_ge: "-1 \<le> index_of ch s"
  by (auto simp: index_of_def)

lemma index_of_in: "ch \<in> set s \<Longrightarrow> index_of ch s = int (length (takeWhile (\<lambda>x. x \<noteq> ch) s))"
  by (simp add: index_of_def)

lemma index_of_notin: "ch \<notin> set s \<Longrightarrow> index_of ch s = -1"
  by (simp add: index_of_def)

lemma tl_dropWhile_neq:
  "tl (dropWhile (\<lambda>x. x \<noteq> ch) s) = drop (Suc (length (takeWhile (\<lambda>x. x \<noteq> ch) s))) s"
  by (simp add: dropWhile_eq_drop tl_drop drop_Suc)

lemma take_index: "take (length (takeWhile P s)) s = takeWhile P s"
  by (metis takeWhile_eq_take)

lemma copy_n_index:
  assumes "c_string src = Inr s"
  shows "\<exists>d. copy_n src (int (length (takeWhile P s))) = Inr d \<and> c_string d = Inr (takeWhile P s)"
  using copy_n_ok [OF assms, of "int (length (takeWhile P s))"] take_index [of P s]
  by (metis nat_int of_nat_0_le_iff)

lemma find_idx_from_ok:
  assumes "c_string p = Inr s" and "0 \<le> i" and "i \<le> int (length s)"
  shows "find_idx_from p ch i =
    Inr (let j = index_of ch (drop (nat i) s) in if j = -1 then -1 else i + j)"
  using assms
proof (induction p ch i rule: find_idx_from.induct)
  case (1 p ch i)
  show ?case
  proof (cases "i = int (length s)")
    case True
    then show ?thesis using 1
      by (subst find_idx_from.simps) (simp add: c_string_load_end)
  next
    case False
    then have lt: "nat i < length s" using 1 by simp
    have l: "load p i = Inr (s ! nat i)" using 1 False by (simp add: c_string_load)
    have nn: "s ! nat i \<noteq> NUL" using lt c_string_no_nul [OF 1(2)] by (metis nth_mem)
    have d: "drop (nat i) s = s ! nat i # drop (nat (i + 1)) s"
      using lt 1(3) by (simp add: Cons_nth_drop_Suc nat_add_distrib)
    show ?thesis
    proof (cases "s ! nat i = ch")
      case True
      then show ?thesis using nn
        by (subst find_idx_from.simps) (simp add: l d index_of_Cons)
    next
      case nch: False
      have "find_idx_from p ch (i + 1) =
        Inr (let j = index_of ch (drop (nat (i + 1)) s) in if j = -1 then -1 else i + 1 + j)"
        using 1(1) [OF l nn nch] 1(2,3,4) False by simp
      then show ?thesis using nn nch index_of_ge [of ch "drop (nat (i + 1)) s"]
        by (subst find_idx_from.simps) (auto simp: l d index_of_Cons Let_def)
    qed
  qed
qed

lemma find_idx_ok [cstr]: "c_string p = Inr s \<Longrightarrow> find_idx p ch = Inr (index_of ch s)"
  using find_idx_from_ok [of p s 0 ch] by (simp add: find_idx_def Let_def index_of_def)

lemma find_idx_Null [simp]: "find_idx Null ch = Inl Null_Deref"
  by (simp add: find_idx_def find_idx_from.simps [of Null])

lemma find_idx_from_range: "find_idx_from s ch i = Inr r \<Longrightarrow> r = -1 \<or> i \<le> r"
proof (induction s ch i rule: find_idx_from.induct)
  case (1 s ch i)
  from 1(2) show ?case
    by (subst (asm) find_idx_from.simps) (use 1(1) in \<open>auto simp: rbind_eq_Inr split: if_splits\<close>)
qed

lemma find_idx_range: "find_idx s ch = Inr r \<Longrightarrow> r = -1 \<or> 0 \<le> r"
  using find_idx_from_range by (simp add: find_idx_def)

definition ends_at :: "string \<Rightarrow> string \<Rightarrow> nat \<Rightarrow> bool" where
  "ends_at s p i \<longleftrightarrow> length p \<le> Suc i \<and> Suc i \<le> length s \<and>
     take (length p) (drop (Suc i - length p) s) = p"

lemma find_str_from_step:
  assumes s: "c_string sp = Inr s" and p: "c_string pp = Inr p" and i: "i < length s"
  shows "find_str_from sp pp (int (length p)) (int i) =
    (if ends_at s p i then Inr (int i) else find_str_from sp pp (int (length p)) (int (Suc i)))"
proof -
  have l: "load sp (int i) = Inr (s ! i)" using c_string_load [OF s, of "int i"] i by simp
  have nn: "s ! i \<noteq> NUL" using i c_string_no_nul [OF s] by (metis nth_mem)
  show ?thesis
  proof (cases "int (length p) - 1 \<le> int i")
    case ge: True
    have "c_string (padd sp (int i - int (length p) + 1)) = Inr (drop (nat (int i - int (length p) + 1)) s)"
      using s ge i by (intro c_string_padd) simp_all
    then obtain v where v: "strncmp (padd sp (int i - int (length p) + 1)) pp (length p) = Inr v"
      and v0: "v = 0 \<longleftrightarrow> take (length p) (drop (nat (int i - int (length p) + 1)) s) = take (length p) p"
      using p by (rule strncmp_c_string)
    have "nat (int i - int (length p) + 1) = Suc i - length p" using ge by simp
    with v0 ge i have "v = 0 \<longleftrightarrow> ends_at s p i" by (auto simp: ends_at_def)
    then show ?thesis using l nn v ge by (subst find_str_from.simps) (simp add: add.commute)
  next
    case lt: False
    then have "\<not> ends_at s p i" by (auto simp: ends_at_def)
    then show ?thesis using l nn lt by (subst find_str_from.simps) (simp add: add.commute)
  qed
qed

lemma find_str_from_ok:
  assumes "c_string sp = Inr s" and "c_string pp = Inr p" and "i \<le> length s"
  obtains r where "find_str_from sp pp (int (length p)) (int i) = Inr r"
    and "r = -1 \<Longrightarrow> \<forall>j. i \<le> j \<longrightarrow> \<not> ends_at s p j"
    and "r \<noteq> -1 \<Longrightarrow> int i \<le> r \<and> ends_at s p (nat r) \<and> (\<forall>j. i \<le> j \<and> j < nat r \<longrightarrow> \<not> ends_at s p j)"
  using assms
proof (induction "length s - i" arbitrary: i thesis)
  case 0
  then have i: "i = length s" by simp
  have "find_str_from sp pp (int (length p)) (int i) = Inr (-1)"
    using c_string_load_end [OF 0(3), of "int i"] i by (subst find_str_from.simps) simp
  then show ?case by (rule 0) (auto simp: ends_at_def i)
next
  case (Suc n)
  then have i: "i < length s" by simp
  note step = find_str_from_step [OF Suc(4,5) i]
  obtain r where r: "find_str_from sp pp (int (length p)) (int (Suc i)) = Inr r"
    "r = -1 \<Longrightarrow> \<forall>j. Suc i \<le> j \<longrightarrow> \<not> ends_at s p j"
    "r \<noteq> -1 \<Longrightarrow> int (Suc i) \<le> r \<and> ends_at s p (nat r) \<and> (\<forall>j. Suc i \<le> j \<and> j < nat r \<longrightarrow> \<not> ends_at s p j)"
    using Suc(1) [of "Suc i"] Suc(2,4,5,6) i by (metis Suc_diff_Suc Suc_leI diff_Suc_1)
  show ?case
  proof (cases "ends_at s p i")
    case True
    then show ?thesis using step by (intro Suc(3)) auto
  next
    case False
    show ?thesis
    proof (rule Suc(3))
      show "find_str_from sp pp (int (length p)) (int i) = Inr r" using step False r(1) by simp
    next
      assume "r = -1"
      then show "\<forall>j\<ge>i. \<not> ends_at s p j" using r(2) False by (metis Suc_leI le_neq_implies_less)
    next
      assume "r \<noteq> -1"
      then show "int i \<le> r \<and> ends_at s p (nat r) \<and> (\<forall>j. i \<le> j \<and> j < nat r \<longrightarrow> \<not> ends_at s p j)"
        using r(3) False by (auto simp: Suc_le_eq) (metis le_neq_implies_less)
    qed
  qed
qed

lemma find_str_c_string:
  assumes "c_string sp = Inr s" and "c_string pp = Inr p"
  obtains r where "find_str sp pp = Inr r"
    and "r = -1 \<Longrightarrow> \<forall>j. \<not> ends_at s p j"
    and "r \<noteq> -1 \<Longrightarrow> 0 \<le> r \<and> ends_at s p (nat r) \<and> (\<forall>j < nat r. \<not> ends_at s p j)"
proof -
  obtain r where "find_str_from sp pp (int (length p)) (int 0) = Inr r"
    and "r = -1 \<Longrightarrow> \<forall>j. 0 \<le> j \<longrightarrow> \<not> ends_at s p j"
    and "r \<noteq> -1 \<Longrightarrow> int 0 \<le> r \<and> ends_at s p (nat r) \<and> (\<forall>j. 0 \<le> j \<and> j < nat r \<longrightarrow> \<not> ends_at s p j)"
    using find_str_from_ok [OF assms, of 0] by auto
  then show ?thesis
    using that by (simp add: find_str_def strlen_c_string [OF assms(2)])
qed

lemma find_str_from_range: "find_str_from s p len i = Inr r \<Longrightarrow> r = -1 \<or> i \<le> r"
proof (induction s p len i rule: find_str_from.induct)
  case (1 s p len i)
  from 1(2) show ?case
    by (subst (asm) find_str_from.simps) (use 1(1) in \<open>fastforce simp: rbind_eq_Inr split: if_splits\<close>)
qed

lemma find_str_range: "find_str s p = Inr r \<Longrightarrow> r = -1 \<or> 0 \<le> r"
  by (auto simp: find_str_def rbind_eq_Inr dest!: find_str_from_range)

lemma ends_at_append:
  "p \<noteq> [] \<Longrightarrow> ends_at s p i \<longleftrightarrow>
     (\<exists>pre post. s = pre @ p @ post \<and> Suc i = length pre + length p)"
proof
  assume "ends_at s p i"
  then have le: "length p \<le> Suc i" "Suc i \<le> length s"
    and t: "take (length p) (drop (Suc i - length p) s) = p" by (auto simp: ends_at_def)
  have "s = take (Suc i - length p) s @ p @ drop (length p) (drop (Suc i - length p) s)"
    by (metis append_take_drop_id t)
  then show "\<exists>pre post. s = pre @ p @ post \<and> Suc i = length pre + length p"
    using le by (metis (no_types, lifting) diff_le_self le_add_diff_inverse2 le_trans length_take min.absorb2)
qed (auto simp: ends_at_def)

lemma prefixcmp_c_string:
  assumes "c_string p = Inr s" and "c_string q = Inr t"
  obtains v where "prefixcmp p q = Inr v"
    and "v = 0 \<longleftrightarrow> take (length t) s = t \<or> take (length s) t = s"
proof -
  define n where "n = min (length s) (length t)"
  have n: "size_t (min_c (int (length s)) (int (length t))) = n"
    by (simp add: min_c_def n_def min_def)
  obtain v where v: "strncmp p q n = Inr v" "v = 0 \<longleftrightarrow> take n s = take n t"
    using assms by (rule strncmp_c_string)
  have "prefixcmp p q = Inr v"
    by (simp add: prefixcmp_def strlen_c_string [OF assms(1)] strlen_c_string [OF assms(2)]
        Let_def n v)
  then show ?thesis by (rule that) (auto simp: v(2) n_def min_def)
qed

lemma prefixcmp_Null [simp]: "prefixcmp Null q = Inl Null_Deref"
  by (simp add: prefixcmp_def)

section \<open>Hexadecimal digits\<close>

definition hex_digits :: string where
  "hex_digits = ''0123456789abcdefABCDEF''"

lemma c_int_between:
  assumes "a \<le> c_int c" and "c_int c \<le> b"
  shows "c \<in> to_char ` {a..b}"
proof -
  have "c = to_char (c_int c)" by simp
  then show ?thesis using assms by (metis atLeastAtMost_iff image_eqI)
qed

lemma isHex_iff: "isHex c \<longleftrightarrow> c \<in> set hex_digits"
proof
  have r: "{48..57::int} = {48,49,50,51,52,53,54,55,56,57}"
    "{97..102::int} = {97,98,99,100,101,102}" "{65..70::int} = {65,66,67,68,69,70}"
    by (simp_all flip: set_upto)
  assume "isHex c"
  then have "c \<in> to_char ` {48..57} \<or> c \<in> to_char ` {97..102} \<or> c \<in> to_char ` {65..70}"
    using c_int_between [of 48 c 57] c_int_between [of 97 c 102] c_int_between [of 65 c 70]
    by (auto simp: isHex_def c_int_def [of "Char _ _ _ _ _ _ _ _"])
  then show "c \<in> set hex_digits"
    by (auto simp: r hex_digits_def to_char_def char_of_def bit_iff_odd)
next
  assume "c \<in> set hex_digits"
  then show "isHex c" by (auto simp: hex_digits_def isHex_def c_int_def)
qed

lemma toHex_range: "isHex c \<Longrightarrow> 0 \<le> toHex c \<and> toHex c < 16"
  by (auto simp: isHex_iff hex_digits_def toHex_def c_int_def)

lemma isHex_NUL [simp]: "\<not> isHex NUL"
  by (simp add: isHex_iff hex_digits_def)

section \<open>Lower-casing\<close>

definition lower :: "char \<Rightarrow> char" where
  "lower c = (if c_int CHR ''A'' \<le> c_int c \<and> c_int c \<le> c_int CHR ''Z''
     then to_char (c_int c + 32) else c)"

definition is_upper :: "char \<Rightarrow> bool" where
  "is_upper c \<longleftrightarrow> c_int CHR ''A'' \<le> c_int c \<and> c_int c \<le> c_int CHR ''Z''"

lemma c_int_lower:
  "c_int (lower c) = (if is_upper c then c_int c + 32 else c_int c)"
  by (auto simp: lower_def is_upper_def c_int_to_char c_int_def [of "Char _ _ _ _ _ _ _ _"])

lemma c_int_NUL: "c_int c = 0 \<longleftrightarrow> c = NUL"
proof -
  have "c_int NUL = 0" by (simp add: c_int_def)
  then show ?thesis by (metis c_int_inject)
qed

lemma lower_not_NUL: "c \<noteq> NUL \<Longrightarrow> lower c \<noteq> NUL"
  by (auto simp: c_int_lower is_upper_def c_int_def [of "Char _ _ _ _ _ _ _ _"]
      simp flip: c_int_NUL split: if_splits)

lemma toLower_from_ok:
  assumes "c_string p = Inr s" and "i \<le> length s"
  obtains p' where "toLower_from p (int i) = Inr p'"
    and "c_string p' = Inr (take i s @ map lower (drop i s))"
  using assms
proof (induction "length s - i" arbitrary: s i p thesis)
  case 0
  then have i: "i = length s" by simp
  have "toLower_from p (int i) = Inr p"
    using c_string_load_end [OF 0(3), of "int i"] i by (subst toLower_from.simps) simp
  then show ?case by (rule 0) (simp add: 0 i)
next
  case (Suc n)
  then have i: "i < length s" by simp
  define s' where "s' = s[i := lower (s ! i)]"
  have l: "load p (int i) = Inr (s ! i)" using c_string_load [OF Suc(4), of "int i"] i by simp
  have nn: "s ! i \<noteq> NUL" using i c_string_no_nul [OF Suc(4)] by (metis nth_mem)
  have ex: "\<exists>q. toLower_from p (int i) = toLower_from q (int (Suc i)) \<and> c_string q = Inr s'"
  proof (cases "is_upper (s ! i)")
    case True
    obtain q where q: "store p (int i) (lower (s ! i)) = Inr q" "c_string q = Inr s'"
      using store_c_string [OF Suc(4), of "int i" "lower (s ! i)"] i lower_not_NUL [OF nn]
      by (auto simp: s'_def)
    have d: "c_int CHR ''a'' - c_int CHR ''A'' = 32" by (simp add: c_int_def)
    have "toLower_from p (int i) = toLower_from q (int (Suc i))"
      using True nn q(1)
      by (subst toLower_from.simps) (simp add: l d lower_def is_upper_def add.commute)
    then show ?thesis using q(2) by blast
  next
    case False
    then have "lower (s ! i) = s ! i" by (auto simp: lower_def is_upper_def)
    then have "s' = s" by (simp add: s'_def)
    moreover have "toLower_from p (int i) = toLower_from p (int (Suc i))"
      using False nn by (subst toLower_from.simps) (auto simp: l is_upper_def add.commute)
    ultimately show ?thesis using Suc(4) by blast
  qed
  then obtain q where q: "toLower_from p (int i) = toLower_from q (int (Suc i))"
    "c_string q = Inr s'" by blast
  have "n = length s' - Suc i" "Suc i \<le> length s'" using Suc(2) i by (simp_all add: s'_def)
  then obtain p' where p': "toLower_from q (int (Suc i)) = Inr p'"
    "c_string p' = Inr (take (Suc i) s' @ map lower (drop (Suc i) s'))"
    using Suc(1) q(2) by blast
  have "take (Suc i) s' @ map lower (drop (Suc i) s') = take i s @ map lower (drop i s)"
    using i by (simp add: s'_def take_Suc_conv_app_nth flip: Cons_nth_drop_Suc)
  with p' q show ?case by (intro Suc(3)) simp_all
qed

lemma toLower_ok:
  assumes "c_string p = Inr s"
  obtains p' where "toLower p = Inr p'" and "c_string p' = Inr (map lower s)"
  using toLower_from_ok [OF assms, of 0] by (auto simp: toLower_def)

lemma lower_idem [simp]: "lower (lower c) = lower c"
proof -
  have "\<not> is_upper (lower c)"
    by (auto simp: is_upper_def c_int_lower c_int_def [of "Char _ _ _ _ _ _ _ _"])
  then show ?thesis by (auto simp: lower_def [of "lower c"] is_upper_def)
qed

end
