(* ===== verification/Query_Params.thy ===== *)
theory Query_Params
  imports String_Util Dic_List
begin

text \<open>
  The percent-decoder and the parser of urlencoded parameters of \<^verbatim>\<open>http.c\<close>, with the
  buffers they allocate and the index arithmetic they do, and the functions on strings
  they compute.
\<close>

section \<open>The code\<close>

text \<open>\<open>old[i]=='%' && isHex(old[i+1]) && isHex(old[i+2])\<close>, read left to right.\<close>

definition is_escape :: "ptr \<Rightarrow> int \<Rightarrow> bool res" where
  "is_escape old i =
     rbind (load old i) (\<lambda>c. if c \<noteq> CHR ''%'' then Inr False
     else rbind (load old (i + 1)) (\<lambda>h. if \<not> isHex h then Inr False
     else rmap isHex (load old (i + 2))))"

function url_decode_loop :: "ptr \<Rightarrow> int \<Rightarrow> ptr \<Rightarrow> int \<Rightarrow> int \<Rightarrow> ptr res" where
  "url_decode_loop old len new i j =
     (if i < len then
        rbind (is_escape old i) (\<lambda>esc.
        rbind (if esc
               then rbind (load old (i + 1)) (\<lambda>h. rbind (load old (i + 2)) (\<lambda>l.
                 rmap (\<lambda>new. (new, i + 2)) (store new j (to_char (toHex h * 16 + toHex l)))))
               else rbind (load old i) (\<lambda>c. rmap (\<lambda>new. (new, i)) (store new j c))) (\<lambda>t.
        rbind (store (fst t) (j + 1) NUL) (\<lambda>new.
          url_decode_loop old len new (snd t + 1) (j + 1))))
      else Inr new)"
  by pat_completeness auto
termination
  by (relation "measure (\<lambda>(old, len, new, i, j). nat (len - i))")
     (auto simp: rbind_eq_Inr rmap_eq_Inr split: if_splits)

declare url_decode_loop.simps [simp del]

definition url_decode :: "ptr \<Rightarrow> ptr res" where
  "url_decode old =
     rbind (strlen old) (\<lambda>len.
     rbind (store (malloc (len + 1)) 0 NUL) (\<lambda>new. url_decode_loop old len new 0 0))"

text \<open>
  One parameter: the two substrings around \<open>'='\<close> are copied, decoded and appended; the
  first copies are freed.
\<close>

definition add_parameter :: "dic \<Rightarrow> ptr \<Rightarrow> int \<Rightarrow> int \<Rightarrow> int \<Rightarrow> dic res" where
  "add_parameter list params idx equal next =
     (let key_len = equal - idx; value_len = next - equal - 1 in
      rbind (copy_n (padd params idx) key_len) (\<lambda>key.
      rbind (copy_n (padd params (equal + 1)) value_len) (\<lambda>value.
      rbind (url_decode key) (\<lambda>tmp.
      rbind (free key) (\<lambda>_.
      let key = tmp in
      rbind (url_decode value) (\<lambda>tmp.
      rbind (free value) (\<lambda>_.
      let value = tmp in
      rbind (c_string key) (\<lambda>k. rbind (c_string value) (\<lambda>v.
        Inr (add_data list (Some k) v))))))))))"

text \<open>
  The do-while loop over the separators. \<open>next\<close> is never before \<open>idx\<close>, so \<open>idx\<close>
  grows; the last test is the loop's \<open>while(idx<=len)\<close>.
\<close>

function parse_parameter_loop :: "dic \<Rightarrow> ptr \<Rightarrow> int \<Rightarrow> int \<Rightarrow> dic res" where
  "parse_parameter_loop list params len idx =
     rbind (find_idx (padd params idx) CHR ''&'') (\<lambda>amp.
     rbind (find_idx (padd params idx) CHR ''='') (\<lambda>eq.
     let next = (if amp + idx - idx = -1 then len else amp + idx); equal = eq + idx in
     rbind (if equal < next \<and> equal \<noteq> -1 then add_parameter list params idx equal next
            else Inr list) (\<lambda>list.
     let idx = next + 1 in
       if idx \<le> len then parse_parameter_loop list params len idx
       else Inr list)))"
  by pat_completeness auto
termination
  by (relation "measure (\<lambda>(list, params, len, idx). nat (len - idx))")
     (auto dest: find_idx_range split: if_splits)

declare parse_parameter_loop.simps [simp del]

definition parse_parameter :: "dic \<Rightarrow> ptr \<Rightarrow> dic res" where
  "parse_parameter list params =
     (if params = Null then Inr list
      else rbind (strlen params) (\<lambda>len.
        if len = 0 then Inr list else parse_parameter_loop list params len 0))"

section \<open>Percent-decoding\<close>

definition hex_byte :: "char \<Rightarrow> char \<Rightarrow> char" where
  "hex_byte h l = to_char (toHex h * 16 + toHex l)"

fun decode :: "string \<Rightarrow> string" where
  "decode (c # h # l # s) =
     (if c = CHR ''%'' \<and> isHex h \<and> isHex l then hex_byte h l # decode s
      else c # decode (h # l # s))"
| "decode s = s"

lemma decode_Cons:
  "decode (c # s) =
     (if c = CHR ''%'' \<and> 2 \<le> length s \<and> isHex (s ! 0) \<and> isHex (s ! 1)
      then hex_byte (s ! 0) (s ! 1) # decode (drop 2 s)
      else c # decode s)"
  by (cases s; cases "tl s") auto

lemma is_escape_ok:
  assumes p: "c_string p = Inr s" and i: "i < length s"
  shows "is_escape p (int i) = Inr (s ! i = CHR ''%'' \<and> i + 2 < length s \<and> isHex (s ! (i + 1)) \<and> isHex (s ! (i + 2)))"
proof -
  have l0: "load p (int i) = Inr (s ! i)" using c_string_load [OF p, of "int i"] i by simp
  have l1: "load p (int i + 1) = Inr (if i + 1 < length s then s ! (i + 1) else NUL)"
  proof (cases "i + 1 < length s")
    case True
    then show ?thesis using c_string_load [OF p, of "int i + 1"] by (simp add: nat_add_distrib)
  next
    case False
    then have "int i + 1 = int (length s)" using i by simp
    then show ?thesis using False c_string_load_end [OF p] by simp
  qed
  have l2: "load p (int i + 2) = Inr (if i + 2 < length s then s ! (i + 2) else NUL)"
    if "i + 1 < length s"
  proof (cases "i + 2 < length s")
    case True
    then show ?thesis using c_string_load [OF p, of "int i + 2"] by (simp add: nat_add_distrib)
  next
    case False
    then have "int i + 2 = int (length s)" using that by simp
    then show ?thesis using False c_string_load_end [OF p] by simp
  qed
  show ?thesis
    using l2 by (cases "i + 1 < length s") (auto simp: is_escape_def l0 l1)
qed

lemma url_decode_loop_ok:
  assumes p: "c_string p = Inr s" and "length b = Suc (length s)" and "i \<le> length s"
    and "length ds \<le> i" and "take (Suc (length ds)) b = map Some ds @ [Some NUL]"
  shows "\<exists>b'. url_decode_loop p (int (length s)) (Ptr b 0) (int i) (int (length ds)) = Inr (Ptr b' 0) \<and>
    length b' = length b \<and>
    take (Suc (length (ds @ decode (drop i s)))) b' = map Some (ds @ decode (drop i s)) @ [Some NUL]"
  using assms(2-)
proof (induction "length s - i" arbitrary: b i ds rule: less_induct)
  case less
  show ?case
  proof (cases "i < length s")
    case False
    then show ?thesis using less.prems by (subst url_decode_loop.simps) simp
  next
    case i: True
    have tk: "take (length ds) b = map Some ds"
      using arg_cong [OF less.prems(4), of "take (length ds)"] by simp
    have lt: "length ds < length b" using less.prems by simp
    define esc where "esc \<longleftrightarrow> s ! i = CHR ''%'' \<and> i + 2 < length s \<and> isHex (s ! (i + 1)) \<and> isHex (s ! (i + 2))"
    define c where "c = (if esc then hex_byte (s ! (i + 1)) (s ! (i + 2)) else s ! i)"
    define i' where "i' = (if esc then i + 3 else i + 1)"
    have i': "i < i'" "i' \<le> length s" using i by (auto simp: i'_def esc_def)
    from store_filled [OF tk lt] obtain b1 where b1: "store (Ptr b 0) (int (length ds)) c = Inr (Ptr b1 0)"
      "take (Suc (length ds)) b1 = map Some (ds @ [c])" "length b1 = length b" by metis
    have tk1: "take (length (ds @ [c])) b1 = map Some (ds @ [c])" using b1(2) by simp
    have lt1: "length (ds @ [c]) < length b1" using less.prems i b1(3) by simp
    from store_filled [OF tk1 lt1, of NUL] obtain b2 where
      b2: "store (Ptr b1 0) (int (length (ds @ [c]))) NUL = Inr (Ptr b2 0)"
      "take (Suc (length (ds @ [c]))) b2 = map Some (ds @ [c] @ [NUL])" "length b2 = length b1" by auto
    have l: "load p (int i) = Inr (s ! i)" using c_string_load [OF p, of "int i"] i by simp
    have l12: "load p (int i + 1) = Inr (s ! (i + 1))" "load p (int i + 2) = Inr (s ! (i + 2))" if esc
      using c_string_load [OF p, of "int i + 1"] c_string_load [OF p, of "int i + 2"] that
      by (auto simp: esc_def nat_add_distrib)
    have "url_decode_loop p (int (length s)) (Ptr b 0) (int i) (int (length ds)) =
        url_decode_loop p (int (length s)) (Ptr b2 0) (int i') (int (length (ds @ [c])))"
      using i is_escape_ok [OF p i, folded esc_def] l l12 b1(1) b2(1)
      by (subst url_decode_loop.simps) (auto simp: c_def i'_def hex_byte_def add.commute)
    moreover have "decode (drop i s) = c # decode (drop i' s)"
    proof -
      have d: "drop i s = s ! i # drop (i + 1) s" using i by (simp add: Cons_nth_drop_Suc)
      have "esc \<longleftrightarrow> s ! i = CHR ''%'' \<and> 2 \<le> length (drop (i + 1) s) \<and>
          isHex (drop (i + 1) s ! 0) \<and> isHex (drop (i + 1) s ! 1)"
        using i by (auto simp: esc_def)
      then show ?thesis
        unfolding d decode_Cons c_def i'_def using i
        by (auto simp: esc_def add.commute numeral_3_eq_3 numeral_2_eq_2)
    qed
    moreover have "\<exists>b'. url_decode_loop p (int (length s)) (Ptr b2 0) (int i') (int (length (ds @ [c]))) = Inr (Ptr b' 0) \<and>
      length b' = length b2 \<and>
      take (Suc (length ((ds @ [c]) @ decode (drop i' s)))) b' = map Some ((ds @ [c]) @ decode (drop i' s)) @ [Some NUL]"
      using i i' less.prems(3) less.prems(1) b1(3) b2(2,3) by (intro less.hyps) auto
    ultimately show ?thesis using b1(3) b2(3) by simp
  qed
qed

lemma url_decode_ok:
  assumes p: "c_string p = Inr s"
  obtains q where "url_decode p = Inr q" and "c_string q = Inr (takeWhile (\<lambda>c. c \<noteq> NUL) (decode s))"
proof -
  define b where "b = Some NUL # replicate (length s) (None :: char option)"
  have st: "store (malloc (int (length s) + 1)) 0 NUL = Inr (Ptr b 0)"
    by (simp add: malloc_def store_def nat_add_distrib b_def)
  have "\<exists>b'. url_decode_loop p (int (length s)) (Ptr b 0) (int 0) (int (length ([] :: string))) = Inr (Ptr b' 0) \<and>
    length b' = length b \<and>
    take (Suc (length ([] @ decode (drop 0 s)))) b' = map Some ([] @ decode (drop 0 s)) @ [Some NUL]"
    by (rule url_decode_loop_ok [OF p]) (simp_all add: b_def)
  then obtain b' where "url_decode_loop p (int (length s)) (Ptr b 0) 0 0 = Inr (Ptr b' 0)"
    "take (Suc (length (decode s))) b' = map Some (decode s) @ [Some NUL]" by auto
  then show ?thesis
    using that [of "Ptr b' 0"] st c_string_takeWhile [of "decode s" b']
    by (simp add: url_decode_def strlen_c_string [OF p])
qed

section \<open>Parameters\<close>

text \<open>
  The specification: the text is cut at every ampersand, each piece with an equals sign
  gives a pair, and both halves are decoded (up to a decoded terminator).
\<close>

function split_on :: "char \<Rightarrow> string \<Rightarrow> string list" where
  "split_on c s =
     (if c \<in> set s
      then takeWhile (\<lambda>x. x \<noteq> c) s # split_on c (drop (Suc (length (takeWhile (\<lambda>x. x \<noteq> c) s))) s)
      else [s])"
  by pat_completeness auto
termination
proof (relation "measure (\<lambda>(c, s). length s)", goal_cases)
  case (2 c s)
  then show ?case by (cases s) auto
qed simp

declare split_on.simps [simp del]

definition cdecode :: "string \<Rightarrow> string" where
  "cdecode s = takeWhile (\<lambda>c. c \<noteq> NUL) (decode s)"

definition pair_of :: "string \<Rightarrow> (string option \<times> string) option" where
  "pair_of piece =
     (if CHR ''='' \<in> set piece
      then Some (Some (cdecode (takeWhile (\<lambda>c. c \<noteq> CHR ''='') piece)),
                 cdecode (tl (dropWhile (\<lambda>c. c \<noteq> CHR ''='') piece)))
      else None)"

definition pairs_of :: "string list \<Rightarrow> dic" where
  "pairs_of pieces = List.map_filter pair_of pieces"

lemma pairs_of_simps [simp]:
  "pairs_of [] = []"
  "pairs_of (piece # pieces) = (case pair_of piece of None \<Rightarrow> pairs_of pieces | Some e \<Rightarrow> e # pairs_of pieces)"
  by (simp_all add: pairs_of_def map_filter_simps split: option.splits)

lemma split_on_not_Nil: "split_on c s \<noteq> []"
  by (subst split_on.simps) simp

lemma split_on_in:
  "c \<in> set s \<Longrightarrow> split_on c s =
     takeWhile (\<lambda>x. x \<noteq> c) s # split_on c (drop (Suc (length (takeWhile (\<lambda>x. x \<noteq> c) s))) s)"
  by (subst split_on.simps) simp

lemma split_on_notin: "c \<notin> set s \<Longrightarrow> split_on c s = [s]"
  by (subst split_on.simps) simp

lemma set_last_split_on: "set (last (split_on c s)) \<subseteq> set s"
proof (induction c s rule: split_on.induct)
  case (1 c s)
  show ?case
  proof (cases "c \<in> set s")
    case True
    then show ?thesis using 1 split_on_not_Nil set_drop_subset by (fastforce simp: split_on_in)
  next
    case False
    then show ?thesis by (simp add: split_on_notin)
  qed
qed

lemma segment_index:
  fixes t :: string
  assumes "piece = takeWhile (\<lambda>x. x \<noteq> a) t"
  shows "ch \<in> set piece \<longleftrightarrow> ch \<in> set t \<and> index_of ch t < int (length piece)"
    and "ch \<in> set piece \<Longrightarrow> takeWhile (\<lambda>x. x \<noteq> ch) piece = takeWhile (\<lambda>x. x \<noteq> ch) t"
proof -
  obtain r where t: "t = piece @ r" by (metis assms takeWhile_dropWhile_id)
  show tw: "ch \<in> set piece \<Longrightarrow> takeWhile (\<lambda>x. x \<noteq> ch) piece = takeWhile (\<lambda>x. x \<noteq> ch) t"
    unfolding t by (subst takeWhile_append1) auto
  show "ch \<in> set piece \<longleftrightarrow> ch \<in> set t \<and> index_of ch t < int (length piece)"
  proof (cases "ch \<in> set piece")
    case True
    then show ?thesis using tw length_takeWhile_less_iff [of ch piece] by (auto simp: index_of_def t)
  next
    case False
    have "length piece \<le> length (takeWhile (\<lambda>x. x \<noteq> ch) t)"
      using False unfolding t by (subst takeWhile_append2) auto
    then show ?thesis using False by (auto simp: index_of_def)
  qed
qed

lemma add_parameter_ok:
  assumes p: "c_string p = Inr s" and i: "i \<le> length s"
    and piece: "piece = takeWhile (\<lambda>x. x \<noteq> a) (drop i s)" and eq: "CHR ''='' \<in> set piece"
  shows "rmap f (add_parameter l p (int i) (index_of CHR ''='' (drop i s) + int i) (int (length piece) + int i)) =
    Inr (f (l @ pairs_of [piece]))"
proof -
  define e where "e = length (takeWhile (\<lambda>x. x \<noteq> CHR ''='') piece)"
  have ie: "index_of CHR ''='' (drop i s) = int e"
    using segment_index [OF piece, of "CHR ''=''"] eq by (simp add: e_def index_of_def)
  have e: "e < length piece" using eq by (simp add: e_def length_takeWhile_less_iff)
  have piece': "piece = take (length piece) (drop i s)" using piece by (metis takeWhile_eq_take)
  have ls: "i + length piece \<le> length s"
    using arg_cong [OF piece', of length] i by simp
  have cp: "c_string (padd p (int i)) = Inr (drop i s)"
    using p i c_string_padd [OF p, of "int i"] by simp
  have cv: "c_string (padd p (int e + int i + 1)) = Inr (drop (e + i + 1) s)"
    using c_string_padd [OF p, of "int e + int i + 1"] e ls by (simp add: nat_add_distrib)
  obtain k where k: "copy_n (padd p (int i)) (int e) = Inr k" "c_string k = Inr (take e (drop i s))"
    by (rule copy_n_ok [OF cp, of "int e"]) simp_all
  define vl where "vl = length piece - e - 1"
  have vl: "int (length piece) - int e - 1 = int vl" using e by (simp add: vl_def)
  obtain v where v: "copy_n (padd p (int e + int i + 1)) (int vl) = Inr v"
    "c_string v = Inr (take vl (drop (e + i + 1) s))"
    by (rule copy_n_ok [OF cv, of "int vl"]) simp_all
  obtain k' where k': "url_decode k = Inr k'" "c_string k' = Inr (cdecode (take e (drop i s)))"
    using url_decode_ok [OF k(2)] by (auto simp: cdecode_def)
  obtain v' where v': "url_decode v = Inr v'" "c_string v' = Inr (cdecode (take vl (drop (e + i + 1) s)))"
    using url_decode_ok [OF v(2)] by (auto simp: cdecode_def)
  have 1: "take e (drop i s) = takeWhile (\<lambda>c. c \<noteq> CHR ''='') piece"
    using takeWhile_eq_take [of "\<lambda>c. c \<noteq> CHR ''=''" piece] piece' e
    by (metis e_def less_imp_le min.absorb1 take_take)
  have "tl (dropWhile (\<lambda>c. c \<noteq> CHR ''='') piece) = drop (Suc e) piece"
    by (simp add: dropWhile_eq_drop e_def drop_Suc tl_drop)
  also have "\<dots> = take vl (drop (e + i + 1) s)"
    by (subst piece') (simp add: vl_def drop_take add.commute add.left_commute)
  finally have 2: "tl (dropWhile (\<lambda>c. c \<noteq> CHR ''='') piece) = take vl (drop (e + i + 1) s)" .
  have "add_parameter l p (int i) (int e + int i) (int (length piece) + int i) =
      Inr (add_data l (Some (cdecode (takeWhile (\<lambda>c. c \<noteq> CHR ''='') piece)))
        (cdecode (tl (dropWhile (\<lambda>c. c \<noteq> CHR ''='') piece))))"
    using k v k' v' at_start_copy_n [OF k(1)] at_start_copy_n [OF v(1)]
    by (simp add: add_parameter_def Let_def vl 1 2)
  then show ?thesis using eq by (simp add: ie add_data_def pair_of_def)
qed

text \<open>One round of the loop, on the rest \<open>t\<close> of the text and its first piece.\<close>

lemma parse_parameter_step:
  assumes p: "c_string p = Inr s" and i: "i \<le> length s" and t: "t = drop i s"
    and piece: "piece = takeWhile (\<lambda>x. x \<noteq> CHR ''&'') t" and nxt: "nxt = i + length piece"
  shows "parse_parameter_loop l p (int (length s)) (int i) =
    (if CHR ''='' \<notin> set t \<and> 0 < i then Inl Buffer_Overflow
     else if nxt < length s then parse_parameter_loop (l @ pairs_of [piece]) p (int (length s)) (int (Suc nxt))
     else Inr (l @ pairs_of [piece]))"
proof -
  have cp: "c_string (padd p (int i)) = Inr t"
    using i c_string_padd [OF p, of "int i"] by (simp add: t)
  have nx: "(if index_of CHR ''&'' t + int i - int i = -1 then int (length s)
      else index_of CHR ''&'' t + int i) = int (length piece) + int i"
    using i by (auto simp: index_of_def piece t length_takeWhile_all)
  have step: "parse_parameter_loop l p (int (length s)) (int i) =
    rbind (if index_of CHR ''='' t < int (length piece) \<and> index_of CHR ''='' t + int i \<noteq> -1
           then add_parameter l p (int i) (index_of CHR ''='' t + int i) (int (length piece) + int i)
           else Inr l) (\<lambda>l.
      if nxt < length s then parse_parameter_loop l p (int (length s)) (int (Suc nxt)) else Inr l)"
    unfolding parse_parameter_loop.simps [of l p "int (length s)" "int i"] find_idx_ok [OF cp]
    by (simp only: rbind_simps Let_def nx)
      (auto simp: nxt add.commute add.left_commute intro!: arg_cong2 [where f = rbind])
  consider (has) "CHR ''='' \<in> set piece" | (neg) "CHR ''='' \<notin> set t" "0 < i"
    | (skip) "CHR ''='' \<notin> set piece" "CHR ''='' \<in> set t \<or> i = 0" by auto
  then show ?thesis
  proof cases
    case neg
    then have m1: "index_of CHR ''='' t = -1" by (simp add: index_of_def)
    have "add_parameter l p (int i) (int i - 1) n = Inl Buffer_Overflow" for n
      by (simp add: add_parameter_def Let_def copy_n_negative)
    then show ?thesis unfolding step m1 using neg by simp
  next
    case has
    have "index_of CHR ''='' t < int (length piece) \<and> index_of CHR ''='' t + int i \<noteq> -1"
      using segment_index(1) [OF piece, of "CHR ''=''"] has by (auto simp: index_of_def)
    moreover have "CHR ''='' \<in> set t" using has piece set_takeWhileD by fastforce
    ultimately show ?thesis
      unfolding step
      using add_parameter_ok [OF p i piece [unfolded t] has, of "\<lambda>x. x" l]
      by (auto simp: t rmap_def rbind_eq_Inr)
  next
    case skip
    have "\<not> (index_of CHR ''='' t < int (length piece) \<and> index_of CHR ''='' t + int i \<noteq> -1)"
      using segment_index(1) [OF piece, of "CHR ''=''"] skip by (auto simp: index_of_def)
    moreover have "pairs_of [piece] = []" using skip by (simp add: pair_of_def)
    ultimately show ?thesis unfolding step using skip by auto
  qed
qed

lemma split_on_next:
  assumes i: "i \<le> length s" and t: "t = drop i s"
    and piece: "piece = takeWhile (\<lambda>x. x \<noteq> c) t" and nxt: "nxt = i + length piece"
  shows "split_on c t = (if nxt < length s then piece # split_on c (drop (Suc nxt) s) else [t])"
    and "nxt < length s \<or> piece = t"
proof -
  have "(nxt < length s \<or> piece = t) \<and>
    split_on c t = (if nxt < length s then piece # split_on c (drop (Suc nxt) s) else [t])"
  proof (cases "c \<in> set t")
    case True
    then have "length piece < length t" by (simp add: piece length_takeWhile_less_iff)
    then have "nxt < length s" using i by (simp add: nxt t)
    then show ?thesis using split_on_in [OF True]
      by (simp add: nxt t piece add.commute)
  next
    case False
    then have "piece = t" unfolding piece by (auto simp: takeWhile_eq_all_conv)
    then show ?thesis using i False by (simp add: split_on_notin nxt t)
  qed
  then show "split_on c t = (if nxt < length s then piece # split_on c (drop (Suc nxt) s) else [t])"
    and "nxt < length s \<or> piece = t" by blast+
qed

lemma parse_parameter_loop_ok:
  assumes p: "c_string p = Inr s" and "i \<le> length s"
  shows "parse_parameter_loop l p (int (length s)) (int i) =
    (let pieces = split_on CHR ''&'' (drop i s) in
     if (0 < i \<or> 1 < length pieces) \<and> CHR ''='' \<notin> set (last pieces) then Inl Buffer_Overflow
     else Inr (l @ pairs_of pieces))"
  using assms(2)
proof (induction "length s - i" arbitrary: i l rule: less_induct)
  case less
  define t where t: "t = drop i s"
  define piece where piece: "piece = takeWhile (\<lambda>x. x \<noteq> CHR ''&'') t"
  define nxt where nxt: "nxt = i + length piece"
  note step = parse_parameter_step [OF p less.prems t piece nxt, of l]
  note pieces = split_on_next [OF less.prems t piece nxt]
  have last_in: "CHR ''='' \<in> set t" if "CHR ''='' \<in> set (last (split_on CHR ''&'' t))"
    using that set_last_split_on by blast
  show ?case
  proof (cases "nxt < length s \<and> (CHR ''='' \<in> set t \<or> i = 0)")
    case True
    then have IH: "parse_parameter_loop (l @ pairs_of [piece]) p (int (length s)) (int (Suc nxt)) =
      (let pieces = split_on CHR ''&'' (drop (Suc nxt) s) in
       if (0 < Suc nxt \<or> 1 < length pieces) \<and> CHR ''='' \<notin> set (last pieces) then Inl Buffer_Overflow
       else Inr ((l @ pairs_of [piece]) @ pairs_of pieces))"
      using less.prems by (intro less.hyps) (auto simp: nxt)
    then show ?thesis
      using step True pieces split_on_not_Nil by (auto simp: Let_def split: option.splits simp flip: t)
  next
    case False
    then show ?thesis using step pieces last_in by (auto simp: Let_def split: if_splits simp flip: t)
  qed
qed

lemma parse_parameter_c_string:
  assumes p: "c_string p = Inr s"
  shows "parse_parameter l p =
    (let pieces = split_on CHR ''&'' s in
     if 1 < length pieces \<and> CHR ''='' \<notin> set (last pieces) then Inl Buffer_Overflow
     else Inr (l @ pairs_of pieces))"
proof (cases "s = []")
  case True
  then show ?thesis using p c_string_not_Null [OF p]
    by (simp add: parse_parameter_def strlen_c_string split_on_notin pair_of_def)
next
  case False
  then show ?thesis
    using parse_parameter_loop_ok [OF p, of 0 l] c_string_not_Null [OF p]
    by (simp add: parse_parameter_def strlen_c_string [OF p])
qed

section \<open>Encoding and its round trip\<close>

text \<open>
  A client's encoder: letters and digits stand for themselves, every other byte is a
  percent escape. The decoder inverts it, on single strings and on whole forms.
\<close>

definition plain_chars :: string where
  "plain_chars = ''0123456789abcdefghijklmnopqrstuvwxyzABCDEFGHIJKLMNOPQRSTUVWXYZ''"

definition hex_digit :: "nat \<Rightarrow> char" where
  "hex_digit n = ''0123456789ABCDEF'' ! n"

definition encode_char :: "char \<Rightarrow> string" where
  "encode_char c = (if c \<in> set plain_chars then [c]
     else [CHR ''%'', hex_digit (of_char c div 16), hex_digit (of_char c mod 16)])"

definition encode :: "string \<Rightarrow> string" where
  "encode s = concat (map encode_char s)"

definition form :: "(string \<times> string) list \<Rightarrow> string" where
  "form kvs = concat (map (\<lambda>(k, v). encode k @ ''='' @ encode v @ ''&'') (butlast kvs)) @
     (case last kvs of (k, v) \<Rightarrow> encode k @ ''='' @ encode v)"

lemma hex_digit_table:
  "\<forall>n \<in> set [0..<16]. isHex (hex_digit n) \<and> toHex (hex_digit n) = int n \<and> hex_digit n \<in> set plain_chars"
  by code_simp

lemma hex_digit_ok: "n < 16 \<Longrightarrow> isHex (hex_digit n) \<and> toHex (hex_digit n) = int n \<and>
    hex_digit n \<in> set plain_chars"
  using hex_digit_table by simp

lemma nibbles: "of_char c div 16 < (16 :: nat)" "of_char c mod 16 < (16 :: nat)"
  using nat_of_char_less_256 [of c] by (simp_all add: less_mult_imp_div_less)

lemma hex_byte_of_char: "hex_byte (hex_digit (of_char c div 16)) (hex_digit (of_char c mod 16)) = c"
proof -
  define n where "n = (of_char c :: nat)"
  have n: "n div 16 < 16" "n mod 16 < 16" using nibbles [of c] by (auto simp: n_def)
  have "toHex (hex_digit (n div 16)) * 16 + toHex (hex_digit (n mod 16)) = int n"
  proof -
    have "int (n div 16) * 16 + int (n mod 16) = int n"
      by (metis div_mult_mod_eq of_nat_add of_nat_mult of_nat_numeral)
    then show ?thesis using hex_digit_ok [OF n(1)] hex_digit_ok [OF n(2)] by simp
  qed
  moreover have "to_char (int n) = c"
  proof -
    have "(of_char c :: int) = int n" unfolding n_def by (metis of_nat_of_char)
    then show ?thesis by (metis to_char_def char_of_char char_of_mod_256)
  qed
  ultimately show ?thesis by (simp add: hex_byte_def n_def)
qed

lemma plain_not_special:
  "c \<in> set plain_chars \<Longrightarrow> c \<noteq> CHR ''%'' \<and> c \<noteq> CHR ''&'' \<and> c \<noteq> CHR ''='' \<and> c \<noteq> NUL"
  by (auto simp: plain_chars_def)

lemma set_encode_char: "set (encode_char c) \<subseteq> insert CHR ''%'' (set plain_chars)"
  using hex_digit_ok [OF nibbles(1)] hex_digit_ok [OF nibbles(2)] by (auto simp: encode_char_def)

lemma encode_chars:
  "NUL \<notin> set (encode s)" "CHR ''&'' \<notin> set (encode s)" "CHR ''='' \<notin> set (encode s)"
  using set_encode_char plain_not_special by (fastforce simp: encode_def)+

lemma decode_encode_append: "decode (encode s @ r) = s @ decode r"
proof (induction s)
  case (Cons c s)
  have h: "isHex (hex_digit (of_char c div 16))" "isHex (hex_digit (of_char c mod 16))"
    using hex_digit_ok nibbles by blast+
  show ?case
  proof (cases "c \<in> set plain_chars")
    case True
    then show ?thesis using Cons plain_not_special [OF True]
      by (simp add: encode_def encode_char_def decode_Cons)
  next
    case False
    then show ?thesis using Cons h
      by (simp add: encode_def encode_char_def hex_byte_of_char)
  qed
qed (simp add: encode_def)

lemma decode_encode: "decode (encode s) = s"
  using decode_encode_append [of s "[]"] by simp

lemma cdecode_encode: "NUL \<notin> set s \<Longrightarrow> cdecode (encode s) = s"
  by (auto simp: cdecode_def decode_encode takeWhile_eq_all_conv)

lemma pair_of_field:
  assumes "NUL \<notin> set k" and "NUL \<notin> set v"
  shows "pair_of (encode k @ ''='' @ encode v) = Some (Some k, v)"
proof -
  have "takeWhile (\<lambda>c. c \<noteq> CHR ''='') (encode k @ CHR ''='' # encode v) = encode k"
    using encode_chars(3) by (rule takeWhile_neq_append)
  moreover have "dropWhile (\<lambda>c. c \<noteq> CHR ''='') (encode k @ CHR ''='' # encode v) = CHR ''='' # encode v"
    using encode_chars(3) [of k] by (subst dropWhile_append2) auto
  ultimately show ?thesis using assms by (simp add: pair_of_def cdecode_encode)
qed

lemma split_on_append: "c \<notin> set xs \<Longrightarrow> split_on c (xs @ c # ys) = xs # split_on c ys"
  by (subst split_on_in) (simp_all add: takeWhile_neq_append)

lemma split_form:
  "kvs \<noteq> [] \<Longrightarrow> split_on CHR ''&'' (form kvs) = map (\<lambda>(k, v). encode k @ ''='' @ encode v) kvs"
proof (induction kvs rule: list_nonempty_induct)
  case (single e)
  then show ?case using encode_chars(2) by (cases e) (auto simp: form_def intro!: split_on_notin)
next
  case (cons e kvs)
  obtain k v where e: "e = (k, v)" by (cases e)
  have "form (e # kvs) = (encode k @ ''='' @ encode v) @ CHR ''&'' # form kvs"
    using cons by (simp add: form_def e)
  moreover have "CHR ''&'' \<notin> set (encode k @ ''='' @ encode v)" using encode_chars(2) by simp
  ultimately show ?case
    using cons split_on_append [of "CHR ''&''" "encode k @ ''='' @ encode v" "form kvs"] by (simp add: e)
qed

lemma NUL_notin_form: "kvs \<noteq> [] \<Longrightarrow> NUL \<notin> set (form kvs)"
  using encode_chars(1) by (auto simp: form_def split: prod.splits)

lemma pairs_of_form:
  "\<forall>(k, v) \<in> set kvs. NUL \<notin> set k \<and> NUL \<notin> set v \<Longrightarrow>
     pairs_of (map (\<lambda>(k, v). encode k @ ''='' @ encode v) kvs) = map (\<lambda>(k, v). (Some k, v)) kvs"
  by (induction kvs) (auto simp: pair_of_field simp del: append_Cons append_Nil)

lemma parse_form:
  assumes "kvs \<noteq> []" and "\<forall>(k, v) \<in> set kvs. NUL \<notin> set k \<and> NUL \<notin> set v"
    and "c_string p = Inr (form kvs)"
  shows "parse_parameter l p = Inr (l @ map (\<lambda>(k, v). (Some k, v)) kvs)"
proof -
  have "CHR ''='' \<in> set (last (map (\<lambda>(k, v). encode k @ ''='' @ encode v) kvs))"
    using assms(1) by (cases "last kvs") (simp add: last_map)
  then show ?thesis
    unfolding parse_parameter_c_string [OF assms(3)] split_form [OF assms(1)]
      Let_def pairs_of_form [OF assms(2)] by simp
qed

end
