(* ===== verification/Form_Data.thy ===== *)
theory Form_Data
  imports Query_Params
begin

text \<open>
  The parser of multipart bodies of \<^verbatim>\<open>http.c\<close>. \<open>find_str\<close> gives the index of the last
  byte of a match, so \<open>next\<close> is the end of a boundary or the CR of a header line. The
  loops advance by what the searches find; the header loop is the one that may not.
\<close>

section \<open>The code\<close>

text \<open>\<open>while(idx<next)\<close>: the fields of one header line, cut at semicolons.\<close>

function header_fields :: "ptr \<Rightarrow> int \<Rightarrow> int \<Rightarrow> ptr \<Rightarrow> ptr \<Rightarrow> (ptr \<times> ptr) res" where
  "header_fields body idx next key filename =
     (if idx < next then
        rbind (find_idx (padd body idx) CHR '';'') (\<lambda>r.
        let p = (if r = -1 \<or> r + idx > next then next else r + idx) in
        rbind (strncmp (padd body idx) (literal ''name'') 4) (\<lambda>c.
        rbind (if c = 0 then rmap (\<lambda>k. (k, idx + 5)) (copy_n (padd body (idx + 5)) (p - (idx + 5)))
               else Inr (key, idx)) (\<lambda>t.
        rbind (strncmp (padd body (snd t)) (literal ''filename'') 8) (\<lambda>c.
        rbind (if c = 0 then copy_n (padd body (snd t + 9)) (p - (snd t + 9)) else Inr filename) (\<lambda>filename.
          header_fields body (p + 2) next (fst t) filename)))))
      else Inr (key, filename))"
  by pat_completeness auto
termination
  by (relation "measure (\<lambda>(body, idx, next, key, filename). nat (next - idx))")
     (auto dest!: find_idx_range split: if_splits)

declare header_fields.simps [simp del]

text \<open>
  The header lines up to the empty one. When no CRLF is left, \<open>next\<close> is \<open>idx-2\<close> and
  \<open>idx=next+2\<close> changes nothing: with \<open>idx<len\<close> the loop never ends.
\<close>

function parse_headers :: "ptr \<Rightarrow> int \<Rightarrow> int \<Rightarrow> ptr \<Rightarrow> ptr \<Rightarrow> (int \<times> ptr \<times> ptr) res" where
  "parse_headers body len idx key filename =
     rbind (find_str (padd body idx) (literal crlf)) (\<lambda>r.
     let next = r + idx - 1 in
     if next = idx then Inr (next + 2, key, filename)
     else rbind (header_fields body idx next key filename) (\<lambda>t.
       let idx' = next + 2 in
       if idx' < len
       then if idx' = idx then Inl Diverges
            else parse_headers body len idx' (fst t) (snd t)
       else Inr (idx', fst t, snd t)))"
  by pat_completeness auto
termination
  by (relation "measure (\<lambda>(body, len, idx, key, filename). nat (len - idx))")
     (auto dest!: find_str_range)

declare parse_headers.simps [simp del]

text \<open>A file is stored as \<^verbatim>\<open>length|name|content\<close> in a buffer sized by the code's sum.\<close>

definition file_value :: "ptr \<Rightarrow> ptr \<Rightarrow> ptr res" where
  "file_value filename value =
     rbind (strlen filename) (\<lambda>len.
     rbind (sprintf (malloc 30) (dec len)) (\<lambda>tmp.
     rbind (strlen tmp) (\<lambda>llen.
     rbind (strlen value) (\<lambda>vlen.
     rbind (c_string filename) (\<lambda>f.
     rbind (c_string value) (\<lambda>v.
       sprintf (realloc tmp (len + llen + 2 + vlen)) (dec len @ ''|'' @ f @ ''|'' @ v)))))))"

definition part_value :: "ptr \<Rightarrow> ptr \<Rightarrow> int \<Rightarrow> int \<Rightarrow> ptr \<Rightarrow> (int \<times> ptr) res" where
  "part_value body boundary bound_len idx filename =
     rbind (find_str (padd body idx) boundary) (\<lambda>r.
     let next = r + idx - bound_len in
     rbind (copy_n (padd body idx) (next - idx - 2)) (\<lambda>value.
     rbind (if filename \<noteq> Null then file_value filename value else url_decode value) (\<lambda>tmp.
     rbind (free value) (\<lambda>_. Inr (next, tmp)))))"

text \<open>The entry as its strings; a part without a name has a NULL key.\<close>

definition add_entry :: "dic \<Rightarrow> ptr \<Rightarrow> ptr \<Rightarrow> dic res" where
  "add_entry list key value =
     rbind (if key = Null then Inr None else rmap Some (c_string key)) (\<lambda>k.
     rbind (c_string value) (\<lambda>v. Inr (add_data list k v)))"

lemma header_start: "parse_headers body len idx key filename = Inr (i, k, f) \<Longrightarrow> idx \<le> i"
proof (induction body len idx key filename rule: parse_headers.induct)
  case (1 body len idx key filename)
  from 1(2) obtain r where r: "find_str (padd body idx) (literal crlf) = Inr r"
    by (subst (asm) parse_headers.simps) (auto simp: rbind_eq_Inr)
  then have ge: "-1 \<le> r" using find_str_range by fastforce
  define nx where nx: "nx = r + idx - 1"
  have unfold: "parse_headers body len idx key filename =
    (if nx = idx then Inr (nx + 2, key, filename)
     else rbind (header_fields body idx nx key filename) (\<lambda>t.
       if nx + 2 < len then (if nx + 2 = idx then Inl Diverges
         else parse_headers body len (nx + 2) (fst t) (snd t))
       else Inr (nx + 2, fst t, snd t)))"
    unfolding parse_headers.simps [of body len idx key filename] by (simp only: r rbind_simps Let_def nx)
  show ?case
  proof (cases "nx = idx")
    case True
    then show ?thesis using 1(2) unfold by simp
  next
    case False
    then obtain t where t: "header_fields body idx nx key filename = Inr t"
      using 1(2) unfold by (auto simp: rbind_eq_Inr)
    have "parse_headers body len (nx + 2) (fst t) (snd t) = Inr (i, k, f) \<Longrightarrow> nx + 2 \<le> i"
      if "nx + 2 < len" "nx + 2 \<noteq> idx"
      using 1(1) [OF r nx False t refl] that by simp
    then show ?thesis using 1(2) unfold False t ge nx by (auto split: if_splits)
  qed
qed

lemma part_value_next: "part_value body boundary n idx filename = Inr (next, v) \<Longrightarrow> idx + 2 \<le> next"
  by (auto simp: part_value_def rbind_eq_Inr rmap_eq_Inr Let_def dest!: copy_n_nonneg)

function parse_formdata_loop :: "dic \<Rightarrow> ptr \<Rightarrow> ptr \<Rightarrow> int \<Rightarrow> int \<Rightarrow> int \<Rightarrow> dic res" where
  "parse_formdata_loop list body boundary bound_len len idx =
     rbind (find_str (padd body idx) boundary) (\<lambda>r.
     let next = r + idx in
     rbind (strncmp (padd body (next + 1)) (literal ''--'') 2) (\<lambda>c.
     if c = 0 then Inr list
     else
       rbind (parse_headers body len (next + 2 + 1) Null Null) (\<lambda>h.
       rbind (part_value body boundary bound_len (fst h) (snd (snd h))) (\<lambda>w.
       rbind (add_entry list (fst (snd h)) (snd w)) (\<lambda>list.
         let idx = fst w + 1 in
         if idx \<le> len then parse_formdata_loop list body boundary bound_len len idx
         else Inr list)))))"
  by pat_completeness auto
termination
proof (relation "measure (\<lambda>(list, body, boundary, bound_len, len, idx). nat (len - idx))", goal_cases)
  case (2 list body boundary bound_len len idx r nxt c h w list' idx')
  then have "idx + 2 \<le> fst h" "fst h + 2 \<le> fst w"
    using header_start [of body len "nxt + 2 + 1" Null Null "fst h" "fst (snd h)" "snd (snd h)"]
      part_value_next [of body boundary bound_len "fst h" "snd (snd h)" "fst w" "snd w"]
    by (auto dest!: find_str_range)
  then show ?case using 2 by simp
qed simp

declare parse_formdata_loop.simps [simp del]

definition parse_formdata :: "dic \<Rightarrow> ptr \<Rightarrow> ptr \<Rightarrow> dic res" where
  "parse_formdata list body boundary =
     (if body = Null then Inr list
      else rbind (strlen body) (\<lambda>len.
        if len = 0 then Inr list
        else rbind (strlen boundary) (\<lambda>bound_len.
          parse_formdata_loop list body boundary bound_len len 0)))"

end
