(* ===== verification/Http_Request.thy ===== *)
theory Http_Request
  imports Stream_IO Form_Data
begin

text \<open>
  \<open>parse_request\<close> of \<^verbatim>\<open>http.c\<close>: the request line, the header lines, the body and the
  parameters, read from a descriptor. \<open>parse_bytes\<close> is its specification on the plain
  bytes of the connection; the two agree on every descriptor that delivers those bytes.
\<close>

section \<open>The code\<close>

text \<open>A request as the handlers see it: the strings behind its pointers.\<close>

record request =
  req_method :: string
  req_path :: string
  req_version :: string
  req_header :: dic
  req_body :: "string option"
  req_parameter :: dic

definition parse_request_line :: "ptr \<Rightarrow> (ptr \<times> ptr \<times> ptr) res" where
  "parse_request_line line =
     rbind (find_idx line CHR '' '') (\<lambda>first.
     rbind (find_idx (padd line (first + 1)) CHR '' '') (\<lambda>r.
     let second = r + first + 1 in
     rbind (strlen line) (\<lambda>len.
     let method_len = first; path_len = second - first - 1; version_len = len - second - 1 in
     rbind (copy_n line method_len) (\<lambda>method.
     rbind (copy_n (padd line (first + 1)) path_len) (\<lambda>path.
     rbind (copy_n (padd line (second + 1)) version_len) (\<lambda>version.
       Inr (method, path, version)))))))"

text \<open>One header line; a line without a colon is ignored.\<close>

definition add_header :: "dic \<Rightarrow> ptr \<Rightarrow> dic res" where
  "add_header header line =
     rbind (find_idx line CHR '':'') (\<lambda>idx.
     if idx \<noteq> -1 then
       rbind (strlen line) (\<lambda>end.
       let key_len = idx; value_len = end - idx - 1 in
       rbind (copy_n line key_len) (\<lambda>key.
       rbind (copy_n (padd line (idx + 2)) value_len) (\<lambda>value.
       rbind (toLower key) (\<lambda>key. add_entry header key value))))
     else Inr header)"

function read_headers :: "reader \<Rightarrow> dic \<Rightarrow> (dic \<times> reader) res" where
  "read_headers st header =
     rbind (get_line st (literal crlf)) (\<lambda>t.
     if fst t \<noteq> Null
     then rbind (add_header header (fst t)) (\<lambda>header.
       rbind (free (fst t)) (\<lambda>_. read_headers (snd t) header))
     else Inr (header, snd t))"
  by pat_completeness auto
termination
proof (relation "inv_image progress_rel fst", goal_cases)
  case 1
  show ?case using wf_progress_rel by (rule wf_inv_image)
next
  case (2 st header t header')
  then show ?case using get_line_progress [of st "fst t" "snd t"] by simp
qed

declare read_headers.simps [simp del]

definition ptr_of :: "string option \<Rightarrow> ptr" where
  "ptr_of v = (case v of None \<Rightarrow> Null | Some s \<Rightarrow> literal s)"

definition read_body :: "reader \<Rightarrow> dic \<Rightarrow> (ptr \<times> reader) res" where
  "read_body st header =
     rbind (find_value header ''content-length'') (\<lambda>content_length.
       case content_length of
         None \<Rightarrow> Inr (Null, st)
       | Some v \<Rightarrow> rbind (atoi v) (\<lambda>len. read_sz st len))"

text \<open>
  The boundary of a multipart body: two dashes, then what follows the first equals sign.
  No terminator is stored.
\<close>

definition make_boundary :: "ptr \<Rightarrow> ptr res" where
  "make_boundary contentType =
     rbind (find_idx contentType CHR ''='') (\<lambda>equal_idx.
     rbind (strlen contentType) (\<lambda>len.
     let boundary_len = len - (equal_idx + 1) in
     rbind (store (malloc (boundary_len + 1 + 2)) 1 CHR ''-'') (\<lambda>b.
     rbind (store b 0 CHR ''-'') (\<lambda>b.
     rbind (strncpy (padd b 2) (padd contentType (equal_idx + 1)) boundary_len) (\<lambda>b.
       Inr (padd b (-2)))))))"

definition is_get :: "string \<Rightarrow> bool" where
  "is_get m \<longleftrightarrow> strcmp m ''get'' = 0 \<or> strcmp m ''GET'' = 0"

definition is_post :: "string \<Rightarrow> bool" where
  "is_post m \<longleftrightarrow> strcmp m ''post'' = 0 \<or> strcmp m ''POST'' = 0"

definition get_parameters :: "dic \<Rightarrow> ptr \<Rightarrow> dic res" where
  "get_parameters parameter path =
     rbind (find_idx path CHR ''?'') (\<lambda>idx.
       if idx \<ge> 0 then parse_parameter parameter (padd path (idx + 1)) else Inr parameter)"

definition post_parameters :: "dic \<Rightarrow> dic \<Rightarrow> ptr \<Rightarrow> dic res" where
  "post_parameters parameter header body =
     rbind (find_value header ''content-type'') (\<lambda>v.
     let contentType = ptr_of v in
     rbind (prefixcmp contentType (literal ''application/x-www-form-urlencoded'')) (\<lambda>r.
     if r = 0 then parse_parameter parameter body
     else rbind (prefixcmp contentType (literal ''multipart/form-data'')) (\<lambda>r.
       if r = 0 then rbind (make_boundary contentType) (\<lambda>boundary. parse_formdata parameter body boundary)
       else Inr parameter)))"

definition parse_request :: "int \<Rightarrow> input \<Rightarrow> request res" where
  "parse_request sock_fds inp =
     rbind (get_line (stream_read_init sock_fds, inp) (literal crlf)) (\<lambda>(line, st).
     rbind (parse_request_line line) (\<lambda>(method, path, version).
     rbind (free line) (\<lambda>_.
     rbind (read_headers st []) (\<lambda>(header, st).
     rbind (read_body st header) (\<lambda>(body, st).
     rbind (stream_destory (fst st)) (\<lambda>_.
     rbind (c_string method) (\<lambda>m.
     rbind (if is_get m then get_parameters [] path else Inr []) (\<lambda>parameter.
     rbind (if is_post m then post_parameters parameter header body else Inr parameter) (\<lambda>parameter.
     rbind (c_string path) (\<lambda>p. rbind (c_string version) (\<lambda>v.
     rbind (if body = Null then Inr None else rmap Some (c_string body)) (\<lambda>b.
       Inr \<lparr>req_method = m, req_path = p, req_version = v, req_header = header,
            req_body = b, req_parameter = parameter\<rparr>))))))))))))"

text \<open>
  What \<open>print_request_info\<close> writes to standard output. A NULL key is not a string to
  print; the C library's behaviour on it is undefined.
\<close>

fun print_entries :: "dic \<Rightarrow> string res" where
  "print_entries [] = Inr []"
| "print_entries ((None, v) # d) = Inl Null_Deref"
| "print_entries ((Some k, v) # d) =
     rmap (\<lambda>r. k @ ''|'' @ v @ [CHR 0x0A] @ r) (print_entries d)"

definition print_request_info :: "request \<Rightarrow> string res" where
  "print_request_info req =
     rbind (print_entries (req_header req)) (\<lambda>h.
     rmap (\<lambda>p. req_method req @ ''|'' @ req_path req @ ''|'' @ req_version req @ [CHR 0x0A] @
              ''header'' @ [CHR 0x0A] @ h @ ''parameter'' @ [CHR 0x0A] @ p)
       (print_entries (req_parameter req)))"

section \<open>The specification on bytes\<close>

definition request_line_spec :: "string \<Rightarrow> (string \<times> string \<times> string) res" where
  "request_line_spec l =
     (let m = takeWhile (\<lambda>c. c \<noteq> CHR '' '') l; t = tl (dropWhile (\<lambda>c. c \<noteq> CHR '' '') l);
          p = takeWhile (\<lambda>c. c \<noteq> CHR '' '') t; v = tl (dropWhile (\<lambda>c. c \<noteq> CHR '' '') t)
      in if CHR '' '' \<in> set l \<and> CHR '' '' \<in> set t then Inr (m, p, v) else Inl Buffer_Overflow)"

definition header_spec :: "string \<Rightarrow> dic" where
  "header_spec l =
     (if CHR '':'' \<in> set l
      then [(Some (map lower (takeWhile (\<lambda>c. c \<noteq> CHR '':'') l)),
             drop 2 (dropWhile (\<lambda>c. c \<noteq> CHR '':'') l))]
      else [])"

lemma line_scan_length:
  "line_scan acc p = (acc', found, r) \<Longrightarrow> length acc' + length r \<le> length acc + length p"
  by (induction acc p rule: line_scan.induct) (auto split: if_splits)

lemma line_of_shorter: "line_of p = Some (Some l, r) \<Longrightarrow> length r < length p"
  by (auto simp: line_of_def Let_def dest!: line_scan_length split: prod.splits if_splits)

function headers_spec :: "string \<Rightarrow> dic \<Rightarrow> (dic \<times> string) res" where
  "headers_spec p header =
     (case line_of p of
        None \<Rightarrow> Inl Out_Of_Bounds
      | Some (None, r) \<Rightarrow> Inr (header, r)
      | Some (Some l, r) \<Rightarrow> headers_spec r (header @ header_spec l))"
  by pat_completeness auto
termination
  by (relation "measure (\<lambda>(p, header). length p)") (auto dest: line_of_shorter)

declare headers_spec.simps [simp del]

text \<open>
  The body that \<open>content-length\<close> announces, and what \<open>read_sz\<close> makes of it: the largest \<open>int\<close> is
  the one length its sum \<open>sz+1\<close> overflows for.
\<close>

definition announced_body :: "string \<Rightarrow> dic \<Rightarrow> string option res" where
  "announced_body p header =
     rbind (find_value header ''content-length'') (\<lambda>cl.
       case cl of None \<Rightarrow> Inr None
       | Some v \<Rightarrow> rbind (atoi v) (\<lambda>n.
           if n = -1 then Inl Buffer_Overflow else if n < 0 then Inl Null_Deref
           else Inr (Some (takeWhile (\<lambda>c. c \<noteq> NUL)
             (take (nat n) p @ replicate (nat n - length p) EOF_char)))))"

definition body_spec :: "string \<Rightarrow> dic \<Rightarrow> string option res" where
  "body_spec p header =
     rbind (find_value header ''content-length'') (\<lambda>cl.
       case cl of None \<Rightarrow> Inr None
       | Some v \<Rightarrow> rbind (atoi v) (\<lambda>n. if INT_MAX \<le> n then Inl Int_Overflow else announced_body p header))"

definition form_spec :: "string \<Rightarrow> dic res" where
  "form_spec s =
     (let pieces = split_on CHR ''&'' s in
      if 1 < length pieces \<and> CHR ''='' \<notin> set (last pieces) then Inl Buffer_Overflow
      else Inr (pairs_of pieces))"

definition starts_like :: "string \<Rightarrow> string \<Rightarrow> bool" where
  "starts_like s t \<longleftrightarrow> take (length t) s = t \<or> take (length s) t = s"

definition parameters_spec :: "string \<Rightarrow> string \<Rightarrow> dic \<Rightarrow> string option \<Rightarrow> dic res" where
  "parameters_spec m path header body =
     (if is_get m then
        if CHR ''?'' \<in> set path then form_spec (tl (dropWhile (\<lambda>c. c \<noteq> CHR ''?'') path)) else Inr []
      else if is_post m then
        rbind (find_value header ''content-type'') (\<lambda>v.
          case v of None \<Rightarrow> Inl Null_Deref
          | Some ct \<Rightarrow>
             if starts_like ct ''application/x-www-form-urlencoded''
             then (case body of None \<Rightarrow> Inr [] | Some b \<Rightarrow> form_spec b)
             else if starts_like ct ''multipart/form-data''
             then (case body of None \<Rightarrow> Inr [] | Some b \<Rightarrow> if b = [] then Inr [] else Inl Uninit_Read)
             else Inr [])
      else Inr [])"

definition parse_bytes :: "string \<Rightarrow> request res" where
  "parse_bytes bytes =
     (case line_of bytes of
        None \<Rightarrow> Inl Out_Of_Bounds
      | Some (None, r) \<Rightarrow> Inl Null_Deref
      | Some (Some l, r) \<Rightarrow>
          rbind (request_line_spec l) (\<lambda>(m, p, v).
          rbind (headers_spec r []) (\<lambda>(header, r).
          rbind (body_spec r header) (\<lambda>b.
          rbind (parameters_spec m p header b) (\<lambda>parameter.
            Inr \<lparr>req_method = m, req_path = p, req_version = v, req_header = header,
                 req_body = b, req_parameter = parameter\<rparr>)))))"

section \<open>The parser meets its specification\<close>

text \<open>A word up to the next blank is copied, and the rest is the text after the blank.\<close>

lemma next_word:
  assumes p: "c_string p = Inr l" and sp: "CHR '' '' \<in> set l"
  obtains f w where "find_idx p CHR '' '' = Inr (int f)" and "f < length l" and "copy_n p (int f) = Inr w"
    and "c_string w = Inr (takeWhile (\<lambda>c. c \<noteq> CHR '' '') l)"
    and "c_string (padd p (int f + 1)) = Inr (drop (Suc f) l)"
    and "tl (dropWhile (\<lambda>c. c \<noteq> CHR '' '') l) = drop (Suc f) l"
proof -
  define f where "f = length (takeWhile (\<lambda>c. c \<noteq> CHR '' '') l)"
  have f: "f < length l" using sp by (simp add: f_def length_takeWhile_less_iff)
  have "find_idx p CHR '' '' = Inr (int f)" using find_idx_ok [OF p] sp by (simp add: index_of_in f_def)
  moreover obtain w where "copy_n p (int f) = Inr w" "c_string w = Inr (takeWhile (\<lambda>c. c \<noteq> CHR '' '') l)"
    using copy_n_index [OF p] by (auto simp: f_def)
  moreover have "c_string (padd p (int f + 1)) = Inr (drop (Suc f) l)"
    using c_string_padd [OF p, of "int f + 1"] f by (simp add: nat_add_distrib)
  moreover have "tl (dropWhile (\<lambda>c. c \<noteq> CHR '' '') l) = drop (Suc f) l" by (simp add: tl_dropWhile_neq f_def)
  ultimately show ?thesis using that f by blast
qed

lemma no_next_word: "c_string p = Inr l \<Longrightarrow> CHR '' '' \<notin> set l \<Longrightarrow> find_idx p CHR '' '' = Inr (-1)"
  by (simp add: find_idx_ok index_of_notin)

lemma parse_request_line_ok:
  assumes line: "c_string line = Inr l"
  shows "case request_line_spec l of
      Inl e \<Rightarrow> parse_request_line line = Inl e
    | Inr (m, p, v) \<Rightarrow> \<exists>mp pp vp. parse_request_line line = Inr (mp, pp, vp) \<and>
        c_string mp = Inr m \<and> c_string pp = Inr p \<and> c_string vp = Inr v"
proof (cases "CHR '' '' \<in> set l")
  case False
  have "parse_request_line line = Inl Buffer_Overflow"
    using strlen_c_string [OF line] no_next_word [OF line False]
    by (simp add: parse_request_line_def Let_def copy_n_negative)
  then show ?thesis using False by (simp add: request_line_spec_def)
next
  case True
  obtain f mp where f: "find_idx line CHR '' '' = Inr (int f)" "f < length l" "copy_n line (int f) = Inr mp"
    "c_string mp = Inr (takeWhile (\<lambda>c. c \<noteq> CHR '' '') l)" "c_string (padd line (int f + 1)) = Inr (drop (Suc f) l)"
    "tl (dropWhile (\<lambda>c. c \<noteq> CHR '' '') l) = drop (Suc f) l"
    using next_word [OF line True] .
  define t where "t = drop (Suc f) l"
  note f = f [folded t_def]
  show ?thesis
  proof (cases "CHR '' '' \<in> set t")
    case False
    have "parse_request_line line = Inl Buffer_Overflow"
      using strlen_c_string [OF line] f(3) no_next_word [OF f(5) False]
      by (simp add: parse_request_line_def f(1) Let_def copy_n_negative)
    then show ?thesis using False by (simp add: request_line_spec_def f(6) Let_def)
  next
    case in2: True
    obtain g pp where g: "find_idx (padd line (int f + 1)) CHR '' '' = Inr (int g)" "g < length t"
      "copy_n (padd line (int f + 1)) (int g) = Inr pp" "c_string pp = Inr (takeWhile (\<lambda>c. c \<noteq> CHR '' '') t)"
      "c_string (padd (padd line (int f + 1)) (int g + 1)) = Inr (drop (Suc g) t)"
      "tl (dropWhile (\<lambda>c. c \<noteq> CHR '' '') t) = drop (Suc g) t"
      using next_word [OF f(5) in2] .
    have c2: "c_string (padd line (2 + (int g + int f))) = Inr (drop (Suc g) t)"
      using g(5) by (simp add: padd_padd algebra_simps)
    define vl where "vl = length l - g - f - 2"
    have vl: "int (length l) - (int g + int f + 1) - 1 = int vl" "vl = length (drop (Suc g) t)"
      using f(2) g(2) by (simp_all add: vl_def t_def)
    obtain vp where vp: "copy_n (padd line (2 + (int g + int f))) (int vl) = Inr vp"
      "c_string vp = Inr (drop (Suc g) t)"
      using copy_n_ok [OF c2, of "int vl"] vl(2) by auto
    have "parse_request_line line = Inr (mp, pp, vp)"
      using strlen_c_string [OF line] f(3) g(3) vp(1) vl(1)
      by (simp add: parse_request_line_def f(1) g(1) Let_def)
    moreover have "request_line_spec l =
        Inr (takeWhile (\<lambda>c. c \<noteq> CHR '' '') l, takeWhile (\<lambda>c. c \<noteq> CHR '' '') t, drop (Suc g) t)"
      using True in2 by (simp add: request_line_spec_def Let_def f(6) g(6))
    ultimately show ?thesis using f(4) g(4) vp(2) by simp
  qed
qed

lemma add_entry_c_string:
  "c_string k = Inr a \<Longrightarrow> c_string v = Inr b \<Longrightarrow> add_entry d k v = Inr (d @ [(Some a, b)])"
  by (auto simp: add_entry_def add_data_def)

lemma add_header_ok:
  assumes line: "c_string line = Inr l"
  shows "add_header header line = Inr (header @ header_spec l)"
proof (cases "CHR '':'' \<in> set l")
  case False
  then show ?thesis using find_idx_ok [OF line]
    by (simp add: add_header_def header_spec_def index_of_notin)
next
  case True
  define f where "f = length (takeWhile (\<lambda>c. c \<noteq> CHR '':'') l)"
  have f: "f < length l" using True by (simp add: f_def length_takeWhile_less_iff)
  have i: "find_idx line CHR '':'' = Inr (int f)" using find_idx_ok [OF line] True by (simp add: index_of_in f_def)
  obtain k where k: "copy_n line (int f) = Inr k" "c_string k = Inr (takeWhile (\<lambda>c. c \<noteq> CHR '':'') l)"
    using copy_n_index [OF line] by (auto simp: f_def)
  obtain k' where k': "toLower k = Inr k'" "c_string k' = Inr (map lower (takeWhile (\<lambda>c. c \<noteq> CHR '':'') l))"
    using toLower_ok [OF k(2)] .
  define vl where "vl = length l - f - 1"
  have vl: "int (length l) - int f - 1 = int vl" using f by (simp add: vl_def)
  have "\<exists>v. copy_n (padd line (int f + 2)) (int vl) = Inr v \<and> c_string v = Inr (drop (f + 2) l)"
  proof (cases "f + 2 \<le> length l")
    case le: True
    have "c_string (padd line (int f + 2)) = Inr (drop (f + 2) l)"
      using c_string_padd [OF line, of "int f + 2"] le by (simp add: nat_add_distrib)
    from copy_n_ok [OF this, of "int vl"] show ?thesis by (auto simp: vl_def)
  next
    case False
    then have "vl = 0" by (simp add: vl_def)
    moreover have "copy_n (padd line (int f + 2)) 0 = Inr (Ptr [Some NUL] 0)"
      by (simp add: copy_n_def strncpy_def malloc_def store_def)
    ultimately show ?thesis using False by (simp add: c_string_def from_ptr_def)
  qed
  then obtain v where v: "copy_n (padd line (int f + 2)) (int vl) = Inr v" "c_string v = Inr (drop (f + 2) l)"
    by blast
  have "drop 2 (dropWhile (\<lambda>c. c \<noteq> CHR '':'') l) = drop (f + 2) l"
    by (simp add: dropWhile_eq_drop f_def add.commute)
  then show ?thesis
    using True strlen_c_string [OF line] k(1) k'(1) v(1) add_entry_c_string [OF k'(2) v(2)]
    by (simp add: add_header_def i Let_def vl header_spec_def)
qed

lemma line_of_length: "line_of p = Some (l, r) \<Longrightarrow> length r \<le> length p"
  by (auto simp: line_of_def Let_def dest!: line_scan_length split: prod.splits if_splits)

lemma c_string_crlf: "c_string (literal crlf) = Inr crlf"
  by (rule c_string_literal) (simp add: crlf_def)

lemma read_headers_ok:
  assumes "rd_ok st" and "length (pending st) \<le> LINE_MAX"
  shows "case headers_spec (pending st) header of
      Inl e \<Rightarrow> read_headers st header = Inl e
    | Inr (h, r) \<Rightarrow> \<exists>st'. read_headers st header = Inr (h, st') \<and> rd_ok st' \<and> pending st' = r"
  using assms
proof (induction "pending st" header arbitrary: st rule: headers_spec.induct)
  case (1 header st)
  note ln = get_line_ok [OF 1(2) c_string_crlf 1(3)]
  show ?case
  proof (cases "line_of (pending st)")
    case None
    then show ?thesis using ln
      by (simp add: headers_spec.simps [of "pending st"] read_headers.simps [of st])
  next
    case (Some lr)
    obtain lo r where lr: "lr = (lo, r)" by (cases lr)
    obtain q st' where q: "get_line st (literal crlf) = Inr (q, st')" "rd_ok st'" "pending st' = r"
      "line_result q lo" using ln by (auto simp: Some lr)
    show ?thesis
    proof (cases lo)
      case None
      then show ?thesis using q
        by (simp add: headers_spec.simps [of "pending st"] Some lr read_headers.simps [of st] line_result_def)
    next
      case l: (Some l)
      then have c: "c_string q = Inr l" using q(4) by (simp add: line_result_def)
      have step: "read_headers st header = read_headers st' (header @ header_spec l)"
        using q(1) c_string_not_Null [OF c] add_header_ok [OF c] at_start_get_line [OF q(1)]
        by (simp add: read_headers.simps [of st])
      have "length (pending st') \<le> LINE_MAX"
        using line_of_length [of "pending st" lo r] 1(3) q(3) by (simp add: Some lr)
      moreover have "line_of (pending st) = Some (lo, pending st')" by (simp add: Some lr q(3))
      ultimately have "case headers_spec (pending st') (header @ header_spec l) of
          Inl e \<Rightarrow> read_headers st' (header @ header_spec l) = Inl e
        | Inr (h, r) \<Rightarrow> \<exists>st''. read_headers st' (header @ header_spec l) = Inr (h, st'') \<and>
            rd_ok st'' \<and> pending st'' = r"
        using 1(1) l q(2) by blast
      then show ?thesis
        unfolding step by (simp add: headers_spec.simps [of "pending st"] Some lr l q(3))
    qed
  qed
qed

lemma read_body_ok:
  assumes ok: "rd_ok st"
  shows "case body_spec (pending st) header of
      Inl e \<Rightarrow> read_body st header = Inl e
    | Inr b \<Rightarrow> \<exists>p st'. read_body st header = Inr (p, st') \<and> rd_ok st' \<and>
        (case b of None \<Rightarrow> p = Null | Some s \<Rightarrow> c_string p = Inr s)"
proof (cases "find_value header ''content-length''")
  case (Inl e)
  then show ?thesis by (simp add: body_spec_def read_body_def)
next
  case (Inr cl)
  show ?thesis
  proof (cases cl)
    case None
    then show ?thesis using Inr ok by (simp add: body_spec_def read_body_def)
  next
    case (Some v)
    show ?thesis
    proof (cases "atoi v")
      case (Inl e)
      then show ?thesis using \<open>find_value _ _ = _\<close> Some by (simp add: body_spec_def read_body_def)
    next
      case n: (Inr n)
      show ?thesis
      proof (cases "n < 0 \<or> INT_MAX \<le> n")
        case True
        then show ?thesis using Inr Some n read_sz_negative [of n st] read_sz_overflow [of n st]
          by (cases "n = -1") (auto simp: body_spec_def announced_body_def read_body_def INT_MAX_def)
      next
        case False
        then show ?thesis using Inr Some n read_sz_ok [OF ok, of "nat n"]
          by (auto simp: body_spec_def announced_body_def read_body_def)
      qed
    qed
  qed
qed

lemma boundary_unterminated:
  assumes ct: "c_string p = Inr s"
  obtains b where "make_boundary p = Inr b" and "strlen b = Inl Uninit_Read"
proof -
  define e where "e = nat (index_of CHR ''='' s + 1)"
  define n where "n = length (drop e s)"
  have e: "index_of CHR ''='' s = int e - 1" "e \<le> length s"
    using index_of_ge [of "CHR ''=''" s] index_of_less [of "CHR ''=''" s] by (auto simp: e_def)
  have bl: "int (length s) - int e = int n" using e(2) by (simp add: n_def)
  have ce: "c_string (padd p (int e)) = Inr (drop e s)"
    using c_string_padd [OF ct, of "int e"] e(2) by simp
  define b0 where "b0 = [Some CHR ''-'', Some CHR ''-''] @ replicate n None @ [None :: char option]"
  have m: "malloc (int n + 1 + 2) = Ptr ([None, None] @ replicate n None @ [None]) 0"
  proof -
    have "nat (int n + 1 + 2) = Suc (Suc (Suc n))" by simp
    then show ?thesis by (simp add: malloc_def replicate_append_same)
  qed
  have dash1: "store (malloc (int n + 1 + 2)) 1 CHR ''-'' = Inr (Ptr ([None, Some CHR ''-''] @ replicate n None @ [None]) 0)"
    unfolding m by (simp add: store_def)
  have dash0: "store (Ptr ([None, Some CHR ''-''] @ replicate n None @ [None]) 0) 0 CHR ''-'' = Inr (Ptr b0 0)"
    by (simp add: store_def b0_def)
  define b1 where "b1 = [Some CHR ''-'', Some CHR ''-''] @ map Some (drop e s) @ [None]"
  have cpy: "strncpy (Ptr b0 2) (padd p (int e)) (int n) = Inr (Ptr b1 2)"
  proof (cases "n = 0")
    case True
    then show ?thesis by (simp add: strncpy_def b0_def b1_def n_def)
  next
    case False
    obtain r where r: "from_ptr (padd p (int e)) = Inr (map Some (drop e s) @ Some NUL # r)" "NUL \<notin> set (drop e s)"
      using ce by (rule c_string_from_ptr)
    show ?thesis using False
      by (simp add: strncpy_def to_size_t_def room_def b0_def r(1) copy_bytes_string [OF r(2)]
          n_def put_bytes_def b1_def numeral_2_eq_2)
  qed
  have "make_boundary p = rbind (store (malloc (int n + 1 + 2)) 1 CHR ''-'') (\<lambda>b.
      rbind (store b 0 CHR ''-'') (\<lambda>b.
      rbind (strncpy (padd b 2) (padd p (int e)) (int n)) (\<lambda>b. Inr (padd b (-2)))))"
    using find_idx_ok [OF ct, of "CHR ''=''"] strlen_c_string [OF ct]
    by (simp only: make_boundary_def rbind_simps Let_def e(1)) (simp add: bl)
  then have "make_boundary p = Inr (Ptr b1 0)"
    unfolding dash1 rbind_simps dash0 using cpy by (simp add: padd_def)
  moreover have "NUL \<notin> set s" using ct by (rule c_string_no_nul)
  then have "NUL \<notin> set (drop e s)" by (meson in_set_dropD)
  then have "chars_to_nul (map Some (drop e s) @ [None]) = Inl Uninit_Read"
    by (rule chars_to_nul_uninit)
  then have "strlen (Ptr b1 0) = Inl Uninit_Read"
    by (simp add: strlen_def c_string_def from_ptr_def b1_def)
  ultimately show ?thesis by (rule that)
qed

lemma form_spec_ok: "c_string p = Inr s \<Longrightarrow> parse_parameter [] p = form_spec s"
  by (simp add: parse_parameter_c_string form_spec_def Let_def)

lemma get_parameters_ok:
  assumes "c_string pp = Inr p"
  shows "get_parameters [] pp =
    (if CHR ''?'' \<in> set p then form_spec (tl (dropWhile (\<lambda>c. c \<noteq> CHR ''?'') p)) else Inr [])"
proof (cases "CHR ''?'' \<in> set p")
  case False
  then show ?thesis using find_idx_ok [OF assms] by (simp add: get_parameters_def index_of_notin)
next
  case True
  define f where "f = length (takeWhile (\<lambda>c. c \<noteq> CHR ''?'') p)"
  have f: "f < length p" using True by (simp add: f_def length_takeWhile_less_iff)
  have "c_string (padd pp (int f + 1)) = Inr (drop (Suc f) p)"
    using c_string_padd [OF assms, of "int f + 1"] f by (simp add: nat_add_distrib)
  then show ?thesis
    using find_idx_ok [OF assms, of "CHR ''?''"] True form_spec_ok
    by (simp add: get_parameters_def index_of_in tl_dropWhile_neq flip: f_def)
qed

lemma find_value_in: "find_value d key = Inr (Some v) \<Longrightarrow> (Some key, v) \<in> set d"
  by (induction d key rule: find_value.induct) (auto split: if_splits)

lemma find_value_ok: "None \<notin> fst ` set d \<Longrightarrow> \<exists>r. find_value d key = Inr r"
  by (induction d key rule: find_value.induct) auto

definition clean_entries :: "dic \<Rightarrow> bool" where
  "clean_entries d \<longleftrightarrow> (\<forall>(k, v) \<in> set d. k \<noteq> None \<and> NUL \<notin> set v)"

lemma line_of_no_nul: "line_of p = Some (Some l, r) \<Longrightarrow> NUL \<notin> set l"
  by (auto simp: line_of_def Let_def dest: set_takeWhileD split: prod.splits if_splits)

lemma headers_spec_clean:
  "headers_spec p header = Inr (h, r) \<Longrightarrow> clean_entries header \<Longrightarrow> clean_entries h"
proof (induction p header rule: headers_spec.induct)
  case (1 p header)
  show ?case
  proof (cases "line_of p")
    case None
    then show ?thesis using 1 by (simp add: headers_spec.simps [of p])
  next
    case (Some lr)
    show ?thesis
    proof (cases "fst lr")
      case None
      then show ?thesis using 1 Some by (cases lr) (simp add: headers_spec.simps [of p])
    next
      case l: (Some l)
      then have ln: "line_of p = Some (Some l, snd lr)" using Some by (cases lr) simp
      have "clean_entries (header @ header_spec l)"
        using line_of_no_nul [OF ln] 1(3)
        by (auto simp: clean_entries_def header_spec_def dest: in_set_dropD set_dropWhileD)
      then show ?thesis using 1(1) [OF ln] 1(2) ln by (simp add: headers_spec.simps [of p])
    qed
  qed
qed

lemma starts_like_prefixcmp:
  assumes "NUL \<notin> set s" and "NUL \<notin> set t"
  obtains v where "prefixcmp (literal s) (literal t) = Inr v" and "v = 0 \<longleftrightarrow> starts_like s t"
  using prefixcmp_c_string [OF c_string_literal [OF assms(1)] c_string_literal [OF assms(2)]]
  unfolding starts_like_def by blast

definition body_rel :: "ptr \<Rightarrow> string option \<Rightarrow> bool" where
  "body_rel p b = (case b of None \<Rightarrow> p = Null | Some s \<Rightarrow> c_string p = Inr s)"

lemma parse_formdata_unterminated:
  assumes "body_rel p b" and "strlen boundary = Inl Uninit_Read"
  shows "parse_formdata [] p boundary =
    (case b of None \<Rightarrow> Inr [] | Some b \<Rightarrow> if b = [] then Inr [] else Inl Uninit_Read)"
  using assms c_string_not_Null
  by (auto simp: parse_formdata_def body_rel_def strlen_c_string split: option.splits)

lemma post_parameters_ok:
  assumes clean: "clean_entries header" and b: "body_rel p b" and m: "is_post m"
  shows "post_parameters [] header p = parameters_spec m path header b"
proof -
  have ng: "\<not> is_get m" using m by (auto simp: is_post_def is_get_def)
  have "None \<notin> fst ` set header" using clean by (force simp: clean_entries_def)
  then obtain r where r: "find_value header ''content-type'' = Inr r" using find_value_ok by blast
  show ?thesis
  proof (cases r)
    case None
    then show ?thesis using r m ng by (simp add: post_parameters_def parameters_spec_def ptr_of_def)
  next
    case (Some ct)
    have n: "NUL \<notin> set ct"
      using find_value_in [of header _ ct] r Some clean by (fastforce simp: clean_entries_def)
    obtain v1 where v1: "prefixcmp (literal ct) (literal ''application/x-www-form-urlencoded'') = Inr v1"
      "v1 = 0 \<longleftrightarrow> starts_like ct ''application/x-www-form-urlencoded''"
      using starts_like_prefixcmp [OF n, of "''application/x-www-form-urlencoded''"] by auto
    obtain v2 where v2: "prefixcmp (literal ct) (literal ''multipart/form-data'') = Inr v2"
      "v2 = 0 \<longleftrightarrow> starts_like ct ''multipart/form-data''"
      using starts_like_prefixcmp [OF n, of "''multipart/form-data''"] by auto
    obtain bd where bd: "make_boundary (literal ct) = Inr bd" "strlen bd = Inl Uninit_Read"
      using boundary_unterminated [OF c_string_literal [OF n]] .
    have pf: "parse_parameter [] p = (case b of None \<Rightarrow> Inr [] | Some s \<Rightarrow> form_spec s)"
    proof (cases b)
      case None
      then show ?thesis using b by (simp add: body_rel_def parse_parameter_def)
    next
      case (Some s)
      then show ?thesis using b form_spec_ok by (simp add: body_rel_def)
    qed
    show ?thesis
      using parse_formdata_unterminated [OF b bd(2)] m ng
      by (auto simp: post_parameters_def parameters_spec_def r Some ptr_of_def v1 v2 bd(1) pf Let_def)
  qed
qed

text \<open>Everything after the first line.\<close>

definition parse_rest :: "reader \<Rightarrow> ptr \<Rightarrow> request res" where
  "parse_rest st line =
     rbind (parse_request_line line) (\<lambda>(method, path, version).
     rbind (free line) (\<lambda>_.
     rbind (read_headers st []) (\<lambda>(header, st).
     rbind (read_body st header) (\<lambda>(body, st).
     rbind (stream_destory (fst st)) (\<lambda>_.
     rbind (c_string method) (\<lambda>m.
     rbind (if is_get m then get_parameters [] path else Inr []) (\<lambda>parameter.
     rbind (if is_post m then post_parameters parameter header body else Inr parameter) (\<lambda>parameter.
     rbind (c_string path) (\<lambda>p. rbind (c_string version) (\<lambda>v.
     rbind (if body = Null then Inr None else rmap Some (c_string body)) (\<lambda>b.
       Inr \<lparr>req_method = m, req_path = p, req_version = v, req_header = header,
            req_body = b, req_parameter = parameter\<rparr>)))))))))))"

lemma parameters_ok:
  assumes "c_string pp = Inr p" and "clean_entries h" and "body_rel bp b"
  shows "rbind (if is_get m then get_parameters [] pp else Inr []) (\<lambda>parameter.
      rbind (if is_post m then post_parameters parameter h bp else Inr parameter) f) =
    rbind (parameters_spec m p h b) f"
proof (cases "is_get m")
  case True
  then have "\<not> is_post m" by (auto simp: is_post_def is_get_def)
  then show ?thesis using True get_parameters_ok [OF assms(1)] by (simp add: parameters_spec_def)
next
  case False
  then show ?thesis using post_parameters_ok [OF assms(2,3), of m p]
    by (cases "is_post m") (simp_all add: parameters_spec_def)
qed

lemma parse_rest_ok:
  assumes ok: "rd_ok st" and small: "length (pending st) \<le> LINE_MAX" and cq: "c_string q = Inr l"
    and at: "at_start q"
  shows "parse_rest st q =
    rbind (request_line_spec l) (\<lambda>(m, p, v).
    rbind (headers_spec (pending st) []) (\<lambda>(header, r).
    rbind (body_spec r header) (\<lambda>b.
    rbind (parameters_spec m p header b) (\<lambda>parameter.
      Inr \<lparr>req_method = m, req_path = p, req_version = v, req_header = header,
           req_body = b, req_parameter = parameter\<rparr>))))"
proof (cases "request_line_spec l")
  case (Inl e)
  then show ?thesis using parse_request_line_ok [OF cq] by (simp add: parse_rest_def)
next
  case (Inr t)
  obtain m p v where t: "t = (m, p, v)" by (cases t)
  obtain mp pp vp where rl: "parse_request_line q = Inr (mp, pp, vp)"
    "c_string mp = Inr m" "c_string pp = Inr p" "c_string vp = Inr v"
    using parse_request_line_ok [OF cq] by (auto simp: Inr t)
  note rh = read_headers_ok [OF ok small, of "[]"]
  show ?thesis
  proof (cases "headers_spec (pending st) []")
    case hl: (Inl e)
    then show ?thesis using rh at by (simp add: parse_rest_def rl(1) Inr t)
  next
    case hr: (Inr u)
    obtain h r where u: "u = (h, r)" by (cases u)
    obtain st2 where st2: "read_headers st [] = Inr (h, st2)" "rd_ok st2" "pending st2 = r"
      using rh by (auto simp: hr u)
    have clean: "clean_entries h"
      using headers_spec_clean [OF hr [unfolded u]] by (simp add: clean_entries_def)
    note rb = read_body_ok [OF st2(2), of h, unfolded st2(3)]
    show ?thesis
    proof (cases "body_spec r h")
      case bl: (Inl e)
      then show ?thesis using rb at by (simp add: parse_rest_def rl(1) Inr t hr u st2(1))
    next
      case br: (Inr b)
      then obtain bp st3 where bp: "read_body st2 h = Inr (bp, st3)" "body_rel bp b" "rd_ok st3"
        using rb by (auto simp: body_rel_def)
      have bs: "(if bp = Null then Inr None else rmap Some (c_string bp)) = Inr b"
        using bp(2) c_string_not_Null by (auto simp: body_rel_def split: option.splits)
      show ?thesis
        unfolding parse_rest_def
        by (simp only: rl st2(1) bp(1) bs Inr t hr u br rbind_simps prod.case free_start [OF at]
            destory_reader [OF bp(3)] parameters_ok [OF rl(3) clean bp(2)])
    qed
  qed
qed

lemma parse_request_bytes:
  assumes "clean inp" and small: "length (data_of inp) \<le> LINE_MAX"
  shows "parse_request fds inp = parse_bytes (data_of inp)"
proof -
  define st where "st = (stream_read_init fds, inp)"
  have st: "rd_ok st" "pending st = data_of inp"
    using stream_read_init_ok [OF assms(1), of fds] by (simp_all add: st_def)
  have ln: "case line_of (data_of inp) of
      None \<Rightarrow> get_line st (literal crlf) = Inl Out_Of_Bounds
    | Some (l, r) \<Rightarrow> \<exists>q st'. get_line st (literal crlf) = Inr (q, st') \<and> rd_ok st' \<and> pending st' = r \<and> line_result q l"
    using get_line_ok [OF st(1) c_string_crlf] small st(2) by simp
  show ?thesis
  proof (cases "line_of (data_of inp)")
    case None
    then show ?thesis using ln by (simp add: parse_request_def parse_bytes_def flip: st_def)
  next
    case (Some lr)
    obtain lo r where lr: "lr = (lo, r)" by (cases lr)
    obtain q st1 where q: "get_line st (literal crlf) = Inr (q, st1)" "rd_ok st1" "pending st1 = r"
      "line_result q lo" using ln by (auto simp: Some lr)
    have small1: "length (pending st1) \<le> LINE_MAX"
      using line_of_length [of "data_of inp" lo r] small q(3) by (simp add: Some lr)
    show ?thesis
    proof (cases lo)
      case None
      then show ?thesis using q
        by (simp add: parse_request_def parse_bytes_def Some lr line_result_def parse_request_line_def flip: st_def)
    next
      case l: (Some l)
      then have cq: "c_string q = Inr l" using q(4) by (simp add: line_result_def)
      show ?thesis
        using parse_rest_ok [OF q(2) small1 cq at_start_get_line [OF q(1)]] q(3) cq c_string_not_Null [OF cq] q(1)
        by (simp add: parse_request_def parse_bytes_def parse_rest_def Some lr l flip: st_def)
    qed
  qed
qed

end
