(* ===== verification/Request_Wire.thy ===== *)
theory Request_Wire
  imports Http_Request
begin

text \<open>
  Requests as a client writes them: the bytes of a request line, header lines and a body,
  and what \<open>parse_request\<close> makes of them. Also the dictionary as a finite map.
\<close>

section \<open>Lookup as a map\<close>

definition entries :: "(string \<times> string) list \<Rightarrow> dic" where
  "entries kvs = map (\<lambda>(k, v). (Some k, v)) kvs"

lemma find_value_entries [simp]: "find_value (entries kvs) key = Inr (map_of kvs key)"
  by (induction kvs) (auto simp: entries_def)

lemma entries_append [simp]: "entries (xs @ ys) = entries xs @ entries ys"
  by (simp add: entries_def)

lemma print_entries_ok: "\<exists>t. print_entries (entries kvs) = Inr t"
  by (induction kvs) (auto simp: entries_def)

section \<open>Well-formed requests\<close>

text \<open>Text without the bytes that end a line, a string or (0xFF) the stream, nor those of \<open>bad\<close>.\<close>

definition line_text :: "string \<Rightarrow> string \<Rightarrow> bool" where
  "line_text bad s \<longleftrightarrow> CHR 0x0D \<notin> set s \<and> EOF_char \<notin> set s \<and> NUL \<notin> set s \<and> set bad \<inter> set s = {}"

lemma line_text_append [simp]: "line_text bad (s @ t) \<longleftrightarrow> line_text bad s \<and> line_text bad t"
  by (auto simp: line_text_def)

lemma line_text_Cons [simp]:
  "line_text bad (c # t) \<longleftrightarrow>
     c \<noteq> CHR 0x0D \<and> c \<noteq> EOF_char \<and> c \<noteq> NUL \<and> c \<notin> set bad \<and> line_text bad t"
  by (auto simp: line_text_def)

lemma line_text_Nil [simp]: "line_text bad []"
  by (simp add: line_text_def)

lemma line_text_mono: "line_text bad s \<Longrightarrow> set worse \<subseteq> set bad \<Longrightarrow> line_text worse s"
  by (auto simp: line_text_def)

definition header_lines :: "(string \<times> string) list \<Rightarrow> string" where
  "header_lines hs = concat (map (\<lambda>(k, v). k @ '': '' @ v @ crlf) hs)"

definition request_bytes ::
  "string \<Rightarrow> string \<Rightarrow> string \<Rightarrow> (string \<times> string) list \<Rightarrow> string \<Rightarrow> string" where
  "request_bytes m path version hs body =
     m @ '' '' @ path @ '' '' @ version @ crlf @ header_lines hs @ crlf @ body"

definition headers_ok :: "(string \<times> string) list \<Rightarrow> bool" where
  "headers_ok hs \<longleftrightarrow> (\<forall>(k, v) \<in> set hs. line_text '':'' k \<and> line_text [] v)"

definition line_ok :: "string \<Rightarrow> string \<Rightarrow> string \<Rightarrow> bool" where
  "line_ok m path version \<longleftrightarrow> line_text '' '' m \<and> line_text '' '' path \<and> line_text [] version"

definition lowered :: "(string \<times> string) list \<Rightarrow> (string \<times> string) list" where
  "lowered hs = map (\<lambda>(k, v). (map lower k, v)) hs"

lemma line_of_text: "line_text [] l \<Longrightarrow> l \<noteq> [] \<Longrightarrow> line_of (l @ crlf @ r) = Some (Some l, r)"
  using line_of_line [of l r] by (simp add: line_text_def)

lemma line_of_empty: "line_of (crlf @ r) = Some (None, r)"
  using line_of_line [of "[]" r] by simp

lemma header_spec_line:
  assumes "line_text '':'' k"
  shows "header_spec (k @ '': '' @ v) = entries (lowered [(k, v)])"
proof -
  have k: "CHR '':'' \<notin> set k" using assms by (simp add: line_text_def)
  then have "takeWhile (\<lambda>c. c \<noteq> CHR '':'') (k @ CHR '':'' # CHR '' '' # v) = k"
    by (rule takeWhile_neq_append)
  moreover have "dropWhile (\<lambda>c. c \<noteq> CHR '':'') (k @ CHR '':'' # CHR '' '' # v) = CHR '':'' # CHR '' '' # v"
    using k by (subst dropWhile_append2) auto
  ultimately show ?thesis by (simp add: header_spec_def lowered_def entries_def)
qed

lemma headers_spec_lines:
  "headers_ok hs \<Longrightarrow> headers_spec (header_lines hs @ crlf @ r) acc = Inr (acc @ entries (lowered hs), r)"
proof (induction hs arbitrary: acc)
  case Nil
  show ?case by (subst headers_spec.simps) (simp add: header_lines_def line_of_empty lowered_def entries_def)
next
  case (Cons h hs)
  obtain k v where h: "h = (k, v)" by (cases h)
  have kv: "line_text '':'' k" "line_text [] (k @ '': '' @ v)" and hs: "headers_ok hs"
    using Cons.prems line_text_mono [of "'':''" k "[]"] by (auto simp: headers_ok_def h)
  have "line_of ((k @ '': '' @ v) @ crlf @ header_lines hs @ crlf @ r) =
      Some (Some (k @ '': '' @ v), header_lines hs @ crlf @ r)"
    using kv(2) by (rule line_of_text) simp
  then have "line_of (header_lines (h # hs) @ crlf @ r) =
      Some (Some (k @ '': '' @ v), header_lines hs @ crlf @ r)"
    by (simp add: header_lines_def h)
  then have "headers_spec (header_lines (h # hs) @ crlf @ r) acc =
      headers_spec (header_lines hs @ crlf @ r) (acc @ header_spec (k @ '': '' @ v))"
    by (subst headers_spec.simps) simp
  then show ?case
    unfolding header_spec_line [OF kv(1)] Cons.IH [OF hs] h lowered_def entries_def by simp
qed

lemma request_line_spec_line:
  assumes "line_ok m path version"
  shows "request_line_spec (m @ '' '' @ path @ '' '' @ version) = Inr (m, path, version)"
proof -
  have s: "CHR '' '' \<notin> set m" "CHR '' '' \<notin> set path" using assms by (auto simp: line_ok_def line_text_def)
  have t: "takeWhile (\<lambda>c. c \<noteq> CHR '' '') (x @ CHR '' '' # y) = x"
    "tl (dropWhile (\<lambda>c. c \<noteq> CHR '' '') (x @ CHR '' '' # y)) = y" if "CHR '' '' \<notin> set x" for x y
    using that takeWhile_neq_append by (fastforce, subst dropWhile_append2) auto
  show ?thesis by (simp add: request_line_spec_def Let_def t s)
qed

text \<open>The parameters and the body are still to be read from the header.\<close>

lemma parse_bytes_request:
  assumes l: "line_ok m path version" and h: "headers_ok hs"
  shows "parse_bytes (request_bytes m path version hs body) =
    (let header = entries (lowered hs) in
     rbind (body_spec body header) (\<lambda>b.
     rbind (parameters_spec m path header b) (\<lambda>parameter.
       Inr \<lparr>req_method = m, req_path = path, req_version = version, req_header = header,
            req_body = b, req_parameter = parameter\<rparr>)))"
proof -
  define l0 where "l0 = m @ '' '' @ path @ '' '' @ version"
  have "line_text [] l0"
    using l line_text_mono [of "'' ''" _ "[]"] by (auto simp: line_ok_def l0_def)
  then have lo: "line_of (l0 @ crlf @ r) = Some (Some l0, r)" for r
    by (rule line_of_text) (simp add: l0_def)
  have rb: "request_bytes m path version hs body = l0 @ crlf @ header_lines hs @ crlf @ body"
    by (simp add: request_bytes_def l0_def)
  show ?thesis
    unfolding parse_bytes_def rb lo
    by (simp add: headers_spec_lines [OF h] request_line_spec_line [OF l, folded l0_def] Let_def)
qed

text \<open>A body announced by its length.\<close>

lemma announced_body_length:
  assumes "map_of kvs ''content-length'' = Some (dec (int (length b)))" and "length b \<le> 2147483647"
    and "NUL \<notin> set b"
  shows "announced_body (b @ r) (entries kvs) = Inr (Some b)"
proof -
  have "takeWhile (\<lambda>c. c \<noteq> NUL) b = b" using assms(3) by (auto simp: takeWhile_eq_all_conv)
  then show ?thesis using assms by (simp add: announced_body_def atoi_dec)
qed

lemma body_spec_length:
  assumes "map_of kvs ''content-length'' = Some (dec (int (length b)))" and "length b < 2147483647"
    and "NUL \<notin> set b"
  shows "body_spec (b @ r) (entries kvs) = Inr (Some b)"
  using announced_body_length [OF assms(1) _ assms(3)] assms by (simp add: body_spec_def atoi_dec INT_MAX_def)

lemma body_spec_none:
  "map_of kvs ''content-length'' = None \<Longrightarrow> body_spec b (entries kvs) = Inr None"
  by (simp add: body_spec_def)

definition plain_pairs :: "(string \<times> string) list \<Rightarrow> bool" where
  "plain_pairs kvs \<longleftrightarrow> (\<forall>(k, v) \<in> set kvs. NUL \<notin> set k \<and> NUL \<notin> set v)"

lemma form_spec_form:
  assumes "kvs \<noteq> []" and "plain_pairs kvs"
  shows "form_spec (form kvs) = Inr (entries kvs)"
proof -
  have c: "c_string (literal (form kvs)) = Inr (form kvs)"
    using NUL_notin_form [OF assms(1)] by (rule c_string_literal)
  show ?thesis
    using parse_form [OF assms(1) _ c, of "[]"] form_spec_ok [OF c] assms(2)
    by (simp add: plain_pairs_def entries_def)
qed

lemma set_form: "kvs \<noteq> [] \<Longrightarrow> set (form kvs) \<subseteq> set (CHR ''%'' # CHR ''='' # CHR ''&'' # plain_chars)"
  using set_encode_char by (fastforce simp: form_def encode_def split: prod.splits)

lemma form_line_text:
  assumes "kvs \<noteq> []"
  shows "line_text '' ?'' (form kvs)"
proof -
  have "line_text '' ?'' (CHR ''%'' # CHR ''='' # CHR ''&'' # plain_chars)" by (simp add: plain_chars_def)
  then show ?thesis using set_form [OF assms] unfolding line_text_def by blast
qed

lemma get_parameters_spec:
  assumes "is_get m" and "line_text '' ?'' path" and "kvs \<noteq> []" and "plain_pairs kvs"
  shows "parameters_spec m (path @ ''?'' @ form kvs) header b = Inr (entries kvs)"
proof -
  have q: "CHR ''?'' \<notin> set path" using assms(2) by (simp add: line_text_def)
  have "tl (dropWhile (\<lambda>c. c \<noteq> CHR ''?'') (path @ ''?'' @ form kvs)) = form kvs"
    using q by (subst dropWhile_append2) auto
  then show ?thesis using assms form_spec_form by (simp add: parameters_spec_def)
qed

lemma post_parameters_spec:
  assumes "is_post m" and "map_of hs ''content-type'' = Some ''application/x-www-form-urlencoded''"
    and "kvs \<noteq> []" and "plain_pairs kvs"
  shows "parameters_spec m path (entries hs) (Some (form kvs)) = Inr (entries kvs)"
proof -
  have "\<not> is_get m" using assms(1) by (auto simp: is_get_def is_post_def)
  then show ?thesis using assms form_spec_form by (simp add: parameters_spec_def starts_like_def)
qed

end
