(* ===== verification/Text_Properties.thy ===== *)
theory Text_Properties
  imports Request_Memory Request_Wire
begin

text \<open>
  The properties of the string, stream and dictionary components that the request parser is
  built on: searching and decoding text, reading and writing streams, parameters, multipart
  bodies, and the dictionary in memory.
\<close>

section \<open>Strings\<close>

text \<open>C31: \<open>url_decode\<close>, which writes the decoded text to a new array, computes the reference decoder
  on every string: the percent escapes of two hexadecimal digits are replaced, everything else is kept, and a
  decoded NUL ends the string.\<close>

theorem url_decode_decodes:
  assumes "c_string p = Inr s"
  shows "\<exists>q. url_decode p = Inr q \<and> c_string q = Inr (takeWhile (\<lambda>c. c \<noteq> NUL) (decode s))"
  using url_decode_ok [OF assms] by blast

theorem url_decode_decodes_witness:
  "\<exists>q. url_decode (literal ''a%41%zz+'') = Inr q \<and> c_string q = Inr ''aA%zz+''"
proof -
  have "takeWhile (\<lambda>c. c \<noteq> NUL) (decode ''a%41%zz+'') = ''aA%zz+''" by code_simp
  then show ?thesis using url_decode_decodes [OF c_string_literal, of "''a%41%zz+''"] by (simp del: decode.simps)
qed

section \<open>Parameters\<close>

text \<open>C30: \<open>parse_parameter\<close> on any string: the decoded pairs of the pieces between the
  ampersands are appended in order, pieces without \<open>=\<close> are skipped, except that a last piece
  without \<open>=\<close> after an ampersand makes the code copy a negative number of bytes.\<close>

theorem parse_parameter_exact:
  assumes "c_string p = Inr s"
  shows "parse_parameter l p =
    (let pieces = split_on CHR ''&'' s in
     if 1 < length pieces \<and> CHR ''='' \<notin> set (last pieces) then Inl Buffer_Overflow
     else Inr (l @ pairs_of pieces))"
  using assms by (rule parse_parameter_c_string)

theorem parse_parameter_exact_witness:
  "parse_parameter [] (literal ''a=1&b'') = Inl Buffer_Overflow \<and>
   parse_parameter [] (literal ''a=1&b=%32'') = Inr [(Some ''a'', ''1''), (Some ''b'', ''2'')]"
proof -
  have a: "(let pieces = split_on CHR ''&'' ''a=1&b'' in
     if 1 < length pieces \<and> CHR ''='' \<notin> set (last pieces) then Inl Buffer_Overflow
     else Inr ([] @ pairs_of pieces)) = Inl Buffer_Overflow" by code_simp
  have b: "(let pieces = split_on CHR ''&'' ''a=1&b=%32'' in
     if 1 < length pieces \<and> CHR ''='' \<notin> set (last pieces) then Inl Buffer_Overflow
     else Inr ([] @ pairs_of pieces)) = Inr [(Some ''a'', ''1''), (Some ''b'', ''2'')]" by code_simp
  show ?thesis
    using parse_parameter_exact [OF c_string_literal, of "''a=1&b''" "[]"]
      parse_parameter_exact [OF c_string_literal, of "''a=1&b=%32''" "[]"]
    unfolding a b by simp
qed

text \<open>C32: Multipart bodies are never parsed: the boundary that \<open>parse_request\<close> builds from
  the content type is not terminated, so with any non-empty body the parser measures it past the
  end of what was written.\<close>

theorem multipart_boundary_unterminated:
  assumes "c_string ct = Inr s" and "c_string body = Inr b" and "b \<noteq> []"
  shows "rbind (make_boundary ct) (\<lambda>boundary. parse_formdata [] body boundary) = Inl Uninit_Read"
proof -
  obtain bd where bd: "make_boundary ct = Inr bd" "strlen bd = Inl Uninit_Read"
    by (rule boundary_unterminated [OF assms(1)])
  have "body_rel body (Some b)" using assms(2) by (simp add: body_rel_def)
  then show ?thesis using parse_formdata_unterminated [OF _ bd(2), of body "Some b"] assms(3) bd(1) by simp
qed

theorem multipart_boundary_unterminated_witness:
  "rbind (make_boundary (literal ''multipart/form-data; boundary=xyz''))
     (\<lambda>boundary. parse_formdata [] (literal ''--xyz--'') boundary) = Inl Uninit_Read"
  by (rule multipart_boundary_unterminated [OF c_string_literal c_string_literal]) simp_all

text \<open>The header loop of \<open>parse_formdata\<close> does not end on a part whose header lines are
  not closed: when no CRLF is left and \<open>idx\<close> is inside the body, one pass of the loop comes
  back to the same \<open>idx\<close>.\<close>

theorem part_headers_without_crlf_diverge:
  assumes "c_string (padd body idx) = Inr s" and "\<not> (\<exists>pre post. s = pre @ crlf @ post)" and "idx < len"
  shows "parse_headers body len idx key filename = Inl Diverges"
proof -
  have "find_str (padd body idx) (literal crlf) = Inr (-1)"
  proof -
    obtain r where r: "find_str (padd body idx) (literal crlf) = Inr r"
      "r \<noteq> -1 \<Longrightarrow> 0 \<le> r \<and> ends_at s crlf (nat r) \<and> (\<forall>j < nat r. \<not> ends_at s crlf j)"
      using find_str_c_string [OF assms(1) c_string_crlf] by metis
    have "\<not> ends_at s crlf j" for j using assms(2) by (subst ends_at_append) (auto simp: crlf_def)
    then show ?thesis using r by blast
  qed
  then show ?thesis using assms(3)
    by (subst parse_headers.simps) (simp add: Let_def header_fields.simps)
qed

theorem part_headers_without_crlf_diverge_witness:
  "parse_headers (literal ''name=a'') 6 0 Null Null = Inl Diverges"
proof -
  have "\<not> (\<exists>pre post. ''name=a'' = pre @ crlf @ post)"
  proof
    assume "\<exists>pre post. ''name=a'' = pre @ crlf @ post"
    then obtain pre post where "''name=a'' = pre @ crlf @ post" by blast
    then have "CHR 0x0D \<in> set ''name=a''" by (simp only: set_append crlf_def) simp
    then show False by simp
  qed
  moreover have "c_string (padd (literal ''name=a'') 0) = Inr ''name=a''"
    using c_string_literal [of "''name=a''"] by (simp add: literal_def padd_def)
  ultimately show ?thesis by (intro part_headers_without_crlf_diverge) simp_all
qed

section \<open>Streams\<close>

text \<open>C26: \<open>get_line\<close> on any descriptor, however the kernel splits its bytes into reads: it
  returns the text up to the first CRLF and leaves what follows, returns NULL on an empty line,
  and at the end of the stream within the first byte it reads before its buffer.\<close>

theorem get_line_exact:
  assumes "rd_ok st" and "length (pending st) \<le> LINE_MAX"
  shows "case line_of (pending st) of
      None \<Rightarrow> get_line st (literal crlf) = Inl Out_Of_Bounds
    | Some (l, r) \<Rightarrow> \<exists>q st'. get_line st (literal crlf) = Inr (q, st') \<and> rd_ok st' \<and> pending st' = r \<and> line_result q l"
  using assms(1) c_string_crlf assms(2) by (rule get_line_ok)

theorem get_line_exact_witness:
  "\<exists>q st'. get_line (stream_read_init 4, [Data ''GE'', Data [CHR ''T'', CHR 0x0D], Data [CHR 0x0A, CHR ''x'']])
      (literal crlf) = Inr (q, st') \<and> pending st' = ''x'' \<and> c_string q = Inr ''GET''"
proof -
  let ?inp = "[Data ''GE'', Data [CHR ''T'', CHR 0x0D], Data [CHR 0x0A, CHR ''x'']]"
  have c: "clean ?inp" by code_simp
  have p: "pending (stream_read_init 4, ?inp) = ''GET'' @ crlf @ ''x''"
    using stream_read_init_ok(2) [OF c] by (simp add: crlf_def)
  have l: "line_of (''GET'' @ crlf @ ''x'') = Some (Some ''GET'', ''x'')" by (rule line_of_text) simp_all
  have "length (pending (stream_read_init 4, ?inp)) \<le> LINE_MAX" unfolding p by (simp add: LINE_MAX_def crlf_def)
  from get_line_exact [OF stream_read_init_ok(1) [OF c] this]
  show ?thesis unfolding p l by (auto simp: line_result_def)
qed

text \<open>Reading makes progress: whatever the descriptor delivers, failed reads and 0xFF bytes
  included, every \<open>get_line\<close> that returns has consumed input, in a well-founded order, so the
  loop that reads the headers ends on every connection.\<close>

theorem get_line_consumes:
  assumes "get_line st (literal crlf) = Inr (line, st')"
  shows "wf progress_rel \<and> (st', st) \<in> progress_rel"
  using wf_progress_rel get_line_progress [OF assms] by blast

theorem get_line_consumes_witness:
  "\<exists>q st'. get_line (stream_read_init 4, [Data (''a'' @ crlf)]) (literal crlf) = Inr (q, st') \<and>
     (st', (stream_read_init 4, [Data (''a'' @ crlf)])) \<in> progress_rel"
proof -
  have c: "clean [Data (''a'' @ crlf)]" by (simp add: clean_def)
  have p: "pending (stream_read_init 4, [Data (''a'' @ crlf)]) = ''a'' @ crlf @ []"
    using stream_read_init_ok(2) [OF c] by simp
  have "length (pending (stream_read_init 4, [Data (''a'' @ crlf)])) \<le> LINE_MAX"
    unfolding p by (simp add: LINE_MAX_def crlf_def)
  moreover have "line_of (''a'' @ crlf @ []) = Some (Some ''a'', [])" by (rule line_of_text) simp_all
  ultimately obtain q st' where "get_line (stream_read_init 4, [Data (''a'' @ crlf)]) (literal crlf) = Inr (q, st')"
    using get_line_ok [OF stream_read_init_ok(1) [OF c, of 4] c_string_crlf] unfolding p by auto
  then show ?thesis using get_line_consumes by blast
qed

text \<open>C27: \<open>read_sz\<close>, by which the body is read: for a size of 0 or more it consumes exactly
  that many bytes, pads a body that ends early with 0xFF, and its result reads back up to the
  first NUL; a negative size, which \<open>content-length\<close> may give, is a fault, and so is the largest
  \<open>int\<close>, for which the size of the buffer overflows.\<close>

theorem read_sz_exact:
  assumes "rd_ok st"
  shows "if sz < 0 then read_sz st sz = Inl (if sz = -1 then Buffer_Overflow else Null_Deref)
    else if INT_MAX \<le> sz then read_sz st sz = Inl Int_Overflow
    else \<exists>b st'. read_sz st sz = Inr (b, st') \<and> rd_ok st' \<and> pending st' = drop (nat sz) (pending st) \<and>
      c_string b = Inr (takeWhile (\<lambda>c. c \<noteq> NUL)
        (take (nat sz) (pending st) @ replicate (nat sz - length (pending st)) EOF_char))"
proof (cases "sz < 0")
  case True
  then show ?thesis by (simp add: read_sz_negative)
next
  case False
  then show ?thesis using read_sz_ok [OF assms, of "nat sz"] by (simp add: read_sz_overflow)
qed

theorem read_sz_exact_witness:
  "\<exists>b st'. read_sz (stream_read_init 4, [Data ''he'', Data ''y!'']) 3 = Inr (b, st') \<and> pending st' = ''!'' \<and>
     c_string b = Inr ''hey''"
proof -
  have c: "clean [Data ''he'', Data ''y!'']" by (simp add: clean_def)
  show ?thesis
    using read_sz_exact [OF stream_read_init_ok(1) [OF c], of 3 4] stream_read_init_ok(2) [OF c, of 4]
    by (auto simp: INT_MAX_def)
qed

text \<open>A write stream holds exactly what was written to it: after any sequence of
  NUL-free strings its buffer, grown as often as needed, reads as their concatenation.\<close>

theorem write_stream_concatenates:
  assumes "us \<noteq> []" and "\<forall>u \<in> set us. NUL \<notin> set u" and "length (concat us) \<le> LINE_MAX"
  shows "\<exists>s. append_all write_lit stream_write_init us = Inr s \<and> c_string (st_buf s) = Inr (concat us)"
  using writer.append_all_holds [OF writer.start_holds, of us] assms by auto

theorem write_stream_concatenates_witness:
  "\<exists>s. append_all write_lit stream_write_init [''['', ''{}'', '']''] = Inr s \<and> c_string (st_buf s) = Inr ''[{}]''"
  using write_stream_concatenates [of "[''['', ''{}'', '']'']"] by (simp add: LINE_MAX_def)

section \<open>The dictionary in memory\<close>

text \<open>C28: The linked list of \<open>dic_list\<close> is a dictionary: after any sequence of \<open>add_data\<close>
  on the heap, \<open>find_value\<close> ends and returns the value of the first entry with the key, NULL
  without one, and faults exactly when the search meets a NULL key first.\<close>

theorem heap_dictionary_lookup:
  "\<exists>d. add_each add_copy (empty_mem, empty_dic) es = Inr d \<and> lookup_h d key = Some (find_value es key)"
  by (rule heap_dic.lookup_after_adds)

text \<open>C29: \<open>clear_requset\<close> frees what \<open>parse_request\<close> allocated: for any request built on
  the heap it ends without a double free or a read of freed memory, and every string and node
  cell is again what it was before the request. (The two \<^verbatim>\<open>dic_list\<close> structures, which the code
  does not free, are not cells of the model.)\<close>

theorem request_memory_restored:
  assumes "mem_ok m0"
  shows "\<exists>m r m'. build_request m0 method path version header body parameter = Inr (m, r) \<and>
    clear_requset m r = Some (Inr m') \<and> cells m' = cells m0"
  using build_clear_request [OF assms] by blast

theorem request_memory_restored_witness:
  "\<exists>m r m'. build_request empty_mem ''GET'' ''/'' ''HTTP/1.1'' [(Some ''host'', ''x'')] None [] = Inr (m, r) \<and>
    clear_requset m r = Some (Inr m') \<and> cells m' = cells empty_mem"
  using mem_ok_empty by (rule request_memory_restored)

end
