(* ===== verification/Server_State.thy ===== *)
theory Server_State
  imports Http_Request Request_Memory "HOL-Library.Signed_Division"
begin

text \<open>
  The state the request handlers of \<^verbatim>\<open>ttac.c\<close> work on, and the two components that own it:
  the connections of \<^verbatim>\<open>connection_queue.c\<close> and the descriptors written by \<open>response\<close>
  (\<^verbatim>\<open>http.c\<close>). The MySQL client library, \<open>rand\<close> and the clock are the fields of an
  \<open>env\<close>: code outside the repository, an argument of every definition that uses it.
\<close>

section \<open>The state and its actions\<close>

type_synonym row = "string option list"
type_synonym rows = "row list"

datatype db_option = Connect_Timeout int | Reconnect bool

record 'w env =
  db_options :: "nat \<Rightarrow> db_option \<Rightarrow> 'w \<Rightarrow> 'w"
  db_connect :: "nat \<Rightarrow> 'w \<Rightarrow> bool \<times> 'w"
  db_query :: "nat \<Rightarrow> string \<Rightarrow> 'w \<Rightarrow> bool \<times> 'w"
  db_store :: "nat \<Rightarrow> 'w \<Rightarrow> rows option \<times> 'w"
  db_commit :: "nat \<Rightarrow> 'w \<Rightarrow> 'w"
  db_close :: "nat \<Rightarrow> 'w \<Rightarrow> 'w"
  db_error :: "nat \<Rightarrow> 'w \<Rightarrow> string"
  seed_rand :: "'w \<Rightarrow> 'w"
  rand_next :: "'w \<Rightarrow> int \<times> 'w"
  local_time :: "'w \<Rightarrow> (int \<times> int \<times> int \<times> int \<times> int \<times> int) \<times> 'w"

text \<open>
  \<open>conns\<close> are the allocated \<open>MYSQL\<close> handles, \<open>results\<close> counts the result sets that
  are allocated, \<open>queried\<close> lists the statements sent to the server with their handle,
  \<open>sent\<close> the bytes written to each descriptor, \<open>locations\<close> is \<open>location_list\<close>, and
  \<open>memory\<close> has the strings and nodes of the requests that are being served.
\<close>

record 'w world =
  outside :: 'w
  incoming :: "int \<Rightarrow> input"
  sent :: "int \<Rightarrow> string"
  closed :: "int list"
  conns :: "nat list"
  next_conn :: nat
  results :: int
  queried :: "(nat \<times> string) list"
  locations :: dic
  printed :: string
  logged :: string
  memory :: mem

type_synonym ('w, 'a) act = "'w world \<Rightarrow> ('a \<times> 'w world) res"

definition ret :: "'a \<Rightarrow> ('w, 'a) act" where
  "ret x = (\<lambda>w. Inr (x, w))"

definition abind :: "('w, 'a) act \<Rightarrow> ('a \<Rightarrow> ('w, 'b) act) \<Rightarrow> ('w, 'b) act" where
  "abind m f = (\<lambda>w. rbind (m w) (\<lambda>(x, w'). f x w'))"

definition andthen :: "('w, 'a) act \<Rightarrow> ('w, 'b) act \<Rightarrow> ('w, 'b) act" where
  "andthen m k = abind m (\<lambda>_. k)"

definition lift :: "'a res \<Rightarrow> ('w, 'a) act" where
  "lift r = (\<lambda>w. rmap (\<lambda>x. (x, w)) r)"

definition modify :: "('w world \<Rightarrow> 'w world) \<Rightarrow> ('w, unit) act" where
  "modify f = (\<lambda>w. Inr ((), f w))"

definition print :: "string \<Rightarrow> ('w, unit) act" where
  "print s = modify (\<lambda>w. w\<lparr>printed := printed w @ s\<rparr>)"

definition log_error :: "string \<Rightarrow> ('w, unit) act" where
  "log_error s = modify (\<lambda>w. w\<lparr>logged := logged w @ s\<rparr>)"

definition send :: "int \<Rightarrow> string \<Rightarrow> ('w, unit) act" where
  "send fd s = modify (\<lambda>w. w\<lparr>sent := (sent w)(fd := sent w fd @ s)\<rparr>)"

definition close_fd :: "int \<Rightarrow> ('w, unit) act" where
  "close_fd fd = modify (\<lambda>w. w\<lparr>closed := closed w @ [fd]\<rparr>)"

lemma ret_apply [simp]: "ret x w = Inr (x, w)" by (simp add: ret_def)
lemma abind_apply [simp]: "abind m f w = rbind (m w) (\<lambda>(x, w'). f x w')" by (simp add: abind_def)
lemma andthen_apply [simp]: "andthen m k w = rbind (m w) (\<lambda>(x, w'). k w')"
  by (simp add: andthen_def)
lemma lift_apply [simp]: "lift r w = rmap (\<lambda>x. (x, w)) r" by (simp add: lift_def)
lemma modify_apply [simp]: "modify f w = Inr ((), f w)" by (simp add: modify_def)

text \<open>A text formatted into an array of \<open>n\<close> characters, as the string read back from it.\<close>

definition fmt :: "int \<Rightarrow> string \<Rightarrow> string res" where
  "fmt n s = rbind (sprintf (malloc n) s) c_string"

lemma fmt_ok [simp]:
  assumes "NUL \<notin> set s" and "0 \<le> n"
  shows "fmt n s = (if int (length s) < n then Inr s else Inl Buffer_Overflow)"
proof -
  have "c_string (Ptr (map Some s @ Some NUL # r) 0) = Inr s" for r
    using assms(1) by (simp add: c_string_def from_ptr_def chars_to_nul_iff)
  then show ?thesis using assms
    by (auto simp: fmt_def sprintf_def put_bytes_def malloc_def of_nat_less_iff)
qed

lemma fmt_fits: "fmt n s = Inr t \<Longrightarrow> 0 \<le> n \<Longrightarrow> int (length s) < n"
  by (auto simp: fmt_def sprintf_def put_bytes_def malloc_def rbind_eq_Inr split: if_splits)

section \<open>The MySQL client calls\<close>

definition mysql_options :: "'w env \<Rightarrow> nat \<Rightarrow> db_option \<Rightarrow> ('w, unit) act" where
  "mysql_options env c opt = modify (\<lambda>w. w\<lparr>outside := db_options env c opt (outside w)\<rparr>)"

definition mysql_init :: "('w, nat) act" where
  "mysql_init = (\<lambda>w. Inr (next_conn w, w\<lparr>conns := next_conn w # conns w, next_conn := Suc (next_conn w)\<rparr>))"

definition mysql_real_connect :: "'w env \<Rightarrow> nat \<Rightarrow> ('w, bool) act" where
  "mysql_real_connect env c = (\<lambda>w. let (ok, out) = db_connect env c (outside w)
     in Inr (ok, w\<lparr>outside := out\<rparr>))"

text \<open>\<open>True\<close> stands for the return value 0.\<close>

definition mysql_query :: "'w env \<Rightarrow> nat \<Rightarrow> string \<Rightarrow> ('w, bool) act" where
  "mysql_query env c q = (\<lambda>w. let (ok, out) = db_query env c q (outside w)
     in Inr (ok, w\<lparr>outside := out, queried := queried w @ [(c, q)]\<rparr>))"

definition mysql_store_result :: "'w env \<Rightarrow> nat \<Rightarrow> ('w, rows option) act" where
  "mysql_store_result env c = (\<lambda>w. let (r, out) = db_store env c (outside w)
     in Inr (r, w\<lparr>outside := out, results := results w + (if r = None then 0 else 1)\<rparr>))"

text \<open>The next row of a result set, and the set with its cursor moved.\<close>

fun mysql_fetch_row :: "rows option \<Rightarrow> (row option \<times> rows option) res" where
  "mysql_fetch_row None = Inl Null_Deref"
| "mysql_fetch_row (Some []) = Inr (None, Some [])"
| "mysql_fetch_row (Some (r # rs)) = Inr (Some r, Some rs)"

definition mysql_free_result :: "rows option \<Rightarrow> ('w, unit) act" where
  "mysql_free_result r = modify (\<lambda>w. w\<lparr>results := results w - (if r = None then 0 else 1)\<rparr>)"

definition mysql_commit :: "'w env \<Rightarrow> nat \<Rightarrow> ('w, unit) act" where
  "mysql_commit env c = modify (\<lambda>w. w\<lparr>outside := db_commit env c (outside w)\<rparr>)"

definition mysql_error :: "'w env \<Rightarrow> nat \<Rightarrow> ('w, string) act" where
  "mysql_error env c = (\<lambda>w. Inr (db_error env c (outside w), w))"

text \<open>\<open>sql_row[i]\<close>, and the string behind it.\<close>

definition column :: "row option \<Rightarrow> nat \<Rightarrow> string option res" where
  "column r i = (case r of None \<Rightarrow> Inl Null_Deref
     | Some cs \<Rightarrow> if i < length cs then Inr (cs ! i) else Inl Out_Of_Bounds)"

definition text_column :: "row option \<Rightarrow> nat \<Rightarrow> string res" where
  "text_column r i = rbind (column r i) (\<lambda>v. case v of None \<Rightarrow> Inl Null_Deref
     | Some s \<Rightarrow> Inr (takeWhile (\<lambda>c. c \<noteq> NUL) s))"

section \<open>connection\_queue.c\<close>

definition NL :: string where "NL = [CHR 0x0A]"

definition report_connect :: "'w env \<Rightarrow> nat \<Rightarrow> bool \<Rightarrow> ('w, unit) act" where
  "report_connect env c ok =
     (if \<not> ok then abind (mysql_error env c) (\<lambda>e. log_error (''Mysql connection error : '' @ e @ NL))
      else ret ())"

definition connection_pop :: "'w env \<Rightarrow> ('w, nat) act" where
  "connection_pop env =
     abind mysql_init (\<lambda>c.
     abind (mysql_real_connect env c) (\<lambda>ok.
     andthen (report_connect env c ok) (ret c)))"

definition connection_push :: "'w env \<Rightarrow> nat \<Rightarrow> ('w, unit) act" where
  "connection_push env c = (\<lambda>w.
     if c \<in> set (conns w)
     then Inr ((), w\<lparr>outside := db_close env c (outside w), conns := remove1 c (conns w)\<rparr>)
     else Inl Bad_Free)"

text \<open>The pool that \<open>Queue_Init\<close> builds.\<close>

record queue =
  q_handles :: "nat list"
  q_N :: int
  q_start :: int
  q_end :: int
  q_sem :: int

definition queue_options :: "'w env \<Rightarrow> nat \<Rightarrow> ('w, unit) act" where
  "queue_options env c =
     andthen (mysql_options env c (Connect_Timeout 3000000)) (mysql_options env c (Reconnect True))"

fun queue_fill :: "'w env \<Rightarrow> nat \<Rightarrow> ('w, nat list) act" where
  "queue_fill env 0 = ret []"
| "queue_fill env (Suc n) =
     abind mysql_init (\<lambda>c.
     andthen (queue_options env c)
     (abind (mysql_real_connect env c) (\<lambda>ok.
     andthen (report_connect env c ok)
     (andthen (queue_options env c)
     (abind (queue_fill env n) (\<lambda>cs. ret (c # cs)))))))"

definition Queue_Init :: "'w env \<Rightarrow> nat \<Rightarrow> ('w, queue) act" where
  "Queue_Init env n =
     abind (queue_fill env n) (\<lambda>cs.
       ret \<lparr>q_handles = cs, q_N = int n, q_start = 0, q_end = 0, q_sem = int n\<rparr>)"

section \<open>response\<close>

fun send_headers :: "int \<Rightarrow> dic \<Rightarrow> ('w, unit) act" where
  "send_headers sock [] = ret ()"
| "send_headers sock ((None, v) # d) = lift (Inl Null_Deref)"
| "send_headers sock ((Some k, v) # d) =
     andthen (send sock (k @ '': '' @ v @ crlf)) (send_headers sock d)"

definition response ::
  "int \<Rightarrow> int \<Rightarrow> string \<Rightarrow> string \<Rightarrow> dic option \<Rightarrow> string option \<Rightarrow> ('w, unit) act" where
  "response sock status_code status_msg http_version header body =
     andthen (send sock (http_version @ '' '' @ dec status_code @ '' '' @ status_msg @ crlf))
    (andthen (case header of None \<Rightarrow> ret () | Some d \<Rightarrow> send_headers sock d)
    (abind (case body of None \<Rightarrow> lift (Inl Null_Deref) | Some b \<Rightarrow> ret (length b)) (\<lambda>n.
     andthen (send sock (''content-length: '' @ dec (int n) @ crlf))
    (andthen (send sock crlf)
            (case body of None \<Rightarrow> ret () | Some b \<Rightarrow> send sock b)))))"

text \<open>What a finished \<open>response\<close> has put on the wire.\<close>

definition header_bytes :: "dic \<Rightarrow> string" where
  "header_bytes d = concat (map (\<lambda>(k, v). the k @ '': '' @ v @ crlf) d)"

definition response_bytes :: "int \<Rightarrow> string \<Rightarrow> string \<Rightarrow> dic \<Rightarrow> string \<Rightarrow> string" where
  "response_bytes code msg version d b =
     version @ '' '' @ dec code @ '' '' @ msg @ crlf @ header_bytes d @
     ''content-length: '' @ dec (int (length b)) @ crlf @ crlf @ b"

definition answer :: "int \<Rightarrow> string \<Rightarrow> 'w world \<Rightarrow> 'w world" where
  "answer fd s w = w\<lparr>sent := (sent w)(fd := sent w fd @ s)\<rparr>"

lemma send_answer [simp]: "send fd s w = Inr ((), answer fd s w)"
  by (simp add: send_def answer_def)

lemma answer_answer [simp]: "answer fd t (answer fd s w) = answer fd (s @ t) w"
  by (simp add: answer_def)

lemma answer_sel [simp]:
  "outside (answer fd s w) = outside w"
  "incoming (answer fd s w) = incoming w"
  "sent (answer fd s w) = (sent w)(fd := sent w fd @ s)"
  "closed (answer fd s w) = closed w"
  "conns (answer fd s w) = conns w"
  "next_conn (answer fd s w) = next_conn w"
  "results (answer fd s w) = results w"
  "queried (answer fd s w) = queried w"
  "locations (answer fd s w) = locations w"
  "printed (answer fd s w) = printed w"
  "logged (answer fd s w) = logged w"
  "memory (answer fd s w) = memory w"
  by (simp_all add: answer_def)

lemma send_headers_ok:
  "None \<notin> fst ` set d \<Longrightarrow> send_headers fd d w = Inr ((), answer fd (header_bytes d) w)"
  by (induction fd d arbitrary: w rule: send_headers.induct)
    (auto simp: header_bytes_def answer_def)

lemma response_ok [simp]:
  "response fd code msg version None (Some b) w = Inr ((), answer fd (response_bytes code msg version [] b) w)"
  by (simp add: response_def response_bytes_def header_bytes_def)

lemma response_headers_ok:
  assumes "None \<notin> fst ` set d"
  shows "response fd code msg version (Some d) (Some b) w =
    Inr ((), answer fd (response_bytes code msg version d b) w)"
  by (simp add: response_def response_bytes_def send_headers_ok [OF assms])

end
