(* ===== verification/Response_Wire.thy ===== *)
theory Response_Wire
  imports Server_State Request_Wire
begin

text \<open>
  What a client reads back from a \<open>response\<close>: the status line, the headers and, by the
  \<^verbatim>\<open>content-length\<close> header, exactly the body.
\<close>

definition status_line :: "string \<Rightarrow> int \<Rightarrow> string \<Rightarrow> string" where
  "status_line version code msg = version @ '' '' @ dec code @ '' '' @ msg"

lemma header_bytes_entries: "header_bytes (entries hs) = header_lines hs"
  by (simp add: header_bytes_def entries_def header_lines_def comp_def split_def)

lemma is_digit_not_EOF: "is_digit c \<Longrightarrow> c \<noteq> EOF_char"
  by (auto simp: is_digit_def)

lemma dec_line_text: "line_text '' '' (dec i)"
proof -
  have "c \<noteq> CHR 0x0D \<and> c \<noteq> EOF_char \<and> c \<noteq> NUL \<and> c \<noteq> CHR '' ''" if "c \<in> set (dec i)" for c
    using dec_chars [OF that]
  proof
    assume "is_digit c"
    moreover have "is_space CHR '' ''" by (simp add: is_space_def)
    ultimately show ?thesis using is_digit_not_special [of c] is_digit_not_EOF [of c] by blast
  qed simp
  then show ?thesis by (auto simp: line_text_def)
qed

lemma dec_line_text_any: "line_text [] (dec i)"
  using dec_line_text by (rule line_text_mono) simp

definition length_header :: "string \<Rightarrow> (string \<times> string) list" where
  "length_header b = [(''content-length'', dec (int (length b)))]"

lemma lowered_length: "lowered (length_header b) = length_header b"
  by (simp add: lowered_def length_header_def lower_def c_int_def)

lemma response_bytes_lines:
  "response_bytes code msg version (entries hs) b =
     status_line version code msg @ crlf @ header_lines (hs @ length_header b) @ crlf @ b"
  by (simp add: response_bytes_def status_line_def header_bytes_entries header_lines_def length_header_def)

lemma response_status_line:
  assumes "line_text [] version" and "line_text [] msg"
  shows "line_of (response_bytes code msg version (entries hs) b) =
    Some (Some (status_line version code msg), header_lines (hs @ length_header b) @ crlf @ b)"
proof -
  have "line_text [] (status_line version code msg)"
    using assms dec_line_text_any by (simp add: status_line_def)
  then show ?thesis unfolding response_bytes_lines by (rule line_of_text) (simp add: status_line_def)
qed

lemma headers_ok_length: "headers_ok (length_header b)"
  using dec_line_text_any by (simp add: headers_ok_def length_header_def)

lemma headers_ok_append: "headers_ok (xs @ ys) \<longleftrightarrow> headers_ok xs \<and> headers_ok ys"
  by (auto simp: headers_ok_def)

lemma response_headers_body:
  assumes "headers_ok hs"
  shows "headers_spec (header_lines (hs @ length_header b) @ crlf @ b) [] =
    Inr (entries (lowered hs @ length_header b), b)"
proof -
  have "lowered (hs @ length_header b) = lowered hs @ length_header b"
    using lowered_length by (simp add: lowered_def)
  moreover have "headers_ok (hs @ length_header b)"
    using assms headers_ok_length by (simp add: headers_ok_append)
  ultimately show ?thesis using headers_spec_lines [of "hs @ length_header b" b "[]"] by simp
qed

lemma response_body:
  assumes "map_of (lowered hs) ''content-length'' = None" and "NUL \<notin> set b" and "length b \<le> 2147483647"
  shows "announced_body (b @ r) (entries (lowered hs @ length_header b)) = Inr (Some b)"
  using assms(2,3)
  by (intro announced_body_length) (simp_all add: assms(1) map_add_def length_header_def)

end
