(* ===== verification/Request_Properties.thy ===== *)
theory Request_Properties
  imports Response_Wire
begin

text \<open>
  The properties of whole messages: \<open>parse_request\<close> against its specification on bytes, the
  two kinds of request a client sends with parameters, and the response as a client reads it.
\<close>

section \<open>Requests on the wire\<close>

definition delivers :: "input \<Rightarrow> string \<Rightarrow> bool" where
  "delivers inp bs \<longleftrightarrow> clean inp \<and> data_of inp = bs \<and> length bs \<le> LINE_MAX"

definition form_type :: string where
  "form_type = ''application/x-www-form-urlencoded''"

text \<open>A POST of a form: its method, version, headers and fields.\<close>

definition post_ok :: "string \<Rightarrow> string \<Rightarrow> string \<Rightarrow> (string \<times> string) list \<Rightarrow> (string \<times> string) list \<Rightarrow> bool" where
  "post_ok m path version hs kvs \<longleftrightarrow> is_post m \<and> line_ok m path version \<and> headers_ok hs \<and>
     map_of (lowered hs) ''content-type'' = Some form_type \<and>
     map_of (lowered hs) ''content-length'' = Some (dec (int (length (form kvs)))) \<and>
     kvs \<noteq> [] \<and> plain_pairs kvs"

definition get_ok :: "string \<Rightarrow> string \<Rightarrow> string \<Rightarrow> (string \<times> string) list \<Rightarrow> (string \<times> string) list \<Rightarrow> bool" where
  "get_ok m path version hs kvs \<longleftrightarrow> is_get m \<and> line_ok m path version \<and> CHR ''?'' \<notin> set path \<and>
     headers_ok hs \<and> map_of (lowered hs) ''content-length'' = None \<and> kvs \<noteq> [] \<and> plain_pairs kvs"

lemma parse_delivered: "delivers inp bs \<Longrightarrow> parse_request fds inp = parse_bytes bs"
  using parse_request_bytes [of inp] by (simp add: delivers_def)

definition post_request :: "string \<Rightarrow> string \<Rightarrow> string \<Rightarrow> (string \<times> string) list \<Rightarrow> (string \<times> string) list \<Rightarrow> request" where
  "post_request m path version hs kvs =
     \<lparr>req_method = m, req_path = path, req_version = version, req_header = entries (lowered hs),
      req_body = Some (form kvs), req_parameter = entries kvs\<rparr>"

definition get_request :: "string \<Rightarrow> string \<Rightarrow> string \<Rightarrow> (string \<times> string) list \<Rightarrow> (string \<times> string) list \<Rightarrow> request" where
  "get_request m path version hs kvs =
     \<lparr>req_method = m, req_path = path @ ''?'' @ form kvs, req_version = version,
      req_header = entries (lowered hs), req_body = None, req_parameter = entries kvs\<rparr>"

lemma parse_post:
  assumes ok: "post_ok m path version hs kvs"
    and del: "delivers inp (request_bytes m path version hs (form kvs @ rest))"
  shows "parse_request fds inp = Inr (post_request m path version hs kvs)"
proof -
  have len: "length (form kvs) < 2147483647"
    using del by (simp add: delivers_def request_bytes_def LINE_MAX_def)
  have b: "body_spec (form kvs @ rest) (entries (lowered hs)) = Inr (Some (form kvs))"
    using ok len NUL_notin_form by (intro body_spec_length) (simp_all add: post_ok_def)
  have p: "parameters_spec m path (entries (lowered hs)) (Some (form kvs)) = Inr (entries kvs)"
    using ok by (intro post_parameters_spec) (simp_all add: post_ok_def form_type_def)
  show ?thesis
    unfolding parse_delivered [OF del] post_request_def
    using ok by (simp add: parse_bytes_request post_ok_def b p)
qed

lemma parse_get:
  assumes ok: "get_ok m path version hs kvs"
    and del: "delivers inp (request_bytes m (path @ ''?'' @ form kvs) version hs rest)"
  shows "parse_request fds inp = Inr (get_request m path version hs kvs)"
proof -
  have f: "line_text '' ?'' (form kvs)" using ok by (intro form_line_text) (simp add: get_ok_def)
  have path: "line_text '' ?'' path" using ok by (auto simp: get_ok_def line_ok_def line_text_def)
  have l: "line_ok m (path @ ''?'' @ form kvs) version"
    using ok f by (auto simp: get_ok_def line_ok_def line_text_def)
  have b: "body_spec rest (entries (lowered hs)) = Inr None"
    using ok by (intro body_spec_none) (simp add: get_ok_def)
  have p: "parameters_spec m (path @ ''?'' @ form kvs) (entries (lowered hs)) None = Inr (entries kvs)"
    using ok path by (intro get_parameters_spec) (simp_all add: get_ok_def)
  have "headers_ok hs" using ok by (simp add: get_ok_def)
  then show ?thesis
    unfolding parse_delivered [OF del] get_request_def parse_bytes_request [OF l \<open>headers_ok hs\<close>]
    by (simp only: b p Let_def rbind_simps)
qed

text \<open>C9: Refinement: on a connection whose reads do not fail, \<open>parse_request\<close>, with its
  buffers, reallocations and pointers, returns exactly what the specification on the bytes of the
  request says, faults included, and it does not matter how the bytes are split into reads.\<close>

theorem parse_request_refines:
  assumes "clean inp" and "length (data_of inp) \<le> LINE_MAX"
  shows "parse_request fds inp = parse_bytes (data_of inp)"
  using assms by (rule parse_request_bytes)

theorem parse_request_refines_witness:
  "parse_request 4 [Data ''GET'', Data ('' / HTTP/1.1'' @ [CHR 0x0D]), Data (CHR 0x0A # crlf)] =
     parse_bytes (''GET / HTTP/1.1'' @ crlf @ crlf)"
  using parse_request_refines [of "[Data ''GET'', Data ('' / HTTP/1.1'' @ [CHR 0x0D]), Data (CHR 0x0A # crlf)]" 4]
  by (simp add: clean_def LINE_MAX_def crlf_def)

text \<open>C10: Round trip of a POST: a client's form, sent as a body with its content length
  (header names in any case, other headers and trailing bytes allowed), is parsed to a request with
  that method, path, version, headers, body and exactly the fields of the form.\<close>

theorem post_request_round_trip:
  assumes "post_ok m path version hs kvs"
    and "delivers inp (request_bytes m path version hs (form kvs @ rest))"
  shows "parse_request fds inp = Inr (post_request m path version hs kvs)"
  using assms by (rule parse_post)

text \<open>The headers of a browser, as an example: the names are not in lower case.\<close>

definition form_headers :: "(string \<times> string) list \<Rightarrow> (string \<times> string) list" where
  "form_headers kvs = [(''Host'', ''x''), (''Content-Type'', form_type),
     (''Content-Length'', dec (int (length (form kvs))))]"

lemma lower_names: "map lower ''Host'' = ''host''" "map lower ''Content-Type'' = ''content-type''"
  "map lower ''Content-Length'' = ''content-length''"
  by code_simp+

lemma lowered_form_headers:
  "lowered (form_headers kvs) = [(''host'', ''x''), (''content-type'', form_type),
     (''content-length'', dec (int (length (form kvs))))]"
proof -
  have "lowered [(a, x), (b, y), (c, z)] = [(map lower a, x), (map lower b, y), (map lower c, z)]" for a b c x y z
    by (simp add: lowered_def)
  then show ?thesis by (simp only: form_headers_def lower_names)
qed

lemma form_headers_ok:
  assumes "is_post m" and "line_ok m path version" and "kvs \<noteq> []" and "plain_pairs kvs"
  shows "post_ok m path version (form_headers kvs) kvs"
  using assms dec_line_text_any
  by (simp add: post_ok_def lowered_form_headers) (simp add: form_headers_def headers_ok_def form_type_def)

lemma delivers_one: "bs \<noteq> [] \<Longrightarrow> length bs \<le> LINE_MAX \<Longrightarrow> delivers [Data bs] bs"
  by (simp add: delivers_def clean_def)

theorem post_request_round_trip_witness:
  "parse_request 4 [Data (request_bytes ''POST'' ''/login'' ''HTTP/1.1'' (form_headers [(''ID'', ''a b'')])
      (form [(''ID'', ''a b'')] @ ''junk''))]
    = Inr (post_request ''POST'' ''/login'' ''HTTP/1.1'' (form_headers [(''ID'', ''a b'')]) [(''ID'', ''a b'')])"
proof (rule post_request_round_trip)
  show "post_ok ''POST'' ''/login'' ''HTTP/1.1'' (form_headers [(''ID'', ''a b'')]) [(''ID'', ''a b'')]"
    by (rule form_headers_ok) (simp_all add: is_post_def line_ok_def plain_pairs_def)
  have "length (request_bytes ''POST'' ''/login'' ''HTTP/1.1'' (form_headers [(''ID'', ''a b'')])
      (form [(''ID'', ''a b'')] @ ''junk'')) \<le> 200" by code_simp
  then show "delivers [Data (request_bytes ''POST'' ''/login'' ''HTTP/1.1'' (form_headers [(''ID'', ''a b'')])
      (form [(''ID'', ''a b'')] @ ''junk''))]
     (request_bytes ''POST'' ''/login'' ''HTTP/1.1'' (form_headers [(''ID'', ''a b'')]) (form [(''ID'', ''a b'')] @ ''junk''))"
    by (intro delivers_one) (simp_all add: LINE_MAX_def request_bytes_def)
qed

text \<open>C11: Round trip of a GET: the fields a client puts behind the question mark of the path
  are exactly the parameters of the parsed request, whatever follows the header.\<close>

theorem get_request_round_trip:
  assumes "get_ok m path version hs kvs"
    and "delivers inp (request_bytes m (path @ ''?'' @ form kvs) version hs rest)"
  shows "parse_request fds inp = Inr (get_request m path version hs kvs)"
  using assms by (rule parse_get)

theorem get_request_round_trip_witness:
  "parse_request 4 [Data (request_bytes ''GET'' (''/location'' @ ''?'' @ form [(''token'', ''t''), (''user_ID'', ''7'')])
      ''HTTP/1.1'' [(''Host'', ''x'')] [])]
    = Inr (get_request ''GET'' ''/location'' ''HTTP/1.1'' [(''Host'', ''x'')] [(''token'', ''t''), (''user_ID'', ''7'')])"
proof (rule get_request_round_trip)
  show "get_ok ''GET'' ''/location'' ''HTTP/1.1'' [(''Host'', ''x'')] [(''token'', ''t''), (''user_ID'', ''7'')]"
    by (simp add: get_ok_def is_get_def line_ok_def plain_pairs_def headers_ok_def lowered_def lower_def c_int_def)
  have "length (request_bytes ''GET'' (''/location'' @ ''?'' @ form [(''token'', ''t''), (''user_ID'', ''7'')])
      ''HTTP/1.1'' [(''Host'', ''x'')] []) \<le> 200" by code_simp
  then show "delivers [Data (request_bytes ''GET'' (''/location'' @ ''?'' @ form [(''token'', ''t''), (''user_ID'', ''7'')])
      ''HTTP/1.1'' [(''Host'', ''x'')] [])]
     (request_bytes ''GET'' (''/location'' @ ''?'' @ form [(''token'', ''t''), (''user_ID'', ''7'')])
      ''HTTP/1.1'' [(''Host'', ''x'')] [])"
    by (intro delivers_one) (simp_all add: LINE_MAX_def request_bytes_def)
qed

section \<open>Responses\<close>



end
