(* ===== verification/Accounts.thy ===== *)
theory Accounts
  imports Server_State Request_Wire
begin

text \<open>
  The shared helpers of the handlers (\<^verbatim>\<open>ttac.c\<close> 52--135) and the handlers on users and
  groups (137--396): \<open>signup\<close>, \<open>login\<close>, \<open>create_group\<close>, \<open>group_list\<close>,
  \<open>join_group\<close>. A handler is an action on the world; an early return is a branch.
\<close>

section \<open>Texts\<close>

definition quoted :: "string \<Rightarrow> string" where
  "quoted s = CHR 0x22 # s @ [CHR 0x22]"

definition sq :: "string \<Rightarrow> string" where
  "sq s = CHR 0x27 # s @ [CHR 0x27]"

definition json_field :: "string \<Rightarrow> string \<Rightarrow> string" where
  "json_field k v = quoted k @ '':'' @ v"

definition json_status :: "string \<Rightarrow> string" where
  "json_status s = ''{'' @ json_field ''status'' (quoted s) @ ''}''"

section \<open>Helpers\<close>

definition idx :: "int \<Rightarrow> char" where
  "idx p = (if p \<ge> 0 \<and> p < 26 then to_char (c_int (CHR ''a'') + p)
            else if p \<ge> 26 \<and> p < 52 then to_char (c_int (CHR ''A'') + p - 26)
            else to_char (c_int (CHR ''0'') + p - 52))"

text \<open>The \<open>struct tm\<close> fields in the order they are printed.\<close>

definition getNow :: "'w env \<Rightarrow> ('w, ptr) act" where
  "getNow env = (\<lambda>w. let ((year, mon, mday, hour, mins, sec), out) = local_time env (outside w) in
     rmap (\<lambda>s. (s, w\<lparr>outside := out\<rparr>))
       (sprintf (malloc 200) (dec (year + 1900) @ ''-'' @ dec (mon + 1) @ ''-'' @ dec mday @ '' '' @
                 dec hour @ '':'' @ dec mins @ '':'' @ dec sec)))"

definition rand :: "'w env \<Rightarrow> ('w, int) act" where
  "rand env = (\<lambda>w. let (r, out) = rand_next env (outside w) in Inr (r, w\<lparr>outside := out\<rparr>))"

text \<open>The loop of \<open>create_token\<close>: \<open>n\<close> characters are left, the next goes to \<open>i\<close>.\<close>

fun create_token_loop :: "'w env \<Rightarrow> nat \<Rightarrow> int \<Rightarrow> ptr \<Rightarrow> ('w, ptr) act" where
  "create_token_loop env 0 i str = ret str"
| "create_token_loop env (Suc n) i str =
     abind (rand env) (\<lambda>r.
     abind (lift (store str i (idx (r smod 62)))) (\<lambda>str.
       create_token_loop env n (i + 1) str))"

definition create_token :: "'w env \<Rightarrow> ptr \<Rightarrow> ('w, ptr) act" where
  "create_token env str = create_token_loop env 50 0 str"

definition server_errer :: "'w env \<Rightarrow> int \<Rightarrow> request \<Rightarrow> nat \<Rightarrow> ('w, unit) act" where
  "server_errer env clnt_sock req connection =
     abind (mysql_error env connection) (\<lambda>e.
     andthen (log_error (''Mysql query error : '' @ e @ NL))
       (response clnt_sock 500 ''Internal Server Error'' (req_version req) None (Some ''server error'')))"

definition token_query :: "string \<Rightarrow> string" where
  "token_query token =
     ''select idx from user join token on user.idx = token.user_idx where token.token = '' @ sq token"

definition getUserIdx :: "'w env \<Rightarrow> nat \<Rightarrow> string \<Rightarrow> ('w, int) act" where
  "getUserIdx env conn token =
     abind (lift (fmt 256 (token_query token))) (\<lambda>query.
     abind (mysql_query env conn query) (\<lambda>ok.
     if \<not> ok then ret (-1)
     else
       abind (mysql_store_result env conn) (\<lambda>sql_result.
       abind (lift (mysql_fetch_row sql_result)) (\<lambda>(sql_row, sql_result).
       abind (lift (rbind (text_column sql_row 0) atoi)) (\<lambda>idx.
       andthen (mysql_free_result sql_result) (ret idx))))))"

definition id_query :: "string \<Rightarrow> string" where
  "id_query ID = ''select idx from user where ID = '' @ sq ID"

definition getUserIdxByID :: "'w env \<Rightarrow> nat \<Rightarrow> string \<Rightarrow> ('w, int) act" where
  "getUserIdxByID env conn ID =
     abind (lift (fmt 256 (id_query ID))) (\<lambda>query.
     abind (mysql_query env conn query) (\<lambda>ok.
     if \<not> ok then ret (-1)
     else
       abind (mysql_store_result env conn) (\<lambda>sql_result.
       abind (lift (mysql_fetch_row sql_result)) (\<lambda>(sql_row, sql_result).
       if sql_row = None then ret (-1)
       else
         abind (lift (rbind (text_column sql_row 0) atoi)) (\<lambda>idx.
         andthen (mysql_free_result sql_result) (ret idx))))))"

definition attendance_query :: "int \<Rightarrow> int \<Rightarrow> string" where
  "attendance_query user_idx group_idx =
     ''insert into attendance (user_idx,group_idx,attendance_date) values ('' @ dec user_idx @ '','' @
     dec group_idx @ '',NOW())''"

definition attendance_check :: "'w env \<Rightarrow> nat \<Rightarrow> int \<Rightarrow> int \<Rightarrow> ('w, unit) act" where
  "attendance_check env conn user_idx group_idx =
     abind (lift (fmt 256 (attendance_query user_idx group_idx))) (\<lambda>query.
     andthen (mysql_query env conn query) (ret ()))"

text \<open>
  The test \<open>find_value(...)==NULL || ...\<close> that opens a handler, left to right, and a
  parameter that is used as a string.
\<close>

fun missing :: "request \<Rightarrow> string list \<Rightarrow> bool res" where
  "missing req [] = Inr False"
| "missing req (k # ks) =
     rbind (find_value (req_parameter req) k) (\<lambda>v. if v = None then Inr True else missing req ks)"

definition param :: "request \<Rightarrow> string \<Rightarrow> string res" where
  "param req k = rbind (find_value (req_parameter req) k)
     (\<lambda>v. case v of None \<Rightarrow> Inl Null_Deref | Some s \<Rightarrow> Inr s)"

definition missing_parameters :: "int \<Rightarrow> request \<Rightarrow> ('w, unit) act" where
  "missing_parameters clnt_sock req =
     response clnt_sock 500 ''Internal Server Error'' (req_version req) None (Some ''missing parameters'')"

definition reply_ok :: "int \<Rightarrow> request \<Rightarrow> string \<Rightarrow> ('w, unit) act" where
  "reply_ok clnt_sock req body = response clnt_sock 200 ''OK'' (req_version req) None (Some body)"

section \<open>signup and login\<close>

definition signup_query :: "string \<Rightarrow> string \<Rightarrow> string \<Rightarrow> string" where
  "signup_query name ID password =
     ''insert into user (name,ID,password) values ('' @ sq name @ '','' @ sq ID @ '','' @ sq password @ '')''"

definition signup :: "'w env \<Rightarrow> int \<Rightarrow> request \<Rightarrow> ('w, unit) act" where
  "signup env clnt_sock req =
     abind (lift (missing req [''ID'', ''password'', ''name''])) (\<lambda>m.
     if m then missing_parameters clnt_sock req
     else
       abind (connection_pop env) (\<lambda>connection.
       abind (lift (param req ''name'')) (\<lambda>name.
       abind (lift (param req ''ID'')) (\<lambda>ID.
       abind (lift (param req ''password'')) (\<lambda>password.
       abind (lift (fmt 256 (signup_query name ID password))) (\<lambda>query.
       abind (mysql_query env connection query) (\<lambda>ok.
       if \<not> ok then
         abind (lift (fmt 256 (json_status ''ERROR''))) (\<lambda>body. reply_ok clnt_sock req body)
       else
         abind (mysql_store_result env connection) (\<lambda>sql_result.
         andthen (mysql_free_result sql_result)
        (andthen (mysql_commit env connection)
        (andthen (connection_push env connection)
        (abind (lift (fmt 256 (json_status ''OK''))) (\<lambda>body.
           reply_ok clnt_sock req body))))))))))))"

definition login_query :: "string \<Rightarrow> string" where
  "login_query ID = ''select password,name,idx from user where ID='' @ sq ID"

definition new_token_query :: "string \<Rightarrow> int \<Rightarrow> string" where
  "new_token_query token user_idx =
     ''insert into token (token,user_idx) values('' @ sq token @ '','' @ dec user_idx @ '')''"

definition login_body :: "string \<Rightarrow> string \<Rightarrow> string \<Rightarrow> string" where
  "login_body status token name =
     ''{'' @ json_field ''status'' (quoted status) @ '','' @ json_field ''token'' (quoted token) @ '','' @
     json_field ''name'' (quoted name) @ ''}''"

text \<open>A character array with an empty initialiser: every element is zero.\<close>

definition zeroed :: "nat \<Rightarrow> ptr" where
  "zeroed n = Ptr (replicate n (Some NUL)) 0"

definition login_finish ::
  "'w env \<Rightarrow> int \<Rightarrow> request \<Rightarrow> nat \<Rightarrow> rows option \<Rightarrow> string \<Rightarrow> string \<Rightarrow> string \<Rightarrow> ('w, unit) act" where
  "login_finish env clnt_sock req connection sql_result status token name =
     andthen (mysql_free_result sql_result)
    (andthen (connection_push env connection)
    (abind (lift (fmt 256 (login_body status token name))) (\<lambda>body.
       reply_ok clnt_sock req body)))"

definition login_accept ::
  "'w env \<Rightarrow> int \<Rightarrow> request \<Rightarrow> nat \<Rightarrow> row option \<Rightarrow> rows option \<Rightarrow> ('w, unit) act" where
  "login_accept env clnt_sock req connection sql_row sql_result =
     abind (create_token env (zeroed 51)) (\<lambda>token.
     abind (lift (rbind (text_column sql_row 2) atoi)) (\<lambda>idx.
     abind (lift (c_string token)) (\<lambda>token.
     abind (lift (fmt 256 (new_token_query token idx))) (\<lambda>query.
     abind (mysql_query env connection query) (\<lambda>ok.
     if \<not> ok then server_errer env clnt_sock req connection
     else
       abind (lift (rbind (text_column sql_row 1) (fmt 26))) (\<lambda>name.
       abind (lift (fmt 6 ''OK'')) (\<lambda>status.
         login_finish env clnt_sock req connection sql_result status token name)))))))"

definition login :: "'w env \<Rightarrow> int \<Rightarrow> request \<Rightarrow> ('w, unit) act" where
  "login env clnt_sock req =
     abind (lift (missing req [''ID'', ''password''])) (\<lambda>m.
     if m then missing_parameters clnt_sock req
     else
       abind (connection_pop env) (\<lambda>connection.
       abind (lift (param req ''ID'')) (\<lambda>ID.
       abind (lift (fmt 256 (login_query ID))) (\<lambda>query.
       abind (mysql_query env connection query) (\<lambda>ok.
       if \<not> ok then server_errer env clnt_sock req connection
       else
         abind (mysql_store_result env connection) (\<lambda>sql_result.
         abind (lift (mysql_fetch_row sql_result)) (\<lambda>(sql_row, sql_result).
         abind (lift (text_column sql_row 0)) (\<lambda>stored.
         abind (lift (param req ''password'')) (\<lambda>password.
         if strcmp stored password = 0
         then login_accept env clnt_sock req connection sql_row sql_result
         else login_finish env clnt_sock req connection sql_result ''ERROR'' [] [])))))))))"

section \<open>Groups\<close>

definition new_group_query :: "string \<Rightarrow> int \<Rightarrow> string" where
  "new_group_query name owner =
     ''insert into project_group (name,owner) values ('' @ sq name @ '','' @ dec owner @ '')''"

definition join_query :: "int \<Rightarrow> string \<Rightarrow> string" where
  "join_query user_idx group_idx =
     ''insert into join_group (user_idx,group_idx) values ('' @ dec user_idx @ '','' @ group_idx @ '')''"

definition create_group :: "'w env \<Rightarrow> int \<Rightarrow> request \<Rightarrow> ('w, unit) act" where
  "create_group env clnt_sock req =
     abind (lift (missing req [''name'', ''token''])) (\<lambda>m.
     if m then missing_parameters clnt_sock req
     else
       abind (connection_pop env) (\<lambda>connection.
       abind (lift (param req ''token'')) (\<lambda>token.
       abind (getUserIdx env connection token) (\<lambda>idx.
       if idx = -1 then server_errer env clnt_sock req connection
       else
         abind (lift (param req ''name'')) (\<lambda>name.
         abind (lift (fmt 256 (new_group_query name idx))) (\<lambda>query.
         abind (mysql_query env connection query) (\<lambda>ok.
         if \<not> ok then server_errer env clnt_sock req connection
         else
           abind (mysql_query env connection ''select LAST_INSERT_ID()'') (\<lambda>ok.
           if \<not> ok then server_errer env clnt_sock req connection
           else
             abind (mysql_store_result env connection) (\<lambda>sql_result.
             abind (lift (mysql_fetch_row sql_result)) (\<lambda>(sql_row, sql_result).
             abind (lift (rbind (text_column sql_row 0) atoi)) (\<lambda>group_idx.
             andthen (mysql_free_result sql_result)
            (abind (lift (fmt 256 (join_query idx (dec group_idx)))) (\<lambda>query.
             abind (mysql_query env connection query) (\<lambda>ok.
             if \<not> ok then server_errer env clnt_sock req connection
             else
               andthen (mysql_commit env connection)
              (andthen (connection_push env connection)
              (abind (lift (fmt 256 (json_status ''OK''))) (\<lambda>body.
                 reply_ok clnt_sock req body)))))))))))))))))"

text \<open>
  The loop that turns the rows of a result into the items of a JSON array, with the array of
  100 characters each item is formatted in. \<open>echo\<close>: \<open>group_list\<close> also prints the
  buffer after each item.
\<close>

fun write_rows :: "(row \<Rightarrow> string res) \<Rightarrow> bool \<Rightarrow> rows \<Rightarrow> bool \<Rightarrow> stream \<Rightarrow> ('w, stream) act" where
  "write_rows item echo [] flag s = ret s"
| "write_rows item echo (sql_row # rs) flag s =
     abind (lift (if flag then write_lit s '','' else Inr s)) (\<lambda>s.
     abind (lift (rbind (item sql_row) (fmt 100))) (\<lambda>tmp.
     abind (lift (write_lit s tmp)) (\<lambda>s.
     andthen (if echo then abind (lift (c_string (st_buf s))) (\<lambda>b. print (b @ NL)) else ret ())
       (write_rows item echo rs True s))))"

definition write_result :: "(row \<Rightarrow> string res) \<Rightarrow> bool \<Rightarrow> rows option \<Rightarrow> ('w, stream) act" where
  "write_result item echo sql_result =
     abind (lift (write_lit stream_write_init ''['')) (\<lambda>s.
     abind (case sql_result of None \<Rightarrow> lift (Inl Null_Deref)
            | Some rs \<Rightarrow> write_rows item echo rs False s) (\<lambda>s.
       lift (write_lit s '']'')))"

text \<open>What the three list handlers do once the user is known.\<close>

definition list_reply ::
  "'w env \<Rightarrow> int \<Rightarrow> request \<Rightarrow> nat \<Rightarrow> string \<Rightarrow> (row \<Rightarrow> string res) \<Rightarrow> bool \<Rightarrow> ('w, unit) act" where
  "list_reply env clnt_sock req connection query item echo =
     abind (mysql_query env connection query) (\<lambda>ok.
     if \<not> ok then server_errer env clnt_sock req connection
     else
       abind (mysql_store_result env connection) (\<lambda>sql_result.
       abind (write_result item echo sql_result) (\<lambda>s.
       andthen (mysql_free_result sql_result)
      (andthen (connection_push env connection)
      (abind (lift (c_string (st_buf s))) (\<lambda>body.
       andthen (reply_ok clnt_sock req body) (lift (stream_destory s))))))))"

definition group_item :: "row \<Rightarrow> string res" where
  "group_item sql_row =
     rbind (text_column (Some sql_row) 0) (\<lambda>id.
     rbind (text_column (Some sql_row) 1) (\<lambda>name.
     rbind (text_column (Some sql_row) 2) (\<lambda>owner.
       Inr (''{'' @ json_field ''id'' id @ '','' @ json_field ''name'' (quoted name) @ '','' @
            json_field ''owner'' (quoted owner) @ ''}''))))"

definition groups_query :: "int \<Rightarrow> string" where
  "groups_query user_idx =
     ''select project_group.idx,project_group.name,user.name from project_group join join_group on '' @
     ''project_group.idx = join_group.group_idx join user on owner = user.idx where user_idx = '' @ dec user_idx"

definition group_list :: "'w env \<Rightarrow> int \<Rightarrow> request \<Rightarrow> ('w, unit) act" where
  "group_list env clnt_sock req =
     abind (lift (missing req [''token''])) (\<lambda>m.
     if m then missing_parameters clnt_sock req
     else
       abind (connection_pop env) (\<lambda>connection.
       abind (lift (param req ''token'')) (\<lambda>token.
       abind (getUserIdx env connection token) (\<lambda>idx.
       if idx = -1 then server_errer env clnt_sock req connection
       else
         abind (lift (fmt 256 (groups_query idx))) (\<lambda>query.
           list_reply env clnt_sock req connection query group_item True)))))"

definition owner_query :: "int \<Rightarrow> string \<Rightarrow> string" where
  "owner_query owner group_id =
     ''select idx from project_group where owner = '' @ dec owner @ '' and idx = '' @ group_id"

definition join_reply :: "int \<Rightarrow> request \<Rightarrow> string \<Rightarrow> ('w, unit) act" where
  "join_reply clnt_sock req status =
     abind (lift (fmt 50 (json_status status))) (\<lambda>body. reply_ok clnt_sock req body)"

definition join_group :: "'w env \<Rightarrow> int \<Rightarrow> request \<Rightarrow> ('w, unit) act" where
  "join_group env clnt_sock req =
     abind (lift (find_value (req_parameter req) ''token'')) (\<lambda>token.
     abind (lift (find_value (req_parameter req) ''group_id'')) (\<lambda>group_id.
     abind (lift (find_value (req_parameter req) ''ID'')) (\<lambda>ID.
     if token = None \<or> group_id = None \<or> ID = None then missing_parameters clnt_sock req
     else
       abind (connection_pop env) (\<lambda>connection.
       abind (getUserIdx env connection (the token)) (\<lambda>idx.
       abind (getUserIdxByID env connection (the ID)) (\<lambda>useridx.
       if idx = -1 then server_errer env clnt_sock req connection
       else
         andthen (print (dec useridx @ NL))
        (if useridx = -1 then join_reply clnt_sock req ''NONE''
         else
           abind (lift (fmt 256 (owner_query idx (the group_id)))) (\<lambda>query.
           abind (mysql_query env connection query) (\<lambda>ok.
           if \<not> ok then server_errer env clnt_sock req connection
           else
             abind (mysql_store_result env connection) (\<lambda>sql_result.
             abind (lift (mysql_fetch_row sql_result)) (\<lambda>(sql_row, sql_result).
             andthen (mysql_free_result sql_result)
            (if sql_row = None then join_reply clnt_sock req ''ERROR''
             else
               abind (lift (fmt 256 (join_query useridx (the group_id)))) (\<lambda>query.
               abind (mysql_query env connection query) (\<lambda>ok.
               if \<not> ok then server_errer env clnt_sock req connection
               else join_reply clnt_sock req ''OK''))))))))))))))"

end
