(* ===== verification/Activities.thy ===== *)
theory Activities
  imports Accounts
begin

text \<open>
  The handlers of \<^verbatim>\<open>ttac.c\<close> 398--719 on a user's todo list, progress and chats.
\<close>

section \<open>The todo list\<close>

definition todo_item :: "row \<Rightarrow> string res" where
  "todo_item sql_row =
     rbind (text_column (Some sql_row) 0) (\<lambda>deadline.
     rbind (text_column (Some sql_row) 1) (\<lambda>detail.
       Inr (''{'' @ json_field ''deadline'' deadline @ '','' @ json_field ''detail'' (quoted detail) @ ''}'')))"

definition todos_query :: "int \<Rightarrow> string" where
  "todos_query user_idx = ''select deadline,detail from todo where user_idx = '' @ dec user_idx"

definition get_todolist :: "'w env \<Rightarrow> int \<Rightarrow> request \<Rightarrow> ('w, unit) act" where
  "get_todolist env clnt_sock req =
     abind (lift (find_value (req_parameter req) ''token'')) (\<lambda>token.
     if token = None then missing_parameters clnt_sock req
     else
       abind (connection_pop env) (\<lambda>connection.
       abind (getUserIdx env connection (the token)) (\<lambda>idx.
       if idx = -1 then server_errer env clnt_sock req connection
       else
         abind (lift (fmt 256 (todos_query idx))) (\<lambda>query.
           list_reply env clnt_sock req connection query todo_item False))))"

definition new_todo_query :: "int \<Rightarrow> string \<Rightarrow> string \<Rightarrow> string" where
  "new_todo_query user_idx deadline detail =
     ''insert into todo (user_idx,deadline,detail) values ('' @ dec user_idx @ '','' @ sq deadline @ '','' @
     sq detail @ '')''"

definition post_todolist :: "'w env \<Rightarrow> int \<Rightarrow> request \<Rightarrow> ('w, unit) act" where
  "post_todolist env clnt_sock req =
     abind (lift (find_value (req_parameter req) ''token'')) (\<lambda>token.
     abind (lift (find_value (req_parameter req) ''deadline'')) (\<lambda>deadline.
     abind (lift (find_value (req_parameter req) ''detail'')) (\<lambda>detail.
     if token = None \<or> deadline = None \<or> detail = None then missing_parameters clnt_sock req
     else
       abind (connection_pop env) (\<lambda>connection.
       abind (getUserIdx env connection (the token)) (\<lambda>idx.
       if idx = -1 then server_errer env clnt_sock req connection
       else
         abind (lift (fmt 256 (new_todo_query idx (the deadline) (the detail)))) (\<lambda>query.
         abind (mysql_query env connection query) (\<lambda>ok.
         abind (if \<not> ok
                then abind (mysql_error env connection) (\<lambda>e.
                       andthen (log_error (''Mysql query error : '' @ e @ NL)) (ret ''ERROR''))
                else ret ''OK'') (\<lambda>status.
         abind (lift (fmt 256 (json_status status))) (\<lambda>body.
         andthen (connection_push env connection)
           (reply_ok clnt_sock req body))))))))))"

section \<open>Progress\<close>

definition progress_query :: "int \<Rightarrow> string" where
  "progress_query user_idx = ''select number from progress where user_idx = '' @ dec user_idx"

definition progress_body :: "string \<Rightarrow> string" where
  "progress_body n = ''{'' @ json_field ''number'' n @ ''}''"

definition get_progress :: "'w env \<Rightarrow> int \<Rightarrow> request \<Rightarrow> ('w, unit) act" where
  "get_progress env clnt_sock req =
     abind (lift (find_value (req_parameter req) ''token'')) (\<lambda>token.
     if token = None then missing_parameters clnt_sock req
     else
       abind (connection_pop env) (\<lambda>connection.
       abind (getUserIdx env connection (the token)) (\<lambda>idx.
       if idx = -1 then server_errer env clnt_sock req connection
       else
         abind (lift (fmt 256 (progress_query idx))) (\<lambda>query.
         abind (mysql_query env connection query) (\<lambda>ok.
         if \<not> ok then server_errer env clnt_sock req connection
         else
           abind (mysql_store_result env connection) (\<lambda>sql_result.
           abind (lift (mysql_fetch_row sql_result)) (\<lambda>(sql_row, sql_result).
           abind (lift (if sql_row \<noteq> None
                        then rbind (text_column sql_row 0) (\<lambda>n. fmt 256 (progress_body n))
                        else fmt 256 (progress_body ''0''))) (\<lambda>body.
           andthen (mysql_free_result sql_result)
          (andthen (connection_push env connection)
             (reply_ok clnt_sock req body))))))))))"

definition update_progress_query :: "string \<Rightarrow> int \<Rightarrow> string" where
  "update_progress_query number user_idx =
     ''update progress set number = '' @ number @ '' where user_idx = '' @ dec user_idx"

definition insert_progress_query :: "int \<Rightarrow> string \<Rightarrow> string" where
  "insert_progress_query user_idx number =
     ''insert into progress (user_idx,number) values('' @ dec user_idx @ '','' @ number @ '')''"

definition post_progress :: "'w env \<Rightarrow> int \<Rightarrow> request \<Rightarrow> ('w, unit) act" where
  "post_progress env clnt_sock req =
     abind (lift (find_value (req_parameter req) ''token'')) (\<lambda>token.
     abind (lift (find_value (req_parameter req) ''number'')) (\<lambda>number.
     if token = None \<or> number = None then missing_parameters clnt_sock req
     else
       abind (connection_pop env) (\<lambda>connection.
       abind (getUserIdx env connection (the token)) (\<lambda>idx.
       if idx = -1 then server_errer env clnt_sock req connection
       else
         abind (lift (fmt 256 (progress_query idx))) (\<lambda>query.
         abind (mysql_query env connection query) (\<lambda>ok.
         if \<not> ok then server_errer env clnt_sock req connection
         else
           abind (mysql_store_result env connection) (\<lambda>sql_result.
           abind (lift (mysql_fetch_row sql_result)) (\<lambda>(sql_row, sql_result).
           abind (lift (fmt 256 (if sql_row \<noteq> None then update_progress_query (the number) idx
                                 else insert_progress_query idx (the number)))) (\<lambda>query.
           andthen (mysql_free_result sql_result)
          (abind (mysql_query env connection query) (\<lambda>ok.
           abind (lift (fmt 256 (json_status (if \<not> ok then ''ERROR'' else ''OK'')))) (\<lambda>body.
           andthen (connection_push env connection)
             (reply_ok clnt_sock req body)))))))))))))"

section \<open>Chats\<close>

definition latest_query :: "string \<Rightarrow> string" where
  "latest_query group_id = ''select MAX(idx) from chat where group_idx = '' @ group_id"

definition new_chat_query :: "int \<Rightarrow> string \<Rightarrow> string \<Rightarrow> string \<Rightarrow> string" where
  "new_chat_query user_idx group_id content now =
     ''insert into chat (user_idx,group_idx,chat_type,content,chat_time) values ('' @ dec user_idx @ '','' @
     group_id @ '','' @ quoted ''TEXT'' @ '','' @ quoted content @ '','' @ quoted now @ '')''"

definition chat_body :: "string \<Rightarrow> int \<Rightarrow> string" where
  "chat_body status latest =
     ''{'' @ json_field ''status'' (quoted status) @ '','' @ json_field ''latest'' (dec latest) @ ''}''"

definition create_chat :: "'w env \<Rightarrow> int \<Rightarrow> request \<Rightarrow> ('w, unit) act" where
  "create_chat env clnt_sock req =
     abind (lift (find_value (req_parameter req) ''token'')) (\<lambda>token.
     abind (lift (find_value (req_parameter req) ''group_id'')) (\<lambda>group_id.
     abind (lift (find_value (req_parameter req) ''content'')) (\<lambda>content.
     if token = None \<or> group_id = None \<or> content = None then missing_parameters clnt_sock req
     else
       abind (connection_pop env) (\<lambda>connection.
       abind (getUserIdx env connection (the token)) (\<lambda>idx.
       if idx = -1 then server_errer env clnt_sock req connection
       else
         abind (lift (atoi (the group_id))) (\<lambda>group_idx.
         andthen (attendance_check env connection idx group_idx)
        (abind (lift (fmt 2000 (latest_query (the group_id)))) (\<lambda>query.
         abind (mysql_query env connection query) (\<lambda>ok.
         if \<not> ok then server_errer env clnt_sock req connection
         else
           abind (mysql_store_result env connection) (\<lambda>sql_result.
           abind (lift (mysql_fetch_row sql_result)) (\<lambda>(sql_row, sql_result).
           abind (lift (rbind (column sql_row 0) (\<lambda>v.
                    if v \<noteq> None then rbind (text_column sql_row 0) atoi else Inr (-1)))) (\<lambda>latest.
           andthen (mysql_free_result sql_result)
          (abind (getNow env) (\<lambda>now.
           abind (lift (c_string now)) (\<lambda>t.
           abind (lift (fmt 2000 (new_chat_query idx (the group_id) (the content) t))) (\<lambda>query.
           andthen (lift (free now))
          (abind (mysql_query env connection query) (\<lambda>ok.
           if \<not> ok then server_errer env clnt_sock req connection
           else
             abind (lift (fmt 256 (chat_body ''OK'' latest))) (\<lambda>body.
             andthen (connection_push env connection)
               (reply_ok clnt_sock req body))))))))))))))))))))"

definition chats_query :: "string \<Rightarrow> string option \<Rightarrow> string" where
  "chats_query group_id latest =
     ''select chat.idx,chat_type,content,chat_time,user.ID from chat join user on '' @
     ''chat.user_idx = user.idx where group_idx = '' @ group_id @
     (case latest of None \<Rightarrow> [] | Some l \<Rightarrow> '' and chat.idx>'' @ l)"

definition chat_item :: "row \<Rightarrow> string res" where
  "chat_item sql_row =
     rbind (text_column (Some sql_row) 0) (\<lambda>id.
     rbind (text_column (Some sql_row) 4) (\<lambda>user_ID.
     rbind (text_column (Some sql_row) 1) (\<lambda>chat_type.
     rbind (text_column (Some sql_row) 2) (\<lambda>content.
     rbind (text_column (Some sql_row) 3) (\<lambda>chat_time.
       Inr (''{'' @ json_field ''id'' id @ '','' @ json_field ''user_ID'' (quoted user_ID) @ '','' @
            json_field ''chat_type'' (quoted chat_type) @ '','' @ json_field ''content'' (quoted content) @ '','' @
            json_field ''chat_time'' (quoted chat_time) @ ''}''))))))"

definition get_chatlist :: "'w env \<Rightarrow> int \<Rightarrow> request \<Rightarrow> ('w, unit) act" where
  "get_chatlist env clnt_sock req =
     abind (lift (find_value (req_parameter req) ''token'')) (\<lambda>token.
     abind (lift (find_value (req_parameter req) ''group_id'')) (\<lambda>group_id.
     abind (lift (find_value (req_parameter req) ''latest'')) (\<lambda>latest.
     if token = None \<or> group_id = None then missing_parameters clnt_sock req
     else
       abind (connection_pop env) (\<lambda>connection.
       abind (getUserIdx env connection (the token)) (\<lambda>idx.
       if idx = -1 then server_errer env clnt_sock req connection
       else
         abind (lift (atoi (the group_id))) (\<lambda>group_idx.
         andthen (attendance_check env connection idx group_idx)
        (abind (lift (fmt 2000 (chats_query (the group_id) latest))) (\<lambda>query.
           list_reply env clnt_sock req connection query chat_item False))))))))"

end
