(* ===== verification/Location.thy ===== *)
theory Location
  imports Accounts "HOL-Library.AList"
begin

text \<open>
  The shared location list of \<^verbatim>\<open>ttac.c\<close> 720--817: \<open>push_location\<close> and
  \<open>pop_location\<close>, and the two handlers on them. Here each call runs alone; their
  interleaving under the mutex is the subject of its own theory.
\<close>

section \<open>The code\<close>

definition location_text :: "string \<Rightarrow> string \<Rightarrow> string res" where
  "location_text latitude longitute =
     (let len = int (length latitude) + int (length longitute) + 1
      in fmt (len + 1) (latitude @ ''|'' @ longitute))"

text \<open>
  The loop of \<open>push_location\<close>: the first entry with the key gets the new value;
  \<open>None\<close> when no entry has it.
\<close>

fun replace_value :: "dic \<Rightarrow> string \<Rightarrow> string res \<Rightarrow> dic option res" where
  "replace_value [] user_id new = Inr None"
| "replace_value ((None, v) # d) user_id new = Inl Null_Deref"
| "replace_value ((Some k, v) # d) user_id new =
     (if strcmp user_id k = 0 then rmap (\<lambda>n. Some ((Some k, n) # d)) new
      else rmap (map_option (\<lambda>d'. (Some k, v) # d')) (replace_value d user_id new))"

definition push_location :: "dic \<Rightarrow> string \<Rightarrow> string \<Rightarrow> string \<Rightarrow> dic res" where
  "push_location location_list user_id latitude longitute =
     rbind (replace_value location_list user_id (location_text latitude longitute)) (\<lambda>r.
       case r of
         Some d \<Rightarrow> Inr d
       | None \<Rightarrow> rmap (add_data location_list (Some user_id)) (location_text latitude longitute))"

fun pop_location :: "dic \<Rightarrow> string \<Rightarrow> string option res" where
  "pop_location [] user_id = Inr None"
| "pop_location ((None, v) # d) user_id = Inl Null_Deref"
| "pop_location ((Some k, v) # d) user_id =
     (if strcmp user_id k = 0 then Inr (Some v) else pop_location d user_id)"

definition status_ok_body :: string where
  "status_ok_body = ''{'' @ json_field ''status'' (quoted ''OK'') @ ''}''"

definition post_location :: "'w env \<Rightarrow> int \<Rightarrow> request \<Rightarrow> ('w, unit) act" where
  "post_location env clnt_sock req =
     abind (lift (find_value (req_parameter req) ''token'')) (\<lambda>token.
     abind (lift (find_value (req_parameter req) ''latitude'')) (\<lambda>latitude.
     abind (lift (find_value (req_parameter req) ''longitude'')) (\<lambda>longitude.
     if token = None \<or> latitude = None \<or> longitude = None then missing_parameters clnt_sock req
     else
       abind (connection_pop env) (\<lambda>connection.
       abind (getUserIdx env connection (the token)) (\<lambda>idx.
       abind (lift (fmt 30 (dec idx))) (\<lambda>num.
       abind (\<lambda>w. rmap (\<lambda>d. ((), w\<lparr>locations := d\<rparr>))
                  (push_location (locations w) num (the latitude) (the longitude))) (\<lambda>_.
       abind (lift (fmt 50 status_ok_body)) (\<lambda>body.
       andthen (connection_push env connection)
         (reply_ok clnt_sock req body)))))))))"

definition location_body :: "string \<Rightarrow> string \<Rightarrow> string" where
  "location_body latitude longitude =
     ''{'' @ json_field ''latitude'' latitude @ '','' @ json_field ''longitude'' longitude @ ''}''"

definition get_location :: "'w env \<Rightarrow> int \<Rightarrow> request \<Rightarrow> ('w, unit) act" where
  "get_location env clnt_sock req =
     abind (lift (find_value (req_parameter req) ''token'')) (\<lambda>token.
     abind (lift (find_value (req_parameter req) ''user_ID'')) (\<lambda>user_id.
     if token = None \<or> user_id = None then missing_parameters clnt_sock req
     else
       abind (\<lambda>w. rmap (\<lambda>v. (v, w)) (pop_location (locations w) (the user_id))) (\<lambda>found.
       abind (case found of
                None \<Rightarrow> lift (fmt 256 (location_body ''0.0'' ''0.0''))
              | Some v \<Rightarrow>
                  (let location = literal v in
                   abind (lift (strlen location)) (\<lambda>len.
                   abind (lift (find_idx location CHR ''|'')) (\<lambda>p.
                   andthen (print (dec p @ NL))
                  (let alen = p; blen = len - (p + 1) in
                   abind (lift (copy_n location alen)) (\<lambda>latitude.
                   abind (lift (copy_n (padd location (p + 1)) blen)) (\<lambda>longtitude.
                   abind (lift (rbind (c_string latitude) (\<lambda>lat. rbind (c_string longtitude) (\<lambda>lon.
                     fmt 256 (location_body lat lon))))) (\<lambda>body.
                   andthen (lift (free latitude))
                  (andthen (lift (free longtitude)) (ret body)))))))))) (\<lambda>body.
         reply_ok clnt_sock req body))))"

section \<open>The list as a keyed store\<close>

text \<open>
  The interface the two handlers need: \<open>put\<close> sets a key, \<open>get\<close> reads it. \<open>view\<close> is the
  map a state stands for.
\<close>

locale keyed_store =
  fixes put :: "'s \<Rightarrow> string \<Rightarrow> 'v \<Rightarrow> 's res"
    and get :: "'s \<Rightarrow> string \<Rightarrow> string option res"
    and text_of :: "'v \<Rightarrow> string"
    and legal :: "'v \<Rightarrow> bool"
    and view :: "'s \<Rightarrow> (string \<rightharpoonup> string) \<Rightarrow> bool"
  assumes put_view: "view s f \<Longrightarrow> legal v \<Longrightarrow> \<exists>s'. put s k v = Inr s' \<and> view s' (f(k \<mapsto> text_of v))"
    and get_view: "view s f \<Longrightarrow> get s k = Inr (f k)"

definition put_all :: "('s \<Rightarrow> string \<Rightarrow> 'v \<Rightarrow> 's res) \<Rightarrow> 's \<Rightarrow> (string \<times> 'v) list \<Rightarrow> 's res" where
  "put_all put s kvs = foldl (\<lambda>r (k, v). rbind r (\<lambda>s. put s k v)) (Inr s) kvs"

context keyed_store
begin

lemma put_all_view:
  assumes "view s f" and "\<forall>(k, v) \<in> set kvs. legal v"
  shows "\<exists>s'. put_all put s kvs = Inr s' \<and> view s' (f ++ map_of (rev (map (\<lambda>(k, v). (k, text_of v)) kvs)))"
  using assms(2)
proof (induction kvs rule: rev_induct)
  case Nil
  then show ?case using assms(1) by (simp add: put_all_def)
next
  case (snoc e kvs)
  obtain k v where e: "e = (k, v)" by (cases e)
  obtain s1 where s1: "put_all put s kvs = Inr s1"
    "view s1 (f ++ map_of (rev (map (\<lambda>(k, v). (k, text_of v)) kvs)))" using snoc by auto
  have m: "f ++ map_of (rev (map (\<lambda>(k, v). (k, text_of v)) (kvs @ [e]))) =
      (f ++ map_of (rev (map (\<lambda>(k, v). (k, text_of v)) kvs)))(k \<mapsto> text_of v)"
    by (simp add: e del: fun_upd_apply)
  show ?case using put_view [OF s1(2), of v k] s1(1) snoc.prems unfolding m
    by (auto simp: put_all_def e simp del: fun_upd_apply)
qed

text \<open>The last value put for a key is the one read.\<close>

lemma get_after_puts:
  assumes "view s f" and "\<forall>(k, v) \<in> set kvs. legal v"
  shows "\<exists>s'. put_all put s kvs = Inr s' \<and>
    get s' k = Inr (case map_of (rev kvs) k of None \<Rightarrow> f k | Some v \<Rightarrow> Some (text_of v))"
proof -
  obtain s' where s': "put_all put s kvs = Inr s'"
    "view s' (f ++ map_of (rev (map (\<lambda>(k, v). (k, text_of v)) kvs)))" using put_all_view [OF assms] by blast
  have "map_of (rev (map (\<lambda>(k, v). (k, text_of v)) kvs)) k = map_option text_of (map_of (rev kvs) k)"
    by (simp add: rev_map map_of_map)
  then show ?thesis using s'(1) get_view [OF s'(2), of k]
    by (auto simp: map_add_def split: option.splits)
qed

end

definition position :: "string \<times> string \<Rightarrow> string" where
  "position ll = fst ll @ ''|'' @ snd ll"

definition position_ok :: "string \<times> string \<Rightarrow> bool" where
  "position_ok ll \<longleftrightarrow> NUL \<notin> set (fst ll) \<and> NUL \<notin> set (snd ll)"

lemma location_text_ok: "position_ok ll \<Longrightarrow> location_text (fst ll) (snd ll) = Inr (position ll)"
  by (auto simp: location_text_def position_ok_def position_def Let_def)

lemma replace_value_entries:
  "replace_value (entries kvs) u (Inr x) =
     Inr (if u \<in> fst ` set kvs then Some (entries (AList.update u x kvs)) else None)"
proof (induction kvs)
  case (Cons e kvs)
  then show ?case by (cases e) (auto simp: entries_def)
qed (simp add: entries_def)

lemma push_location_entries:
  assumes "position_ok ll"
  shows "push_location (entries kvs) u (fst ll) (snd ll) = Inr (entries (AList.update u (position ll) kvs))"
proof -
  have "AList.update u (position ll) kvs = kvs @ [(u, position ll)]" if "u \<notin> fst ` set kvs"
    using that by (induction kvs) auto
  then show ?thesis
    unfolding push_location_def location_text_ok [OF assms] replace_value_entries
    by (simp add: add_data_def entries_def)
qed

lemma pop_location_entries: "pop_location (entries kvs) u = Inr (map_of kvs u)"
  by (induction kvs) (auto simp: entries_def)

definition stores :: "dic \<Rightarrow> (string \<rightharpoonup> string) \<Rightarrow> bool" where
  "stores d f \<longleftrightarrow> (\<exists>kvs. d = entries kvs \<and> distinct (map fst kvs) \<and> f = map_of kvs)"

interpretation location_list: keyed_store "\<lambda>d u ll. push_location d u (fst ll) (snd ll)" pop_location
  position position_ok stores
proof unfold_locales
  fix d f ll k assume "stores d f" and ok: "position_ok ll"
  then obtain kvs where d: "d = entries kvs" "distinct (map fst kvs)" "f = map_of kvs"
    by (auto simp: stores_def)
  have "stores (entries (AList.update k (position ll) kvs)) (f(k \<mapsto> position ll))"
    unfolding stores_def using d(2,3) by (metis distinct_update update_conv')
  then show "\<exists>d'. push_location d k (fst ll) (snd ll) = Inr d' \<and> stores d' (f(k \<mapsto> position ll))"
    unfolding d(1) push_location_entries [OF ok] by blast
next
  fix d f k assume "stores d f"
  then show "pop_location d k = Inr (f k)" by (auto simp: stores_def pop_location_entries)
qed

section \<open>What the handlers answer\<close>

text \<open>The parameters of a request as a map, and a stored position cut at its first bar.\<close>

lemma get_location_read:
  assumes ps: "find_value (req_parameter req) ''token'' = Inr (Some t)"
      "find_value (req_parameter req) ''user_ID'' = Inr (Some u)"
    and st: "stores (locations w) f" "f u = Some (lat @ ''|'' @ lon)"
    and lat: "CHR ''|'' \<notin> set lat" and nul: "NUL \<notin> set lat" "NUL \<notin> set lon"
  shows "get_location env fd req w =
    (if length (location_body lat lon) < 256
     then Inr ((), answer fd (response_bytes 200 ''OK'' (req_version req) [] (location_body lat lon))
       (w\<lparr>printed := printed w @ dec (int (length lat)) @ NL\<rparr>))
     else Inl Buffer_Overflow)"
proof -
  have v: "c_string (literal (lat @ ''|'' @ lon)) = Inr (lat @ ''|'' @ lon)"
    using nul by (intro c_string_literal) simp
  have tw: "takeWhile (\<lambda>c. c \<noteq> CHR ''|'') (lat @ ''|'' @ lon) = lat"
    using takeWhile_neq_append [OF lat] by simp
  have fi: "find_idx (literal (lat @ ''|'' @ lon)) CHR ''|'' = Inr (int (length lat))"
    using find_idx_ok [OF v, of "CHR ''|''"] tw by (simp add: index_of_in)
  obtain d1 where d1: "copy_n (literal (lat @ ''|'' @ lon)) (int (length lat)) = Inr d1" "c_string d1 = Inr lat"
    using copy_n_index [OF v, of "\<lambda>c. c \<noteq> CHR ''|''"] unfolding tw by blast
  have r: "c_string (padd (literal (lat @ ''|'' @ lon)) (int (length lat) + 1)) = Inr lon"
    using c_string_padd [OF v, of "int (length lat) + 1"] by (simp add: nat_add_distrib)
  note f1 = at_start_copy_n [OF d1(1)]
  obtain d2 where d2: "copy_n (padd (literal (lat @ ''|'' @ lon)) (int (length lat) + 1)) (int (length lon)) = Inr d2"
    "c_string d2 = Inr lon"
    using copy_n_ok [OF r, of "int (length lon)"] by auto
  note f2 = at_start_copy_n [OF d2(1)]
  have nb: "NUL \<notin> set (location_body lat lon)"
    using nul by (simp add: location_body_def json_field_def quoted_def)
  have fm: "fmt 256 (location_body lat lon) =
      (if length (location_body lat lon) < 256 then Inr (location_body lat lon) else Inl Buffer_Overflow)"
    using nb by simp
  have pop: "pop_location (locations w) u = Inr (Some (lat @ ''|'' @ lon))"
    using location_list.get_view [OF st(1), of u] st(2) by simp
  have len: "int (length (lat @ ''|'' @ lon)) - (int (length lat) + 1) = int (length lon)" by simp
  show ?thesis
    unfolding get_location_def Let_def
    by (cases "length (location_body lat lon) < 256")
       (simp_all only: ps abind_apply andthen_apply lift_apply rmap_simps rbind_simps prod.case
        option.sel option.distinct simp_thms if_False if_True pop option.case strlen_c_string [OF v] fi d1 len d2 fm
        free_start [OF f1] free_start [OF f2] ret_apply print_def modify_apply reply_ok_def response_ok)
qed

lemma get_location_known:
  assumes "req_parameter req = entries ps" "map_of ps ''token'' = Some t" "map_of ps ''user_ID'' = Some u"
    and "stores (locations w) f" "f u = Some (lat @ ''|'' @ lon)"
    and "CHR ''|'' \<notin> set lat" "NUL \<notin> set lat" "NUL \<notin> set lon"
    and "length (location_body lat lon) < 256"
  shows "get_location env fd req w = Inr ((), answer fd
    (response_bytes 200 ''OK'' (req_version req) [] (location_body lat lon))
    (w\<lparr>printed := printed w @ dec (int (length lat)) @ NL\<rparr>))"
  using get_location_read [OF _ _ assms(4-8), of req t] assms(1-3,9) by simp

lemma get_location_unknown:
  assumes ps: "find_value (req_parameter req) ''token'' = Inr (Some t)"
      "find_value (req_parameter req) ''user_ID'' = Inr (Some u)"
    and st: "stores (locations w) f" "f u = None"
  shows "get_location env fd req w = Inr ((), answer fd
    (response_bytes 200 ''OK'' (req_version req) [] (location_body ''0.0'' ''0.0'')) w)"
proof -
  have fm: "fmt 256 (location_body ''0.0'' ''0.0'') = Inr (location_body ''0.0'' ''0.0'')"
    by (subst fmt_ok) (simp_all add: location_body_def json_field_def quoted_def)
  have pop: "pop_location (locations w) u = Inr None"
    using location_list.get_view [OF st(1), of u] st(2) by simp
  show ?thesis
    by (simp add: get_location_def ps pop fm reply_ok_def del: fmt_ok)
qed

end
