(* ===== verification/Router.thy ===== *)
theory Router
  imports Activities Location
begin

text \<open>
  \<open>http_thread\<close> (\<^verbatim>\<open>ttac.c\<close> 820--872): one connection from its bytes to its answer, with the
  regular expressions of \<open>regex_compile\<close> that choose the handler.
\<close>

section \<open>The patterns\<close>

text \<open>
  POSIX expressions as far as the patterns use them: ordinary characters and the two
  anchors, which (no \<open>REG_NEWLINE\<close>) match at the ends of the string only.
\<close>

datatype re_atom = Line_Start | Line_End | Lit char

definition re_atom_of :: "char \<Rightarrow> re_atom" where
  "re_atom_of c = (if c = CHR ''^'' then Line_Start else if c = CHR ''$'' then Line_End else Lit c)"

definition regcomp :: "string \<Rightarrow> re_atom list" where
  "regcomp pat = map re_atom_of pat"

fun match_here :: "re_atom list \<Rightarrow> bool \<Rightarrow> string \<Rightarrow> bool" where
  "match_here [] bol s \<longleftrightarrow> True"
| "match_here (Line_Start # r) bol s \<longleftrightarrow> bol \<and> match_here r bol s"
| "match_here (Line_End # r) bol s \<longleftrightarrow> s = [] \<and> match_here r bol s"
| "match_here (Lit c # r) bol s \<longleftrightarrow>
     (case s of [] \<Rightarrow> False | x # xs \<Rightarrow> x = c \<and> match_here r False xs)"

fun match_from :: "re_atom list \<Rightarrow> bool \<Rightarrow> string \<Rightarrow> bool" where
  "match_from r bol [] \<longleftrightarrow> match_here r bol []"
| "match_from r bol (x # xs) \<longleftrightarrow> match_here r bol (x # xs) \<or> match_from r False xs"

text \<open>The return value: 0 for a match, \<open>REG_NOMATCH\<close> (1) otherwise.\<close>

definition regexec :: "re_atom list \<Rightarrow> string \<Rightarrow> int" where
  "regexec r s = (if match_from r True s then 0 else 1)"

definition login_pattern :: string where "login_pattern = ''^/login''"
definition signup_pattern :: string where "signup_pattern = ''^/signup''"
definition create_group_pattern :: string where "create_group_pattern = ''^/create_group''"
definition group_list_pattern :: string where "group_list_pattern = ''^/group_list''"
definition join_group_pattern :: string where "join_group_pattern = ''^/join_group''"
definition todolist_pattern :: string where "todolist_pattern = ''^/todolist''"
definition progess_pattern :: string where "progess_pattern = ''^/progress''"
definition chat_pattern :: string where "chat_pattern = ''^/chat$''"
definition chatlist_pattern :: string where "chatlist_pattern = ''^/chatlist''"
definition location_pattern :: string where "location_pattern = ''^/location''"

text \<open>The compiled expressions, as \<open>regex_compile\<close> leaves them in the globals.\<close>

record regexes =
  login_r :: "re_atom list"
  signup_r :: "re_atom list"
  create_group_r :: "re_atom list"
  group_list_r :: "re_atom list"
  join_group_r :: "re_atom list"
  todolist_r :: "re_atom list"
  progress_r :: "re_atom list"
  chat_r :: "re_atom list"
  chatlist_r :: "re_atom list"
  location_r :: "re_atom list"

definition regex_compile :: regexes where
  "regex_compile =
     \<lparr>login_r = regcomp login_pattern, signup_r = regcomp signup_pattern,
      create_group_r = regcomp create_group_pattern, group_list_r = regcomp group_list_pattern,
      join_group_r = regcomp join_group_pattern, todolist_r = regcomp todolist_pattern,
      progress_r = regcomp progess_pattern, chat_r = regcomp chat_pattern,
      chatlist_r = regcomp chatlist_pattern, location_r = regcomp location_pattern\<rparr>"

section \<open>Dispatch\<close>

definition dispatch :: "'w env \<Rightarrow> regexes \<Rightarrow> int \<Rightarrow> request \<Rightarrow> ('w, unit) act" where
  "dispatch env g clnt_sock req =
     (let m = req_method req; p = req_path req in
      if regexec (login_r g) p = 0 then login env clnt_sock req
      else if regexec (signup_r g) p = 0 then signup env clnt_sock req
      else if regexec (create_group_r g) p = 0 then create_group env clnt_sock req
      else if regexec (group_list_r g) p = 0 then group_list env clnt_sock req
      else if regexec (join_group_r g) p = 0 then join_group env clnt_sock req
      else if regexec (todolist_r g) p = 0 then
        (if is_get m then get_todolist env clnt_sock req
         else if is_post m then post_todolist env clnt_sock req
         else ret ())
      else if regexec (progress_r g) p = 0 then
        (if is_get m then get_progress env clnt_sock req
         else if is_post m then post_progress env clnt_sock req
         else ret ())
      else if regexec (chat_r g) p = 0 then create_chat env clnt_sock req
      else if regexec (chatlist_r g) p = 0 then get_chatlist env clnt_sock req
      else if regexec (location_r g) p = 0 then
        (if is_get m then get_location env clnt_sock req
         else if is_post m then post_location env clnt_sock req
         else ret ())
      else response clnt_sock 404 ''Not Found'' (req_version req) None (Some ''404 Not Found''))"

text \<open>
  What \<open>parse_request\<close> has allocated for the request, and \<open>clear_requset\<close> on it. A heap walk
  that does not end would be \<open>Diverges\<close>.
\<close>

definition keep_request :: "request \<Rightarrow> ('w, request_h) act" where
  "keep_request req = (\<lambda>w. rmap (\<lambda>(m, h). (h, w\<lparr>memory := m\<rparr>))
     (build_request (memory w) (req_method req) (req_path req) (req_version req) (req_header req)
        (req_body req) (req_parameter req)))"

definition free_request :: "request_h \<Rightarrow> ('w, unit) act" where
  "free_request h = (\<lambda>w.
     case clear_requset (memory w) h of
       None \<Rightarrow> Inl Diverges
     | Some r \<Rightarrow> rmap (\<lambda>m. ((), w\<lparr>memory := m\<rparr>)) r)"

definition http_thread :: "'w env \<Rightarrow> regexes \<Rightarrow> int \<Rightarrow> ('w, unit) act" where
  "http_thread env g clnt_sock =
     abind (\<lambda>w. rmap (\<lambda>req. (req, w)) (parse_request clnt_sock (incoming w clnt_sock))) (\<lambda>req.
     abind (keep_request req) (\<lambda>h.
     abind (lift (print_request_info req)) (\<lambda>info.
     andthen (print info)
    (andthen (dispatch env g clnt_sock req)
    (andthen (free_request h)
       (close_fd clnt_sock))))))"

section \<open>What the expressions match\<close>

definition plain_char :: "char \<Rightarrow> bool" where
  "plain_char c \<longleftrightarrow> c \<noteq> CHR ''^'' \<and> c \<noteq> CHR ''$''"

lemma match_here_literal:
  "\<forall>c \<in> set l. plain_char c \<Longrightarrow> match_here (map re_atom_of l @ r) b s \<longleftrightarrow>
     take (length l) s = l \<and> match_here r (b \<and> l = []) (drop (length l) s)"
proof (induction l arbitrary: b s)
  case (Cons c l)
  have c: "re_atom_of c = Lit c" using Cons.prems by (simp add: re_atom_of_def plain_char_def)
  have ih: "match_here (map re_atom_of l @ r) False t \<longleftrightarrow>
      take (length l) t = l \<and> match_here r False (drop (length l) t)" for t
    by (rule Cons.IH [of False t, simplified]) (use Cons.prems in simp)
  show ?case by (cases s) (simp_all add: c ih)
qed simp

lemma match_from_anchored: "match_from (Line_Start # r) b s \<longleftrightarrow> b \<and> match_here r True s"
proof (induction s arbitrary: b)
  case Nil
  show ?case by (cases b) simp_all
next
  case (Cons x s)
  show ?case by (cases b) (simp_all add: Cons.IH)
qed

lemma regexec_iff: "regexec r s = 0 \<longleftrightarrow> match_from r True s"
  by (simp add: regexec_def)

lemma regcomp_anchored: "regcomp (CHR ''^'' # l @ e) = Line_Start # map re_atom_of l @ map re_atom_of e"
  by (simp add: regcomp_def re_atom_of_def)

lemma regexec_prefix:
  assumes "\<forall>c \<in> set l. plain_char c"
  shows "regexec (regcomp (CHR ''^'' # l)) s = 0 \<longleftrightarrow> take (length l) s = l"
  unfolding regexec_iff regcomp_anchored [of l "[]", unfolded append_Nil2] match_from_anchored list.map(1)
    match_here_literal [OF assms]
  by simp

lemma regexec_exact:
  assumes "\<forall>c \<in> set l. plain_char c"
  shows "regexec (regcomp (CHR ''^'' # l @ ''$'')) s = 0 \<longleftrightarrow> s = l"
proof -
  have e: "map re_atom_of ''$'' = [Line_End]" by (simp add: re_atom_of_def)
  have "take (length l) s = l \<and> drop (length l) s = [] \<longleftrightarrow> s = l"
    by (metis append_Nil2 append_take_drop_id drop_all order_refl take_all)
  then show ?thesis
    unfolding regexec_iff regcomp_anchored match_from_anchored e match_here_literal [OF assms]
    by simp
qed

section \<open>Where a request goes\<close>

datatype target =
    To_login | To_signup | To_create_group | To_group_list | To_join_group
  | To_get_todolist | To_post_todolist | To_get_progress | To_post_progress
  | To_create_chat | To_get_chatlist | To_get_location | To_post_location
  | Unanswered | Not_Found

definition starts :: "string \<Rightarrow> string \<Rightarrow> bool" where
  "starts l p \<longleftrightarrow> take (length l) p = l"

definition by_method :: "string \<Rightarrow> target \<Rightarrow> target \<Rightarrow> target" where
  "by_method m g p = (if is_get m then g else if is_post m then p else Unanswered)"

text \<open>A resource and the paths that name it: all that start with a text, or one path.\<close>

definition resources :: "string \<Rightarrow> ((string \<Rightarrow> bool) \<times> target) list" where
  "resources m =
     [(starts ''/login'', To_login), (starts ''/signup'', To_signup),
      (starts ''/create_group'', To_create_group), (starts ''/group_list'', To_group_list),
      (starts ''/join_group'', To_join_group),
      (starts ''/todolist'', by_method m To_get_todolist To_post_todolist),
      (starts ''/progress'', by_method m To_get_progress To_post_progress),
      ((\<lambda>p. p = ''/chat''), To_create_chat), (starts ''/chatlist'', To_get_chatlist),
      (starts ''/location'', by_method m To_get_location To_post_location)]"

definition target_of :: "string \<Rightarrow> string \<Rightarrow> target" where
  "target_of m p = (case filter (\<lambda>(f, t). f p) (resources m) of [] \<Rightarrow> Not_Found | x # xs \<Rightarrow> snd x)"

fun run_target :: "target \<Rightarrow> 'w env \<Rightarrow> int \<Rightarrow> request \<Rightarrow> ('w, unit) act" where
  "run_target To_login env fd req = login env fd req"
| "run_target To_signup env fd req = signup env fd req"
| "run_target To_create_group env fd req = create_group env fd req"
| "run_target To_group_list env fd req = group_list env fd req"
| "run_target To_join_group env fd req = join_group env fd req"
| "run_target To_get_todolist env fd req = get_todolist env fd req"
| "run_target To_post_todolist env fd req = post_todolist env fd req"
| "run_target To_get_progress env fd req = get_progress env fd req"
| "run_target To_post_progress env fd req = post_progress env fd req"
| "run_target To_create_chat env fd req = create_chat env fd req"
| "run_target To_get_chatlist env fd req = get_chatlist env fd req"
| "run_target To_get_location env fd req = get_location env fd req"
| "run_target To_post_location env fd req = post_location env fd req"
| "run_target Unanswered env fd req = ret ()"
| "run_target Not_Found env fd req = response fd 404 ''Not Found'' (req_version req) None (Some ''404 Not Found'')"

lemma patterns_match:
  "regexec (login_r regex_compile) p = 0 \<longleftrightarrow> starts ''/login'' p"
  "regexec (signup_r regex_compile) p = 0 \<longleftrightarrow> starts ''/signup'' p"
  "regexec (create_group_r regex_compile) p = 0 \<longleftrightarrow> starts ''/create_group'' p"
  "regexec (group_list_r regex_compile) p = 0 \<longleftrightarrow> starts ''/group_list'' p"
  "regexec (join_group_r regex_compile) p = 0 \<longleftrightarrow> starts ''/join_group'' p"
  "regexec (todolist_r regex_compile) p = 0 \<longleftrightarrow> starts ''/todolist'' p"
  "regexec (progress_r regex_compile) p = 0 \<longleftrightarrow> starts ''/progress'' p"
  "regexec (chat_r regex_compile) p = 0 \<longleftrightarrow> p = ''/chat''"
  "regexec (chatlist_r regex_compile) p = 0 \<longleftrightarrow> starts ''/chatlist'' p"
  "regexec (location_r regex_compile) p = 0 \<longleftrightarrow> starts ''/location'' p"
  unfolding starts_def regex_compile_def regexes.simps login_pattern_def signup_pattern_def
    create_group_pattern_def group_list_pattern_def join_group_pattern_def todolist_pattern_def
    progess_pattern_def chat_pattern_def chatlist_pattern_def location_pattern_def
  by (rule regexec_prefix regexec_exact [of "''/chat''", unfolded append.simps]; simp add: plain_char_def)+

lemma dispatch_target: "dispatch env regex_compile fd req = run_target (target_of (req_method req) (req_path req)) env fd req"
  unfolding dispatch_def Let_def patterns_match target_of_def resources_def by_method_def
  by simp

text \<open>No two of the expressions match the same path.\<close>

definition expressions :: "re_atom list list" where
  "expressions = [login_r regex_compile, signup_r regex_compile, create_group_r regex_compile,
     group_list_r regex_compile, join_group_r regex_compile, todolist_r regex_compile,
     progress_r regex_compile, chat_r regex_compile, chatlist_r regex_compile, location_r regex_compile]"

lemma starts_take: "starts l p \<Longrightarrow> n \<le> length l \<Longrightarrow> take n p = take n l"
  unfolding starts_def by (metis min.absorb1 take_take)

text \<open>The first six characters tell the expressions apart.\<close>

definition re_key :: "re_atom list \<Rightarrow> string" where
  "re_key r = take 6 (concat (map (\<lambda>a. case a of Lit c \<Rightarrow> [c] | _ \<Rightarrow> []) r))"

lemma filter_by_key:
  "distinct (map key xs) \<Longrightarrow> \<forall>x \<in> set xs. P x \<longrightarrow> key x = t \<Longrightarrow> length (filter P xs) \<le> 1"
proof (induction xs)
  case (Cons x xs)
  show ?case
  proof (cases "P x")
    case True
    have "\<not> P y" if "y \<in> set xs" for y
    proof
      assume "P y"
      then have "key y = key x" using Cons.prems(2) True that by simp
      then show False using Cons.prems(1) that by (metis distinct.simps(2) image_eqI list.set_map list.simps(9))
    qed
    then show ?thesis using True by simp
  qed (use Cons in simp)
qed simp

lemmas compiled = regcomp_def re_atom_of_def login_pattern_def signup_pattern_def
  create_group_pattern_def group_list_pattern_def join_group_pattern_def todolist_pattern_def
  progess_pattern_def chat_pattern_def chatlist_pattern_def location_pattern_def

lemma expression_keys:
  "map re_key expressions = [''/login'', ''/signu'', ''/creat'', ''/group'', ''/join_'', ''/todol'',
     ''/progr'', ''/chat'', ''/chatl'', ''/locat'']"
  by (simp add: expressions_def re_key_def regex_compile_def compiled)

lemma expression_key_match:
  "r \<in> set expressions \<Longrightarrow> regexec r p = 0 \<Longrightarrow> re_key r = take 6 p"
proof -
  have six: "starts l p \<Longrightarrow> 6 \<le> length l \<Longrightarrow> take 6 p = take 6 l" for l by (rule starts_take)
  assume r: "r \<in> set expressions" "regexec r p = 0"
  have k: "re_key (login_r regex_compile) = ''/login''" "re_key (signup_r regex_compile) = ''/signu''"
    "re_key (create_group_r regex_compile) = ''/creat''" "re_key (group_list_r regex_compile) = ''/group''"
    "re_key (join_group_r regex_compile) = ''/join_''" "re_key (todolist_r regex_compile) = ''/todol''"
    "re_key (progress_r regex_compile) = ''/progr''" "re_key (chat_r regex_compile) = ''/chat''"
    "re_key (chatlist_r regex_compile) = ''/chatl''" "re_key (location_r regex_compile) = ''/locat''"
    using expression_keys unfolding expressions_def by simp_all
  show ?thesis
    using r unfolding expressions_def set_simps insert_iff empty_iff
    by (elim disjE FalseE; hypsubst; simp add: patterns_match k six)
qed

lemma one_expression: "length (filter (\<lambda>r. regexec r p = 0) expressions) \<le> 1"
proof (rule filter_by_key)
  show "distinct (map re_key expressions)" unfolding expression_keys by simp
  show "\<forall>r \<in> set expressions. regexec r p = 0 \<longrightarrow> re_key r = take 6 p"
    using expression_key_match by blast
qed

end
