(* ===== verification/Handler_Contract.thy ===== *)
theory Handler_Contract
  imports Router
begin

text \<open>
  What every handler of \<^verbatim>\<open>ttac.c\<close> promises when it returns: exactly one answer on its own
  descriptor, its SQL statements on one connection of its own and inside the arrays they are
  formatted in, and what becomes of that connection and of the result sets. The promise is
  a locale; each handler is an interpretation of it with its own set of outcomes.
\<close>

section \<open>Triples\<close>

text \<open>\<open>triple P m Q\<close>: from a world with \<open>P\<close>, if \<open>m\<close> returns, its result has \<open>Q\<close>.\<close>

definition triple :: "('w world \<Rightarrow> bool) \<Rightarrow> ('w, 'a) act \<Rightarrow> ('a \<Rightarrow> 'w world \<Rightarrow> bool) \<Rightarrow> bool" where
  "triple P m Q \<longleftrightarrow> (\<forall>w a w'. P w \<and> m w = Inr (a, w') \<longrightarrow> Q a w')"

named_theorems steps \<open>rules that move a triple over one operation\<close>

lemma tripleI: "(\<And>w a w'. P w \<Longrightarrow> m w = Inr (a, w') \<Longrightarrow> Q a w') \<Longrightarrow> triple P m Q"
  by (auto simp: triple_def)

lemma tripleD: "triple P m Q \<Longrightarrow> P w \<Longrightarrow> m w = Inr (a, w') \<Longrightarrow> Q a w'"
  by (auto simp: triple_def)

lemma triple_bind:
  assumes "triple P m R" and "\<And>x. triple (R x) (f x) Q"
  shows "triple P (abind m f) Q"
  using assms unfolding triple_def by (fastforce simp: rbind_eq_Inr)

lemma triple_then:
  assumes "triple P m (\<lambda>_. R)" and "triple R k Q"
  shows "triple P (andthen m k) Q"
  unfolding andthen_def using assms by (rule triple_bind)

lemma triple_lift [steps]:
  "(\<And>x. r = Inr x \<Longrightarrow> triple P (f x) Q) \<Longrightarrow> triple P (abind (lift r) f) Q"
  by (fastforce simp: triple_def rbind_eq_Inr rmap_eq_Inr)

lemma triple_then_lift [steps]: "triple P m (\<lambda>_. Q) \<Longrightarrow> triple P (andthen m (lift r)) (\<lambda>_. Q)"
  by (fastforce simp: triple_def rbind_eq_Inr rmap_eq_Inr)

lemma triple_lift_then [steps]: "triple P k Q \<Longrightarrow> triple P (andthen (lift r) k) Q"
  by (fastforce simp: triple_def rbind_eq_Inr rmap_eq_Inr)

lemma triple_ret: "(\<And>w. P w \<Longrightarrow> Q x w) \<Longrightarrow> triple P (ret x) Q"
  by (auto simp: triple_def)

lemma triple_if [steps]:
  "(b \<Longrightarrow> triple P m Q) \<Longrightarrow> (\<not> b \<Longrightarrow> triple P k Q) \<Longrightarrow> triple P (if b then m else k) Q"
  by simp

lemma triple_fetch [steps]:
  assumes "\<And>row rs. r \<noteq> None \<Longrightarrow> rs \<noteq> None \<Longrightarrow> mysql_fetch_row r = Inr (row, rs) \<Longrightarrow> triple P (f row rs) Q"
  shows "triple P (abind (lift (mysql_fetch_row r)) (\<lambda>(row, rs). f row rs)) Q"
proof (rule triple_lift)
  fix x assume "mysql_fetch_row r = Inr x"
  then show "triple P (case x of (row, rs) \<Rightarrow> f row rs) Q"
    using assms by (cases r rule: mysql_fetch_row.cases) (auto split: prod.splits)
qed

lemma fmt_text: "fmt n s = Inr t \<Longrightarrow> t = takeWhile (\<lambda>c. c \<noteq> NUL) s"
  by (auto simp: fmt_def sprintf_def put_bytes_def malloc_def rbind_eq_Inr
      c_string_def from_ptr_def chars_to_nul_takeWhile split: if_splits)

lemma fmt_length: "fmt n s = Inr t \<Longrightarrow> 0 \<le> n \<Longrightarrow> int (length t) < n"
  using fmt_fits [of n s t] fmt_text [of n s t] length_takeWhile_le [of "\<lambda>c. c \<noteq> NUL" s] by simp

section \<open>The life of a handler's connection\<close>

text \<open>
  \<open>Idle\<close>: no connection taken; \<open>Open\<close>: popped and not pushed back; \<open>Shut\<close>: pushed back.
\<close>

datatype phase = Idle | Open | Shut

definition session :: "'w world \<Rightarrow> phase \<Rightarrow> int \<Rightarrow> dic \<Rightarrow> 'w world \<Rightarrow> bool" where
  "session w0 ph n L w \<longleftrightarrow>
     sent w = sent w0 \<and> closed w = closed w0 \<and> incoming w = incoming w0 \<and> memory w = memory w0 \<and> locations w = L \<and>
     results w = results w0 + n \<and>
     conns w = (if ph = Open then next_conn w0 # conns w0 else conns w0) \<and>
     next_conn w = (if ph = Idle then next_conn w0 else Suc (next_conn w0)) \<and>
     (\<exists>qs. queried w = queried w0 @ map (Pair (next_conn w0)) qs \<and> (ph = Idle \<longrightarrow> qs = []) \<and>
        (\<forall>q \<in> set qs. length q < 2000))"

lemma session_start: "session w Idle 0 (locations w) w"
  by (simp add: session_def)

lemma session_pop [steps]:
  assumes "triple (session w0 Open n L) (f (next_conn w0)) Q"
  shows "triple (session w0 Idle n L) (abind (connection_pop env) f) Q"
proof (rule triple_bind)
  show "triple (session w0 Idle n L) (connection_pop env) (\<lambda>c w. c = next_conn w0 \<and> session w0 Open n L w)"
    by (rule tripleI)
      (auto simp: session_def connection_pop_def mysql_init_def mysql_real_connect_def report_connect_def
        mysql_error_def log_error_def rbind_eq_Inr split: prod.splits if_splits)
  fix c show "triple (\<lambda>w. c = next_conn w0 \<and> session w0 Open n L w) (f c) Q"
    using assms by (auto simp: triple_def)
qed

lemma session_push [steps]:
  assumes "triple (session w0 Shut n L) k Q"
  shows "triple (session w0 Open n L) (andthen (connection_push env (next_conn w0)) k) Q"
proof (rule triple_then)
  show "triple (session w0 Open n L) (connection_push env (next_conn w0)) (\<lambda>_. session w0 Shut n L)"
    by (rule tripleI) (auto simp: session_def connection_push_def)
qed (rule assms)

lemma session_query_raw:
  assumes "length q < 2000"
  shows "triple (session w0 Open n L) (mysql_query env (next_conn w0) q) (\<lambda>_. session w0 Open n L)"
proof (rule tripleI)
  fix w a w'
  assume s: "session w0 Open n L w" and e: "mysql_query env (next_conn w0) q w = Inr (a, w')"
  obtain qs where qs: "queried w = queried w0 @ map (Pair (next_conn w0)) qs" "\<forall>q \<in> set qs. length q < 2000"
    using s by (auto simp: session_def)
  have "queried w' = queried w0 @ map (Pair (next_conn w0)) (qs @ [q])"
    using e qs(1) by (auto simp: mysql_query_def split: prod.splits)
  moreover have "\<forall>q \<in> set (qs @ [q]). length q < 2000" using qs(2) assms by auto
  ultimately show "session w0 Open n L w'"
    using s e unfolding session_def
    by (intro conjI exI [of _ "qs @ [q]"]) (auto simp: mysql_query_def split: prod.splits)
qed

lemma session_query [steps]:
  assumes "length q < 2000" and "\<And>ok. triple (session w0 Open n L) (f ok) Q"
  shows "triple (session w0 Open n L) (abind (mysql_query env (next_conn w0) q) f) Q"
  using session_query_raw [OF assms(1)] assms(2) by (rule triple_bind)

lemma session_store [steps]:
  assumes "\<And>r. triple (session w0 ph (n + (if r = None then 0 else 1)) L) (f r) Q"
  shows "triple (session w0 ph n L) (abind (mysql_store_result env c) f) Q"
proof (rule triple_bind)
  show "triple (session w0 ph n L) (mysql_store_result env c)
      (\<lambda>r. session w0 ph (n + (if r = None then 0 else 1)) L)"
    by (rule tripleI) (auto simp: session_def mysql_store_result_def split: prod.splits)
qed (rule assms)

lemma session_free [steps]:
  assumes "triple (session w0 ph (n - (if r = None then 0 else 1)) L) k Q"
  shows "triple (session w0 ph n L) (andthen (mysql_free_result r) k) Q"
proof (rule triple_then)
  show "triple (session w0 ph n L) (mysql_free_result r)
      (\<lambda>_. session w0 ph (n - (if r = None then 0 else 1)) L)"
    by (rule tripleI) (auto simp: session_def mysql_free_result_def)
qed (rule assms)

lemma session_commit [steps]:
  assumes "triple (session w0 ph n L) k Q"
  shows "triple (session w0 ph n L) (andthen (mysql_commit env c) k) Q"
  by (rule triple_then [OF _ assms], rule tripleI) (auto simp: session_def mysql_commit_def)

lemma session_print [steps]:
  assumes "triple (session w0 ph n L) k Q"
  shows "triple (session w0 ph n L) (andthen (print s) k) Q"
  by (rule triple_then [OF _ assms], rule tripleI) (auto simp: session_def print_def)

lemma session_user [steps]:
  assumes "\<And>i. triple (session w0 Open n L) (f i) Q"
  shows "triple (session w0 Open n L) (abind (getUserIdx env (next_conn w0) token) f) Q"
proof (rule triple_bind)
  show "triple (session w0 Open n L) (getUserIdx env (next_conn w0) token) (\<lambda>_. session w0 Open n L)"
    unfolding getUserIdx_def by (intro steps triple_ret) (auto dest: fmt_length)
qed (rule assms)

lemma session_user_by_ID [steps]:
  assumes "\<And>i. i \<noteq> -1 \<Longrightarrow> triple (session w0 Open n L) (f i) Q"
    and "triple (session w0 Open n L) (f (-1)) Q" and "triple (session w0 Open (n + 1) L) (f (-1)) Q"
  shows "triple (session w0 Open n L) (abind (getUserIdxByID env (next_conn w0) token) f) Q"
proof (rule triple_bind)
  show "triple (session w0 Open n L) (getUserIdxByID env (next_conn w0) token)
     (\<lambda>i w. session w0 Open n L w \<or> i = -1 \<and> session w0 Open (n + 1) L w)"
    unfolding getUserIdxByID_def by (intro steps triple_ret) (auto dest: fmt_length)
  fix i
  show "triple (\<lambda>w. session w0 Open n L w \<or> i = -1 \<and> session w0 Open (n + 1) L w) (f i) Q"
    using assms by (cases "i = -1") (auto simp: triple_def)
qed

lemma session_attendance [steps]:
  assumes "triple (session w0 Open n L) k Q"
  shows "triple (session w0 Open n L) (andthen (attendance_check env (next_conn w0) u g) k) Q"
proof (rule triple_then)
  show "triple (session w0 Open n L) (attendance_check env (next_conn w0) u g) (\<lambda>_. session w0 Open n L)"
    unfolding attendance_check_def andthen_def by (intro steps triple_ret) (auto dest: fmt_length)
qed (rule assms)

lemma session_now [steps]:
  assumes "\<And>t. triple (session w0 ph n L) (f t) Q"
  shows "triple (session w0 ph n L) (abind (getNow env) f) Q"
proof (rule triple_bind)
  show "triple (session w0 ph n L) (getNow env) (\<lambda>_. session w0 ph n L)"
    by (rule tripleI) (auto simp: session_def getNow_def rmap_eq_Inr split: prod.splits)
qed (rule assms)

lemma session_rand:
  assumes "\<And>r. triple (session w0 ph n L) (f r) Q"
  shows "triple (session w0 ph n L) (abind (rand env) f) Q"
proof (rule triple_bind)
  show "triple (session w0 ph n L) (rand env) (\<lambda>_. session w0 ph n L)"
    by (rule tripleI) (auto simp: session_def rand_def split: prod.splits)
qed (rule assms)

lemma session_token_loop:
  "triple (session w0 ph n L) (create_token_loop env k i str) (\<lambda>_. session w0 ph n L)"
proof (induction k arbitrary: i str)
  case 0
  show ?case unfolding create_token_loop.simps by (rule triple_ret)
next
  case (Suc k)
  show ?case unfolding create_token_loop.simps by (intro session_rand steps Suc.IH)
qed

lemma session_token [steps]:
  assumes "\<And>t. triple (session w0 ph n L) (f t) Q"
  shows "triple (session w0 ph n L) (abind (create_token env str) f) Q"
  unfolding create_token_def using session_token_loop assms by (rule triple_bind)

lemma session_rows:
  "triple (session w0 ph n L) (write_rows item echo rs flag s) (\<lambda>_. session w0 ph n L)"
proof (induction rs arbitrary: flag s)
  case Nil
  show ?case unfolding write_rows.simps by (rule triple_ret)
next
  case (Cons r rs)
  have echo: "triple (session w0 ph n L)
      (if echo then abind (lift (c_string (st_buf t))) (\<lambda>b. print (b @ NL)) else ret ()) (\<lambda>_. session w0 ph n L)" for t
    by (intro steps triple_ret tripleI) (auto simp: session_def print_def)
  show ?case unfolding write_rows.simps
    by (intro triple_lift triple_then [OF echo] Cons.IH)
qed

lemma session_result [steps]:
  assumes "\<And>s. r \<noteq> None \<Longrightarrow> triple (session w0 ph n L) (f s) Q"
  shows "triple (session w0 ph n L) (abind (write_result item echo r) f) Q"
proof (cases r)
  case None
  then show ?thesis by (auto simp: triple_def write_result_def rbind_eq_Inr rmap_eq_Inr)
next
  case (Some rs)
  show ?thesis
  proof (rule triple_bind)
    show "triple (session w0 ph n L) (write_result item echo r) (\<lambda>_. session w0 ph n L)"
      unfolding write_result_def Some option.case
    proof (rule triple_lift, rule triple_bind [OF session_rows])
      fix s show "triple (session w0 ph n L) (lift (write_lit s '']'')) (\<lambda>_. session w0 ph n L)"
        by (rule tripleI) (auto simp: rmap_eq_Inr)
    qed
  qed (use assms Some in auto)
qed

text \<open>The shapes the handlers put around these operations.\<close>

lemma triple_ret_bind [steps]: "triple P (f x) Q \<Longrightarrow> triple P (abind (ret x) f) Q"
  by (auto simp: triple_def)

lemma triple_if_bind [steps]:
  "(b \<Longrightarrow> triple P (abind m f) Q) \<Longrightarrow> (\<not> b \<Longrightarrow> triple P (abind k f) Q) \<Longrightarrow>
   triple P (abind (if b then m else k) f) Q"
  by simp

lemma triple_assoc [steps]: "triple P (abind m (\<lambda>x. abind (f x) g)) Q \<Longrightarrow> triple P (abind (abind m f) g) Q"
  by (auto simp: triple_def rbind_eq_Inr split: prod.splits)

lemma triple_then_assoc [steps]: "triple P (andthen m (abind k g)) Q \<Longrightarrow> triple P (abind (andthen m k) g) Q"
  by (auto simp: triple_def rbind_eq_Inr split: prod.splits)

lemma session_error [steps]:
  assumes "\<And>e. triple (session w0 ph n L) (f e) Q"
  shows "triple (session w0 ph n L) (abind (mysql_error env c) f) Q"
  using assms by (auto simp: triple_def mysql_error_def)

lemma session_log [steps]:
  assumes "triple (session w0 ph n L) k Q"
  shows "triple (session w0 ph n L) (andthen (log_error s) k) Q"
  by (rule triple_then [OF _ assms], rule tripleI) (auto simp: session_def log_error_def)

lemma session_push_location [steps]:
  assumes "\<And>L'. push_location L num lat lon = Inr L' \<Longrightarrow> triple (session w0 ph n L') (f ()) Q"
  shows "triple (session w0 ph n L)
    (abind (\<lambda>w. rmap (\<lambda>d. ((), w\<lparr>locations := d\<rparr>)) (push_location (locations w) num lat lon)) f) Q"
proof (rule tripleI)
  fix w a w'
  assume s: "session w0 ph n L w"
    and e: "abind (\<lambda>w. rmap (\<lambda>d. ((), w\<lparr>locations := d\<rparr>)) (push_location (locations w) num lat lon)) f w = Inr (a, w')"
  obtain L' where L': "push_location L num lat lon = Inr L'" "f () (w\<lparr>locations := L'\<rparr>) = Inr (a, w')"
    using s e by (auto simp: session_def rbind_eq_Inr rmap_eq_Inr)
  have "session w0 ph n L' (w\<lparr>locations := L'\<rparr>)" using s by (simp add: session_def)
  then show "Q a w'" using tripleD [OF assms [OF L'(1)] _ L'(2)] by blast
qed

lemma session_pop_location [steps]:
  assumes "\<And>v. pop_location L u = Inr v \<Longrightarrow> triple (session w0 ph n L) (f v) Q"
  shows "triple (session w0 ph n L) (abind (\<lambda>w. rmap (\<lambda>v. (v, w)) (pop_location (locations w) u)) f) Q"
proof (rule tripleI)
  fix w a w'
  assume s: "session w0 ph n L w"
    and "abind (\<lambda>w. rmap (\<lambda>v. (v, w)) (pop_location (locations w) u)) f w = Inr (a, w')"
  then obtain v where "pop_location L u = Inr v" "f v w = Inr (a, w')"
    by (auto simp: session_def rbind_eq_Inr rmap_eq_Inr)
  then show "Q a w'" using tripleD [OF assms s] by blast
qed

lemma triple_option_bind [steps]:
  "(x = None \<Longrightarrow> triple P (abind m f) Q) \<Longrightarrow> (\<And>y. x = Some y \<Longrightarrow> triple P (abind (k y) f) Q) \<Longrightarrow>
   triple P (abind (case x of None \<Rightarrow> m | Some y \<Rightarrow> k y) f) Q"
  by (cases x) simp_all

section \<open>The contract\<close>

definition reason :: "int \<Rightarrow> string" where
  "reason code = (if code = 200 then ''OK'' else ''Internal Server Error'')"

text \<open>
  The outcome of a handler: the list of locations before, the phase its connection ends in,
  the number of result sets it leaves allocated, the list of locations after, the status
  code and the body.
\<close>

type_synonym outcome = "dic \<Rightarrow> phase \<Rightarrow> int \<Rightarrow> dic \<Rightarrow> int \<Rightarrow> string \<Rightarrow> bool"

definition handled :: "int \<Rightarrow> request \<Rightarrow> outcome \<Rightarrow> 'w world \<Rightarrow> 'w world \<Rightarrow> bool" where
  "handled fd req out w0 w \<longleftrightarrow>
     (\<exists>ph n L code body v. session w0 ph n L v \<and>
        w = answer fd (response_bytes code (reason code) (req_version req) [] body) v \<and>
        out (locations w0) ph n L code body)"

lemma handled_response:
  assumes "out (locations w0) ph n L code body" and "msg = reason code" and "version = req_version req"
  shows "triple (session w0 ph n L) (response fd code msg version None (Some body)) (\<lambda>_. handled fd req out w0)"
proof (rule tripleI)
  fix w a w'
  assume "session w0 ph n L w" and "response fd code msg version None (Some body) w = Inr (a, w')"
  moreover from this(2) have "w' = answer fd (response_bytes code (reason code) (req_version req) [] body) w"
    by (simp add: assms)
  ultimately show "handled fd req out w0 w'" using assms(1) unfolding handled_def by blast
qed

lemma handled_reply [steps]:
  "out (locations w0) ph n L 200 body \<Longrightarrow>
   triple (session w0 ph n L) (reply_ok fd req body) (\<lambda>_. handled fd req out w0)"
  unfolding reply_ok_def by (rule handled_response) (simp_all add: reason_def)

lemma handled_missing [steps]:
  "out (locations w0) ph n L 500 ''missing parameters'' \<Longrightarrow>
   triple (session w0 ph n L) (missing_parameters fd req) (\<lambda>_. handled fd req out w0)"
  unfolding missing_parameters_def by (rule handled_response) (simp_all add: reason_def)

lemma handled_error [steps]:
  assumes "out (locations w0) ph n L 500 ''server error''"
  shows "triple (session w0 ph n L) (server_errer env fd req c) (\<lambda>_. handled fd req out w0)"
  unfolding server_errer_def
proof (rule triple_bind)
  show "triple (session w0 ph n L) (mysql_error env c) (\<lambda>_. session w0 ph n L)"
    by (rule tripleI) (auto simp: mysql_error_def)
  fix e
  show "triple (session w0 ph n L) (andthen (log_error (''Mysql query error : '' @ e @ NL))
      (response fd 500 ''Internal Server Error'' (req_version req) None (Some ''server error'')))
      (\<lambda>_. handled fd req out w0)"
  proof (rule triple_then)
    show "triple (session w0 ph n L) (log_error (''Mysql query error : '' @ e @ NL)) (\<lambda>_. session w0 ph n L)"
      by (rule tripleI) (auto simp: session_def log_error_def)
  qed (rule handled_response, simp_all add: assms reason_def)
qed

text \<open>
  The three outcomes of a handler that closes what it opens, except after an SQL error; the
  others deviate from them in one place each.
\<close>

definition standard :: outcome where
  "standard L0 ph n L code body \<longleftrightarrow> L = L0 \<and> n = 0 \<and>
     (ph = Idle \<and> code = 500 \<and> body = ''missing parameters'' \<or>
      ph = Open \<and> code = 500 \<and> body = ''server error'' \<or>
      ph = Shut \<and> code = 200)"

definition signup_outcome :: outcome where
  "signup_outcome L0 ph n L code body \<longleftrightarrow> L = L0 \<and> n = 0 \<and>
     (ph = Idle \<and> code = 500 \<and> body = ''missing parameters'' \<or>
      ph = Open \<and> code = 200 \<and> body = json_status ''ERROR'' \<or>
      ph = Shut \<and> code = 200 \<and> body = json_status ''OK'')"

definition login_outcome :: outcome where
  "login_outcome L0 ph n L code body \<longleftrightarrow> L = L0 \<and>
     (ph = Idle \<and> n = 0 \<and> code = 500 \<and> body = ''missing parameters'' \<or>
      ph = Open \<and> (n = 0 \<or> n = 1) \<and> code = 500 \<and> body = ''server error'' \<or>
      ph = Shut \<and> n = 0 \<and> code = 200)"

definition join_outcome :: outcome where
  "join_outcome L0 ph n L code body \<longleftrightarrow> L = L0 \<and>
     (ph = Idle \<and> n = 0 \<and> code = 500 \<and> body = ''missing parameters'' \<or>
      ph = Open \<and> (n = 0 \<or> n = 1) \<and> code = 500 \<and> body = ''server error'' \<or>
      ph = Open \<and> (n = 0 \<or> n = 1) \<and> code = 200 \<and>
        (body = json_status ''NONE'' \<or> n = 0 \<and> (body = json_status ''ERROR'' \<or> body = json_status ''OK'')))"

definition post_location_outcome :: "request \<Rightarrow> outcome" where
  "post_location_outcome req L0 ph n L code body \<longleftrightarrow> n = 0 \<and>
     (ph = Idle \<and> L = L0 \<and> code = 500 \<and> body = ''missing parameters'' \<or>
      ph = Shut \<and> code = 200 \<and> body = json_status ''OK'' \<and>
      (\<exists>i lat lon. find_value (req_parameter req) ''latitude'' = Inr (Some lat) \<and>
         find_value (req_parameter req) ''longitude'' = Inr (Some lon) \<and>
         push_location L0 (dec i) lat lon = Inr L))"

definition get_location_outcome :: outcome where
  "get_location_outcome L0 ph n L code body \<longleftrightarrow> L = L0 \<and> n = 0 \<and> ph = Idle \<and>
     (code = 500 \<and> body = ''missing parameters'' \<or> code = 200)"

lemmas outcome_defs = standard_def signup_outcome_def login_outcome_def join_outcome_def
  post_location_outcome_def get_location_outcome_def

end
