(* ===== verification/Handlers_Keep.thy ===== *)
theory Handlers_Keep
  imports Handler_Contract
begin

text \<open>
  The locale \<open>request_handler\<close>, its consequences, and its interpretation on every handler;
  from these, the contract of \<open>dispatch\<close> and of \<open>http_thread\<close>.
\<close>

section \<open>What the contract gives\<close>

lemma handled_answer:
  assumes "handled fd req out w w'" and "\<And>L0 ph n L code body. out L0 ph n L code body \<Longrightarrow> code = 200 \<or> code = 500"
  shows "\<exists>code body. (code = 200 \<or> code = 500) \<and>
    sent w' = (sent w)(fd := sent w fd @ response_bytes code (reason code) (req_version req) [] body)"
proof -
  obtain ph n L code body v where v: "session w ph n L v" "out (locations w) ph n L code body"
    "w' = answer fd (response_bytes code (reason code) (req_version req) [] body) v"
    using assms(1) unfolding handled_def by blast
  have "sent v = sent w" using v(1) by (simp add: session_def)
  then show ?thesis using assms(2) [OF v(2)] v(3) by (intro exI [of _ code] exI [of _ body]) simp
qed

section \<open>The interface\<close>

locale request_handler =
  fixes handler :: "'w env \<Rightarrow> int \<Rightarrow> request \<Rightarrow> ('w, unit) act"
    and out :: "request \<Rightarrow> outcome"
  assumes contract: "triple (session w0 Idle 0 (locations w0)) (handler env fd req)
      (\<lambda>_. handled fd req (out req) w0)"
    and codes: "out req L0 ph n L code body \<Longrightarrow> code = 200 \<or> code = 500"
begin

lemma returns: "handler env fd req w = Inr (u, w') \<Longrightarrow> handled fd req (out req) w w'"
  using contract session_start by (rule tripleD)

lemma one_answer:
  assumes "handler env fd req w = Inr (u, w')"
  shows "\<exists>code body. (code = 200 \<or> code = 500) \<and>
    sent w' = (sent w)(fd := sent w fd @ response_bytes code (reason code) (req_version req) [] body)"
  using returns [OF assms] codes by (rule handled_answer)

lemma statements_fit:
  assumes "handler env fd req w = Inr (u, w')"
  shows "\<exists>qs. queried w' = queried w @ map (Pair (next_conn w)) qs \<and> (\<forall>q \<in> set qs. length q < 2000)"
  using returns [OF assms] by (auto simp: handled_def session_def)

lemma handles_bounded:
  assumes "handler env fd req w = Inr (u, w')"
  shows "conns w' = conns w \<or> conns w' = next_conn w # conns w"
  using returns [OF assms] by (auto simp: handled_def session_def)

end

section \<open>The handlers\<close>

lemma fmt_length_2000:
  "fmt 256 s = Inr t \<Longrightarrow> length t < 2000" "fmt 2000 s = Inr t \<Longrightarrow> length t < 2000"
  by (auto dest: fmt_length)

lemma fmt_json_status: "fmt n (json_status s) = Inr t \<Longrightarrow> NUL \<notin> set s \<Longrightarrow> t = json_status s"
  by (auto dest!: fmt_text simp: json_status_def json_field_def quoted_def takeWhile_eq_all_conv
      simp del: takeWhile_append)

lemma fmt_dec: "fmt n (dec i) = Inr t \<Longrightarrow> t = dec i"
  using dec_no_nul [of i] by (auto dest!: fmt_text simp: takeWhile_eq_all_conv)

lemma status_ok_body: "status_ok_body = json_status ''OK''"
  by (simp add: status_ok_body_def json_status_def)

lemmas handler_facts = outcome_defs status_ok_body

interpretation signup_h: request_handler signup "\<lambda>req. signup_outcome"
proof unfold_locales
  fix w0 :: "'w world" and env fd req
  show "triple (session w0 Idle 0 (locations w0)) (signup env fd req)
      (\<lambda>_. handled fd req signup_outcome w0)"
    unfolding signup_def 
    by (intro steps) (auto simp: handler_facts dest: fmt_length_2000 fmt_json_status)
qed (auto simp: outcome_defs)

interpretation login_h: request_handler login "\<lambda>req. login_outcome"
proof unfold_locales
  fix w0 :: "'w world" and env fd req
  show "triple (session w0 Idle 0 (locations w0)) (login env fd req)
      (\<lambda>_. handled fd req login_outcome w0)"
    unfolding login_def login_accept_def login_finish_def
    by (intro steps) (auto simp: handler_facts dest: fmt_length_2000 fmt_json_status)
qed (auto simp: outcome_defs)

interpretation create_group_h: request_handler create_group "\<lambda>req. standard"
proof unfold_locales
  fix w0 :: "'w world" and env fd req
  show "triple (session w0 Idle 0 (locations w0)) (create_group env fd req)
      (\<lambda>_. handled fd req standard w0)"
    unfolding create_group_def 
    by (intro steps) (auto simp: handler_facts dest: fmt_length_2000 fmt_json_status)
qed (auto simp: outcome_defs)

interpretation group_list_h: request_handler group_list "\<lambda>req. standard"
proof unfold_locales
  fix w0 :: "'w world" and env fd req
  show "triple (session w0 Idle 0 (locations w0)) (group_list env fd req)
      (\<lambda>_. handled fd req standard w0)"
    unfolding group_list_def list_reply_def
    by (intro steps) (auto simp: handler_facts dest: fmt_length_2000 fmt_json_status)
qed (auto simp: outcome_defs)

interpretation join_group_h: request_handler join_group "\<lambda>req. join_outcome"
proof unfold_locales
  fix w0 :: "'w world" and env fd req
  show "triple (session w0 Idle 0 (locations w0)) (join_group env fd req)
      (\<lambda>_. handled fd req join_outcome w0)"
    unfolding join_group_def join_reply_def
    by (intro steps) (auto simp: handler_facts dest: fmt_length_2000 fmt_json_status)
qed (auto simp: outcome_defs)

interpretation get_todolist_h: request_handler get_todolist "\<lambda>req. standard"
proof unfold_locales
  fix w0 :: "'w world" and env fd req
  show "triple (session w0 Idle 0 (locations w0)) (get_todolist env fd req)
      (\<lambda>_. handled fd req standard w0)"
    unfolding get_todolist_def list_reply_def
    by (intro steps) (auto simp: handler_facts dest: fmt_length_2000 fmt_json_status)
qed (auto simp: outcome_defs)

interpretation post_todolist_h: request_handler post_todolist "\<lambda>req. standard"
proof unfold_locales
  fix w0 :: "'w world" and env fd req
  show "triple (session w0 Idle 0 (locations w0)) (post_todolist env fd req)
      (\<lambda>_. handled fd req standard w0)"
    unfolding post_todolist_def 
    by (intro steps) (auto simp: handler_facts dest: fmt_length_2000 fmt_json_status)
qed (auto simp: outcome_defs)

interpretation get_progress_h: request_handler get_progress "\<lambda>req. standard"
proof unfold_locales
  fix w0 :: "'w world" and env fd req
  show "triple (session w0 Idle 0 (locations w0)) (get_progress env fd req)
      (\<lambda>_. handled fd req standard w0)"
    unfolding get_progress_def 
    by (intro steps) (auto simp: handler_facts dest: fmt_length_2000 fmt_json_status)
qed (auto simp: outcome_defs)

interpretation post_progress_h: request_handler post_progress "\<lambda>req. standard"
proof unfold_locales
  fix w0 :: "'w world" and env fd req
  show "triple (session w0 Idle 0 (locations w0)) (post_progress env fd req)
      (\<lambda>_. handled fd req standard w0)"
    unfolding post_progress_def 
    by (intro steps) (auto simp: handler_facts dest: fmt_length_2000 fmt_json_status)
qed (auto simp: outcome_defs)

interpretation create_chat_h: request_handler create_chat "\<lambda>req. standard"
proof unfold_locales
  fix w0 :: "'w world" and env fd req
  show "triple (session w0 Idle 0 (locations w0)) (create_chat env fd req)
      (\<lambda>_. handled fd req standard w0)"
    unfolding create_chat_def 
    by (intro steps) (auto simp: handler_facts dest: fmt_length_2000 fmt_json_status)
qed (auto simp: outcome_defs)

interpretation get_chatlist_h: request_handler get_chatlist "\<lambda>req. standard"
proof unfold_locales
  fix w0 :: "'w world" and env fd req
  show "triple (session w0 Idle 0 (locations w0)) (get_chatlist env fd req)
      (\<lambda>_. handled fd req standard w0)"
    unfolding get_chatlist_def list_reply_def
    by (intro steps) (auto simp: handler_facts dest: fmt_length_2000 fmt_json_status)
qed (auto simp: outcome_defs)

interpretation post_location_h: request_handler post_location post_location_outcome
proof unfold_locales
  fix w0 :: "'w world" and env fd req
  show "triple (session w0 Idle 0 (locations w0)) (post_location env fd req)
      (\<lambda>_. handled fd req (post_location_outcome req) w0)"
    unfolding post_location_def
    by (intro steps) (auto simp: handler_facts dest: fmt_length_2000 fmt_json_status dest!: fmt_dec)
qed (auto simp: outcome_defs)

interpretation get_location_h: request_handler get_location "\<lambda>req. get_location_outcome"
proof unfold_locales
  fix w0 :: "'w world" and env fd req
  show "triple (session w0 Idle 0 (locations w0)) (get_location env fd req)
      (\<lambda>_. handled fd req get_location_outcome w0)"
    unfolding get_location_def Let_def
    by (intro steps) (auto simp: handler_facts dest: fmt_length_2000 fmt_json_status)
qed (auto simp: outcome_defs)

section \<open>The thread of a connection\<close>

text \<open>The outcome of a whole request, for any target.\<close>

definition target_outcome :: "target \<Rightarrow> request \<Rightarrow> outcome" where
  "target_outcome t req =
     (case t of
        To_login \<Rightarrow> login_outcome | To_signup \<Rightarrow> signup_outcome | To_join_group \<Rightarrow> join_outcome
      | To_post_location \<Rightarrow> post_location_outcome req | To_get_location \<Rightarrow> get_location_outcome
      | _ \<Rightarrow> standard)"

definition is_handler :: "target \<Rightarrow> bool" where
  "is_handler t \<longleftrightarrow> t \<noteq> Unanswered \<and> t \<noteq> Not_Found"

lemmas handlers_return = signup_h.returns login_h.returns create_group_h.returns group_list_h.returns join_group_h.returns get_todolist_h.returns post_todolist_h.returns get_progress_h.returns post_progress_h.returns create_chat_h.returns get_chatlist_h.returns post_location_h.returns get_location_h.returns

lemma run_target_handled:
  assumes "is_handler t" and "run_target t env fd req w = Inr (u, w')"
  shows "handled fd req (target_outcome t req) w w'"
  using assms by (cases t) (auto simp: is_handler_def target_outcome_def dest: handlers_return)

lemma target_outcome_codes:
  "target_outcome t req L0 ph n L code body \<Longrightarrow> code = 200 \<or> code = 500"
  by (cases t) (auto simp: target_outcome_def outcome_defs)

text \<open>
  What the handlers have in common, for a request that has a target: the answer, the
  statements, the connection.
\<close>

lemma run_target_answer:
  assumes "run_target t env fd req w = Inr (u, w')"
  shows "if t = Unanswered then w' = w
    else \<exists>code msg body. (code, msg) \<in> {(200, ''OK''), (404, ''Not Found''), (500, ''Internal Server Error'')} \<and>
      sent w' = (sent w)(fd := sent w fd @ response_bytes code msg (req_version req) [] body)"
proof (cases "is_handler t")
  case True
  have h: "\<exists>code body. (code = 200 \<or> code = 500) \<and>
    sent w' = (sent w)(fd := sent w fd @ response_bytes code (reason code) (req_version req) [] body)"
    by (rule handled_answer [OF run_target_handled [OF True assms]]) (rule target_outcome_codes)
  obtain code body where c: "code = 200 \<or> code = 500" and
    s: "sent w' = (sent w)(fd := sent w fd @ response_bytes code (reason code) (req_version req) [] body)"
    using h by (elim exE conjE) (rule that)
  have "(code, reason code) \<in> {(200, ''OK''), (404, ''Not Found''), (500, ''Internal Server Error'')}"
    using c by (elim disjE) (simp_all add: reason_def)
  moreover have t: "t \<noteq> Unanswered" using True by (simp add: is_handler_def)
  ultimately show ?thesis unfolding if_not_P [OF t] by (intro exI conjI) (assumption, rule s)
next
  case False
  then consider "t = Unanswered" | "t = Not_Found" by (auto simp: is_handler_def)
  then show ?thesis
  proof cases
    case 2
    then have "w' = answer fd (response_bytes 404 ''Not Found'' (req_version req) [] ''404 Not Found'') w"
      using assms by simp
    then have "sent w' = (sent w)(fd := sent w fd @
        response_bytes 404 ''Not Found'' (req_version req) [] ''404 Not Found'')"
      by (simp only: answer_sel)
    moreover have "t \<noteq> Unanswered" using 2 by simp
    ultimately show ?thesis unfolding if_not_P [OF \<open>t \<noteq> Unanswered\<close>] by blast
  qed (use assms in \<open>simp add: ret_def\<close>)
qed

lemma run_target_frame:
  assumes "run_target t env fd req w = Inr (u, w')"
  shows "closed w' = closed w" "conns w' = conns w \<or> conns w' = next_conn w # conns w"
    "results w \<le> results w'" "results w' \<le> results w + 1"
    "t \<noteq> To_post_location \<Longrightarrow> locations w' = locations w"
    "\<exists>qs. queried w' = queried w @ map (Pair (next_conn w)) qs \<and> (\<forall>q \<in> set qs. length q < 2000)"
    "memory w' = memory w"
proof -
  have *: "closed w' = closed w \<and> (conns w' = conns w \<or> conns w' = next_conn w # conns w) \<and>
    results w \<le> results w' \<and> results w' \<le> results w + 1 \<and>
    (t \<noteq> To_post_location \<longrightarrow> locations w' = locations w) \<and>
    (\<exists>qs. queried w' = queried w @ map (Pair (next_conn w)) qs \<and> (\<forall>q \<in> set qs. length q < 2000)) \<and>
    memory w' = memory w"
  proof (cases "is_handler t")
    case True
    from run_target_handled [OF this assms] obtain ph n L code body v where v: "session w ph n L v"
      "target_outcome t req (locations w) ph n L code body"
      "w' = answer fd (response_bytes code (reason code) (req_version req) [] body) v"
      unfolding handled_def by blast
    have "0 \<le> n" "n \<le> 1" "t \<noteq> To_post_location \<Longrightarrow> L = locations w"
      using v(2) by (cases t; auto simp: target_outcome_def outcome_defs)+
    then show ?thesis using v(1) unfolding v(3) session_def answer_sel by (auto split: if_splits)
  next
    case False
    then show ?thesis using assms by (auto simp: is_handler_def)
  qed
  then show "closed w' = closed w" "conns w' = conns w \<or> conns w' = next_conn w # conns w"
    "results w \<le> results w'" "results w' \<le> results w + 1"
    "t \<noteq> To_post_location \<Longrightarrow> locations w' = locations w"
    "\<exists>qs. queried w' = queried w @ map (Pair (next_conn w)) qs \<and> (\<forall>q \<in> set qs. length q < 2000)"
    "memory w' = memory w"
    by blast+
qed

text \<open>The thread: parse, print, dispatch, clear, close.\<close>

lemma http_thread_run:
  assumes "http_thread env regex_compile fd w = Inr (u, w')"
  obtains req info m h v m' where "parse_request fd (incoming w fd) = Inr req" and "print_request_info req = Inr info"
    and "build_request (memory w) (req_method req) (req_path req) (req_version req) (req_header req)
      (req_body req) (req_parameter req) = Inr (m, h)"
    and "run_target (target_of (req_method req) (req_path req)) env fd req
      (w\<lparr>memory := m, printed := printed w @ info\<rparr>) = Inr ((), v)"
    and "clear_requset m h = Some (Inr m')" and "w' = v\<lparr>memory := m', closed := closed v @ [fd]\<rparr>"
proof -
  obtain req info m h v where r: "parse_request fd (incoming w fd) = Inr req" "print_request_info req = Inr info"
    "build_request (memory w) (req_method req) (req_path req) (req_version req) (req_header req)
      (req_body req) (req_parameter req) = Inr (m, h)"
    "run_target (target_of (req_method req) (req_path req)) env fd req
      (w\<lparr>memory := m, printed := printed w @ info\<rparr>) = Inr ((), v)"
    "rbind (free_request h v) (\<lambda>(x, w). close_fd fd w) = Inr (u, w')"
    using assms
    by (auto simp: http_thread_def keep_request_def rbind_eq_Inr rmap_eq_Inr dispatch_target print_def)
  have "memory v = m" using run_target_frame(7) [OF r(4)] by simp
  then obtain m' where "clear_requset m h = Some (Inr m')" "w' = v\<lparr>memory := m', closed := closed v @ [fd]\<rparr>"
    using r(5) by (auto simp: free_request_def close_fd_def rbind_eq_Inr rmap_eq_Inr split: option.splits)
  then show ?thesis using that r by blast
qed

text \<open>The memory of the request is given back.\<close>

lemma http_thread_memory:
  assumes "http_thread env regex_compile fd w = Inr (u, w')" and "mem_ok (memory w)"
  shows "mem_ok (memory w')" "cells (memory w') = cells (memory w)"
proof -
  obtain req info m h v m' where "parse_request fd (incoming w fd) = Inr req" "print_request_info req = Inr info"
    and b: "build_request (memory w) (req_method req) (req_path req) (req_version req) (req_header req)
      (req_body req) (req_parameter req) = Inr (m, h)"
    and "run_target (target_of (req_method req) (req_path req)) env fd req
      (w\<lparr>memory := m, printed := printed w @ info\<rparr>) = Inr ((), v)"
    and c: "clear_requset m h = Some (Inr m')" and w: "w' = v\<lparr>memory := m', closed := closed v @ [fd]\<rparr>"
    using assms(1) by (rule http_thread_run)
  have w': "memory w' = m'" using w by simp
  show "mem_ok (memory w')" "cells (memory w') = cells (memory w)"
    using build_clear_request [OF assms(2), of "req_method req" "req_path req" "req_version req" "req_header req"
      "req_body req" "req_parameter req"] b c w' by auto
qed

end
