(* ===== verification/Handler_Runs.thy ===== *)
theory Handler_Runs
  imports Handlers_Keep
begin

text \<open>
  What the handlers compute when the database answers: the runs that return, with their
  answers, and the runs that end in a fault. The database's answers are hypotheses on the
  fields of \<open>env\<close>; the scripted server at the end is an \<open>env\<close> for concrete runs.
\<close>

section \<open>Asking the database\<close>

text \<open>A statement that succeeds and whose result set is stored; one that only succeeds.\<close>

definition asked :: "'w env \<Rightarrow> nat \<Rightarrow> string \<Rightarrow> 'w \<Rightarrow> rows option \<Rightarrow> 'w \<Rightarrow> bool" where
  "asked env c q out rs out' \<longleftrightarrow> (\<exists>o1. db_query env c q out = (True, o1) \<and> db_store env c o1 = (rs, out'))"

definition user_is :: "'w env \<Rightarrow> nat \<Rightarrow> string \<Rightarrow> 'w \<Rightarrow> int \<Rightarrow> 'w \<Rightarrow> bool" where
  "user_is env c token out i out' \<longleftrightarrow> length (token_query token) < 256 \<and> NUL \<notin> set token \<and>
     (\<exists>d row rs. asked env c (token_query token) out (Some ((Some d # row) # rs)) out' \<and>
        NUL \<notin> set d \<and> atoi d = Inr i)"

definition connected :: "'w env \<Rightarrow> 'w world \<Rightarrow> 'w" where
  "connected env w = snd (db_connect env (next_conn w) (outside w))"

lemma takeWhile_no_nul [simp]: "NUL \<notin> set s \<Longrightarrow> takeWhile (\<lambda>c. c \<noteq> NUL) s = s"
  by (auto simp: takeWhile_eq_all_conv)

text \<open>The world after \<open>connection_pop\<close>.\<close>

definition popped :: "'w env \<Rightarrow> 'w world \<Rightarrow> 'w world" where
  "popped env w = w\<lparr>outside := connected env w, conns := next_conn w # conns w,
     next_conn := Suc (next_conn w),
     logged := logged w @ (if fst (db_connect env (next_conn w) (outside w)) then []
       else ''Mysql connection error : '' @ db_error env (next_conn w) (connected env w) @ NL)\<rparr>"

lemma connection_pop_run: "connection_pop env w = Inr (next_conn w, popped env w)"
  by (cases "db_connect env (next_conn w) (outside w)")
    (auto simp: connection_pop_def mysql_init_def mysql_real_connect_def report_connect_def
        mysql_error_def log_error_def connected_def popped_def)

lemma popped_sel [simp]:
  "outside (popped env w) = connected env w" "sent (popped env w) = sent w"
  "conns (popped env w) = next_conn w # conns w" "next_conn (popped env w) = Suc (next_conn w)"
  "queried (popped env w) = queried w" "results (popped env w) = results w"
  "locations (popped env w) = locations w" "closed (popped env w) = closed w"
  "incoming (popped env w) = incoming w"
  by (simp_all add: popped_def)

lemma token_query_no_nul: "NUL \<notin> set token \<Longrightarrow> NUL \<notin> set (token_query token)"
  by (simp add: token_query_def sq_def)

lemma getUserIdx_run:
  assumes "user_is env c token (outside w) i out'"
  shows "getUserIdx env c token w =
    Inr (i, w\<lparr>outside := out', queried := queried w @ [(c, token_query token)]\<rparr>)"
  using assms token_query_no_nul [of token]
  by (auto simp: user_is_def asked_def getUserIdx_def mysql_query_def mysql_store_result_def
      mysql_free_result_def text_column_def column_def)

text \<open>A token that is not in the table: the row is NULL, and it is read.\<close>

lemma getUserIdx_no_row:
  assumes "length (token_query token) < 256" and "NUL \<notin> set token"
    and "asked env c (token_query token) (outside w) (Some []) out'"
  shows "getUserIdx env c token w = Inl Null_Deref"
  using assms token_query_no_nul [of token]
  by (auto simp: asked_def getUserIdx_def mysql_query_def mysql_store_result_def text_column_def column_def)

section \<open>The lists\<close>

fun joined :: "bool \<Rightarrow> string list \<Rightarrow> string" where
  "joined comma [] = []"
| "joined comma (x # xs) = (if comma then '','' else []) @ x @ joined True xs"

definition json_array :: "string list \<Rightarrow> string" where
  "json_array items = ''['' @ joined False items @ '']''"

text \<open>What an item must be for the array of 100 characters to hold it.\<close>

definition items_ok :: "(row \<Rightarrow> string res) \<Rightarrow> (row \<Rightarrow> string) \<Rightarrow> rows \<Rightarrow> bool" where
  "items_ok item f rs \<longleftrightarrow> (\<forall>r \<in> set rs. item r = Inr (f r) \<and> NUL \<notin> set (f r) \<and> length (f r) < 100)"

lemma write_rows_run:
  assumes "ws_ok s t" and "items_ok item f rs" and "length t + length (joined flag (map f rs)) \<le> LINE_MAX"
  shows "\<exists>s' pr. write_rows item echo rs flag s w = Inr (s', w\<lparr>printed := printed w @ pr\<rparr>) \<and>
    ws_ok s' (t @ joined flag (map f rs)) \<and> (\<not> echo \<longrightarrow> pr = [])"
  using assms
proof (induction rs arbitrary: s t flag w)
  case Nil
  then show ?case by (auto intro!: exI [of _ "[]"])
next
  case (Cons r rs)
  have it: "item r = Inr (f r)" "NUL \<notin> set (f r)" "length (f r) < 100" "items_ok item f rs"
    using Cons.prems(2) by (simp_all add: items_ok_def)
  obtain s1 where s1: "(if flag then write_lit s '','' else Inr s) = Inr s1"
    "ws_ok s1 (t @ (if flag then '','' else []))"
    using writer.append_holds [OF Cons.prems(1), of "'',''"] Cons.prems(1,3) by (cases flag) auto
  obtain s2 where s2: "write_lit s1 (f r) = Inr s2" "ws_ok s2 (t @ (if flag then '','' else []) @ f r)"
    "c_string (st_buf s2) = Inr (t @ (if flag then '','' else []) @ f r)"
    using writer.append_holds [OF s1(2) it(2)] Cons.prems(3) by (auto split: if_splits)
  define pr where "pr = (if echo then t @ (if flag then '','' else []) @ f r @ NL else [])"
  obtain s3 pr' where s3: "write_rows item echo rs True s2 (w\<lparr>printed := printed w @ pr\<rparr>) =
      Inr (s3, w\<lparr>printed := (printed w @ pr) @ pr'\<rparr>)"
    "ws_ok s3 ((t @ (if flag then '','' else []) @ f r) @ joined True (map f rs))" "\<not> echo \<longrightarrow> pr' = []"
    using Cons.IH [OF s2(2) it(4), of True "w\<lparr>printed := printed w @ pr\<rparr>"] Cons.prems(3)
    by (auto split: if_splits)
  have "(if echo then abind (lift (c_string (st_buf s2))) (\<lambda>b. print (b @ NL)) else ret ()) w =
      Inr ((), w\<lparr>printed := printed w @ pr\<rparr>)"
    using s2(3) by (auto simp: print_def pr_def)
  then have "write_rows item echo (r # rs) flag s w = Inr (s3, w\<lparr>printed := printed w @ pr @ pr'\<rparr>)"
    using s3(1) by (simp add: s1(1) it(1-3) s2(1))
  moreover have "\<not> echo \<longrightarrow> pr @ pr' = []" using s3(3) by (simp add: pr_def)
  ultimately show ?case using s3(2) by (intro exI [of _ s3] exI [of _ "pr @ pr'"]) (auto split: if_splits)
qed

lemma write_result_run:
  assumes "items_ok item f rs" and "length (json_array (map f rs)) \<le> LINE_MAX"
  shows "\<exists>s pr. write_result item echo (Some rs) w = Inr (s, w\<lparr>printed := printed w @ pr\<rparr>) \<and>
    c_string (st_buf s) = Inr (json_array (map f rs)) \<and> stream_destory s = Inr () \<and> (\<not> echo \<longrightarrow> pr = [])"
proof -
  obtain s1 where s1: "write_lit stream_write_init ''['' = Inr s1" "ws_ok s1 ''[''"
    using writer.append_holds [OF writer.start_holds, of "''[''"] assms(2) by (auto simp: json_array_def)
  obtain s2 pr where s2: "write_rows item echo rs False s1 w = Inr (s2, w\<lparr>printed := printed w @ pr\<rparr>)"
    "ws_ok s2 (''['' @ joined False (map f rs))" "\<not> echo \<longrightarrow> pr = []"
  proof -
    have "length ''['' + length (joined False (map f rs)) \<le> LINE_MAX" using assms(2) by (simp add: json_array_def)
    then show ?thesis using write_rows_run [OF s1(2) assms(1)] that by blast
  qed
  obtain s3 where "write_lit s2 '']'' = Inr s3" "c_string (st_buf s3) = Inr (json_array (map f rs))"
      "stream_destory s3 = Inr ()"
    using writer.append_holds [OF s2(2), of "'']''"] assms(2) by (auto simp: json_array_def dest: destory_writer)
  then show ?thesis using s2(1,3) by (auto simp: write_result_def s1(1))
qed

text \<open>The reply of the three list handlers when the statement is answered with rows.\<close>

lemma list_reply_run:
  assumes "asked env c q (outside w) (Some rs) out'" and "items_ok item f rs"
    and "length (json_array (map f rs)) \<le> LINE_MAX" and "c \<in> set (conns w)"
  shows "\<exists>w'. list_reply env fd req c q item echo w = Inr ((), w') \<and>
    sent w' = (sent w)(fd := sent w fd @ response_bytes 200 ''OK'' (req_version req) [] (json_array (map f rs))) \<and>
    queried w' = queried w @ [(c, q)] \<and> conns w' = remove1 c (conns w) \<and> results w' = results w"
proof -
  obtain o1 where o1: "db_query env c q (outside w) = (True, o1)" "db_store env c o1 = (Some rs, out')"
    using assms(1) by (auto simp: asked_def)
  define w1 where "w1 = w\<lparr>queried := queried w @ [(c, q)], outside := out', results := results w + 1\<rparr>"
  obtain s pr where s: "write_result item echo (Some rs) w1 = Inr (s, w1\<lparr>printed := printed w1 @ pr\<rparr>)"
    "c_string (st_buf s) = Inr (json_array (map f rs))" "stream_destory s = Inr ()"
    using write_result_run [OF assms(2,3), of echo w1] by blast
  then show ?thesis
    by (simp add: list_reply_def mysql_query_def mysql_store_result_def o1 w1_def mysql_free_result_def
        connection_push_def reply_ok_def assms(4))
qed

section \<open>Runs of the handlers\<close>

definition authorised :: "'w env \<Rightarrow> 'w world \<Rightarrow> string \<Rightarrow> int \<Rightarrow> 'w \<Rightarrow> bool" where
  "authorised env w token i out' \<longleftrightarrow> user_is env (next_conn w) token (connected env w) i out' \<and> i \<noteq> -1"

text \<open>The world of a handler that has its connection and its user.\<close>

definition known :: "'w env \<Rightarrow> 'w world \<Rightarrow> string \<Rightarrow> 'w \<Rightarrow> 'w world" where
  "known env w token out' = (popped env w)\<lparr>outside := out',
     queried := queried w @ [(next_conn w, token_query token)]\<rparr>"

lemma known_run:
  assumes "user_is env (next_conn w) token (connected env w) i out'"
  shows "abind (connection_pop env) (\<lambda>c. abind (getUserIdx env c token) (\<lambda>i. f c i)) w =
    f (next_conn w) i (known env w token out')"
  using getUserIdx_run [of env "next_conn w" token "popped env w" i out'] assms
  by (simp add: connection_pop_run known_def)

lemma known_sel [simp]:
  "outside (known env w token out') = out'" "sent (known env w token out') = sent w"
  "conns (known env w token out') = next_conn w # conns w"
  "queried (known env w token out') = queried w @ [(next_conn w, token_query token)]"
  "results (known env w token out') = results w" "locations (known env w token out') = locations w"
  by (simp_all add: known_def)

lemma unknown_run:
  assumes "length (token_query token) < 256" and "NUL \<notin> set token"
    and "asked env (next_conn w) (token_query token) (connected env w) (Some []) out'"
  shows "abind (connection_pop env) (\<lambda>c. abind (getUserIdx env c token) (\<lambda>i. f c i)) w = Inl Null_Deref"
  using getUserIdx_no_row [OF assms(1,2), of env "next_conn w" "popped env w" out'] assms(3)
  by (simp add: connection_pop_run)

definition todo_text :: "row \<Rightarrow> string" where
  "todo_text r = ''{'' @ json_field ''deadline'' (the (r ! 0)) @ '','' @
     json_field ''detail'' (quoted (the (r ! 1))) @ ''}''"

text \<open>A row of strings, of the width of the select list.\<close>

definition text_row :: "nat \<Rightarrow> row \<Rightarrow> bool" where
  "text_row n r \<longleftrightarrow> length r = n \<and> (\<forall>c \<in> set r. \<exists>s. c = Some s \<and> NUL \<notin> set s)"

lemma text_row_column: "text_row n r \<Longrightarrow> i < n \<Longrightarrow> text_column (Some r) i = Inr (the (r ! i)) \<and> NUL \<notin> set (the (r ! i))"
proof -
  assume r: "text_row n r" "i < n"
  then have "r ! i \<in> set r" "i < length r" by (simp_all add: text_row_def)
  then obtain s where "r ! i = Some s" "NUL \<notin> set s" using r(1) unfolding text_row_def by blast
  then show ?thesis using \<open>i < length r\<close> by (simp add: text_column_def column_def)
qed

lemma todo_item_text: "text_row 2 r \<Longrightarrow> todo_item r = Inr (todo_text r) \<and> NUL \<notin> set (todo_text r)"
  by (simp add: todo_item_def todo_text_def json_field_def quoted_def text_row_column)

text \<open>
  The parameters a handler insists on. Without one of them it answers at once and touches
  nothing else; with all of them and a token that is not in the table, it dereferences NULL.
\<close>

fun required :: "target \<Rightarrow> string list" where
  "required To_login = [''ID'', ''password'']"
| "required To_signup = [''ID'', ''password'', ''name'']"
| "required To_create_group = [''name'', ''token'']"
| "required To_group_list = [''token'']"
| "required To_join_group = [''token'', ''group_id'', ''ID'']"
| "required To_get_todolist = [''token'']"
| "required To_post_todolist = [''token'', ''deadline'', ''detail'']"
| "required To_get_progress = [''token'']"
| "required To_post_progress = [''token'', ''number'']"
| "required To_create_chat = [''token'', ''group_id'', ''content'']"
| "required To_get_chatlist = [''token'', ''group_id'']"
| "required To_get_location = [''token'', ''user_ID'']"
| "required To_post_location = [''token'', ''latitude'', ''longitude'']"
| "required Unanswered = []"
| "required Not_Found = []"

lemma missing_entries:
  "req_parameter req = entries ps \<Longrightarrow> missing req ks = Inr (\<exists>k \<in> set ks. map_of ps k = None)"
  by (induction ks) auto

lemma param_entries: "req_parameter req = entries ps \<Longrightarrow> map_of ps k = Some v \<Longrightarrow> param req k = Inr v"
  by (simp add: param_def)

lemma missing_parameters_run:
  "missing_parameters fd req w = Inr ((), answer fd (response_bytes 500 ''Internal Server Error'' (req_version req) []
     ''missing parameters'') w)"
  by (simp add: missing_parameters_def)

lemma lift_Inr: "abind (lift (Inr x)) f = f x"
  by (rule ext) simp

lemma missing_parameter_answer:
  assumes ps: "req_parameter req = entries ps" and none: "\<exists>k \<in> set (required t). map_of ps k = None"
  shows "run_target t env fd req w = missing_parameters fd req w"
proof -
  note defs = signup_def login_def create_group_def group_list_def join_group_def get_todolist_def
    post_todolist_def get_progress_def post_progress_def create_chat_def get_chatlist_def
    post_location_def get_location_def
  have m: "missing req ks = Inr True" if "\<exists>k \<in> set ks. map_of ps k = None" for ks
    using missing_entries [OF ps, of ks] that by simp
  show ?thesis
  proof (cases t)
    case To_login
    then show ?thesis using none
      by (simp only: required.simps run_target.simps login_def m lift_Inr if_True)
  next
    case To_signup
    then show ?thesis using none
      by (simp only: required.simps run_target.simps signup_def m lift_Inr if_True)
  next
    case To_create_group
    then show ?thesis using none
      by (simp only: required.simps run_target.simps create_group_def m lift_Inr if_True)
  next
    case To_group_list
    then show ?thesis using none
      by (simp only: required.simps run_target.simps group_list_def m lift_Inr if_True)
  qed (use none in \<open>auto simp: ps defs lift_Inr simp del: abind_apply lift_apply\<close>)
qed

definition authenticates :: "target \<Rightarrow> bool" where
  "authenticates t \<longleftrightarrow> ''token'' \<in> set (required t) \<and> t \<noteq> To_get_location"

text \<open>
  Every handler that authenticates starts with the connection and the user of the token; what goes
  wrong there ends the handler.
\<close>

lemma token_fault:
  assumes ps: "req_parameter req = entries ps" and all: "\<forall>k \<in> set (required t). map_of ps k \<noteq> None"
    and t: "authenticates t" "map_of ps ''token'' = Some token"
    and u: "\<And>f :: nat \<Rightarrow> int \<Rightarrow> ('w, unit) act.
      abind (connection_pop env) (\<lambda>c. abind (getUserIdx env c token) (\<lambda>i. f c i)) w = Inl e"
  shows "run_target t env fd req w = Inl e"
proof -
  have m: "missing req (required t) = Inr False" using missing_entries [OF ps] all by auto
  show ?thesis
  proof (cases t)
    case To_create_group
    then show ?thesis using m
      by (simp only: run_target.simps create_group_def required.simps lift_Inr if_False param_entries [OF ps t(2)] u)
  next
    case To_group_list
    then show ?thesis using m
      by (simp only: run_target.simps group_list_def required.simps lift_Inr if_False param_entries [OF ps t(2)] u)
  qed (use t all in \<open>auto simp: ps authenticates_def join_group_def get_todolist_def
    post_todolist_def get_progress_def post_progress_def create_chat_def get_chatlist_def
    post_location_def lift_Inr u simp del: abind_apply lift_apply\<close>)
qed

lemma getUserIdx_long: "256 \<le> length (token_query token) \<Longrightarrow> getUserIdx env c token w = Inl Buffer_Overflow"
  by (simp add: getUserIdx_def fmt_def sprintf_def put_bytes_def malloc_def)

lemma long_token_fault:
  assumes "req_parameter req = entries ps" and "\<forall>k \<in> set (required t). map_of ps k \<noteq> None"
    and "authenticates t" and "map_of ps ''token'' = Some token" and "256 \<le> length (token_query token)"
  shows "run_target t env fd req w = Inl Buffer_Overflow"
  using assms(1-4) by (rule token_fault) (simp add: connection_pop_run getUserIdx_long [OF assms(5)])

section \<open>Successful runs\<close>

lemma user_range: "user_is env c token out i out' \<Longrightarrow> length (dec i) \<le> 11"
  by (auto simp: user_is_def dest: atoi_dec_length)

lemma todos_query_fits: "length (dec i) \<le> 11 \<Longrightarrow> fmt 256 (todos_query i) = Inr (todos_query i)"
  by (subst fmt_ok) (auto simp: todos_query_def dec_no_nul)

lemma progress_query_fits: "length (dec i) \<le> 11 \<Longrightarrow> fmt 256 (progress_query i) = Inr (progress_query i)"
  by (subst fmt_ok) (auto simp: progress_query_def dec_no_nul)

definition todo_rows_ok :: "rows \<Rightarrow> bool" where
  "todo_rows_ok rs \<longleftrightarrow> (\<forall>r \<in> set rs. text_row 2 r \<and> length (todo_text r) < 100) \<and>
     length (json_array (map todo_text rs)) \<le> LINE_MAX"

lemma get_todolist_run:
  assumes ps: "req_parameter req = entries ps" "map_of ps ''token'' = Some token"
    and user: "authorised env w token i out1"
    and rows: "asked env (next_conn w) (todos_query i) out1 (Some rs) out2" "todo_rows_ok rs"
  shows "\<exists>w'. get_todolist env fd req w = Inr ((), w') \<and>
    sent w' = (sent w)(fd := sent w fd @
      response_bytes 200 ''OK'' (req_version req) [] (json_array (map todo_text rs))) \<and>
    queried w' = queried w @ [(next_conn w, token_query token), (next_conn w, todos_query i)] \<and>
    conns w' = conns w \<and> results w' = results w"
proof -
  have u: "user_is env (next_conn w) token (connected env w) i out1" "i \<noteq> -1"
    using user by (simp_all add: authorised_def)
  have it: "items_ok todo_item todo_text rs" "length (json_array (map todo_text rs)) \<le> LINE_MAX"
    using rows(2) todo_item_text by (auto simp: todo_rows_ok_def items_ok_def)
  have "get_todolist env fd req w =
      list_reply env fd req (next_conn w) (todos_query i) todo_item False (known env w token out1)"
    using u(2) todos_query_fits [OF user_range [OF u(1)]]
    by (simp only: get_todolist_def ps find_value_entries lift_Inr option.distinct option.sel if_False
        known_run [OF u(1)])
  then show ?thesis
    using list_reply_run [of env "next_conn w" "todos_query i" "known env w token out1" rs out2 todo_item todo_text fd req False]
      rows(1) it by simp
qed

text \<open>
  The statement that stores a progress: an update when the user has a row, an insert
  otherwise.
\<close>

definition store_progress :: "rows \<Rightarrow> string \<Rightarrow> int \<Rightarrow> string" where
  "store_progress rs number i = (if rs = [] then insert_progress_query i number else update_progress_query number i)"

lemma store_progress_no_nul: "NUL \<notin> set number \<Longrightarrow> NUL \<notin> set (store_progress rs number i)"
  by (simp add: store_progress_def insert_progress_query_def update_progress_query_def dec_no_nul)

lemma fmt_status:
  assumes "NUL \<notin> set s" and "length s < 200"
  shows "fmt 256 (json_status s) = Inr (json_status s)"
  using assms by (subst fmt_ok) (simp_all add: json_status_def json_field_def quoted_def)

lemma post_progress_run:
  assumes ps: "req_parameter req = entries ps" "map_of ps ''token'' = Some token" "map_of ps ''number'' = Some number"
    and user: "authorised env w token i out1"
    and rows: "asked env (next_conn w) (progress_query i) out1 (Some rs) out2"
    and number: "NUL \<notin> set number" "length (store_progress rs number i) < 256"
    and stored: "db_query env (next_conn w) (store_progress rs number i) out2 = (ok, out3)"
  shows "\<exists>w'. post_progress env fd req w = Inr ((), w') \<and>
    sent w' = (sent w)(fd := sent w fd @
      response_bytes 200 ''OK'' (req_version req) [] (json_status (if ok then ''OK'' else ''ERROR''))) \<and>
    queried w' = queried w @ map (Pair (next_conn w)) [token_query token, progress_query i, store_progress rs number i] \<and>
    conns w' = conns w \<and> results w' = results w \<and> outside w' = db_close env (next_conn w) out3"
proof -
  have u: "user_is env (next_conn w) token (connected env w) i out1" "i \<noteq> -1"
    using user by (simp_all add: authorised_def)
  obtain o1 where o1: "db_query env (next_conn w) (progress_query i) out1 = (True, o1)"
    "db_store env (next_conn w) o1 = (Some rs, out2)" using rows by (auto simp: asked_def)
  obtain row rest where f: "mysql_fetch_row (Some rs) = Inr (row, Some rest)" by (cases rs) auto
  have "row = None \<longleftrightarrow> rs = []" using f by (cases rs) auto
  then have q: "(if row \<noteq> None then update_progress_query number i else insert_progress_query i number) =
      store_progress rs number i" by (simp add: store_progress_def)
  have fq: "fmt 256 (store_progress rs number i) = Inr (store_progress rs number i)"
    using number store_progress_no_nul by (subst fmt_ok) auto
  have fs: "fmt 256 (json_status (if \<not> ok then ''ERROR'' else ''OK'')) = Inr (json_status (if ok then ''OK'' else ''ERROR''))"
    by (subst fmt_status) auto
  show ?thesis
    using u(2) progress_query_fits [OF user_range [OF u(1)]]
    by (simp add: post_progress_def ps lift_Inr known_run [OF u(1)] del: abind_apply lift_apply fmt_ok,
        cases row; cases ok)
      (use q fs in \<open>simp_all add: o1 f fq stored mysql_query_def mysql_store_result_def mysql_free_result_def
        connection_push_def reply_ok_def del: fmt_ok\<close>)
qed

text \<open>A reported position is stored under the decimal user number.\<close>

lemma fmt_dec_30: "length (dec i) \<le> 11 \<Longrightarrow> fmt 30 (dec i) = Inr (dec i)"
  by (subst fmt_ok) (auto simp: dec_no_nul)

lemma fmt_status_ok: "fmt 50 status_ok_body = Inr status_ok_body"
  by (subst fmt_ok) (simp_all add: status_ok_body_def json_field_def quoted_def)

lemma post_location_run:
  assumes ps: "req_parameter req = entries ps" "map_of ps ''token'' = Some token"
      "map_of ps ''latitude'' = Some lat" "map_of ps ''longitude'' = Some lon"
    and user: "user_is env (next_conn w) token (connected env w) i out1"
    and st: "stores (locations w) f" "position_ok (lat, lon)"
  shows "\<exists>w'. post_location env fd req w = Inr ((), w') \<and>
    stores (locations w') (f(dec i \<mapsto> lat @ ''|'' @ lon)) \<and>
    sent w' = (sent w)(fd := sent w fd @ response_bytes 200 ''OK'' (req_version req) [] status_ok_body) \<and>
    conns w' = conns w \<and> incoming w' = incoming w"
proof -
  obtain d where d: "push_location (locations w) (dec i) lat lon = Inr d" "stores d (f(dec i \<mapsto> lat @ ''|'' @ lon))"
    using location_list.put_view [OF st, of "dec i"] by (auto simp: position_def)
  have "incoming (known env w token out1) = incoming w" by (simp add: known_def)
  then show ?thesis
    using d(2) fmt_dec_30 [OF user_range [OF user]] fmt_status_ok
    by (simp add: post_location_def ps lift_Inr known_run [OF user] del: abind_apply lift_apply fmt_ok)
      (simp add: d(1) connection_push_def reply_ok_def)
qed

text \<open>The statement fails and \<open>getUserIdx\<close> returns -1, which is not tested.\<close>

lemma getUserIdx_failed:
  assumes "length (token_query token) < 256" "NUL \<notin> set token"
    and "db_query env c (token_query token) (outside w) = (False, out')"
  shows "getUserIdx env c token w = Inr (-1, w\<lparr>outside := out', queried := queried w @ [(c, token_query token)]\<rparr>)"
  using assms token_query_no_nul [of token] by (simp add: getUserIdx_def mysql_query_def ret_def)

lemma post_location_failed:
  assumes ps: "req_parameter req = entries ps" "map_of ps ''token'' = Some token"
      "map_of ps ''latitude'' = Some lat" "map_of ps ''longitude'' = Some lon"
    and short: "length (token_query token) < 256" "NUL \<notin> set token"
    and fails: "db_query env (next_conn w) (token_query token) (connected env w) = (False, out1)"
    and st: "stores (locations w) f" "position_ok (lat, lon)"
  shows "\<exists>w'. post_location env fd req w = Inr ((), w') \<and>
    stores (locations w') (f(''-1'' \<mapsto> lat @ ''|'' @ lon)) \<and>
    sent w' = (sent w)(fd := sent w fd @ response_bytes 200 ''OK'' (req_version req) [] status_ok_body)"
proof -
  have m1: "dec (-1) = ''-1''" by code_simp
  obtain d where d: "push_location (locations w) ''-1'' lat lon = Inr d" "stores d (f(''-1'' \<mapsto> lat @ ''|'' @ lon))"
    using location_list.put_view [OF st, of "''-1''"] by (auto simp: position_def)
  have u: "abind (connection_pop env) (\<lambda>c. abind (getUserIdx env c token) (\<lambda>i. g c i)) w =
      g (next_conn w) (-1) (known env w token out1)" for g :: "nat \<Rightarrow> int \<Rightarrow> ('a, unit) act"
    using getUserIdx_failed [OF short, of env "next_conn w" "popped env w" out1] fails
    by (simp add: connection_pop_run known_def)
  show ?thesis
    using d(2) fmt_dec_30 [of "-1"] fmt_status_ok m1
    by (simp add: post_location_def ps lift_Inr u del: abind_apply lift_apply fmt_ok)
      (simp add: d(1) connection_push_def reply_ok_def)
qed

section \<open>Tokens\<close>

lemma idx_alphabet: "\<forall>p \<in> set [0..61]. idx p \<in> set plain_chars"
  by code_simp

fun rands :: "'w env \<Rightarrow> nat \<Rightarrow> 'w \<Rightarrow> int list \<times> 'w" where
  "rands env 0 out = ([], out)"
| "rands env (Suc n) out =
     (let (r, out) = rand_next env out; (rs, out) = rands env n out in (r # rs, out))"

definition token_of :: "int list \<Rightarrow> string" where
  "token_of rs = map (\<lambda>r. idx (r smod 62)) rs"

lemma create_token_loop_run:
  assumes "rands env n (outside w) = (rs, out')"
  shows "create_token_loop env n (int (length t)) (Ptr (map Some t @ replicate (Suc n) (Some NUL)) 0) w =
    Inr (Ptr (map Some (t @ token_of rs) @ [Some NUL]) 0, w\<lparr>outside := out'\<rparr>)"
  using assms
proof (induction n arbitrary: t w rs)
  case 0
  then show ?case by (simp add: token_of_def)
next
  case (Suc n)
  obtain r o1 where r: "rand_next env (outside w) = (r, o1)" by force
  obtain rs' where rs: "rands env n o1 = (rs', out')" "rs = r # rs'"
    using Suc.prems by (auto simp: r Let_def split: prod.splits)
  have st: "store (Ptr (map Some t @ replicate (Suc (Suc n)) (Some NUL)) 0) (int (length t)) c =
      Inr (Ptr (map Some (t @ [c]) @ replicate (Suc n) (Some NUL)) 0)" for c
    by (simp add: store_def list_update_append)
  show ?case
    using Suc.IH [of "w\<lparr>outside := o1\<rparr>" rs' "t @ [idx (r smod 62)]"] rs
    by (simp add: rand_def r st token_of_def add.commute del: replicate.simps)
qed

lemma create_token_run:
  assumes "rands env 50 (outside w) = (rs, out')"
  shows "\<exists>p. create_token env (zeroed 51) w = Inr (p, w\<lparr>outside := out'\<rparr>) \<and>
    from_ptr p = Inr (map Some (token_of rs) @ [Some NUL])"
  using create_token_loop_run [of env 50 w rs out' "[]"] assms
  by (simp add: create_token_def zeroed_def from_ptr_def numeral_eq_Suc)

lemma rands_length: "rands env n out = (rs, out') \<Longrightarrow> length rs = n"
  by (induction n arbitrary: out rs) (auto simp: Let_def split: prod.splits)

lemma token_of_idx:
  assumes "\<forall>r \<in> set rs. 0 \<le> r"
  shows "set (token_of rs) \<subseteq> set (map idx [0..61])"
proof -
  have "idx (r smod 62) \<in> set (map idx [0..61])" if "0 \<le> r" for r :: int
  proof -
    have "r smod 62 = r mod 62"
      using that by (cases "r = 0") (simp_all add: signed_modulo_int_def signed_divide_int_def)
    then have "r smod 62 \<in> set [0..61]" by simp
    then show ?thesis unfolding set_map by (rule imageI)
  qed
  then have "\<forall>c \<in> set (token_of rs). c \<in> set (map idx [0..61])" using assms by (auto simp: token_of_def)
  then show ?thesis by blast
qed

lemma token_of_plain:
  assumes "\<forall>r \<in> set rs. 0 \<le> r"
  shows "set (token_of rs) \<subseteq> set plain_chars"
  using token_of_idx [OF assms] idx_alphabet by auto

section \<open>Login\<close>

text \<open>The row of an ID: its password, name and number.\<close>

definition account ::
  "'w env \<Rightarrow> 'w world \<Rightarrow> string \<Rightarrow> string \<Rightarrow> string \<Rightarrow> int \<Rightarrow> 'w \<Rightarrow> bool" where
  "account env w ID stored name i out' \<longleftrightarrow> NUL \<notin> set ID \<and> length (login_query ID) < 256 \<and>
     NUL \<notin> set stored \<and> NUL \<notin> set name \<and> length name < 26 \<and>
     (\<exists>d row rs. asked env (next_conn w) (login_query ID) (connected env w)
        (Some ((Some stored # Some name # Some d # row) # rs)) out' \<and> NUL \<notin> set d \<and> atoi d = Inr i)"

lemma login_query_no_nul: "NUL \<notin> set ID \<Longrightarrow> NUL \<notin> set (login_query ID)"
  by (simp add: login_query_def sq_def)

lemma plain_no_nul: "set t \<subseteq> set plain_chars \<Longrightarrow> NUL \<notin> set t"
  by (auto simp: plain_chars_def)

lemma login_body_fits:
  assumes "length status < 6" "NUL \<notin> set status" "length token \<le> 50" "NUL \<notin> set token"
    "length name < 26" "NUL \<notin> set name"
  shows "fmt 256 (login_body status token name) = Inr (login_body status token name)"
  using assms by (subst fmt_ok) (simp_all add: login_body_def json_field_def quoted_def)

lemma new_token_query_fits:
  assumes "length token \<le> 50" "NUL \<notin> set token" "length (dec i) \<le> 11"
  shows "fmt 256 (new_token_query token i) = Inr (new_token_query token i)"
  using assms dec_no_nul by (subst fmt_ok) (simp_all add: new_token_query_def sq_def)

text \<open>The run up to the comparison of the passwords.\<close>

lemma login_start:
  assumes ps: "req_parameter req = entries ps" "map_of ps ''ID'' = Some ID" "map_of ps ''password'' = Some password"
    and acc: "account env w ID stored name i out1"
  shows "\<exists>d row rs. NUL \<notin> set d \<and> atoi d = Inr i \<and>
    login env fd req w =
      (if stored = password
       then login_accept env fd req (next_conn w) (Some (Some stored # Some name # Some d # row)) (Some rs)
       else login_finish env fd req (next_conn w) (Some rs) ''ERROR'' [] [])
        ((popped env w)\<lparr>queried := queried w @ [(next_conn w, login_query ID)], outside := out1,
          results := results w + 1\<rparr>)"
proof -
  obtain d row rs o1 where a: "NUL \<notin> set d" "atoi d = Inr i"
    "db_query env (next_conn w) (login_query ID) (connected env w) = (True, o1)"
    "db_store env (next_conn w) o1 = (Some ((Some stored # Some name # Some d # row) # rs), out1)"
    using acc by (auto simp: account_def asked_def)
  have m: "missing req [''ID'', ''password''] = Inr False" using ps by simp
  have f: "fmt 256 (login_query ID) = Inr (login_query ID)"
    using acc login_query_no_nul [of ID] by (simp add: account_def)
  have t: "text_column (Some (Some stored # Some name # Some d # row)) 0 = Inr stored"
    using acc by (simp add: text_column_def column_def account_def)
  show ?thesis
    using a by (intro exI [of _ d] exI [of _ row] exI [of _ rs])
      (simp add: login_def m lift_Inr ps param_def connection_pop_run f t
        mysql_query_def mysql_store_result_def del: missing.simps fmt_ok)
qed

lemma login_run:
  assumes ps: "req_parameter req = entries ps" "map_of ps ''ID'' = Some ID" "map_of ps ''password'' = Some password"
    and acc: "account env w ID password name i out1"
    and rnd: "rands env 50 out1 = (rs, out2)" "\<forall>r \<in> set rs. 0 \<le> r"
    and ins: "fst (db_query env (next_conn w) (new_token_query (token_of rs) i) out2)"
  shows "\<exists>w'. login env fd req w = Inr ((), w') \<and>
    sent w' = (sent w)(fd := sent w fd @ response_bytes 200 ''OK'' (req_version req) []
      (login_body ''OK'' (token_of rs) name)) \<and>
    queried w' = queried w @ [(next_conn w, login_query ID), (next_conn w, new_token_query (token_of rs) i)] \<and>
    conns w' = conns w \<and> results w' = results w"
proof -
  obtain d row res where d: "NUL \<notin> set d" "atoi d = Inr i" and start: "login env fd req w =
      login_accept env fd req (next_conn w) (Some (Some password # Some name # Some d # row)) (Some res)
        ((popped env w)\<lparr>queried := queried w @ [(next_conn w, login_query ID)], outside := out1,
          results := results w + 1\<rparr>)"
    using login_start [OF ps acc, of fd] by auto
  define w1 where "w1 = (popped env w)\<lparr>queried := queried w @ [(next_conn w, login_query ID)], outside := out1,
          results := results w + 1\<rparr>"
  define t where "t = token_of rs"
  have t: "length t = 50" "NUL \<notin> set t"
    using rands_length [OF rnd(1)] plain_no_nul [OF token_of_plain [OF rnd(2)]] by (simp_all add: t_def token_of_def)
  have name: "NUL \<notin> set name" "length name < 26" using acc by (simp_all add: account_def)
  obtain p where p: "create_token env (zeroed 51) w1 = Inr (p, w1\<lparr>outside := out2\<rparr>)"
    "from_ptr p = Inr (map Some t @ [Some NUL])"
    using create_token_run [of env w1 rs out2] rnd(1) by (auto simp: w1_def t_def)
  have cp: "c_string p = Inr t" using p(2) t(2) by (simp add: c_string_def chars_to_nul_iff)
  have col: "text_column (Some (Some password # Some name # Some d # row)) 2 = Inr d"
    "text_column (Some (Some password # Some name # Some d # row)) (Suc 0) = Inr name"
    using d(1) name(1) by (simp_all add: text_column_def column_def)
  obtain o3 where o3: "db_query env (next_conn w) (new_token_query t i) out2 = (True, o3)"
    using ins by (metis prod.collapse t_def)
  have f: "fmt 256 (new_token_query t i) = Inr (new_token_query t i)" "fmt 26 name = Inr name"
    "fmt 6 ''OK'' = Inr ''OK''" "fmt 256 (login_body ''OK'' t name) = Inr (login_body ''OK'' t name)"
    using t name atoi_dec_length [OF d(2)] by (simp_all add: new_token_query_fits login_body_fits)
  show ?thesis
    unfolding start w1_def [symmetric]
    by (simp add: login_accept_def login_finish_def p(1) col d(2) cp f o3 mysql_query_def mysql_free_result_def
        connection_push_def reply_ok_def del: fmt_ok)
      (simp add: w1_def t_def)
qed

lemma login_wrong_password:
  assumes ps: "req_parameter req = entries ps" "map_of ps ''ID'' = Some ID" "map_of ps ''password'' = Some password"
    and acc: "account env w ID stored name i out1" and wrong: "stored \<noteq> password"
  shows "\<exists>w'. login env fd req w = Inr ((), w') \<and>
    sent w' = (sent w)(fd := sent w fd @ response_bytes 200 ''OK'' (req_version req) [] (login_body ''ERROR'' [] [])) \<and>
    queried w' = queried w @ [(next_conn w, login_query ID)] \<and>
    conns w' = conns w \<and> results w' = results w"
proof -
  have f: "fmt 256 (login_body ''ERROR'' [] []) = Inr (login_body ''ERROR'' [] [])"
    by (rule login_body_fits) simp_all
  show ?thesis
    using login_start [OF ps acc, of fd] wrong
    by (auto simp: login_finish_def f mysql_free_result_def connection_push_def reply_ok_def simp del: fmt_ok)
qed

end
