(* ===== verification/Scripted.thy ===== *)
theory Scripted
  imports Handler_Runs
begin

text \<open>
  A database for concrete runs: an \<open>env\<close> that answers the statements with the replies of a
  script, one after the other, whatever they ask. Every hypothesis the properties make on the
  database, the random numbers and the clock holds of it for a suitable script.
\<close>

datatype reply = Fails | Done | Rows rows

type_synonym script = "reply \<times> reply list"

fun next_reply :: "script \<Rightarrow> bool \<times> script" where
  "next_reply (cur, []) = (False, (Fails, []))"
| "next_reply (cur, r # rs) = (r \<noteq> Fails, (r, rs))"

fun rows_of :: "reply \<Rightarrow> rows option" where
  "rows_of (Rows rs) = Some rs"
| "rows_of r = None"

definition scripted :: "script env" where
  "scripted = \<lparr>db_options = (\<lambda>c opt s. s), db_connect = (\<lambda>c s. (True, s)),
     db_query = (\<lambda>c q s. next_reply s), db_store = (\<lambda>c s. (rows_of (fst s), s)),
     db_commit = (\<lambda>c s. s), db_close = (\<lambda>c s. s), db_error = (\<lambda>c s. ''error''),
     seed_rand = (\<lambda>s. s), rand_next = (\<lambda>s. (7, s)), local_time = (\<lambda>s. ((118, 5, 1, 12, 0, 0), s))\<rparr>"

definition world_of :: "(int \<Rightarrow> input) \<Rightarrow> reply list \<Rightarrow> script world" where
  "world_of inp rs = \<lparr>outside = (Done, rs), incoming = inp, sent = (\<lambda>_. []), closed = [], conns = [],
     next_conn = 0, results = 0, queried = [], locations = [], printed = [], logged = [], memory = empty_mem\<rparr>"

lemma scripted_sel [simp]:
  "db_options scripted c opt s = s" "db_connect scripted c s = (True, s)"
  "db_query scripted c q s = next_reply s" "db_store scripted c s = (rows_of (fst s), s)"
  "db_close scripted c s = s" "rand_next scripted s = (7, s)" "seed_rand scripted s = s"
  by (simp_all add: scripted_def)

lemma world_of_sel [simp]:
  "outside (world_of inp rs) = (Done, rs)" "incoming (world_of inp rs) = inp" "sent (world_of inp rs) = (\<lambda>_. [])"
  "closed (world_of inp rs) = []" "conns (world_of inp rs) = []" "next_conn (world_of inp rs) = 0"
  "results (world_of inp rs) = 0" "queried (world_of inp rs) = []" "locations (world_of inp rs) = []"
  "printed (world_of inp rs) = []" "memory (world_of inp rs) = empty_mem"
  by (simp_all add: world_of_def)

lemma scripted_connected [simp]: "connected scripted w = outside w"
  by (simp add: connected_def)

lemma scripted_asked: "asked scripted c q (cur, Rows t # rs) (Some t) (Rows t, rs)"
  by (simp add: asked_def)

lemma scripted_user:
  assumes "length (token_query token) < 256" and "NUL \<notin> set token" and "atoi d = Inr i" and "NUL \<notin> set d"
  shows "user_is scripted c token (cur, Rows [[Some d]] # rs) i (Rows [[Some d]], rs)"
  unfolding user_is_def using assms scripted_asked [of c "token_query token" cur "[[Some d]]" rs]
  by (intro conjI exI [of _ d] exI [of _ "[]"]) simp_all

lemma scripted_rands: "rands scripted n s = (replicate n 7, s)"
  by (induction n) simp_all

end
