(* ===== verification/Server.thy ===== *)
theory Server
  imports Handlers_Keep "HOL-Library.Multiset"
begin

text \<open>
  \<open>main\<close> of \<^verbatim>\<open>ttac.c\<close>: the start-up, and the accept loop with the threads it starts. The
  loop hands every thread the address of its own variable \<open>clnt_sock\<close>; when a thread reads
  it, the loop may already have accepted the next connection.
\<close>

section \<open>Start-up\<close>

text \<open>The answers of the socket calls, and the 16 bits \<open>htons\<close> keeps of the port.\<close>

record sys =
  sys_socket :: int
  sys_bind :: "int \<Rightarrow> int"
  sys_listen :: int

datatype startup = Exited int | Listening int

definition error_handling :: "string \<Rightarrow> ('w, startup) act" where
  "error_handling message = andthen (log_error (message @ NL)) (ret (Exited 1))"

definition server_start :: "'w env \<Rightarrow> sys \<Rightarrow> string list \<Rightarrow> ('w, startup) act" where
  "server_start env sys argv =
     andthen (modify (\<lambda>w. w\<lparr>outside := seed_rand env (outside w)\<rparr>))
    (abind (Queue_Init env 5) (\<lambda>q.
     if length argv \<noteq> 2 then andthen (print (''Usage : '' @ hd argv @ '' <port>'' @ NL)) (ret (Exited 1))
     else
       abind (lift (atoi (argv ! 1))) (\<lambda>port.
       if sys_bind sys (port mod 65536) = -1 then error_handling ''bind() error''
       else if sys_listen sys = -1 then error_handling ''listen() error''
       else ret (Listening (sys_socket sys)))))"

section \<open>The accept loop and its threads\<close>

datatype main_pc = Accepting | Spawning

text \<open>
  \<open>clnt_sock\<close> is uninitialised (\<open>None\<close>) until the first \<open>accept\<close> returns. \<open>accepted\<close> lists
  the descriptors of the connections. A thread that has not read its argument; one that serves a descriptor;
  one that returned.
\<close>

datatype thread = Starting | Serving int | Returned int

record server =
  clnt_sock :: "int option"
  main_at :: main_pc
  threads :: "thread list"
  accepted :: "int list"

inductive server_step ::
  "'w env \<Rightarrow> server \<times> 'w world \<Rightarrow> server \<times> 'w world \<Rightarrow> bool" for env where
  Accept_fails: "main_at s = Accepting \<Longrightarrow>
     server_step env (s, w) (s\<lparr>clnt_sock := Some (-1)\<rparr>, w)"
| Accept: "main_at s = Accepting \<Longrightarrow> fd \<noteq> -1 \<Longrightarrow>
     server_step env (s, w)
       (s\<lparr>clnt_sock := Some fd, main_at := Spawning, accepted := accepted s @ [fd]\<rparr>,
        w\<lparr>printed := printed w @ ''new client connected...'' @ NL\<rparr>)"
| Spawn: "main_at s = Spawning \<Longrightarrow>
     server_step env (s, w) (s\<lparr>main_at := Accepting, threads := threads s @ [Starting]\<rparr>, w)"
| Read_argument: "i < length (threads s) \<Longrightarrow> threads s ! i = Starting \<Longrightarrow>
     clnt_sock s = Some fd \<Longrightarrow>
     server_step env (s, w) (s\<lparr>threads := (threads s)[i := Serving fd]\<rparr>, w)"
| Serve: "i < length (threads s) \<Longrightarrow> threads s ! i = Serving fd \<Longrightarrow>
     http_thread env regex_compile fd w = Inr ((), w') \<Longrightarrow>
     server_step env (s, w) (s\<lparr>threads := (threads s)[i := Returned fd]\<rparr>, w')"

inductive_cases server_stepE: "server_step env sw sw'"

definition initial :: server where
  "initial = \<lparr>clnt_sock = None, main_at = Accepting, threads = [], accepted = []\<rparr>"

fun thread_fd :: "thread \<Rightarrow> int option" where
  "thread_fd Starting = None"
| "thread_fd (Serving fd) = Some fd"
| "thread_fd (Returned fd) = Some fd"

section \<open>Every thread serves a descriptor the loop has stored\<close>

definition threads_known :: "server \<times> 'w world \<Rightarrow> bool" where
  "threads_known sw = (case sw of (s, w) \<Rightarrow>
     set_option (clnt_sock s) \<subseteq> insert (-1) (set (accepted s)) \<and>
     \<Union> (set_option ` thread_fd ` set (threads s)) \<subseteq> insert (-1) (set (accepted s)) \<and>
     length (threads s) + (if main_at s = Spawning then 1 else 0) = length (accepted s) \<and>
     (clnt_sock s = None \<longrightarrow> accepted s = []))"

lemma fds_update:
  "\<Union> (set_option ` thread_fd ` set (ts[i := t])) \<subseteq> \<Union> (set_option ` thread_fd ` set ts) \<union> set_option (thread_fd t)"
  using set_update_subset_insert [of ts i t] by blast

lemma fds_nth: "i < length ts \<Longrightarrow> set_option (thread_fd (ts ! i)) \<subseteq> \<Union> (set_option ` thread_fd ` set ts)"
  using nth_mem [of i ts] by blast

lemma threads_known_step:
  assumes "threads_known sw" and "server_step env sw sw'"
  shows "threads_known sw'"
  using assms(2,1)
proof cases
  case (Accept s fd w)
  then show ?thesis using assms(1) by (auto simp: threads_known_def)
next
  case (Read_argument i s fd w)
  then show ?thesis using assms(1) fds_update [of "threads s" i "Serving fd"]
    by (auto simp: threads_known_def)
next
  case (Serve i s fd w w')
  then show ?thesis using assms(1) fds_update [of "threads s" i "Returned fd"] fds_nth [of i "threads s"]
    by (auto simp: threads_known_def)
qed (use assms(1) in \<open>auto simp: threads_known_def\<close>)

interpretation known_threads: kept "server_step env" threads_known for env
  by unfold_locales (rule threads_known_step)

section \<open>With the threads scheduled first\<close>

text \<open>The loop accepts again only when every thread has read its argument.\<close>

definition patient_step :: "'w env \<Rightarrow> server \<times> 'w world \<Rightarrow> server \<times> 'w world \<Rightarrow> bool" where
  "patient_step env sw sw' \<longleftrightarrow> server_step env sw sw' \<and>
     (main_at (fst sw) = Accepting \<and> threads (fst sw') = threads (fst sw)
        \<longrightarrow> Starting \<notin> set (threads (fst sw)))"

text \<open>A starting thread will read what is in the variable.\<close>

definition will_serve :: "server \<Rightarrow> thread \<Rightarrow> int option" where
  "will_serve s t = (case thread_fd t of None \<Rightarrow> clnt_sock s | Some fd \<Rightarrow> Some fd)"

definition one_each :: "server \<times> 'w world \<Rightarrow> bool" where
  "one_each sw = (case sw of (s, w) \<Rightarrow>
     map (will_serve s) (threads s) @ (if main_at s = Spawning then [clnt_sock s] else []) = map Some (accepted s) \<and>
     (main_at s = Spawning \<longrightarrow> Starting \<notin> set (threads s)))"

lemma will_serve_settled:
  "Starting \<notin> set ts \<Longrightarrow> map (will_serve s) ts = map (will_serve s') ts"
  by (induction ts) (auto simp: will_serve_def split: option.splits elim: thread_fd.elims)

lemma will_serve_same: "clnt_sock s' = clnt_sock s \<Longrightarrow> will_serve s' = will_serve s"
  by (rule ext) (simp add: will_serve_def split: option.splits)

lemma will_serve_update:
  assumes "i < length ts" and "will_serve s t = will_serve s (ts ! i)"
  shows "map (will_serve s) (ts[i := t]) = map (will_serve s) ts"
  using assms by (simp add: map_update) (metis length_map list_update_id nth_map)

lemma one_each_step:
  assumes inv: "one_each sw" and st: "patient_step env sw sw'"
  shows "one_each sw'"
proof -
  obtain s w s' w' where sw: "sw = (s, w)" "sw' = (s', w')" by (cases sw, cases sw')
  have "server_step env (s, w) (s', w')" using st by (simp add: patient_step_def sw)
  then show ?thesis
  proof cases
    case Accept_fails
    then have n: "Starting \<notin> set (threads s)" using st by (auto simp: patient_step_def sw)
    then show ?thesis using inv Accept_fails will_serve_settled [OF n, of s s'] by (simp add: one_each_def sw)
  next
    case (Accept fd)
    then have n: "Starting \<notin> set (threads s)" using st by (auto simp: patient_step_def sw)
    then show ?thesis using inv Accept will_serve_settled [OF n, of s s'] by (simp add: one_each_def sw)
  next
    case Spawn
    have w: "will_serve s' = will_serve s" using Spawn by (intro will_serve_same) simp
    have "will_serve s Starting = clnt_sock s" by (simp add: will_serve_def)
    then show ?thesis using inv Spawn w by (simp add: one_each_def sw)
  next
    case (Read_argument i fd)
    have "map (will_serve s') (threads s') = map (will_serve s) (threads s)"
      using will_serve_update [of i "threads s" s "Serving fd"] Read_argument will_serve_same [of s' s]
      by (simp add: will_serve_def)
    moreover have "Starting \<notin> set (threads s) \<Longrightarrow> Starting \<notin> set (threads s')"
      using Read_argument by (auto dest!: subsetD [OF set_update_subset_insert])
    ultimately show ?thesis using inv Read_argument by (auto simp: one_each_def sw)
  next
    case (Serve i fd)
    have "map (will_serve s') (threads s') = map (will_serve s) (threads s)"
      using will_serve_update [of i "threads s" s "Returned fd"] Serve will_serve_same [of s' s]
      by (simp add: will_serve_def)
    moreover have "Starting \<notin> set (threads s) \<Longrightarrow> Starting \<notin> set (threads s')"
      using Serve by (auto dest!: subsetD [OF set_update_subset_insert])
    ultimately show ?thesis using inv Serve by (auto simp: one_each_def sw)
  qed
qed

interpretation one_thread_each: kept "patient_step env" one_each for env
  by unfold_locales (rule one_each_step)

lemma initial_invariants: "threads_known (initial, w)" "one_each (initial, w)"
  by (simp_all add: threads_known_def one_each_def initial_def)

section \<open>The race\<close>

lemma race_run:
  assumes "a \<noteq> -1" and "b \<noteq> -1"
  shows "\<exists>w'. (server_step env)\<^sup>*\<^sup>* (initial, w)
    (\<lparr>clnt_sock = Some b, main_at = Accepting, threads = [Serving b, Serving b], accepted = [a, b]\<rparr>, w')"
proof -
  define w1 where "w1 = w\<lparr>printed := printed w @ ''new client connected...'' @ NL\<rparr>"
  define w2 where "w2 = w1\<lparr>printed := printed w1 @ ''new client connected...'' @ NL\<rparr>"
  define s where "s = (\<lambda>v m t l. \<lparr>clnt_sock = v, main_at = m, threads = t, accepted = l\<rparr>)"
  have "server_step env (initial, w) (s (Some a) Spawning [] [a], w1)"
    using Accept [of initial a env w] assms by (simp add: initial_def s_def w1_def)
  moreover have "server_step env (s (Some a) Spawning [] [a], w1) (s (Some a) Accepting [Starting] [a], w1)"
    using Spawn [of "s (Some a) Spawning [] [a]" env w1] by (simp add: s_def)
  moreover have "server_step env (s (Some a) Accepting [Starting] [a], w1) (s (Some b) Spawning [Starting] [a, b], w2)"
    using Accept [of "s (Some a) Accepting [Starting] [a]" b env w1] assms by (simp add: s_def w2_def)
  moreover have "server_step env (s (Some b) Spawning [Starting] [a, b], w2)
      (s (Some b) Accepting [Starting, Starting] [a, b], w2)"
    using Spawn [of "s (Some b) Spawning [Starting] [a, b]" env w2] by (simp add: s_def)
  moreover have "server_step env (s (Some b) Accepting [Starting, Starting] [a, b], w2)
      (s (Some b) Accepting [Serving b, Starting] [a, b], w2)"
    using Read_argument [of 0 "s (Some b) Accepting [Starting, Starting] [a, b]" b env w2] by (simp add: s_def)
  moreover have "server_step env (s (Some b) Accepting [Serving b, Starting] [a, b], w2)
      (s (Some b) Accepting [Serving b, Serving b] [a, b], w2)"
    using Read_argument [of 1 "s (Some b) Accepting [Serving b, Starting] [a, b]" b env w2] by (simp add: s_def)
  ultimately have "(server_step env)\<^sup>*\<^sup>* (initial, w) (s (Some b) Accepting [Serving b, Serving b] [a, b], w2)"
    by (meson converse_rtranclp_into_rtranclp rtranclp.rtrancl_refl)
  then show ?thesis unfolding s_def by blast
qed

section \<open>What the threads leave behind\<close>

fun returned_fd :: "thread \<Rightarrow> int list" where
  "returned_fd (Returned fd) = [fd]"
| "returned_fd t = []"

definition returned_fds :: "thread list \<Rightarrow> int list" where
  "returned_fds ts = concat (map returned_fd ts)"

lemma returned_fds_append [simp]: "returned_fds (ts @ us) = returned_fds ts @ returned_fds us"
  by (simp add: returned_fds_def)

lemma returned_fds_update:
  assumes "i < length ts" and "returned_fd (ts ! i) = []"
  shows "mset (returned_fds (ts[i := t])) = mset (returned_fds ts) + mset (returned_fd t)"
proof -
  have "ts = take i ts @ ts ! i # drop (Suc i) ts" using assms(1) by (rule id_take_nth_drop)
  then have "mset (returned_fds ts) = mset (returned_fds (take i ts)) + mset (returned_fds (drop (Suc i) ts))"
    using assms(2) by (metis (no_types, lifting) append_Nil concat.simps(2) list.simps(9) mset_append
        returned_fds_append returned_fds_def)
  then show ?thesis using assms(1) by (simp add: upd_conv_take_nth_drop returned_fds_def)
qed

text \<open>
  What one thread leaves behind when it returns: the descriptor it has closed, the connection handles
  that are still allocated and the number of result sets that are. No thread leaves more than one of
  either.
\<close>

record leaving =
  left_fd :: int
  left_conns :: "nat list"
  left_results :: int

definition leaves_little :: "leaving \<Rightarrow> bool" where
  "leaves_little l \<longleftrightarrow> length (left_conns l) \<le> 1 \<and> 0 \<le> left_results l \<and> left_results l \<le> 1"

text \<open>
  The threads that have returned, in the order in which they did, account for all that has changed
  since the start. The strings and nodes of their requests are given back.
\<close>

definition left_behind :: "'w world \<Rightarrow> server \<times> 'w world \<Rightarrow> bool" where
  "left_behind w0 sw = (case sw of (s, w) \<Rightarrow>
     (\<exists>ls. mset (map left_fd ls) = mset (returned_fds (threads s)) \<and> (\<forall>l \<in> set ls. leaves_little l) \<and>
        closed w = closed w0 @ map left_fd ls \<and> conns w = concat (map left_conns (rev ls)) @ conns w0 \<and>
        results w = results w0 + sum_list (map left_results ls)) \<and>
     (mem_ok (memory w0) \<longrightarrow> mem_ok (memory w) \<and> cells (memory w) = cells (memory w0)))"

lemma left_behind_closed:
  "left_behind w0 (s, w) \<Longrightarrow> mset (closed w) = mset (closed w0) + mset (returned_fds (threads s))"
  by (auto simp: left_behind_def)

lemma http_thread_frame:
  assumes "http_thread env regex_compile fd w = Inr (u, w')"
  shows "closed w' = closed w @ [fd]" "conns w' = conns w \<or> conns w' = next_conn w # conns w"
    "results w \<le> results w'" "results w' \<le> results w + 1"
proof -
  obtain req info m v m' where v: "run_target (target_of (req_method req) (req_path req)) env fd req
      (w\<lparr>memory := m, printed := printed w @ info\<rparr>) = Inr ((), v)" "w' = v\<lparr>memory := m', closed := closed v @ [fd]\<rparr>"
    using assms by (rule http_thread_run)
  note f = run_target_frame [OF v(1)]
  show "closed w' = closed w @ [fd]" "conns w' = conns w \<or> conns w' = next_conn w # conns w"
    "results w \<le> results w'" "results w' \<le> results w + 1"
    using f(1-4) v(2) by auto
qed

text \<open>What the thread that returns adds.\<close>

lemma thread_leaves:
  assumes "http_thread env regex_compile fd w = Inr (u, w')"
  shows "\<exists>l. left_fd l = fd \<and> leaves_little l \<and> closed w' = closed w @ [fd] \<and>
    conns w' = left_conns l @ conns w \<and> results w' = results w + left_results l"
proof -
  note f = http_thread_frame [OF assms]
  obtain cs where "conns w' = cs @ conns w" "length cs \<le> 1" using f(2) by (metis append_Cons append_Nil le_refl length_Cons list.size(3) One_nat_def zero_le)
  then show ?thesis using f(1,3,4)
    by (intro exI [of _ "\<lparr>left_fd = fd, left_conns = cs, left_results = results w' - results w\<rparr>"])
      (simp add: leaves_little_def)
qed

lemma left_behind_step:
  assumes inv: "left_behind w0 sw" and st: "server_step env sw sw'"
  shows "left_behind w0 sw'"
  using st
proof cases
  case (Serve i s fd w w')
  obtain ls where ls: "mset (map left_fd ls) = mset (returned_fds (threads s))" "\<forall>l \<in> set ls. leaves_little l"
    "closed w = closed w0 @ map left_fd ls" "conns w = concat (map left_conns (rev ls)) @ conns w0"
    "results w = results w0 + sum_list (map left_results ls)"
    using inv Serve(1) by (auto simp: left_behind_def)
  obtain l where l: "left_fd l = fd" "leaves_little l" "closed w' = closed w @ [fd]"
    "conns w' = left_conns l @ conns w" "results w' = results w + left_results l"
    using thread_leaves [OF Serve(5)] by blast
  have "mset (returned_fds ((threads s)[i := Returned fd])) = mset (returned_fds (threads s)) + {#fd#}"
    using returned_fds_update [of i "threads s" "Returned fd"] Serve by simp
  then have "\<exists>ls. mset (map left_fd ls) = mset (returned_fds ((threads s)[i := Returned fd])) \<and> (\<forall>l \<in> set ls. leaves_little l) \<and>
      closed w' = closed w0 @ map left_fd ls \<and> conns w' = concat (map left_conns (rev ls)) @ conns w0 \<and>
      results w' = results w0 + sum_list (map left_results ls)"
    using ls l by (intro exI [of _ "ls @ [l]"]) auto
  then show ?thesis using inv Serve(1,2) http_thread_memory [OF Serve(5)] by (auto simp: left_behind_def)
next
  case (Read_argument i s fd w)
  have "mset (returned_fds ((threads s)[i := Serving fd])) = mset (returned_fds (threads s))"
    using returned_fds_update [of i "threads s" "Serving fd"] Read_argument by simp
  then show ?thesis using inv Read_argument by (simp add: left_behind_def)
qed (use inv in \<open>auto simp: left_behind_def returned_fds_def\<close>)

interpretation leaks: kept "server_step env" "left_behind w0" for env w0
  by unfold_locales (rule left_behind_step)

lemma left_behind_initial: "left_behind w (initial, w)"
  unfolding left_behind_def prod.case by (intro conjI exI [of _ "[]"]) (simp_all add: initial_def returned_fds_def)

section \<open>The pool\<close>

lemma queue_fill_run:
  "\<exists>w'. queue_fill env n w = Inr ([next_conn w..<next_conn w + n], w') \<and>
     conns w' = rev [next_conn w..<next_conn w + n] @ conns w \<and> next_conn w' = next_conn w + n"
proof (induction n arbitrary: w)
  case (Suc n)
  define c where "c = next_conn w"
  obtain ok out where dc: "db_connect env (next_conn w) (db_options env (next_conn w) (Reconnect True)
      (db_options env (next_conn w) (Connect_Timeout 3000000) (outside w))) = (ok, out)" by force
  note defs = mysql_init_def queue_options_def mysql_options_def mysql_real_connect_def report_connect_def
        mysql_error_def log_error_def c_def ret_def
  obtain w1 where w1: "abind mysql_init (\<lambda>c. andthen (queue_options env c)
      (abind (mysql_real_connect env c) (\<lambda>ok. andthen (report_connect env c ok)
      (andthen (queue_options env c) (ret c))))) w = Inr (c, w1)"
    "conns w1 = c # conns w" "next_conn w1 = Suc c"
    by (cases ok) (auto simp: defs dc)
  have "queue_fill env (Suc n) w = rbind (queue_fill env n w1) (\<lambda>(cs, w). Inr (c # cs, w))"
    using w1(1) by (cases ok) (auto simp: defs dc)
  moreover obtain w2 where "queue_fill env n w1 = Inr ([Suc c..<Suc c + n], w2)"
    "conns w2 = rev [Suc c..<Suc c + n] @ c # conns w" "next_conn w2 = Suc c + n"
    using Suc.IH [of w1] w1(2,3) by auto
  moreover have "[c..<c + Suc n] = c # [Suc c..<Suc c + n]" by (simp add: upt_conv_Cons)
  ultimately show ?case unfolding c_def [symmetric] by simp
qed simp

end
