(* ===== verification/Typing.thy ===== *)
theory Typing
  imports Scripted Server
begin

text \<open>
  The types the C code relies on and C does not check. A text is what fits in a C string, a
  parsed request consists of texts, an entry of the list of locations is two texts joined by a
  bar under the decimal text of a user number, and the handles that are open are distinct and
  older than the next one. The parser makes typed requests out of any bytes, a thread that runs
  alone keeps the world typed, and in a typed world reading a location, while no other thread
  writes one, has no fault but the overflow of the array its answer is formatted in. (What a
  writer at the same time can do is in \<open>Location_Threads\<close>.)
\<close>

section \<open>Typed requests\<close>

definition text_ok :: "string \<Rightarrow> bool" where
  "text_ok s \<longleftrightarrow> NUL \<notin> set s"

definition dic_typed :: "dic \<Rightarrow> bool" where
  "dic_typed d \<longleftrightarrow> (\<forall>(k, v) \<in> set d. pred_option text_ok k \<and> text_ok v)"

definition request_typed :: "request \<Rightarrow> bool" where
  "request_typed req \<longleftrightarrow> text_ok (req_method req) \<and> text_ok (req_path req) \<and> text_ok (req_version req) \<and>
     dic_typed (req_header req) \<and> pred_option text_ok (req_body req) \<and> dic_typed (req_parameter req)"

named_theorems typing \<open>what the parser's functions return is typed\<close>

lemma c_string_typed [typing]: "c_string p = Inr s \<Longrightarrow> text_ok s"
  unfolding text_ok_def by (rule c_string_no_nul)

lemma dic_typed_Nil [simp]: "dic_typed []"
  by (simp add: dic_typed_def)

lemma add_data_typed: "dic_typed d \<Longrightarrow> pred_option text_ok k \<Longrightarrow> text_ok v \<Longrightarrow> dic_typed (add_data d k v)"
  by (auto simp: dic_typed_def add_data_def)

lemma add_entry_typed [typing]: "add_entry d key value = Inr d' \<Longrightarrow> dic_typed d \<Longrightarrow> dic_typed d'"
  by (auto simp: add_entry_def rbind_eq_Inr rmap_eq_Inr split: if_splits dest: typing intro!: add_data_typed)

lemma add_parameter_typed [typing]: "add_parameter d p i e n = Inr d' \<Longrightarrow> dic_typed d \<Longrightarrow> dic_typed d'"
  by (auto simp: add_parameter_def Let_def rbind_eq_Inr dest: typing intro!: add_data_typed)

lemma parse_parameter_loop_typed [typing]:
  "parse_parameter_loop d p len i = Inr d' \<Longrightarrow> dic_typed d \<Longrightarrow> dic_typed d'"
proof (induction d p len i rule: parse_parameter_loop.induct)
  case (1 d p len i)
  from 1(2) obtain amp eq d1 where f: "find_idx (padd p i) CHR ''&'' = Inr amp"
    "find_idx (padd p i) CHR ''='' = Inr eq"
    and d1: "(if eq + i < (if amp + i - i = -1 then len else amp + i) \<and> eq + i \<noteq> -1
      then add_parameter d p i (eq + i) (if amp + i - i = -1 then len else amp + i) else Inr d) = Inr d1"
    and r: "(if (if amp + i - i = -1 then len else amp + i) + 1 \<le> len
      then parse_parameter_loop d1 p len ((if amp + i - i = -1 then len else amp + i) + 1) else Inr d1) = Inr d'"
    by (subst (asm) parse_parameter_loop.simps) (simp only: rbind_eq_Inr Let_def, blast)
  have t: "dic_typed d1" using d1 1(3) by (auto split: if_splits dest: typing)
  show ?case using r 1(1) [OF f refl refl d1 refl] t by (auto split: if_splits)
qed

lemma parse_parameter_typed [typing]: "parse_parameter d p = Inr d' \<Longrightarrow> dic_typed d \<Longrightarrow> dic_typed d'"
  by (auto simp: parse_parameter_def rbind_eq_Inr split: if_splits dest: typing)

lemma parse_formdata_loop_typed [typing]:
  "parse_formdata_loop d body b n len i = Inr d' \<Longrightarrow> dic_typed d \<Longrightarrow> dic_typed d'"
proof (induction d body b n len i rule: parse_formdata_loop.induct)
  case (1 d body b n len i)
  from 1(2) obtain r c where f: "find_str (padd body i) b = Inr r"
    "strncmp (padd body (r + i + 1)) (literal ''--'') 2 = Inr c"
    by (subst (asm) parse_formdata_loop.simps) (auto simp: rbind_eq_Inr Let_def)
  show ?case
  proof (cases "c = 0")
    case True
    then show ?thesis using 1(2,3) by (subst (asm) (1) parse_formdata_loop.simps) (simp add: f)
  next
    case False
    from 1(2) obtain h w d1 where g: "parse_headers body len (r + i + 2 + 1) Null Null = Inr h"
      "part_value body b n (fst h) (snd (snd h)) = Inr w" "add_entry d (fst (snd h)) (snd w) = Inr d1"
      and e: "(if fst w + 1 \<le> len then parse_formdata_loop d1 body b n len (fst w + 1) else Inr d1) = Inr d'"
      by (subst (asm) parse_formdata_loop.simps) (simp only: f False rbind_simps Let_def if_False rbind_eq_Inr, blast)
    have "dic_typed d1" using g(3) 1(3) by (rule add_entry_typed)
    then show ?thesis using e 1(1) [OF f(1) refl f(2) False g refl] by (auto split: if_splits)
  qed
qed

lemma parse_formdata_typed [typing]: "parse_formdata d body b = Inr d' \<Longrightarrow> dic_typed d \<Longrightarrow> dic_typed d'"
  by (auto simp: parse_formdata_def rbind_eq_Inr split: if_splits dest: typing)

lemma add_header_typed [typing]: "add_header d line = Inr d' \<Longrightarrow> dic_typed d \<Longrightarrow> dic_typed d'"
  by (auto simp: add_header_def Let_def rbind_eq_Inr split: if_splits dest: typing)

lemma read_headers_typed [typing]: "read_headers st d = Inr (d', st') \<Longrightarrow> dic_typed d \<Longrightarrow> dic_typed d'"
proof (induction st d rule: read_headers.induct)
  case (1 st d)
  from 1(2) obtain t where t: "get_line st (literal crlf) = Inr t"
    by (subst (asm) read_headers.simps) (auto simp: rbind_eq_Inr)
  show ?case
  proof (cases "fst t = Null")
    case True
    then show ?thesis using 1(2,3) by (subst (asm) (1) read_headers.simps) (simp add: t)
  next
    case False
    from 1(2) obtain d1 where d1: "add_header d (fst t) = Inr d1" "free (fst t) = Inr ()"
      "read_headers (snd t) d1 = Inr (d', st')"
      by (subst (asm) (1) read_headers.simps) (auto simp: t False rbind_eq_Inr)
    show ?thesis using 1(1) [OF t False d1(1,2,3)] d1(1) 1(3) by (auto dest: typing)
  qed
qed

lemma parameters_typed [typing]:
  "get_parameters d path = Inr d' \<Longrightarrow> dic_typed d \<Longrightarrow> dic_typed d'"
  "post_parameters d header body = Inr d' \<Longrightarrow> dic_typed d \<Longrightarrow> dic_typed d'"
  by (auto simp: get_parameters_def post_parameters_def Let_def rbind_eq_Inr split: if_splits dest: typing)

lemma parse_request_typed:
  assumes "parse_request fd inp = Inr req"
  shows "request_typed req"
proof -
  obtain st meth path version header st' body m d0 d p v b where
    "read_headers st [] = Inr (header, st')" "c_string meth = Inr m"
    "(if is_get m then get_parameters [] path else Inr []) = Inr d0"
    "(if is_post m then post_parameters d0 header body else Inr d0) = Inr d"
    "c_string path = Inr p" "c_string version = Inr v"
    "(if body = Null then Inr None else rmap Some (c_string body)) = Inr b"
    and req: "req = \<lparr>req_method = m, req_path = p, req_version = v, req_header = header, req_body = b, req_parameter = d\<rparr>"
    using assms unfolding parse_request_def rbind_eq_Inr split_paired_Ex prod.case by blast
  moreover from this have "dic_typed header" "dic_typed d0" by (auto split: if_splits dest: typing)
  ultimately show ?thesis unfolding request_typed_def req
    by (auto simp: rmap_eq_Inr split: if_splits dest: typing)
qed

lemma find_value_typed:
  "find_value d k = Inr (Some v) \<Longrightarrow> dic_typed d \<Longrightarrow> text_ok v"
  by (induction d k rule: find_value.induct) (auto simp: dic_typed_def split: if_splits)

section \<open>Typed worlds\<close>

text \<open>An entry of the list of locations: a user number in decimal and two texts joined by a bar.\<close>

definition place_ok :: "string \<times> string \<Rightarrow> bool" where
  "place_ok e \<longleftrightarrow> (\<exists>i. fst e = dec i) \<and> CHR ''|'' \<in> set (snd e) \<and> text_ok (snd e)"

definition located :: "dic \<Rightarrow> bool" where
  "located d \<longleftrightarrow> (\<exists>kvs. d = entries kvs \<and> distinct (map fst kvs) \<and> (\<forall>e \<in> set kvs. place_ok e))"

definition world_typed :: "'w world \<Rightarrow> bool" where
  "world_typed w \<longleftrightarrow> mem_ok (memory w) \<and> located (locations w) \<and> 0 \<le> results w \<and>
     distinct (conns w) \<and> (\<forall>c \<in> set (conns w). c < next_conn w)"

lemma set_update_subset: "set (AList.update k v kvs) \<subseteq> insert (k, v) (set kvs)"
  by (induction kvs) auto

lemma push_location_typed:
  assumes "located d" and "text_ok lat" "text_ok lon" and "push_location d (dec i) lat lon = Inr d'"
  shows "located d'"
proof -
  obtain kvs where kvs: "d = entries kvs" "distinct (map fst kvs)" "\<forall>e \<in> set kvs. place_ok e"
    using assms(1) by (auto simp: located_def)
  have ok: "position_ok (lat, lon)" using assms(2,3) by (simp add: position_ok_def text_ok_def)
  have new: "place_ok (dec i, position (lat, lon))"
    using assms(2,3) by (auto simp: place_ok_def position_def text_ok_def)
  have "d' = entries (AList.update (dec i) (position (lat, lon)) kvs)"
    using push_location_entries [OF ok, of kvs "dec i"] assms(4) kvs(1) by simp
  moreover have "\<forall>e \<in> set (AList.update (dec i) (position (lat, lon)) kvs). place_ok e"
    using set_update_subset [of "dec i" "position (lat, lon)" kvs] new kvs(3) by blast
  ultimately show ?thesis unfolding located_def using distinct_update [OF kvs(2)] by blast
qed

lemma run_target_conns:
  assumes "run_target t env fd req w = Inr (u, w')"
  shows "conns w' = conns w \<and> next_conn w \<le> next_conn w' \<or>
    conns w' = next_conn w # conns w \<and> next_conn w' = Suc (next_conn w)"
proof (cases "is_handler t")
  case True
  from run_target_handled [OF this assms] obtain ph n L code body v where "session w ph n L v"
    "w' = answer fd (response_bytes code (reason code) (req_version req) [] body) v"
    unfolding handled_def by blast
  then show ?thesis by (simp add: session_def split: if_splits)
next
  case False
  then show ?thesis using assms by (auto simp: is_handler_def)
qed

lemma run_target_locations:
  assumes "run_target t env fd req w = Inr (u, w')" and "request_typed req" and "located (locations w)"
  shows "located (locations w')"
proof (cases "t = To_post_location")
  case True
  then have "is_handler t" by (simp add: is_handler_def)
  from run_target_handled [OF this assms(1)] obtain ph n L code body v where v: "session w ph n L v"
    "target_outcome t req (locations w) ph n L code body"
    "w' = answer fd (response_bytes code (reason code) (req_version req) [] body) v"
    unfolding handled_def by blast
  have "locations w' = L" using v(1,3) by (simp add: session_def)
  moreover have "located L" using v(2) assms(2,3) True
    by (auto simp: target_outcome_def post_location_outcome_def request_typed_def
        intro: push_location_typed dest: find_value_typed)
  ultimately show ?thesis by simp
next
  case False
  then show ?thesis using run_target_frame(5) [OF assms(1)] assms(3) by simp
qed

lemma http_thread_typed:
  assumes "http_thread env regex_compile fd w = Inr (u, w')" and "world_typed w"
  shows "world_typed w'"
proof -
  obtain req info m h v m' where r: "parse_request fd (incoming w fd) = Inr req" "print_request_info req = Inr info"
    "build_request (memory w) (req_method req) (req_path req) (req_version req) (req_header req)
      (req_body req) (req_parameter req) = Inr (m, h)"
    "run_target (target_of (req_method req) (req_path req)) env fd req
      (w\<lparr>memory := m, printed := printed w @ info\<rparr>) = Inr ((), v)"
    "clear_requset m h = Some (Inr m')" "w' = v\<lparr>memory := m', closed := closed v @ [fd]\<rparr>"
    using assms(1) by (rule http_thread_run)
  have "mem_ok (memory w')" using http_thread_memory(1) [OF assms(1)] assms(2) by (simp add: world_typed_def)
  moreover have "located (locations w')"
    using run_target_locations [OF r(4) parse_request_typed [OF r(1)]] r(6) assms(2) by (simp add: world_typed_def)
  moreover have "0 \<le> results w'" using run_target_frame(3) [OF r(4)] r(6) assms(2) by (simp add: world_typed_def)
  moreover have "distinct (conns w') \<and> (\<forall>c \<in> set (conns w'). c < next_conn w')"
    using run_target_conns [OF r(4)] r(6) assms(2) by (fastforce simp: world_typed_def)
  ultimately show ?thesis by (simp add: world_typed_def)
qed

section \<open>What a typed world cannot do\<close>

text \<open>The two parts of an entry, as the handler cuts it.\<close>

definition place_lat :: "string \<Rightarrow> string" where
  "place_lat v = takeWhile (\<lambda>c. c \<noteq> CHR ''|'') v"

definition place_lon :: "string \<Rightarrow> string" where
  "place_lon v = tl (dropWhile (\<lambda>c. c \<noteq> CHR ''|'') v)"

lemma place_parts: "CHR ''|'' \<in> set v \<Longrightarrow> v = place_lat v @ ''|'' @ place_lon v"
  unfolding place_lat_def place_lon_def by (induction v) auto

lemma get_location_typed:
  assumes "located (locations w)" and ps: "find_value (req_parameter req) ''token'' = Inr (Some t)"
    "find_value (req_parameter req) ''user_ID'' = Inr (Some u)"
  shows "get_location env fd req w = Inl Buffer_Overflow \<or> (\<exists>w'. get_location env fd req w = Inr ((), w'))"
proof -
  obtain kvs where kvs: "locations w = entries kvs" "distinct (map fst kvs)" "\<forall>e \<in> set kvs. place_ok e"
    using assms(1) by (auto simp: located_def)
  have st: "stores (locations w) (map_of kvs)" using kvs(1,2) by (auto simp: stores_def)
  show ?thesis
  proof (cases "map_of kvs u")
    case None
    then show ?thesis using get_location_unknown [OF ps st] by blast
  next
    case (Some v)
    then have "place_ok (u, v)" using kvs(3) map_of_SomeD by metis
    then have v: "v = place_lat v @ ''|'' @ place_lon v" "NUL \<notin> set v"
      using place_parts by (auto simp: place_ok_def text_ok_def)
    have "CHR ''|'' \<notin> set (place_lat v)" by (auto simp: place_lat_def dest: set_takeWhileD)
    moreover have "NUL \<notin> set (place_lat v)" "NUL \<notin> set (place_lon v)"
      using v(2) unfolding v(1) [THEN arg_cong [of _ _ set]] by auto
    ultimately show ?thesis
      using get_location_read [OF ps st, of "place_lat v" "place_lon v"] Some v(1) by auto
  qed
qed

end
