(* ===== verification/Wire_Runs.thy ===== *)
theory Wire_Runs
  imports Scripted Request_Properties Server
begin

text \<open>
  The thread of a connection on a request as a client writes it: parsing, printing, routing,
  handler and response composed, for the end-to-end properties.
\<close>

lemma printable: "req_header req = entries hs \<Longrightarrow> req_parameter req = entries ps \<Longrightarrow>
  \<exists>info. print_request_info req = Inr info"
  using print_entries_ok [of hs] print_entries_ok [of ps] by (auto simp: print_request_info_def)

text \<open>The memory of the request is there while the handler runs, and given back after it.\<close>

definition with_request :: "request \<Rightarrow> mem \<Rightarrow> 'w world \<Rightarrow> 'w world" where
  "with_request req m w = (case print_request_info req of Inl e \<Rightarrow> w
     | Inr info \<Rightarrow> w\<lparr>memory := m, printed := printed w @ info\<rparr>)"

lemma with_request_sel [simp]:
  "outside (with_request req m w) = outside w" "incoming (with_request req m w) = incoming w"
  "sent (with_request req m w) = sent w" "closed (with_request req m w) = closed w"
  "conns (with_request req m w) = conns w" "next_conn (with_request req m w) = next_conn w"
  "results (with_request req m w) = results w" "queried (with_request req m w) = queried w"
  "locations (with_request req m w) = locations w"
  by (simp_all add: with_request_def split: sum.splits)

lemma thread_serves:
  assumes parse: "parse_request fd (incoming w fd) = Inr req"
    and es: "req_header req = entries hs" "req_parameter req = entries ps" and ok: "mem_ok (memory w)"
  obtains m m' where "\<And>v. run_target (target_of (req_method req) (req_path req)) env fd req (with_request req m w) = Inr ((), v) \<Longrightarrow>
    http_thread env regex_compile fd w = Inr ((), v\<lparr>memory := m', closed := closed v @ [fd]\<rparr>)"
proof -
  obtain info where info: "print_request_info req = Inr info" using printable [OF es] by blast
  obtain m h m' where mem: "build_request (memory w) (req_method req) (req_path req) (req_version req) (req_header req)
      (req_body req) (req_parameter req) = Inr (m, h)" "clear_requset m h = Some (Inr m')"
    using build_clear_request [OF ok] by blast
  have "http_thread env regex_compile fd w = Inr ((), v\<lparr>memory := m', closed := closed v @ [fd]\<rparr>)"
    if v: "run_target (target_of (req_method req) (req_path req)) env fd req (with_request req m w) = Inr ((), v)" for v
  proof -
    have "memory v = m" using run_target_frame(7) [OF v] by (simp add: with_request_def info)
    then show ?thesis using v
      by (simp add: http_thread_def dispatch_target print_def close_fd_def parse info keep_request_def
          mem free_request_def with_request_def)
  qed
  then show ?thesis by (rule that)
qed

lemma thread_fails:
  assumes parse: "parse_request fd (incoming w fd) = Inr req"
    and es: "req_header req = entries hs" "req_parameter req = entries ps" and ok: "mem_ok (memory w)"
    and fault: "\<And>m. run_target (target_of (req_method req) (req_path req)) env fd req (with_request req m w) = Inl e"
  shows "http_thread env regex_compile fd w = Inl e"
proof -
  obtain info where info: "print_request_info req = Inr info" using printable [OF es] by blast
  obtain m h where mem: "build_request (memory w) (req_method req) (req_path req) (req_version req) (req_header req)
      (req_body req) (req_parameter req) = Inr (m, h)"
    using build_clear_request [OF ok] by blast
  show ?thesis using fault [of m]
    by (simp add: http_thread_def dispatch_target print_def parse info keep_request_def mem with_request_def)
qed

lemma thread_on_post:
  assumes ok: "post_ok m path version hs kvs"
    and del: "delivers (incoming w fd) (request_bytes m path version hs (form kvs @ rest))"
    and mem: "mem_ok (memory w)"
  obtains h h' where "\<And>v. run_target (target_of m path) env fd (post_request m path version hs kvs)
      (with_request (post_request m path version hs kvs) h w) = Inr ((), v) \<Longrightarrow>
    http_thread env regex_compile fd w = Inr ((), v\<lparr>memory := h', closed := closed v @ [fd]\<rparr>)"
proof -
  have e: "req_header (post_request m path version hs kvs) = entries (lowered hs)"
    "req_parameter (post_request m path version hs kvs) = entries kvs"
    "req_method (post_request m path version hs kvs) = m" "req_path (post_request m path version hs kvs) = path"
    by (simp_all add: post_request_def)
  show ?thesis
    by (rule thread_serves [OF parse_post [OF ok del] e(1,2) mem, unfolded e(3,4)]) (rule that)
qed

lemma thread_on_get:
  assumes ok: "get_ok m path version hs kvs"
    and del: "delivers (incoming w fd) (request_bytes m (path @ ''?'' @ form kvs) version hs rest)"
    and mem: "mem_ok (memory w)"
  obtains h h' where "\<And>v. run_target (target_of m (path @ ''?'' @ form kvs)) env fd (get_request m path version hs kvs)
      (with_request (get_request m path version hs kvs) h w) = Inr ((), v) \<Longrightarrow>
    http_thread env regex_compile fd w = Inr ((), v\<lparr>memory := h', closed := closed v @ [fd]\<rparr>)"
proof -
  have e: "req_header (get_request m path version hs kvs) = entries (lowered hs)"
    "req_parameter (get_request m path version hs kvs) = entries kvs"
    "req_method (get_request m path version hs kvs) = m"
    "req_path (get_request m path version hs kvs) = path @ ''?'' @ form kvs"
    by (simp_all add: get_request_def)
  show ?thesis
    by (rule thread_serves [OF parse_get [OF ok del] e(1,2) mem, unfolded e(3,4)]) (rule that)
qed

lemma post_is_post: "post_ok m path version hs kvs \<Longrightarrow> is_post m \<and> \<not> is_get m"
  by (auto simp: post_ok_def is_post_def is_get_def)

lemma location_targets:
  "is_post m \<Longrightarrow> \<not> is_get m \<Longrightarrow> target_of m (''/location'' @ q) = To_post_location"
  "is_get m \<Longrightarrow> target_of m (''/location'' @ q) = To_get_location"
  by (simp_all add: target_of_def resources_def starts_def by_method_def)

lemma login_target: "target_of m (''/login'' @ q) = To_login"
  by (simp add: target_of_def resources_def starts_def)

text \<open>What the handlers read of the world does not include the request.\<close>

lemma with_request_connected [simp]: "connected env (with_request req m w) = connected env w"
  by (simp add: connected_def)

lemma with_request_account:
  "account env (with_request req m w) ID stored name i out \<longleftrightarrow> account env w ID stored name i out"
  by (simp add: account_def)

lemma post_request_sel [simp]:
  "req_parameter (post_request m path version hs kvs) = entries kvs"
  "req_version (post_request m path version hs kvs) = version"
  "req_parameter (get_request m path version hs kvs) = entries kvs"
  "req_version (get_request m path version hs kvs) = version"
  by (simp_all add: post_request_def get_request_def)

text \<open>What a connection receives does not change while others are served.\<close>

lemma http_thread_incoming:
  assumes "http_thread env regex_compile fd w = Inr (u, w')"
  shows "incoming w' = incoming w"
proof -
  obtain req info m h v m' where r: "run_target (target_of (req_method req) (req_path req)) env fd req
      (w\<lparr>memory := m, printed := printed w @ info\<rparr>) = Inr ((), v)" and w': "w' = v\<lparr>memory := m', closed := closed v @ [fd]\<rparr>"
    using assms by (rule http_thread_run)
  have "incoming v = incoming w"
  proof (cases "is_handler (target_of (req_method req) (req_path req))")
    case True
    from run_target_handled [OF this r] show ?thesis by (auto simp: handled_def session_def)
  next
    case False
    then show ?thesis using r by (auto simp: is_handler_def)
  qed
  then show ?thesis by (simp add: w')
qed

text \<open>The two requests of the locations.\<close>

lemma location_posted:
  assumes ok: "post_ok m ''/location'' version hs kvs"
    and del: "delivers (incoming w fd) (request_bytes m ''/location'' version hs (form kvs @ rest))"
    and ps: "map_of kvs ''token'' = Some token" "map_of kvs ''latitude'' = Some lat" "map_of kvs ''longitude'' = Some lon"
    and user: "user_is env (next_conn w) token (connected env w) i out1"
    and st: "stores (locations w) f" "position_ok (lat, lon)" and mem: "mem_ok (memory w)"
  shows "\<exists>w'. http_thread env regex_compile fd w = Inr ((), w') \<and>
    stores (locations w') (f(dec i \<mapsto> lat @ ''|'' @ lon)) \<and>
    sent w' = (sent w)(fd := sent w fd @ response_bytes 200 ''OK'' version [] status_ok_body) \<and>
    closed w' = closed w @ [fd] \<and> incoming w' = incoming w \<and> mem_ok (memory w')"
proof -
  let ?req = "post_request m ''/location'' version hs kvs"
  obtain h h' where serves: "\<And>v. run_target (target_of m ''/location'') env fd ?req (with_request ?req h w) = Inr ((), v) \<Longrightarrow>
    http_thread env regex_compile fd w = Inr ((), v\<lparr>memory := h', closed := closed v @ [fd]\<rparr>)"
    using thread_on_post [OF ok del mem] by blast
  obtain v where v: "post_location env fd ?req (with_request ?req h w) = Inr ((), v)"
    "stores (locations v) (f(dec i \<mapsto> lat @ ''|'' @ lon))"
    "sent v = (sent w)(fd := sent w fd @ response_bytes 200 ''OK'' version [] status_ok_body)" "incoming v = incoming w"
    using post_location_run [of ?req kvs token lat lon env "with_request ?req h w" i out1 f fd] ps user st by auto
  have "target_of m ''/location'' = To_post_location"
    using location_targets(1) [of m "[]"] post_is_post [OF ok] by simp
  then have run: "http_thread env regex_compile fd w = Inr ((), v\<lparr>memory := h', closed := closed v @ [fd]\<rparr>)"
    using v(1) by (intro serves) simp
  show ?thesis using run http_thread_frame(1) [OF run] http_thread_memory(1) [OF run mem] v(2-4)
    by (intro exI conjI) (assumption, simp_all)
qed

lemma location_got:
  assumes ok: "get_ok m ''/location'' version hs kvs"
    and del: "delivers (incoming w fd) (request_bytes m (''/location'' @ ''?'' @ form kvs) version hs rest)"
    and ps: "map_of kvs ''token'' = Some t" "map_of kvs ''user_ID'' = Some u"
    and st: "stores (locations w) f" "f u = Some (lat @ ''|'' @ lon)" and mem: "mem_ok (memory w)"
    and lat: "CHR ''|'' \<notin> set lat" "position_ok (lat, lon)" "length (location_body lat lon) < 256"
  shows "\<exists>w'. http_thread env regex_compile fd w = Inr ((), w') \<and>
    sent w' = (sent w)(fd := sent w fd @ response_bytes 200 ''OK'' version [] (location_body lat lon)) \<and>
    closed w' = closed w @ [fd]"
proof -
  let ?req = "get_request m ''/location'' version hs kvs"
  obtain h h' where serves: "\<And>v. run_target (target_of m (''/location'' @ ''?'' @ form kvs)) env fd ?req (with_request ?req h w) = Inr ((), v) \<Longrightarrow>
    http_thread env regex_compile fd w = Inr ((), v\<lparr>memory := h', closed := closed v @ [fd]\<rparr>)"
    using thread_on_get [OF ok del mem] by blast
  obtain v where v: "get_location env fd ?req (with_request ?req h w) = Inr ((), v)"
    "sent v = (sent w)(fd := sent w fd @ response_bytes 200 ''OK'' version [] (location_body lat lon))"
    using get_location_known [of ?req kvs t u "with_request ?req h w" f lat lon env fd] ps st lat
    by (simp add: position_ok_def)
  have "target_of m (''/location'' @ ''?'' @ form kvs) = To_get_location"
    using ok by (intro location_targets(2)) (simp add: get_ok_def)
  then have run: "http_thread env regex_compile fd w = Inr ((), v\<lparr>memory := h', closed := closed v @ [fd]\<rparr>)"
    using v(1) by (intro serves) (simp only: run_target.simps)
  show ?thesis using run http_thread_frame(1) [OF run] v(2) by (intro exI conjI) (assumption, simp_all)
qed

text \<open>A login with the right password.\<close>

lemma login_served:
  assumes "post_ok m ''/login'' version hs kvs"
    and "delivers (incoming w fd) (request_bytes m ''/login'' version hs (form kvs @ rest))"
    and "map_of kvs ''ID'' = Some ID" and "map_of kvs ''password'' = Some password"
    and "account env w ID password name i out1" and "mem_ok (memory w)"
    and "rands env 50 out1 = (rs, out2)" and "\<forall>r \<in> set rs. 0 \<le> r"
    and "fst (db_query env (next_conn w) (new_token_query (token_of rs) i) out2)"
  shows "\<exists>w'. http_thread env regex_compile fd w = Inr ((), w') \<and>
    sent w' = (sent w)(fd := sent w fd @ response_bytes 200 ''OK'' version [] (login_body ''OK'' (token_of rs) name)) \<and>
    queried w' = queried w @ [(next_conn w, login_query ID), (next_conn w, new_token_query (token_of rs) i)] \<and>
    conns w' = conns w \<and> results w' = results w \<and> closed w' = closed w @ [fd]"
proof -
  let ?req = "post_request m ''/login'' version hs kvs"
  obtain h h' where serves: "\<And>v. run_target (target_of m ''/login'') env fd ?req (with_request ?req h w) = Inr ((), v) \<Longrightarrow>
    http_thread env regex_compile fd w = Inr ((), v\<lparr>memory := h', closed := closed v @ [fd]\<rparr>)"
    using thread_on_post [OF assms(1,2,6)] by blast
  have acc: "account env (with_request ?req h w) ID password name i out1" using assms(5) by (simp add: with_request_account)
  obtain v where v: "login env fd ?req (with_request ?req h w) = Inr ((), v)"
    "sent v = (sent w)(fd := sent w fd @ response_bytes 200 ''OK'' version [] (login_body ''OK'' (token_of rs) name))"
    "queried v = queried w @ [(next_conn w, login_query ID), (next_conn w, new_token_query (token_of rs) i)]"
    "conns v = conns w" "results v = results w"
    using login_run [OF _ assms(3,4) acc assms(7,8), of ?req fd] assms(9) by auto
  have "target_of m ''/login'' = To_login" using login_target [of m "[]"] by simp
  then have run: "http_thread env regex_compile fd w = Inr ((), v\<lparr>memory := h', closed := closed v @ [fd]\<rparr>)"
    using v(1) by (intro serves) simp
  show ?thesis using run http_thread_frame(1) [OF run] v(2-5) by (intro exI conjI) (assumption, simp_all)
qed

end
