(* ===== verification/Handler_Returns.thy ===== *)
theory Handler_Returns
  imports Typing Wire_Runs
begin

text \<open>
  When a request is served: a logic of total correctness for the actions of the handlers, and the
  conditions under which each handler returns. The conditions are on the texts of the request, on
  the rows the database answers its statements with, and on the clock; each is a bound the code
  relies on and does not test.
\<close>

section \<open>Short values\<close>

definition short :: "nat \<Rightarrow> string option \<Rightarrow> bool" where
  "short n v \<longleftrightarrow> (case v of None \<Rightarrow> False | Some s \<Rightarrow> length s \<le> n)"

text \<open>Rows of as many columns as there are bounds, each a text within its bound.\<close>

definition fits :: "nat list \<Rightarrow> rows \<Rightarrow> bool" where
  "fits ns rs \<longleftrightarrow> (\<forall>r \<in> set rs. list_all2 (\<lambda>v n. short n v) r ns)"

lemma short_text:
  assumes "list_all2 (\<lambda>v n. short n v) r ns" and "i < length ns"
  obtains t where "text_column (Some r) i = Inr t" and "NUL \<notin> set t" and "length t \<le> ns ! i"
proof -
  have "short (ns ! i) (r ! i)" "i < length r"
    using assms list_all2_nthD2 list_all2_lengthD by (fastforce, metis)
  then obtain s where s: "r ! i = Some s" "length s \<le> ns ! i" by (auto simp: short_def split: option.splits)
  have "text_column (Some r) i = Inr (takeWhile (\<lambda>c. c \<noteq> NUL) s)"
    using s \<open>i < length r\<close> by (simp add: text_column_def column_def)
  moreover have "NUL \<notin> set (takeWhile (\<lambda>c. c \<noteq> NUL) s)" by (auto dest: set_takeWhileD)
  moreover have "length (takeWhile (\<lambda>c. c \<noteq> NUL) s) \<le> ns ! i"
    using s(2) length_takeWhile_le [of "\<lambda>c. c \<noteq> NUL" s] by simp
  ultimately show ?thesis by (rule that)
qed

lemma fits_column: "fits ns (r # rs) \<Longrightarrow> i < length ns \<Longrightarrow>
  \<exists>t. text_column (Some r) i = Inr t \<and> NUL \<notin> set t \<and> length t \<le> ns ! i"
  by (rule short_text [of r ns i]) (auto simp: fits_def)

lemma digits_val_less: "digits_val a s < (a + 1) * 10 ^ length s"
proof (induction s arbitrary: a)
  case (Cons c s)
  show ?case
  proof (cases "is_digit c")
    case True
    then have "(of_char c :: nat) \<le> 57" by (simp add: is_digit_def)
    then have "of_char c - 48 \<le> (9 :: nat)" by linarith
    then have "10 * a + (of_char c - 48) + 1 \<le> 10 * (a + 1)" by simp
    then have "(10 * a + (of_char c - 48) + 1) * 10 ^ length s \<le> 10 * (a + 1) * 10 ^ length s" by (rule mult_le_mono1)
    with Cons.IH [of "10 * a + (of_char c - 48)"]
    have "digits_val (10 * a + (of_char c - 48)) s < 10 * (a + 1) * 10 ^ length s" by (rule less_le_trans)
    then show ?thesis using True by (simp add: algebra_simps)
  next
    case False
    then show ?thesis using mult_le_mono2 [of 1 "10 ^ length (c # s)" "a + 1"] by simp
  qed
qed simp

lemma atoi_short:
  assumes "length s \<le> 9"
  shows "\<exists>i. atoi s = Inr i \<and> length (dec i) \<le> 11"
proof -
  have small: "digits_val 0 u < 1000000000" if "length u \<le> 9" for u
  proof -
    have "(10 :: nat) ^ length u \<le> 10 ^ 9" using that by (intro power_increasing) simp_all
    then show ?thesis using digits_val_less [of 0 u] by simp
  qed
  have "length (dropWhile is_space s) \<le> 9" using assms length_dropWhile_le [of is_space s] by simp
  then have d: "digits_val 0 (dropWhile is_space s) < 1000000000"
    "digits_val 0 (tl (dropWhile is_space s)) < 1000000000" by (auto intro!: small)
  have "\<exists>i. atoi s = Inr i"
  proof (cases "dropWhile is_space s")
    case Nil
    then show ?thesis unfolding atoi_def Let_def Nil by simp
  next
    case (Cons c u)
    then show ?thesis using d unfolding atoi_def Let_def Cons by simp
  qed
  then show ?thesis using atoi_dec_length by blast
qed

section \<open>Total triples\<close>

text \<open>\<open>returns P m Q\<close>: from every world with \<open>P\<close>, \<open>m\<close> returns, and its result has \<open>Q\<close>.\<close>

definition returns :: "('w world \<Rightarrow> bool) \<Rightarrow> ('w, 'a) act \<Rightarrow> ('a \<Rightarrow> 'w world \<Rightarrow> bool) \<Rightarrow> bool" where
  "returns P m Q \<longleftrightarrow> (\<forall>w. P w \<longrightarrow> (\<exists>a w'. m w = Inr (a, w') \<and> Q a w'))"

named_theorems serving \<open>rules that move a total triple over one operation\<close>

lemma totalI: "(\<And>w. P w \<Longrightarrow> \<exists>a w'. m w = Inr (a, w') \<and> Q a w') \<Longrightarrow> returns P m Q"
  by (simp add: returns_def)

lemma totalD: "returns P m Q \<Longrightarrow> P w \<Longrightarrow> \<exists>a w'. m w = Inr (a, w') \<and> Q a w'"
  by (simp add: returns_def)

lemma total_bind:
  assumes "returns P m (\<lambda>a w. A a \<and> R w)" and "\<And>x. A x \<Longrightarrow> returns R (f x) Q"
  shows "returns P (abind m f) Q"
proof (rule totalI)
  fix w assume "P w"
  then obtain a w1 where a: "m w = Inr (a, w1)" "A a" "R w1" using totalD [OF assms(1)] by blast
  then show "\<exists>b w'. abind m f w = Inr (b, w') \<and> Q b w'" using totalD [OF assms(2) [OF a(2)] a(3)] by simp
qed

lemma total_then:
  assumes "returns P m (\<lambda>_. R)" and "returns R k Q"
  shows "returns P (andthen m k) Q"
  unfolding andthen_def using assms by (intro total_bind [where A = "\<lambda>_. True" and R = R]) auto

lemma total_fmt [serving]:
  assumes "returns P (f s) Q" and "NUL \<notin> set s" and "length s < nat n"
  shows "returns P (abind (lift (fmt n s)) f) Q"
proof -
  have "fmt n s = Inr s" using assms(2,3) by (subst fmt_ok) auto
  then show ?thesis using assms(1) by (simp add: lift_Inr)
qed

lemma total_number:
  assumes "\<And>j. length (dec j) \<le> 11 \<Longrightarrow> returns P (f j) Q" and "fits ns (r # rs)" and "i < length ns" and "ns ! i \<le> 9"
  shows "returns P (abind (lift (rbind (text_column (Some r) i) atoi)) f) Q"
proof -
  obtain t where t: "text_column (Some r) i = Inr t" "length t \<le> 9"
    using fits_column [OF assms(2,3)] assms(4) by auto
  then show ?thesis using atoi_short [OF t(2)] assms(1) by (auto simp: lift_Inr)
qed

lemma total_column:
  assumes "\<And>t. NUL \<notin> set t \<Longrightarrow> length t \<le> ns ! i \<Longrightarrow> returns P (f t) Q" and "fits ns (r # rs)" and "i < length ns"
  shows "returns P (abind (lift (text_column (Some r) i)) f) Q"
  using fits_column [OF assms(2,3)] assms(1) by (auto simp: lift_Inr)

lemma total_copied:
  assumes "\<And>t. NUL \<notin> set t \<Longrightarrow> length t \<le> ns ! i \<Longrightarrow> returns P (f t) Q"
    and "fits ns (r # rs)" and "i < length ns" and "ns ! i < nat n"
  shows "returns P (abind (lift (rbind (text_column (Some r) i) (fmt n))) f) Q"
proof -
  obtain t where t: "text_column (Some r) i = Inr t" "NUL \<notin> set t" "length t \<le> ns ! i"
    using fits_column [OF assms(2,3)] by auto
  then have "fmt n t = Inr t" using assms(4) by (subst fmt_ok) auto
  then show ?thesis using t assms(1) by (simp add: lift_Inr)
qed

lemma total_atoi [serving]:
  assumes "\<And>i. length (dec i) \<le> 11 \<Longrightarrow> returns P (f i) Q" and "length s \<le> 9"
  shows "returns P (abind (lift (atoi s)) f) Q"
  using assms atoi_short [of s] by (auto simp: lift_Inr)

lemma total_fetch [serving]:
  assumes "rs = [] \<Longrightarrow> returns P (f None (Some [])) Q"
    and "\<And>r rest. rs = r # rest \<Longrightarrow> returns P (f (Some r) (Some rest)) Q"
  shows "returns P (abind (lift (mysql_fetch_row (Some rs))) (\<lambda>(row, rs). f row rs)) Q"
  using assms by (cases rs) (simp_all add: lift_Inr)

lemma total_if_eq [serving]:
  "(x = y \<Longrightarrow> returns P m Q) \<Longrightarrow> (x \<noteq> y \<Longrightarrow> returns P k Q) \<Longrightarrow> returns P (if x = y then m else k) Q"
  by simp

lemma total_if_ok [serving]:
  "returns P k Q \<Longrightarrow> returns P (if \<not> True then m else k) Q"
  "returns P m Q \<Longrightarrow> returns P (if \<not> False then m else k) Q"
  by simp_all

lemma total_bind_if [serving]:
  "returns P (abind m' f) Q \<Longrightarrow> returns P (abind (if \<not> True then m else m') f) Q"
  "returns P (abind m f) Q \<Longrightarrow> returns P (abind (if \<not> False then m else m') f) Q"
  by simp_all

lemma total_return: "(\<And>w. P w \<Longrightarrow> Q x w) \<Longrightarrow> returns P (ret x) Q"
  by (simp add: returns_def)

lemma total_ret [serving]: "returns P (f x) Q \<Longrightarrow> returns P (abind (ret x) f) Q"
  by (simp add: returns_def)

section \<open>The worlds of a handler\<close>

text \<open>
  Before a handler has its connection, with it, and after a statement the database accepted. The
  texts in the list of locations are short enough for the answer they are put in.
\<close>

definition ready :: "'w world \<Rightarrow> bool" where
  "ready w \<longleftrightarrow> located (locations w) \<and> (\<forall>(k, v) \<in> set (locations w). length v \<le> 200)"

definition opened :: "nat \<Rightarrow> 'w world \<Rightarrow> bool" where
  "opened c w \<longleftrightarrow> ready w \<and> c \<in> set (conns w)"

definition answered :: "'w env \<Rightarrow> nat \<Rightarrow> string \<Rightarrow> 'w world \<Rightarrow> bool" where
  "answered env c q w \<longleftrightarrow> opened c w \<and> (\<exists>out. db_query env c q out = (True, outside w))"

definition below :: "('w world \<Rightarrow> bool) \<Rightarrow> bool" where
  "below P \<longleftrightarrow> (\<forall>w. P w \<longrightarrow> ready w)"

lemma below_simps [simp]: "below ready" "below (opened c)" "below (answered env c q)"
  by (simp_all add: below_def opened_def answered_def)

lemma ready_cong: "ready w \<Longrightarrow> locations w' = locations w \<Longrightarrow> ready w'"
  by (simp add: ready_def)

lemma total_weaken:
  "returns (opened c) m Q \<Longrightarrow> returns (answered env c q) m Q"
  by (simp add: returns_def answered_def)

lemma total_pop [serving]:
  assumes "\<And>c. returns (opened c) (f c) Q"
  shows "returns ready (abind (connection_pop env) f) Q"
proof (rule totalI)
  fix w :: "'a world" assume "ready w"
  then have "opened (next_conn w) (popped env w)" by (simp add: opened_def ready_def)
  then show "\<exists>a w'. abind (connection_pop env) f w = Inr (a, w') \<and> Q a w'"
    using totalD [OF assms, of "next_conn w"] by (simp add: connection_pop_run)
qed

lemma total_push:
  assumes "returns ready k Q"
  shows "returns (opened c) (andthen (connection_push env c) k) Q"
  by (rule total_then [OF _ assms], rule totalI) (simp add: opened_def ready_def connection_push_def)

lemma total_query:
  assumes "returns (answered env c q) (f True) Q" and "returns (opened c) (f False) Q"
  shows "returns (opened c) (abind (mysql_query env c q) f) Q"
proof (rule totalI)
  fix w :: "'a world" assume o: "opened c w"
  obtain ok out where q: "db_query env c q (outside w) = (ok, out)" by force
  define w1 where "w1 = w\<lparr>outside := out, queried := queried w @ [(c, q)]\<rparr>"
  have r: "abind (mysql_query env c q) f w = f ok w1" by (simp add: mysql_query_def q w1_def)
  have o1: "opened c w1" using o by (simp add: opened_def ready_def w1_def)
  show "\<exists>a w'. abind (mysql_query env c q) f w = Inr (a, w') \<and> Q a w'"
  proof (cases ok)
    case True
    then have "answered env c q w1" using o1 q by (auto simp: answered_def w1_def)
    then show ?thesis using totalD [OF assms(1), of w1] \<open>ok\<close> unfolding r by simp
  next
    case False
    then show ?thesis using totalD [OF assms(2) o1] unfolding r by simp
  qed
qed

lemma total_free [serving]:
  assumes "returns (opened c) k Q"
  shows "returns (opened c) (andthen (mysql_free_result r) k) Q"
  by (rule total_then [OF _ assms], rule totalI) (simp add: opened_def ready_def mysql_free_result_def)

lemma total_commit:
  assumes "returns (opened c) k Q"
  shows "returns (opened c) (andthen (mysql_commit env c) k) Q"
  by (rule total_then [OF _ assms], rule totalI) (simp add: opened_def ready_def mysql_commit_def)

lemma total_print [serving]:
  assumes "returns (opened c) k Q"
  shows "returns (opened c) (andthen (print s) k) Q"
  by (rule total_then [OF _ assms], rule totalI) (simp add: opened_def ready_def print_def)

lemmas total_after_query [serving] = total_free [THEN total_weaken] total_push total_query total_commit
  total_push [THEN total_weaken] total_query [THEN total_weaken] total_commit [THEN total_weaken]

text \<open>The result set of a statement that has been accepted.\<close>

definition replies :: "'w env \<Rightarrow> string \<Rightarrow> (rows \<Rightarrow> bool) \<Rightarrow> bool" where
  "replies env q R \<longleftrightarrow> (\<forall>c out out1. db_query env c q out = (True, out1) \<longrightarrow>
     (\<exists>rs out2. db_store env c out1 = (Some rs, out2) \<and> R rs))"

lemma total_store:
  assumes "\<And>rs. R rs \<Longrightarrow> returns (opened c) (f (Some rs)) Q" and "replies env q R"
  shows "returns (answered env c q) (abind (mysql_store_result env c) f) Q"
proof (rule totalI)
  fix w :: "'a world" assume a: "answered env c q w"
  then obtain out where out: "db_query env c q out = (True, outside w)" by (auto simp: answered_def)
  obtain rs out2 where rs: "db_store env c (outside w) = (Some rs, out2)" "R rs"
    using assms(2) out unfolding replies_def by blast
  have "opened c (w\<lparr>outside := out2, results := results w + 1\<rparr>)"
    using a by (simp add: answered_def opened_def ready_def)
  then show "\<exists>a w'. abind (mysql_store_result env c) f w = Inr (a, w') \<and> Q a w'"
    using totalD [OF assms(1) [OF rs(2)]] by (simp add: mysql_store_result_def rs(1))
qed

text \<open>A result that is only freed, as after a statement without rows.\<close>

lemma total_store_free:
  assumes "returns (opened c) k Q"
  shows "returns (answered env c q) (abind (mysql_store_result env c) (\<lambda>r. andthen (mysql_free_result r) k)) Q"
proof (rule totalI)
  fix w :: "'a world" assume a: "answered env c q w"
  obtain r out2 where r: "db_store env c (outside w) = (r, out2)" by force
  define w1 where "w1 = w\<lparr>outside := out2, results := results w + (if r = None then 0 else 1)\<rparr>"
  have "opened c w1" using a by (simp add: answered_def opened_def ready_def w1_def)
  then show "\<exists>a w'. abind (mysql_store_result env c) (\<lambda>r. andthen (mysql_free_result r) k) w = Inr (a, w') \<and> Q a w'"
    using totalD [OF total_free [OF assms]] by (simp add: mysql_store_result_def r w1_def)
qed

section \<open>Answers\<close>

lemma total_response: "below P \<Longrightarrow> returns P (response fd code msg version None (Some body)) (\<lambda>_. ready)"
  by (auto simp: returns_def below_def ready_def)

lemma total_reply [serving]: "below P \<Longrightarrow> returns P (reply_ok fd req body) (\<lambda>_. ready)"
  unfolding reply_ok_def by (rule total_response)

lemma total_error [serving]: "below P \<Longrightarrow> returns P (server_errer env fd req c) (\<lambda>_. ready)"
  by (auto simp: returns_def below_def ready_def server_errer_def mysql_error_def log_error_def)

lemma total_join_reply [serving]:
  "below P \<Longrightarrow> NUL \<notin> set s \<Longrightarrow> length s \<le> 5 \<Longrightarrow> returns P (join_reply fd req s) (\<lambda>_. ready)"
  unfolding join_reply_def
  by (intro total_fmt total_reply) (auto simp: json_status_def json_field_def quoted_def)

lemma total_logged [serving]:
  assumes "returns (opened c) (f x) Q"
  shows "returns (opened c) (abind (abind (mysql_error env c') (\<lambda>e. andthen (log_error (g e)) (ret x))) f) Q"
proof (rule total_bind)
  show "returns (opened c) (abind (mysql_error env c') (\<lambda>e. andthen (log_error (g e)) (ret x)))
      (\<lambda>a w. a = x \<and> opened c w)"
    by (rule totalI) (simp add: mysql_error_def log_error_def opened_def ready_def)
qed (simp add: assms)

section \<open>Helpers that return\<close>

text \<open>How long the statements and the bodies are, and that they are texts when what is put in them is.\<close>

named_theorems texts \<open>lengths and characters of the texts the handlers format\<close>

lemmas formats = token_query_def id_query_def attendance_query_def signup_query_def login_query_def
  new_token_query_def new_group_query_def join_query_def groups_query_def owner_query_def todos_query_def
  new_todo_query_def progress_query_def update_progress_query_def insert_progress_query_def
  latest_query_def new_chat_query_def chats_query_def json_status_def json_field_def quoted_def sq_def
  login_body_def progress_body_def chat_body_def status_ok_body_def location_body_def

lemma text_lengths [texts]:
  "length (token_query t) = 83 + length t"
  "length (id_query u) = 34 + length u"
  "length (login_query u) = 46 + length u"
  "length (signup_query n u p) = 53 + length n + length u + length p"
  "length (new_token_query t i) = 46 + length t + length (dec i)"
  "length (new_group_query n i) = 51 + length n + length (dec i)"
  "length (join_query i g) = 54 + length (dec i) + length g"
  "length (attendance_query i j) = 76 + length (dec i) + length (dec j)"
  "length (groups_query i) = 180 + length (dec i)"
  "length (owner_query i g) = 55 + length (dec i) + length g"
  "length (todos_query i) = 50 + length (dec i)"
  "length (new_todo_query i s t) = 59 + length (dec i) + length s + length t"
  "length (progress_query i) = 45 + length (dec i)"
  "length (update_progress_query s i) = 47 + length s + length (dec i)"
  "length (insert_progress_query i s) = 48 + length (dec i) + length s"
  "length (latest_query g) = 44 + length g"
  "length (new_chat_query i g s t) = 89 + length (dec i) + length g + length s + length t"
  "length (json_status s) = 13 + length s"
  "length (login_body s t n) = 34 + length s + length t + length n"
  "length (progress_body s) = 11 + length s"
  "length (chat_body s i) = 23 + length s + length (dec i)"
  "length (location_body s t) = 26 + length s + length t"
  "length (chats_query g None) = 118 + length g"
  "length (chats_query g (Some t)) = 132 + length g + length t"
  by (simp_all add: formats)

lemmas dec_text [texts] = dec_no_nul

lemma text_chars [texts]:
  "NUL \<notin> set (token_query t) \<longleftrightarrow> NUL \<notin> set t"
  "NUL \<notin> set (id_query u) \<longleftrightarrow> NUL \<notin> set u"
  "NUL \<notin> set (login_query u) \<longleftrightarrow> NUL \<notin> set u"
  "NUL \<notin> set (signup_query n u p) \<longleftrightarrow> NUL \<notin> set n \<and> NUL \<notin> set u \<and> NUL \<notin> set p"
  "NUL \<notin> set (new_token_query t i) \<longleftrightarrow> NUL \<notin> set t"
  "NUL \<notin> set (new_group_query n i) \<longleftrightarrow> NUL \<notin> set n"
  "NUL \<notin> set (join_query i g) \<longleftrightarrow> NUL \<notin> set g"
  "NUL \<notin> set (attendance_query i j)"
  "NUL \<notin> set (groups_query i)"
  "NUL \<notin> set (owner_query i g) \<longleftrightarrow> NUL \<notin> set g"
  "NUL \<notin> set (todos_query i)"
  "NUL \<notin> set (new_todo_query i s t) \<longleftrightarrow> NUL \<notin> set s \<and> NUL \<notin> set t"
  "NUL \<notin> set (progress_query i)"
  "NUL \<notin> set (update_progress_query s i) \<longleftrightarrow> NUL \<notin> set s"
  "NUL \<notin> set (insert_progress_query i s) \<longleftrightarrow> NUL \<notin> set s"
  "NUL \<notin> set (latest_query g) \<longleftrightarrow> NUL \<notin> set g"
  "NUL \<notin> set (new_chat_query i g s t) \<longleftrightarrow> NUL \<notin> set g \<and> NUL \<notin> set s \<and> NUL \<notin> set t"
  "NUL \<notin> set (json_status s) \<longleftrightarrow> NUL \<notin> set s"
  "NUL \<notin> set (login_body s t n) \<longleftrightarrow> NUL \<notin> set s \<and> NUL \<notin> set t \<and> NUL \<notin> set n"
  "NUL \<notin> set (progress_body s) \<longleftrightarrow> NUL \<notin> set s"
  "NUL \<notin> set (chat_body s i) \<longleftrightarrow> NUL \<notin> set s"
  "NUL \<notin> set (location_body s t) \<longleftrightarrow> NUL \<notin> set s \<and> NUL \<notin> set t"
  "NUL \<notin> set (chats_query g None) \<longleftrightarrow> NUL \<notin> set g"
  "NUL \<notin> set (chats_query g (Some t)) \<longleftrightarrow> NUL \<notin> set g \<and> NUL \<notin> set t"
  by (simp_all add: formats dec_no_nul)

lemma total_user [serving]:
  assumes "\<And>i. length (dec i) \<le> 11 \<Longrightarrow> returns (opened c) (f i) Q"
    and "NUL \<notin> set token" and "length token \<le> 60"
    and "replies env (token_query token) (\<lambda>rs. rs \<noteq> [] \<and> fits [9] rs)"
  shows "returns (opened c) (abind (getUserIdx env c token) f) Q"
proof (rule total_bind)
  have "length (dec (-1)) \<le> 11" by (simp add: length_dec)
  then show "returns (opened c) (getUserIdx env c token) (\<lambda>i w. length (dec i) \<le> 11 \<and> opened c w)"
    unfolding getUserIdx_def using assms(2,3)
    by (intro serving total_return total_store [OF _ assms(4)] total_number [where ns = "[9]"]) (auto simp: texts)
qed (rule assms(1))

lemma total_user_by_ID [serving]:
  assumes "\<And>i. length (dec i) \<le> 11 \<Longrightarrow> returns (opened c) (f i) Q"
    and "NUL \<notin> set ID" and "length ID \<le> 60" and "replies env (id_query ID) (fits [9])"
  shows "returns (opened c) (abind (getUserIdxByID env c ID) f) Q"
proof (rule total_bind)
  have "length (dec (-1)) \<le> 11" by (simp add: length_dec)
  then show "returns (opened c) (getUserIdxByID env c ID) (\<lambda>i w. length (dec i) \<le> 11 \<and> opened c w)"
    unfolding getUserIdxByID_def using assms(2,3)
    by (intro serving total_return total_store [OF _ assms(4)] total_number [where ns = "[9]"]) (auto simp: texts)
qed (rule assms(1))

lemma total_attendance [serving]:
  assumes "returns (opened c) k Q" and "length (dec i) \<le> 11" and "length (dec j) \<le> 11"
  shows "returns (opened c) (andthen (attendance_check env c i j) k) Q"
proof (rule total_then [OF _ assms(1)])
  have "length (attendance_query i j) < 256" "NUL \<notin> set (attendance_query i j)"
    using assms(2,3) by (auto simp: texts dec_no_nul)
  then show "returns (opened c) (attendance_check env c i j) (\<lambda>_. opened c)"
    by (intro totalI) (auto simp: attendance_check_def mysql_query_def opened_def ready_def split: prod.splits)
qed

lemma total_token [serving]:
  assumes "\<And>p t. c_string p = Inr t \<Longrightarrow> NUL \<notin> set t \<Longrightarrow> length t \<le> 50 \<Longrightarrow> returns (opened c) (f p) Q"
  shows "returns (opened c) (abind (create_token env (zeroed 51)) f) Q"
proof (rule total_bind)
  show "returns (opened c) (create_token env (zeroed 51)) (\<lambda>p w. (\<exists>t. c_string p = Inr t \<and> length t \<le> 50) \<and> opened c w)"
  proof (rule totalI)
    fix w :: "'a world" assume o: "opened c w"
    obtain rs out' where rs: "rands env 50 (outside w) = (rs, out')" by force
    obtain p where p: "create_token env (zeroed 51) w = Inr (p, w\<lparr>outside := out'\<rparr>)"
      "from_ptr p = Inr (map Some (token_of rs) @ [Some NUL])" using create_token_run [OF rs] by blast
    have "c_string p = Inr (takeWhile (\<lambda>c. c \<noteq> NUL) (token_of rs))"
      using p(2) by (simp add: c_string_def chars_to_nul_takeWhile)
    moreover have "length (takeWhile (\<lambda>c. c \<noteq> NUL) (token_of rs)) \<le> 50"
      using length_takeWhile_le [of "\<lambda>c. c \<noteq> NUL" "token_of rs"] rands_length [OF rs] by (simp add: token_of_def)
    ultimately show "\<exists>a w'. create_token env (zeroed 51) w = Inr (a, w') \<and>
        (\<exists>t. c_string a = Inr t \<and> length t \<le> 50) \<and> opened c w'"
      using p(1) o by (auto simp: opened_def ready_def)
  qed
qed (use assms c_string_no_nul in blast)

text \<open>A clock whose fields, as printed, are values of an \<^verbatim>\<open>int\<close>.\<close>

definition clock_ok :: "'w env \<Rightarrow> bool" where
  "clock_ok env \<longleftrightarrow> (\<forall>out. case local_time env out of ((year, mon, mday, hour, mins, sec), _) \<Rightarrow>
     \<forall>v \<in> set [year + 1900, mon + 1, mday, hour, mins, sec]. -2147483648 \<le> v \<and> v \<le> 2147483647)"

lemma total_now [serving]:
  assumes "clock_ok env" and "\<And>p t. c_string p = Inr t \<Longrightarrow> free p = Inr () \<Longrightarrow> NUL \<notin> set t \<Longrightarrow> length t \<le> 80 \<Longrightarrow> returns (opened c) (f p) Q"
  shows "returns (opened c) (abind (getNow env) f) Q"
proof (rule total_bind)
  let ?A = "\<lambda>p. free p = Inr () \<and> (\<exists>t. c_string p = Inr t \<and> length t \<le> 80)"
  show "returns (opened c) (getNow env) (\<lambda>p w. ?A p \<and> opened c w)"
  proof (rule totalI)
    fix w :: "'a world" assume o: "opened c w"
    obtain tm out' where "local_time env (outside w) = (tm, out')" by (rule prod.exhaust)
    moreover obtain y mo d h mi s where "tm = (y, mo, d, h, mi, s)" by (cases tm)
    ultimately have t: "local_time env (outside w) = ((y, mo, d, h, mi, s), out')" by simp
    define now where "now = dec (y + 1900) @ ''-'' @ dec (mo + 1) @ ''-'' @ dec d @ '' '' @
      dec h @ '':'' @ dec mi @ '':'' @ dec s"
    have "\<forall>v \<in> set [y + 1900, mo + 1, d, h, mi, s]. length (dec v) \<le> 11"
      using assms(1) [unfolded clock_ok_def, rule_format, of "outside w"] unfolding t by (simp add: length_dec)
    then have l: "length now \<le> 80" by (simp add: now_def)
    have n: "NUL \<notin> set now" by (simp add: now_def dec_no_nul)
    have "c_string (Ptr (map Some now @ Some NUL # r) 0) = Inr now" for r
      using n by (simp add: c_string_def from_ptr_def chars_to_nul_iff)
    moreover obtain r where "sprintf (malloc 200) now = Inr (Ptr (map Some now @ Some NUL # r) 0)"
      using l by (simp add: sprintf_def put_bytes_def malloc_def)
    ultimately have "\<exists>p. sprintf (malloc 200) now = Inr p \<and> ?A p" using l by (auto simp: free_def)
    then show "\<exists>a w'. getNow env w = Inr (a, w') \<and> ?A a \<and> opened c w'"
      using o t by (auto simp: getNow_def now_def opened_def ready_def)
  qed
qed (use assms(2) c_string_no_nul in blast)

lemma total_string [serving]:
  "c_string p = Inr t \<Longrightarrow> returns P (f t) Q \<Longrightarrow> returns P (abind (lift (c_string p)) f) Q"
  by (simp add: lift_Inr)

lemma total_freed [serving]: "free p = Inr () \<Longrightarrow> returns P k Q \<Longrightarrow> returns P (andthen (lift (free p)) k) Q"
  by (simp add: returns_def)

section \<open>Lists that fit\<close>

text \<open>As many rows as a stream can be asked for without its size overflowing.\<close>

definition ROWS_MAX :: nat where "ROWS_MAX = 7000000"

lemma joined_length: "\<forall>x \<in> set xs. length x < 100 \<Longrightarrow> length (joined b xs) \<le> 100 * length xs"
proof (induction xs arbitrary: b)
  case (Cons x xs)
  have "length (joined True xs) \<le> 100 * length xs" using Cons by simp
  then show ?case using Cons.prems by auto
qed simp

lemma total_result:
  assumes "\<And>s b. c_string (st_buf s) = Inr b \<Longrightarrow> stream_destory s = Inr () \<Longrightarrow> returns (opened c) (f s) Q"
    and "items_ok item g rs" and "length rs \<le> ROWS_MAX"
  shows "returns (opened c) (abind (write_result item echo (Some rs)) f) Q"
proof (rule total_bind)
  let ?A = "\<lambda>s. stream_destory s = Inr () \<and> (\<exists>b. c_string (st_buf s) = Inr b)"
  have "length (joined False (map g rs)) \<le> 100 * length rs"
    using joined_length [of "map g rs" False] assms(2) by (simp add: items_ok_def)
  then have l: "length (json_array (map g rs)) \<le> LINE_MAX"
    using assms(3) by (simp add: json_array_def ROWS_MAX_def LINE_MAX_def)
  show "returns (opened c) (write_result item echo (Some rs)) (\<lambda>s w. ?A s \<and> opened c w)"
  proof (rule totalI, goal_cases)
    case (1 w)
    then show ?case
      using write_result_run [OF assms(2) l, of echo w] by (auto simp: opened_def ready_def)
  qed
qed (use assms(1) in blast)

text \<open>Rows whose items fit the array of 100 characters, as many as the stream can hold.\<close>

definition items_fit :: "(row \<Rightarrow> string res) \<Rightarrow> rows \<Rightarrow> bool" where
  "items_fit item rs \<longleftrightarrow> items_ok item (\<lambda>r. projr (item r)) rs \<and> length rs \<le> ROWS_MAX"

lemma total_list [serving]:
  assumes "replies env q (items_fit item)"
  shows "returns (opened c) (list_reply env fd req c q item echo) (\<lambda>_. ready)"
proof -
  have finish: "returns ready (andthen (reply_ok fd req b) (lift (Inr ()))) (\<lambda>_. ready)" for b
    by (intro total_then [OF total_reply]) (simp_all add: returns_def)
  show ?thesis unfolding list_reply_def
    by (intro serving total_store [OF _ assms] total_result [where g = "\<lambda>r. projr (item r)"])
      (simp_all add: finish items_fit_def)
qed

lemma replies_mono: "replies env q R \<Longrightarrow> (\<And>rs. R rs \<Longrightarrow> R' rs) \<Longrightarrow> replies env q R'"
  unfolding replies_def by blast

lemma items_fitI:
  assumes "\<And>r. r \<in> set rs \<Longrightarrow> \<exists>t. item r = Inr t \<and> NUL \<notin> set t \<and> length t < 100" and "length rs \<le> ROWS_MAX"
  shows "items_fit item rs"
  using assms by (fastforce simp: items_fit_def items_ok_def)

lemma fits_one: "fits ns rs \<Longrightarrow> r \<in> set rs \<Longrightarrow> fits ns [r]"
  by (simp add: fits_def)

lemma group_items_fit: "fits [9, 30, 30] rs \<Longrightarrow> length rs \<le> ROWS_MAX \<Longrightarrow> items_fit group_item rs"
proof (rule items_fitI)
  fix r assume "fits [9, 30, 30] rs" and "r \<in> set rs"
  note f = fits_column [OF fits_one [OF this]]
  from f [of 0] f [of 1] f [of 2] show "\<exists>t. group_item r = Inr t \<and> NUL \<notin> set t \<and> length t < 100"
    by (auto simp: group_item_def formats)
qed

lemma todo_items_fit: "fits [19, 50] rs \<Longrightarrow> length rs \<le> ROWS_MAX \<Longrightarrow> items_fit todo_item rs"
proof (rule items_fitI)
  fix r assume "fits [19, 50] rs" and "r \<in> set rs"
  note f = fits_column [OF fits_one [OF this]]
  from f [of 0] f [of 1] show "\<exists>t. todo_item r = Inr t \<and> NUL \<notin> set t \<and> length t < 100"
    by (auto simp: todo_item_def formats)
qed

text \<open>
  A chat is put in the array with 63 other characters: its number, kind, time, author and content
  have 36 characters between them.
\<close>

definition chat_short :: "row \<Rightarrow> bool" where
  "chat_short r \<longleftrightarrow> text_row 5 r \<and> length (concat (map the r)) \<le> 36"

lemma chat_item_text:
  assumes "text_row 5 r"
  obtains t where "chat_item r = Inr t" and "NUL \<notin> set t" and "length t = 63 + length (concat (map the r))"
proof -
  obtain a b c d e where r: "r = [a, b, c, d, e]"
    using assms unfolding text_row_def by (auto simp: length_Suc_conv numeral_eq_Suc)
  note col = text_row_column [OF assms, unfolded r]
  have "\<exists>t. chat_item r = Inr t \<and> NUL \<notin> set t \<and> length t = 63 + length (concat (map the r))"
    using col [of 0] col [of 1] col [of 2] col [of 3] col [of 4] unfolding r by (simp add: chat_item_def formats)
  then show ?thesis using that by blast
qed

lemma chat_items_fit: "\<forall>r \<in> set rs. chat_short r \<Longrightarrow> length rs \<le> ROWS_MAX \<Longrightarrow> items_fit chat_item rs"
proof (rule items_fitI)
  fix r assume "\<forall>r \<in> set rs. chat_short r" and "r \<in> set rs"
  then have r: "text_row 5 r" "length (concat (map the r)) \<le> 36" by (simp_all add: chat_short_def)
  from chat_item_text [OF r(1)] show "\<exists>t. chat_item r = Inr t \<and> NUL \<notin> set t \<and> length t < 100"
    using r(2) by fastforce
qed

section \<open>Requests and databases\<close>

text \<open>Parameters that are texts of at most 60 characters, a group's number of at most 9.\<close>

definition modest :: "(string \<times> string) list \<Rightarrow> bool" where
  "modest ps \<longleftrightarrow> (\<forall>k v. map_of ps k = Some v \<longrightarrow> NUL \<notin> set v \<and> length v \<le> (if k = ''group_id'' then 9 else 60))"

text \<open>
  What the database answers the statements of the handlers with, when it accepts them: a row for
  the token and the ID of the request, a row for \<^verbatim>\<open>LAST_INSERT_ID()\<close> and \<^verbatim>\<open>MAX(idx)\<close>,
  numbers of at most 9 digits, and lists whose items are short.
\<close>

definition user_rows :: "'w env \<Rightarrow> (string \<times> string) list \<Rightarrow> bool" where
  "user_rows env ps \<longleftrightarrow>
     (\<forall>t. map_of ps ''token'' = Some t \<longrightarrow> replies env (token_query t) (\<lambda>rs. rs \<noteq> [] \<and> fits [9] rs)) \<and>
     (\<forall>u. map_of ps ''ID'' = Some u \<longrightarrow> replies env (login_query u) (\<lambda>rs. rs \<noteq> [] \<and> fits [100, 25, 9] rs)) \<and>
     (\<forall>u. replies env (id_query u) (fits [9]))"

definition list_rows :: "'w env \<Rightarrow> bool" where
  "list_rows env \<longleftrightarrow>
     (\<forall>i. replies env (groups_query i) (\<lambda>rs. fits [9, 30, 30] rs \<and> length rs \<le> ROWS_MAX)) \<and>
     (\<forall>i. replies env (todos_query i) (\<lambda>rs. fits [19, 50] rs \<and> length rs \<le> ROWS_MAX)) \<and>
     (\<forall>g l. replies env (chats_query g l) (\<lambda>rs. (\<forall>r \<in> set rs. chat_short r) \<and> length rs \<le> ROWS_MAX))"

definition number_rows :: "'w env \<Rightarrow> bool" where
  "number_rows env \<longleftrightarrow>
     replies env ''select LAST_INSERT_ID()'' (\<lambda>rs. rs \<noteq> [] \<and> fits [9] rs) \<and>
     (\<forall>i. replies env (progress_query i) (fits [200])) \<and>
     (\<forall>g. replies env (latest_query g) (\<lambda>rs. \<exists>v. rs = [[v]] \<and> (v = None \<or> short 9 v))) \<and>
     (\<forall>i g. replies env (owner_query i g) (\<lambda>_. True))"

definition answers :: "'w env \<Rightarrow> (string \<times> string) list \<Rightarrow> bool" where
  "answers env ps \<longleftrightarrow> user_rows env ps \<and> list_rows env \<and> number_rows env"

lemma modest_value:
  assumes "modest ps"
  shows "map_of ps k = Some v \<Longrightarrow> NUL \<notin> set v \<and> length v \<le> 60"
    and "map_of ps ''group_id'' = Some g \<Longrightarrow> NUL \<notin> set g \<and> length g \<le> 9"
proof -
  note m = assms [unfolded modest_def, rule_format]
  show "NUL \<notin> set v \<and> length v \<le> 60" if "map_of ps k = Some v" using m [OF that] by (simp split: if_splits)
  show "NUL \<notin> set g \<and> length g \<le> 9" if "map_of ps ''group_id'' = Some g" using m [OF that] by simp
qed

lemma answers_user:
  assumes "answers env ps"
  shows "map_of ps ''token'' = Some t \<Longrightarrow> replies env (token_query t) (\<lambda>rs. rs \<noteq> [] \<and> fits [9] rs)"
    and "map_of ps ''ID'' = Some u \<Longrightarrow> replies env (login_query u) (\<lambda>rs. rs \<noteq> [] \<and> fits [100, 25, 9] rs)"
    and "replies env (id_query u) (fits [9])"
proof -
  note u = assms [unfolded answers_def, THEN conjunct1, unfolded user_rows_def]
  show "map_of ps ''token'' = Some t \<Longrightarrow> replies env (token_query t) (\<lambda>rs. rs \<noteq> [] \<and> fits [9] rs)"
    by (rule u [THEN conjunct1, rule_format])
  show "map_of ps ''ID'' = Some u \<Longrightarrow> replies env (login_query u) (\<lambda>rs. rs \<noteq> [] \<and> fits [100, 25, 9] rs)"
    by (rule u [THEN conjunct2, THEN conjunct1, rule_format])
  show "replies env (id_query u) (fits [9])"
    by (rule u [THEN conjunct2, THEN conjunct2, rule_format])
qed

lemma answers_lists:
  assumes "answers env ps"
  shows "replies env (groups_query i) (items_fit group_item)" and "replies env (todos_query i) (items_fit todo_item)"
    and "replies env (chats_query g l) (items_fit chat_item)"
proof -
  have r: "replies env (groups_query i) (\<lambda>rs. fits [9, 30, 30] rs \<and> length rs \<le> ROWS_MAX)"
    "replies env (todos_query i) (\<lambda>rs. fits [19, 50] rs \<and> length rs \<le> ROWS_MAX)"
    "replies env (chats_query g l) (\<lambda>rs. (\<forall>r \<in> set rs. chat_short r) \<and> length rs \<le> ROWS_MAX)"
    using assms unfolding answers_def list_rows_def by simp_all
  show "replies env (groups_query i) (items_fit group_item)" "replies env (todos_query i) (items_fit todo_item)"
    "replies env (chats_query g l) (items_fit chat_item)"
    by (rule replies_mono [OF r(1)] replies_mono [OF r(2)] replies_mono [OF r(3)];
      simp add: group_items_fit todo_items_fit chat_items_fit)+
qed

lemma answers_numbers:
  assumes "answers env ps"
  shows "replies env ''select LAST_INSERT_ID()'' (\<lambda>rs. rs \<noteq> [] \<and> fits [9] rs)"
    and "replies env (progress_query i) (fits [200])"
    and "replies env (latest_query g) (\<lambda>rs. \<exists>v. rs = [[v]] \<and> (v = None \<or> short 9 v))"
    and "replies env (owner_query i g) (\<lambda>_. True)"
proof -
  note u = assms [unfolded answers_def, THEN conjunct2, THEN conjunct2, unfolded number_rows_def]
  show "replies env ''select LAST_INSERT_ID()'' (\<lambda>rs. rs \<noteq> [] \<and> fits [9] rs)"
    by (rule u [THEN conjunct1])
  show "replies env (progress_query i) (fits [200])"
    by (rule u [THEN conjunct2, THEN conjunct1, THEN spec])
  show "replies env (latest_query g) (\<lambda>rs. \<exists>v. rs = [[v]] \<and> (v = None \<or> short 9 v))"
    by (rule u [THEN conjunct2, THEN conjunct2, THEN conjunct1, THEN spec])
  show "replies env (owner_query i g) (\<lambda>_. True)"
    by (rule u [THEN conjunct2, THEN conjunct2, THEN conjunct2, THEN spec, THEN spec])
qed

text \<open>The handlers, their parameters looked up.\<close>

lemma total_param:
  "req_parameter req = entries ps \<Longrightarrow> map_of ps k = Some v \<Longrightarrow> returns P (f v) Q \<Longrightarrow> returns P (abind (lift (param req k)) f) Q"
  by (simp add: param_entries lift_Inr)

lemma total_present:
  "req_parameter req = entries ps \<Longrightarrow> \<forall>k \<in> set ks. map_of ps k \<noteq> None \<Longrightarrow> returns P k Q \<Longrightarrow>
    returns P (abind (lift (missing req ks)) (\<lambda>m. if m then e else k)) Q"
  by (auto simp: missing_entries lift_Inr)

lemma returns_lift: "\<exists>x. r = Inr x \<and> A x \<Longrightarrow> (\<And>x. A x \<Longrightarrow> returns P (f x) Q) \<Longrightarrow> returns P (abind (lift r) f) Q"
  by (auto simp: lift_Inr)

lemma signup_returns:
  assumes "req_parameter req = entries ps" and "modest ps" and "\<forall>k \<in> set (required To_signup). map_of ps k \<noteq> None"
  shows "returns ready (signup env fd req) (\<lambda>_. ready)"
proof -
  obtain u p n where ps: "map_of ps ''ID'' = Some u" "map_of ps ''password'' = Some p" "map_of ps ''name'' = Some n"
    using assms(3) by auto
  note v = modest_value(1) [OF assms(2)] and p = total_param [OF assms(1)]
  show ?thesis
    unfolding signup_def using v [OF ps(1)] v [OF ps(2)] v [OF ps(3)]
    by (intro total_present [OF assms(1)] p [OF ps(1)] p [OF ps(2)] p [OF ps(3)] serving total_store_free;
      auto simp: texts ps)
qed

lemma login_returns:
  assumes "req_parameter req = entries ps" and "modest ps" and "\<forall>k \<in> set (required To_login). map_of ps k \<noteq> None"
    and "answers env ps"
  shows "returns ready (login env fd req) (\<lambda>_. ready)"
proof -
  obtain u p where ps: "map_of ps ''ID'' = Some u" "map_of ps ''password'' = Some p"
    using assms(3) by auto
  note v = modest_value(1) [OF assms(2)] and p = total_param [OF assms(1)]
  note row = total_column [where ns = "[100, 25, 9]"] total_copied [where ns = "[100, 25, 9]"]
    total_number [where ns = "[100, 25, 9]"]
  show ?thesis
    unfolding login_def login_accept_def login_finish_def using v [OF ps(1)] v [OF ps(2)]
    by (intro total_present [OF assms(1)] p [OF ps(1)] p [OF ps(2)] serving row
        total_store [OF _ answers_user(2) [OF assms(4) ps(1)]]; (simp add: texts ps)?) simp_all
qed

lemma create_group_returns:
  assumes "req_parameter req = entries ps" and "modest ps" and "\<forall>k \<in> set (required To_create_group). map_of ps k \<noteq> None"
    and "answers env ps"
  shows "returns ready (create_group env fd req) (\<lambda>_. ready)"
proof -
  obtain n t where ps: "map_of ps ''name'' = Some n" "map_of ps ''token'' = Some t"
    using assms(3) by auto
  note v = modest_value(1) [OF assms(2)] and p = total_param [OF assms(1)]
  show ?thesis
    unfolding create_group_def using v [OF ps(1)] v [OF ps(2)]
    by (intro total_present [OF assms(1)] p [OF ps(1)] p [OF ps(2)] serving answers_user(1) [OF assms(4) ps(2)]
        total_store [OF _ answers_numbers(1) [OF assms(4)]] total_number [where ns = "[9]"]; auto simp: texts ps)
qed

lemma group_list_returns:
  assumes "req_parameter req = entries ps" and "modest ps" and "\<forall>k \<in> set (required To_group_list). map_of ps k \<noteq> None"
    and "answers env ps"
  shows "returns ready (group_list env fd req) (\<lambda>_. ready)"
proof -
  obtain t where ps: "map_of ps ''token'' = Some t" using assms(3) by auto
  show ?thesis
    unfolding group_list_def using modest_value(1) [OF assms(2) ps]
    by (intro total_present [OF assms(1)] total_param [OF assms(1) ps] serving answers_user(1) [OF assms(4) ps]
        answers_lists [OF assms(4)]; auto simp: texts ps)
qed

lemma join_group_returns:
  assumes "req_parameter req = entries ps" and "modest ps" and "\<forall>k \<in> set (required To_join_group). map_of ps k \<noteq> None"
    and "answers env ps"
  shows "returns ready (join_group env fd req) (\<lambda>_. ready)"
proof -
  obtain t g u where ps: "map_of ps ''token'' = Some t" "map_of ps ''group_id'' = Some g" "map_of ps ''ID'' = Some u"
    using assms(3) by auto
  note v = modest_value(1) [OF assms(2)]
  show ?thesis
    using v [OF ps(1)] modest_value(2) [OF assms(2) ps(2)] v [OF ps(3)]
    by (simp add: join_group_def assms(1) ps lift_Inr del: abind_apply lift_apply fmt_ok)
      (intro serving answers_user [OF assms(4)] total_store [OF _ answers_numbers(4) [OF assms(4)]] ps;
        auto simp: texts)
qed

lemma get_todolist_returns:
  assumes "req_parameter req = entries ps" and "modest ps" and "\<forall>k \<in> set (required To_get_todolist). map_of ps k \<noteq> None"
    and "answers env ps"
  shows "returns ready (get_todolist env fd req) (\<lambda>_. ready)"
proof -
  obtain t where ps: "map_of ps ''token'' = Some t" using assms(3) by auto
  show ?thesis
    using modest_value(1) [OF assms(2) ps]
    by (simp add: get_todolist_def assms(1) ps lift_Inr del: abind_apply lift_apply fmt_ok)
      (intro serving answers_user(1) [OF assms(4) ps] answers_lists [OF assms(4)]; auto simp: texts)
qed

lemma post_todolist_returns:
  assumes "req_parameter req = entries ps" and "modest ps" and "\<forall>k \<in> set (required To_post_todolist). map_of ps k \<noteq> None"
    and "answers env ps"
  shows "returns ready (post_todolist env fd req) (\<lambda>_. ready)"
proof -
  obtain t e d where ps: "map_of ps ''token'' = Some t" "map_of ps ''deadline'' = Some e" "map_of ps ''detail'' = Some d"
    using assms(3) by auto
  note v = modest_value(1) [OF assms(2)]
  show ?thesis
    using v [OF ps(1)] v [OF ps(2)] v [OF ps(3)]
    by (simp add: post_todolist_def assms(1) ps lift_Inr del: abind_apply lift_apply fmt_ok)
      (intro serving answers_user(1) [OF assms(4) ps(1)]; auto simp: texts)
qed

lemma total_progress:
  assumes "\<And>t. returns P (f t) Q" and "fits [200] (r # rs)"
  shows "returns P (abind (lift (rbind (text_column (Some r) 0) (\<lambda>n. fmt 256 (progress_body n)))) f) Q"
proof -
  obtain t where t: "text_column (Some r) 0 = Inr t" "NUL \<notin> set t" "length t \<le> 200"
    using fits_column [OF assms(2), of 0] by auto
  then have "fmt 256 (progress_body t) = Inr (progress_body t)" by (subst fmt_ok) (simp_all add: texts)
  then show ?thesis using t assms(1) by (simp add: lift_Inr)
qed

lemma total_zero: "returns P (f (progress_body ''0'')) Q \<Longrightarrow> returns P (abind (lift (fmt 256 (progress_body ''0''))) f) Q"
  by (rule total_fmt) (simp_all add: texts)

lemma get_progress_returns:
  assumes "req_parameter req = entries ps" and "modest ps" and "\<forall>k \<in> set (required To_get_progress). map_of ps k \<noteq> None"
    and "answers env ps"
  shows "returns ready (get_progress env fd req) (\<lambda>_. ready)"
proof -
  obtain t where ps: "map_of ps ''token'' = Some t" using assms(3) by auto
  show ?thesis
    using modest_value(1) [OF assms(2) ps]
    by (simp add: get_progress_def assms(1) ps lift_Inr del: abind_apply lift_apply fmt_ok)
      (intro serving answers_user(1) [OF assms(4) ps] total_store [OF _ answers_numbers(2) [OF assms(4)]];
        (simp add: texts del: fmt_ok)?; intro total_progress total_zero serving; simp)
qed

lemma post_progress_returns:
  assumes "req_parameter req = entries ps" and "modest ps" and "\<forall>k \<in> set (required To_post_progress). map_of ps k \<noteq> None"
    and "answers env ps"
  shows "returns ready (post_progress env fd req) (\<lambda>_. ready)"
proof -
  obtain t n where ps: "map_of ps ''token'' = Some t" "map_of ps ''number'' = Some n" using assms(3) by auto
  note v = modest_value(1) [OF assms(2)]
  show ?thesis
    using v [OF ps(1)] v [OF ps(2)]
    by (simp add: post_progress_def assms(1) ps lift_Inr del: abind_apply lift_apply fmt_ok)
      (intro serving answers_user(1) [OF assms(4) ps(1)] total_store [OF _ answers_numbers(2) [OF assms(4)]];
        simp add: texts)
qed

lemma total_latest:
  assumes "\<And>j. length (dec j) \<le> 11 \<Longrightarrow> returns P (f j) Q" and "\<exists>v. rs = [[v]] \<and> (v = None \<or> short 9 v)" and "rs = r # rest"
  shows "returns P (abind (lift (rbind (column (Some r) 0) (\<lambda>v.
    if v \<noteq> None then rbind (text_column (Some r) 0) atoi else Inr (-1)))) f) Q"
proof -
  obtain v where v: "r = [v]" "v = None \<or> short 9 v" using assms(2,3) by auto
  have one: "length (dec (-1)) \<le> 11" by (simp add: length_dec)
  show ?thesis
  proof (cases v)
    case None
    then show ?thesis using assms(1) [OF one] v(1) by (simp add: column_def lift_Inr)
  next
    case (Some s)
    then have "fits [9] [r]" using v by (simp add: fits_def)
    then show ?thesis using total_number [OF assms(1), where ns = "[9]" and r = r and i = 0] v(1) Some by (simp add: column_def)
  qed
qed

lemma create_chat_returns:
  assumes "req_parameter req = entries ps" and "modest ps" and "\<forall>k \<in> set (required To_create_chat). map_of ps k \<noteq> None"
    and "answers env ps" and "clock_ok env"
  shows "returns ready (create_chat env fd req) (\<lambda>_. ready)"
proof -
  obtain t g c where ps: "map_of ps ''token'' = Some t" "map_of ps ''group_id'' = Some g" "map_of ps ''content'' = Some c"
    using assms(3) by auto
  note v = modest_value(1) [OF assms(2)]
  show ?thesis
    using v [OF ps(1)] modest_value(2) [OF assms(2) ps(2)] v [OF ps(3)]
    by (simp add: create_chat_def assms(1) ps lift_Inr del: abind_apply lift_apply fmt_ok)
      (intro serving answers_user(1) [OF assms(4) ps(1)] assms(5) total_store [OF _ answers_numbers(3) [OF assms(4)]]
        total_latest; (simp add: texts)?; simp)
qed

lemma get_chatlist_returns:
  assumes "req_parameter req = entries ps" and "modest ps" and "\<forall>k \<in> set (required To_get_chatlist). map_of ps k \<noteq> None"
    and "answers env ps"
  shows "returns ready (get_chatlist env fd req) (\<lambda>_. ready)"
proof -
  obtain t g where ps: "map_of ps ''token'' = Some t" "map_of ps ''group_id'' = Some g"
    using assms(3) by auto
  note v = modest_value(1) [OF assms(2)]
  show ?thesis
    using v [OF ps(1)] modest_value(2) [OF assms(2) ps(2)] v [of "''latest''"]
    by (cases "map_of ps ''latest''"; simp add: get_chatlist_def assms(1) ps lift_Inr del: abind_apply lift_apply fmt_ok)
      (intro serving answers_user(1) [OF assms(4) ps(1)] answers_lists [OF assms(4)]; simp add: texts)+
qed

lemma total_push_location:
  assumes "returns (opened c) (f ()) Q" and "NUL \<notin> set lat" "length lat \<le> 60" and "NUL \<notin> set lon" "length lon \<le> 60"
  shows "returns (opened c) (abind (\<lambda>w. rmap (\<lambda>d. ((), w\<lparr>locations := d\<rparr>))
    (push_location (locations w) (dec i) lat lon)) f) Q"
proof (rule total_bind)
  show "returns (opened c) (\<lambda>w. rmap (\<lambda>d. ((), w\<lparr>locations := d\<rparr>)) (push_location (locations w) (dec i) lat lon))
    (\<lambda>_ w. True \<and> opened c w)"
  proof (rule totalI, goal_cases)
    case (1 w)
    then have o: "located (locations w)" "\<forall>(k, v) \<in> set (locations w). length v \<le> 200" "c \<in> set (conns w)"
      by (simp_all add: opened_def ready_def)
    obtain kvs where kvs: "locations w = entries kvs" using o(1) by (auto simp: located_def)
    have p: "position_ok (lat, lon)" using assms(2,4) by (simp add: position_ok_def)
    let ?d = "AList.update (dec i) (position (lat, lon)) kvs"
    have d: "push_location (locations w) (dec i) lat lon = Inr (entries ?d)"
      using push_location_entries [OF p, of kvs "dec i"] kvs by simp
    have "located (entries ?d)"
      using push_location_typed [OF o(1) _ _ d] assms(2,4) by (simp add: text_ok_def)
    moreover have "\<forall>(k, v) \<in> set ?d. length v \<le> 200"
      using set_update_subset [of "dec i" "position (lat, lon)" kvs] o(2) assms(3,5)
      by (auto simp: kvs entries_def position_def)
    ultimately show ?case using d o(3) by (auto simp: opened_def ready_def entries_def)
  qed
qed (use assms(1) in simp)

lemma post_location_returns:
  assumes "req_parameter req = entries ps" and "modest ps" and "\<forall>k \<in> set (required To_post_location). map_of ps k \<noteq> None"
    and "answers env ps"
  shows "returns ready (post_location env fd req) (\<lambda>_. ready)"
proof -
  obtain t a b where ps: "map_of ps ''token'' = Some t" "map_of ps ''latitude'' = Some a" "map_of ps ''longitude'' = Some b"
    using assms(3) by auto
  note v = modest_value(1) [OF assms(2)]
  have st: "status_ok_body = json_status ''OK''" by (simp add: formats)
  show ?thesis
    using v [OF ps(1)] v [OF ps(2)] v [OF ps(3)]
    by (simp add: post_location_def assms(1) ps lift_Inr st del: abind_apply lift_apply fmt_ok)
      (intro serving total_push_location answers_user(1) [OF assms(4) ps(1)]; simp add: texts)
qed

lemma get_location_returns:
  assumes "req_parameter req = entries ps" and "\<forall>k \<in> set (required To_get_location). map_of ps k \<noteq> None"
  shows "returns ready (get_location env fd req) (\<lambda>_. ready)"
proof (rule totalI, goal_cases)
  case (1 w)
  obtain t u where "map_of ps ''token'' = Some t" "map_of ps ''user_ID'' = Some u" using assms(2) by auto
  then have ps: "find_value (req_parameter req) ''token'' = Inr (Some t)" "find_value (req_parameter req) ''user_ID'' = Inr (Some u)"
    using assms(1) by simp_all
  obtain kvs where kvs: "locations w = entries kvs" "distinct (map fst kvs)" "\<forall>e \<in> set kvs. place_ok e"
    using 1 by (auto simp: ready_def located_def)
  have st: "stores (locations w) (map_of kvs)" using kvs(1,2) by (auto simp: stores_def)
  have keep: "ready (answer fd s w)" "ready (answer fd s (w\<lparr>printed := p\<rparr>))" for s p
    using 1 by (simp_all add: ready_def)
  show ?case
  proof (cases "map_of kvs u")
    case None
    then show ?thesis using get_location_unknown [OF ps st] keep by auto
  next
    case (Some x)
    then have x: "(u, x) \<in> set kvs" by (rule map_of_SomeD)
    then have p: "place_ok (u, x)" "length x \<le> 200" using kvs(1,3) 1 by (auto simp: ready_def entries_def)
    then have cut: "x = place_lat x @ ''|'' @ place_lon x" "NUL \<notin> set x"
      using place_parts by (auto simp: place_ok_def text_ok_def)
    have bar: "CHR ''|'' \<notin> set (place_lat x)" by (auto simp: place_lat_def dest: set_takeWhileD)
    have nul: "NUL \<notin> set (place_lat x)" "NUL \<notin> set (place_lon x)"
      using cut(2) unfolding cut(1) [THEN arg_cong [of _ _ set]] by auto
    have "length (place_lat x) + length (place_lon x) + 1 = length x"
      unfolding cut(1) [THEN arg_cong [of _ _ length]] by simp
    then have "length (location_body (place_lat x) (place_lon x)) < 256" using p(2) by (simp add: texts)
    then show ?thesis
      using get_location_read [OF ps st, of "place_lat x" "place_lon x"] Some cut(1) bar nul keep by auto
  qed
qed

text \<open>Whatever the path and the method.\<close>

lemma target_returns:
  assumes ps: "req_parameter req = entries ps" and ok: "modest ps" "answers env ps" "clock_ok env"
  shows "returns ready (run_target t env fd req) (\<lambda>_. ready)"
proof (cases "\<forall>k \<in> set (required t). map_of ps k \<noteq> None")
  case True
  note all = True
  show ?thesis
  proof (cases t)
    case Unanswered
    then show ?thesis by (simp add: total_return)
  next
    case Not_Found
    then show ?thesis by (simp add: total_response)
  next
    case To_create_chat
    then show ?thesis using create_chat_returns [OF ps ok(1) _ ok(2,3)] all by simp
  qed (use all login_returns [OF ps ok(1) _ ok(2)] signup_returns [OF ps ok(1)] create_group_returns [OF ps ok(1) _ ok(2)]
      group_list_returns [OF ps ok(1) _ ok(2)] join_group_returns [OF ps ok(1) _ ok(2)]
      get_todolist_returns [OF ps ok(1) _ ok(2)] post_todolist_returns [OF ps ok(1) _ ok(2)]
      get_progress_returns [OF ps ok(1) _ ok(2)] post_progress_returns [OF ps ok(1) _ ok(2)]
      get_chatlist_returns [OF ps ok(1) _ ok(2)] post_location_returns [OF ps ok(1) _ ok(2)]
      get_location_returns [OF ps] in simp_all)
next
  case False
  then have "run_target t env fd req w = missing_parameters fd req w" for w :: "'a world"
    using missing_parameter_answer [OF ps, of t] by simp
  then show ?thesis by (simp add: returns_def missing_parameters_run ready_def)
qed

section \<open>The thread\<close>

text \<open>The parser leaves no terminator in a value, so of a modest request only the lengths matter.\<close>

definition brief :: "(string \<times> string) list \<Rightarrow> bool" where
  "brief ps \<longleftrightarrow> (\<forall>k v. map_of ps k = Some v \<longrightarrow> length v \<le> (if k = ''group_id'' then 9 else 60))"

lemma parsed_modest:
  assumes "parse_request fd inp = Inr req" and "req_parameter req = entries ps" and "brief ps"
  shows "modest ps"
  unfolding modest_def
proof (intro allI impI)
  fix k v assume v: "map_of ps k = Some v"
  then have "find_value (req_parameter req) k = Inr (Some v)" using assms(2) by simp
  moreover have "dic_typed (req_parameter req)"
    using parse_request_typed [OF assms(1)] by (simp add: request_typed_def)
  ultimately have "NUL \<notin> set v" using find_value_typed by (auto simp: text_ok_def)
  then show "NUL \<notin> set v \<and> length v \<le> (if k = ''group_id'' then 9 else 60)"
    using assms(3) v unfolding brief_def by blast
qed

lemma thread_returns:
  assumes parse: "parse_request fd (incoming w fd) = Inr req"
    and es: "req_header req = entries hs" "req_parameter req = entries ps" and "brief ps"
    and env: "answers env ps" "clock_ok env" and w: "ready w" "mem_ok (memory w)"
  shows "\<exists>w'. http_thread env regex_compile fd w = Inr ((), w') \<and> ready w'"
proof -
  obtain m m' where serves: "\<And>v. run_target (target_of (req_method req) (req_path req)) env fd req (with_request req m w) = Inr ((), v) \<Longrightarrow>
      http_thread env regex_compile fd w = Inr ((), v\<lparr>memory := m', closed := closed v @ [fd]\<rparr>)"
    using thread_serves [OF parse es w(2), where env = env] by blast
  have "ready (with_request req m w)" using w(1) by (simp add: ready_def)
  then obtain u v where "run_target (target_of (req_method req) (req_path req)) env fd req (with_request req m w) = Inr (u, v)"
      and v: "ready v"
    using totalD [OF target_returns [OF es(2) parsed_modest [OF parse es(2) assms(4)] env]] by blast
  then have "http_thread env regex_compile fd w = Inr ((), v\<lparr>memory := m', closed := closed v @ [fd]\<rparr>)"
    by (intro serves) simp
  then show ?thesis using v by (simp add: ready_def)
qed

text \<open>The answer of a thread that has returned.\<close>

lemma http_thread_answer:
  assumes "http_thread env regex_compile fd w = Inr (u, w')" and "parse_request fd (incoming w fd) = Inr req"
  shows "if target_of (req_method req) (req_path req) = Unanswered then sent w' = sent w
    else \<exists>code msg body. (code, msg) \<in> {(200, ''OK''), (404, ''Not Found''), (500, ''Internal Server Error'')} \<and>
      sent w' = (sent w)(fd := sent w fd @ response_bytes code msg (req_version req) [] body)"
proof -
  obtain info m h v m' where
    "run_target (target_of (req_method req) (req_path req)) env fd req (w\<lparr>memory := m, printed := printed w @ info\<rparr>) =
      Inr ((), v)" and w': "w' = v\<lparr>memory := m', closed := closed v @ [fd]\<rparr>"
    using assms(1) by (rule http_thread_run) (use assms(2) in auto)
  from run_target_answer [OF this(1)] show ?thesis unfolding w' by (simp split: if_splits)
qed

section \<open>A database for every request\<close>

text \<open>
  A database that answers by the first ten characters of the statement and keeps the
  statement until its result is stored: it has one user, one group without chats, and accepts
  whatever is inserted.
\<close>

definition steady_rows :: "string \<Rightarrow> rows" where
  "steady_rows q =
     (if take 10 q = ''select idx'' \<or> take 10 q = ''select LAS'' then [[Some ''7'']]
      else if take 10 q = ''select MAX'' then [[None]]
      else if take 10 q = ''select pas'' then [[Some ''secret'', Some ''Kim'', Some ''7'']]
      else if take 10 q = ''select pro'' then [[Some ''3'', Some ''study'', Some ''Kim'']]
      else [])"

definition steady :: "string env" where
  "steady = \<lparr>db_options = (\<lambda>c opt q. q), db_connect = (\<lambda>c q. (True, q)),
     db_query = (\<lambda>c q _. (True, q)), db_store = (\<lambda>c q. (Some (steady_rows q), q)),
     db_commit = (\<lambda>c q. q), db_close = (\<lambda>c q. q), db_error = (\<lambda>c q. ''error''),
     seed_rand = (\<lambda>q. q), rand_next = (\<lambda>q. (7, q)), local_time = (\<lambda>q. ((118, 5, 1, 12, 0, 0), q))\<rparr>"

definition steady_world :: "(int \<Rightarrow> input) \<Rightarrow> string world" where
  "steady_world inp = \<lparr>outside = [], incoming = inp, sent = (\<lambda>_. []), closed = [], conns = [],
     next_conn = 0, results = 0, queried = [], locations = [], printed = [], logged = [], memory = empty_mem\<rparr>"

lemma steady_replies: "replies steady q R \<longleftrightarrow> R (steady_rows q)"
  by (simp add: replies_def steady_def)

lemma steady_rows_of:
  "steady_rows (token_query t) = [[Some ''7'']]" "steady_rows (id_query u) = [[Some ''7'']]"
  "steady_rows (owner_query i g) = [[Some ''7'']]" "steady_rows ''select LAST_INSERT_ID()'' = [[Some ''7'']]"
  "steady_rows (latest_query g) = [[None]]" "steady_rows (login_query u) = [[Some ''secret'', Some ''Kim'', Some ''7'']]"
  "steady_rows (groups_query i) = [[Some ''3'', Some ''study'', Some ''Kim'']]"
  "steady_rows (todos_query i) = []" "steady_rows (progress_query i) = []" "steady_rows (chats_query g l) = []"
  by (simp_all add: steady_rows_def token_query_def id_query_def owner_query_def latest_query_def login_query_def
      groups_query_def todos_query_def progress_query_def chats_query_def)

lemma steady_answers: "answers steady ps"
  by (simp add: answers_def user_rows_def list_rows_def number_rows_def steady_replies steady_rows_of
      fits_def short_def ROWS_MAX_def)

lemma steady_clock: "clock_ok steady"
  by (simp add: clock_ok_def steady_def)

lemma ready_steady: "ready (steady_world inp)" "mem_ok (memory (steady_world inp))"
  by (auto simp: ready_def located_def steady_world_def entries_def mem_ok_empty intro: exI [of _ "[]"])

section \<open>Lists that do not fit\<close>

lemma write_rows_overflow:
  assumes "ws_ok s t" and "\<forall>r \<in> set rs. \<exists>x. item r = Inr x \<and> NUL \<notin> set x"
    and "\<exists>r \<in> set rs. 100 \<le> length (projr (item r))" and "length t + 100 * length rs \<le> LINE_MAX"
  shows "write_rows item False rs flag s w = Inl Buffer_Overflow"
  using assms
proof (induction rs arbitrary: s t flag w)
  case (Cons r rs)
  obtain x where x: "item r = Inr x" "NUL \<notin> set x" using Cons.prems(2) by auto
  obtain s1 where s1: "(if flag then write_lit s '','' else Inr s) = Inr s1"
    "ws_ok s1 (t @ (if flag then '','' else []))"
    using writer.append_holds [OF Cons.prems(1), of "'',''"] Cons.prems(1,4) by (cases flag) auto
  show ?case
  proof (cases "length x < 100")
    case False
    then show ?thesis using x by (simp add: s1(1))
  next
    case True
    have "length (t @ (if flag then '','' else [])) + length x \<le> LINE_MAX"
      using Cons.prems(4) True by auto
    then obtain s2 where s2: "write_lit s1 x = Inr s2" "ws_ok s2 (t @ (if flag then '','' else []) @ x)"
      using writer.append_holds [OF s1(2) x(2)] by auto
    have "write_rows item False rs True s2 w = Inl Buffer_Overflow"
      by (rule Cons.IH [OF s2(2)]) (use Cons.prems x True in auto)
    then show ?thesis using True x by (simp add: s1(1) s2(1))
  qed
qed simp

lemma list_reply_overflow:
  assumes "asked env c q (outside w) (Some rs) out'" and "\<forall>r \<in> set rs. \<exists>x. item r = Inr x \<and> NUL \<notin> set x"
    and "\<exists>r \<in> set rs. 100 \<le> length (projr (item r))" and "length rs \<le> ROWS_MAX"
  shows "list_reply env fd req c q item False w = Inl Buffer_Overflow"
proof -
  obtain s1 where s1: "write_lit stream_write_init ''['' = Inr s1" "ws_ok s1 ''[''"
    using writer.append_holds [OF writer.start_holds, of "''[''"] by (auto simp: LINE_MAX_def)
  have "length ''['' + 100 * length rs \<le> LINE_MAX" using assms(4) by (simp add: ROWS_MAX_def LINE_MAX_def)
  then have "write_result item False (Some rs) v = Inl Buffer_Overflow" for v :: "'a world"
    using write_rows_overflow [OF s1(2) assms(2,3), where w = v and flag = False] by (simp add: write_result_def s1(1))
  then show ?thesis using assms(1)
    by (auto simp: asked_def list_reply_def mysql_query_def mysql_store_result_def)
qed

lemma attendance_run:
  assumes "length (dec i) \<le> 11" and "length (dec j) \<le> 11"
  shows "attendance_check env c i j w = Inr ((), w\<lparr>outside := snd (db_query env c (attendance_query i j) (outside w)),
    queried := queried w @ [(c, attendance_query i j)]\<rparr>)"
proof -
  have "fmt 256 (attendance_query i j) = Inr (attendance_query i j)"
    using assms by (subst fmt_ok) (auto simp: texts)
  then show ?thesis by (simp add: attendance_check_def mysql_query_def split: prod.splits)
qed

lemma get_chatlist_overflow:
  assumes ps: "req_parameter req = entries ps" "map_of ps ''token'' = Some token" "map_of ps ''group_id'' = Some g"
    and user: "authorised env w token i out1" and g: "atoi g = Inr j"
    and q: "length (chats_query g (map_of ps ''latest'')) < 2000" "NUL \<notin> set (chats_query g (map_of ps ''latest''))"
    and rows: "asked env (next_conn w) (chats_query g (map_of ps ''latest''))
      (snd (db_query env (next_conn w) (attendance_query i j) out1)) (Some rs) out2"
    and rs: "\<forall>r \<in> set rs. text_row 5 r" "length rs \<le> ROWS_MAX" "\<exists>r \<in> set rs. 37 \<le> length (concat (map the r))"
  shows "get_chatlist env fd req w = Inl Buffer_Overflow"
proof -
  have u: "user_is env (next_conn w) token (connected env w) i out1" "i \<noteq> -1"
    using user by (simp_all add: authorised_def)
  have f: "fmt 2000 (chats_query g (map_of ps ''latest'')) = Inr (chats_query g (map_of ps ''latest''))"
    using q by (subst fmt_ok) auto
  have item: "\<exists>x. chat_item r = Inr x \<and> NUL \<notin> set x \<and> length x = 63 + length (concat (map the r))"
    if "r \<in> set rs" for r using chat_item_text [of r] rs(1) that by metis
  then have texts: "\<forall>r \<in> set rs. \<exists>x. chat_item r = Inr x \<and> NUL \<notin> set x" by blast
  obtain r where "r \<in> set rs" "37 \<le> length (concat (map the r))" using rs(3) by blast
  then have long: "\<exists>r \<in> set rs. 100 \<le> length (projr (chat_item r))" using item [of r] by (intro bexI [of _ r]) auto
  have "list_reply env fd req (next_conn w) (chats_query g (map_of ps ''latest'')) chat_item False v = Inl Buffer_Overflow"
    if "outside v = snd (db_query env (next_conn w) (attendance_query i j) out1)" for v
    by (rule list_reply_overflow [OF _ texts long rs(2)]) (use rows that in simp)
  then show ?thesis
    using u(2)
    by (simp add: get_chatlist_def ps lift_Inr known_run [OF u(1)] g f del: fmt_ok abind_apply lift_apply andthen_apply)
      (simp add: attendance_run [OF user_range [OF u(1)] atoi_dec_length [OF g]])
qed

end
