(* ===== verification/Group_Runs.thy ===== *)
theory Group_Runs
  imports Handler_Runs
begin

text \<open>
  The runs of \<open>create_group\<close> and \<open>join_group\<close> on given answers of the database: which
  statements they send and what they answer.
\<close>

section \<open>The user of an ID\<close>

text \<open>The rows of \<open>id_query\<close>: none, or a first one that starts with the user's number.\<close>

definition member_is :: "rows \<Rightarrow> int option \<Rightarrow> bool" where
  "member_is rs m \<longleftrightarrow> (case m of None \<Rightarrow> rs = []
     | Some j \<Rightarrow> j \<noteq> -1 \<and> (\<exists>d row rest. rs = (Some d # row) # rest \<and> NUL \<notin> set d \<and> atoi d = Inr j))"

lemma getUserIdxByID_run:
  assumes "NUL \<notin> set ID" and "length (id_query ID) < 256"
    and "asked env c (id_query ID) (outside w) (Some rs) out'" and "member_is rs m"
  shows "getUserIdxByID env c ID w = Inr (case m of None \<Rightarrow> -1 | Some j \<Rightarrow> j,
    w\<lparr>outside := out', queried := queried w @ [(c, id_query ID)], results := results w + (if m = None then 1 else 0)\<rparr>)"
proof -
  have f: "fmt 256 (id_query ID) = Inr (id_query ID)"
    using assms(1,2) by (subst fmt_ok) (simp_all add: id_query_def sq_def)
  obtain o1 where o1: "db_query env c (id_query ID) (outside w) = (True, o1)" "db_store env c o1 = (Some rs, out')"
    using assms(3) by (auto simp: asked_def)
  show ?thesis
  proof (cases m)
    case None
    then show ?thesis using assms(4)
      by (simp add: member_is_def getUserIdxByID_def f mysql_query_def mysql_store_result_def o1 del: fmt_ok)
  next
    case (Some j)
    then show ?thesis using assms(4)
      by (auto simp: member_is_def getUserIdxByID_def f mysql_query_def mysql_store_result_def o1
          text_column_def column_def mysql_free_result_def simp del: fmt_ok)
  qed
qed

section \<open>join\_group\<close>

lemma join_reply_run:
  assumes "NUL \<notin> set s" and "length s \<le> 5"
  shows "join_reply fd req s w = Inr ((), answer fd (response_bytes 200 ''OK'' (req_version req) [] (json_status s)) w)"
proof -
  have "fmt 50 (json_status s) = Inr (json_status s)"
    using assms by (subst fmt_ok) (simp_all add: json_status_def json_field_def quoted_def)
  then show ?thesis by (simp add: join_reply_def reply_ok_def del: fmt_ok)
qed

text \<open>The statements after the two users are known, and the answer.\<close>

fun join_statements :: "int \<Rightarrow> string \<Rightarrow> int option \<Rightarrow> rows \<Rightarrow> string list" where
  "join_statements i g None owners = []"
| "join_statements i g (Some j) owners = owner_query i g # (if owners = [] then [] else [join_query j g])"

fun join_answer :: "int option \<Rightarrow> rows \<Rightarrow> bool \<Rightarrow> string \<Rightarrow> string" where
  "join_answer None owners ok version = response_bytes 200 ''OK'' version [] (json_status ''NONE'')"
| "join_answer (Some j) owners ok version =
     (if owners = [] then response_bytes 200 ''OK'' version [] (json_status ''ERROR'')
      else if ok then response_bytes 200 ''OK'' version [] (json_status ''OK'')
      else response_bytes 500 ''Internal Server Error'' version [] ''server error'')"

lemma join_group_run:
  assumes ps: "req_parameter req = entries ps" "map_of ps ''token'' = Some token" "map_of ps ''group_id'' = Some g"
      "map_of ps ''ID'' = Some ID"
    and user: "authorised env w token i out1"
    and ID: "NUL \<notin> set ID" "length (id_query ID) < 256"
    and member: "asked env (next_conn w) (id_query ID) out1 (Some rs) out2" "member_is rs m"
    and g: "NUL \<notin> set g" "length (owner_query i g) < 256" "\<And>j. m = Some j \<Longrightarrow> length (join_query j g) < 256"
    and owners: "asked env (next_conn w) (owner_query i g) out2 (Some os) out3"
    and added: "\<And>j. m = Some j \<Longrightarrow> fst (db_query env (next_conn w) (join_query j g) out3) = ok"
  shows "\<exists>w'. join_group env fd req w = Inr ((), w') \<and>
    sent w' = (sent w)(fd := sent w fd @ join_answer m os ok (req_version req)) \<and>
    queried w' = queried w @ map (Pair (next_conn w)) ([token_query token, id_query ID] @ join_statements i g m os) \<and>
    conns w' = next_conn w # conns w"
proof -
  have u: "user_is env (next_conn w) token (connected env w) i out1" "i \<noteq> -1"
    using user by (simp_all add: authorised_def)
  define w1 where "w1 = (known env w token out1)\<lparr>outside := out2,
    queried := queried w @ [(next_conn w, token_query token), (next_conn w, id_query ID)],
    results := results w + (if m = None then 1 else 0)\<rparr>"
  have k: "getUserIdxByID env (next_conn w) ID (known env w token out1) = Inr (case m of None \<Rightarrow> -1 | Some j \<Rightarrow> j, w1)"
    using getUserIdxByID_run [OF ID, of env "next_conn w" "known env w token out1" rs out2 m] member
    by (simp add: w1_def)
  have fo: "fmt 256 (owner_query i g) = Inr (owner_query i g)"
    using g(1,2) by (subst fmt_ok) (simp_all add: owner_query_def dec_no_nul)
  obtain o1 where o1: "db_query env (next_conn w) (owner_query i g) out2 = (True, o1)"
    "db_store env (next_conn w) o1 = (Some os, out3)" using owners by (auto simp: asked_def)
  note run = join_group_def ps lift_Inr known_run [OF u(1)]
  show ?thesis
  proof (cases m)
    case None
    then show ?thesis using u(2)
      by (simp add: run del: abind_apply lift_apply fmt_ok)
        (simp add: k print_def join_reply_run, simp add: w1_def)
  next
    case (Some j)
    have j: "j \<noteq> -1" using member(2) Some by (auto simp: member_is_def)
    have fj: "fmt 256 (join_query j g) = Inr (join_query j g)"
      using g(1) g(3) [OF Some] by (subst fmt_ok) (simp_all add: join_query_def dec_no_nul)
    obtain o4 where o4: "db_query env (next_conn w) (join_query j g) out3 = (ok, o4)"
      using added [OF Some] by (cases "db_query env (next_conn w) (join_query j g) out3") auto
    show ?thesis
    proof (cases os)
      case Nil
      then show ?thesis using u(2) j Some
        by (simp add: run del: abind_apply lift_apply fmt_ok)
          (simp add: k print_def join_reply_run fo o1 mysql_query_def mysql_store_result_def mysql_free_result_def
            w1_def del: fmt_ok)
    next
      case (Cons r rest)
      then show ?thesis using u(2) j Some
        by (cases ok; simp add: run del: abind_apply lift_apply fmt_ok)
          (simp_all add: k print_def join_reply_run fo fj o1 o4 mysql_query_def mysql_store_result_def mysql_free_result_def
            w1_def server_errer_def mysql_error_def log_error_def del: fmt_ok)
    qed
  qed
qed

end
