(* ===== verification/Handler_Properties.thy ===== *)
theory Handler_Properties
  imports Scripted Handler_Returns Group_Runs
begin

text \<open>
  The properties of the request handlers of \<^verbatim>\<open>ttac.c\<close>: where a request goes, what every
  handler does to the connection, the database and the socket, and what the handlers answer.
\<close>

section \<open>Routing\<close>

text \<open>C25: The chain of \<open>regexec\<close> calls in \<open>http_thread\<close> is the table of resources: the
  handler that runs is the one of the resource whose path prefix (for \<^verbatim>\<open>/chat\<close>: the whole path)
  matches, chosen by the method where the code tests it. No two of the ten compiled expressions
  match the same path, so the order of the tests does not matter; and \<^verbatim>\<open>/chat\<close> with a query string
  has no handler.\<close>

theorem dispatch_routes:
  "dispatch env regex_compile fd req = run_target (target_of (req_method req) (req_path req)) env fd req \<and>
   length (filter (\<lambda>r. regexec r path = 0) expressions) \<le> 1 \<and>
   target_of m (''/chat?'' @ q) = Not_Found"
  by (intro conjI, rule dispatch_target, rule one_expression) (simp add: target_of_def resources_def starts_def)

section \<open>The contract of the handlers\<close>

text \<open>C13: Every handler that returns has answered once, on its own socket, with one of the
  outcomes of its resource, which say in which cases the connection handle is given back, which
  result sets stay allocated, and that only \<open>post_location\<close> changes the list of locations.\<close>

theorem handlers_meet_their_outcomes:
  assumes "is_handler t" and "run_target t env fd req w = Inr (u, w')"
  shows "handled fd req (target_outcome t req) w w'"
  using assms by (rule run_target_handled)

theorem handlers_meet_their_outcomes_witness:
  "\<exists>w'. run_target To_get_todolist scripted 4 \<lparr>req_method = ''GET'', req_path = ''/todolist'',
      req_version = ''HTTP/1.1'', req_header = [], req_body = None, req_parameter = []\<rparr> (world_of (\<lambda>_. []) []) = Inr ((), w') \<and>
    handled 4 \<lparr>req_method = ''GET'', req_path = ''/todolist'', req_version = ''HTTP/1.1'', req_header = [],
      req_body = None, req_parameter = []\<rparr> standard (world_of (\<lambda>_. []) []) w'"
proof -
  let ?r = "\<lparr>req_method = ''GET'', req_path = ''/todolist'', req_version = ''HTTP/1.1'', req_header = [],
    req_body = None, req_parameter = []\<rparr>"
  have "run_target To_get_todolist scripted 4 ?r (world_of (\<lambda>_. []) []) =
      missing_parameters 4 ?r (world_of (\<lambda>_. []) [])"
    by (rule missing_parameter_answer [of _ "[]"]) (simp_all add: entries_def)
  then obtain w' where w': "run_target To_get_todolist scripted 4 ?r (world_of (\<lambda>_. []) []) = Inr ((), w')"
    by (auto simp: missing_parameters_run)
  have "is_handler To_get_todolist" by (simp add: is_handler_def)
  from handlers_meet_their_outcomes [OF this w'] show ?thesis using w' by (auto simp: target_outcome_def)
qed

text \<open>C22: A request without one of its required parameters is answered with status 500 and
  \<^verbatim>\<open>missing parameters\<close> before anything else happens: no connection is opened, no statement is
  sent, and no handler leaves the reply out.\<close>

theorem missing_parameter_answered:
  assumes "req_parameter req = entries ps" and "\<exists>k \<in> set (required t). map_of ps k = None"
  shows "run_target t env fd req w = Inr ((), answer fd
    (response_bytes 500 ''Internal Server Error'' (req_version req) [] ''missing parameters'') w)"
  using missing_parameter_answer [OF assms] by (simp only: missing_parameters_run)

definition request_with :: "string \<Rightarrow> string \<Rightarrow> (string \<times> string) list \<Rightarrow> request" where
  "request_with m path ps = \<lparr>req_method = m, req_path = path, req_version = ''HTTP/1.1'', req_header = [],
     req_body = None, req_parameter = entries ps\<rparr>"

lemma request_with_sel [simp]:
  "req_parameter (request_with m path ps) = entries ps" "req_version (request_with m path ps) = ''HTTP/1.1''"
  by (simp_all add: request_with_def)

theorem missing_parameter_answered_witness:
  "run_target To_login scripted 4 (request_with ''POST'' ''/login'' [(''ID'', ''a'')]) (world_of (\<lambda>_. []) []) =
    Inr ((), answer 4 (response_bytes 500 ''Internal Server Error'' ''HTTP/1.1'' [] ''missing parameters'')
      (world_of (\<lambda>_. []) []))"
  using missing_parameter_answered [of "request_with ''POST'' ''/login'' [(''ID'', ''a'')]" "[(''ID'', ''a'')]" To_login]
  by simp

text \<open>C20: An unknown token brings the process down: in every handler that authenticates, when the
  token is not in the table, \<open>getUserIdx\<close> reads the first column of the NULL row that
  \<^verbatim>\<open>mysql_fetch_row\<close> returns.\<close>

theorem unknown_token_crashes:
  assumes "req_parameter req = entries ps" and "\<forall>k \<in> set (required t). map_of ps k \<noteq> None"
    and "authenticates t" and "map_of ps ''token'' = Some token"
    and "length (token_query token) < 256" and "NUL \<notin> set token"
    and "asked env (next_conn w) (token_query token) (connected env w) (Some []) out'"
  shows "run_target t env fd req w = Inl Null_Deref"
  using assms(1-4) by (rule token_fault) (rule unknown_run [OF assms(5-7)])

theorem unknown_token_crashes_witness:
  "run_target To_get_todolist scripted 4 (request_with ''GET'' ''/todolist'' [(''token'', ''nobody'')])
    (world_of (\<lambda>_. []) [Rows []]) = Inl Null_Deref"
proof (rule unknown_token_crashes [of _ "[(''token'', ''nobody'')]"])
  show "asked scripted (next_conn (world_of (\<lambda>_. []) [Rows []])) (token_query ''nobody'')
      (connected scripted (world_of (\<lambda>_. []) [Rows []])) (Some []) (Rows [], [])"
    by (simp add: scripted_asked)
qed (simp_all add: authenticates_def token_query_def sq_def)

text \<open>C21: A chat nobody can read: \<open>get_chatlist\<close> formats each chat in an array of 100
  characters, 63 of which are the item's own. A group with one chat whose number, author, kind, content
  and time have 37 characters or more between them brings the process down for every member who asks,
  whatever the other chats are; \<open>create_chat\<close> has stored contents of many times that length.\<close>

theorem long_chat_overflows:
  assumes "req_parameter req = entries ps" and "map_of ps ''token'' = Some token" and "map_of ps ''group_id'' = Some g"
    and "authorised env w token i out1" and "atoi g = Inr j"
    and "length (chats_query g (map_of ps ''latest'')) < 2000" and "NUL \<notin> set (chats_query g (map_of ps ''latest''))"
    and "asked env (next_conn w) (chats_query g (map_of ps ''latest''))
      (snd (db_query env (next_conn w) (attendance_query i j) out1)) (Some rs) out2"
    and "\<forall>r \<in> set rs. text_row 5 r" and "length rs \<le> ROWS_MAX"
    and "\<exists>r \<in> set rs. 37 \<le> length (concat (map the r))"
  shows "get_chatlist env fd req w = Inl Buffer_Overflow"
  using assms by (rule get_chatlist_overflow)

theorem long_chat_overflows_witness:
  "get_chatlist scripted 4 (request_with ''GET'' ''/chatlist'' [(''token'', ''t''), (''group_id'', ''3'')])
     (world_of (\<lambda>_. []) [Rows [[Some ''7'']], Done, Rows [[Some ''1'', Some ''TEXT'', Some ''see you tomorrow'',
       Some ''2018-06-01 12:00:00'', Some ''kim'']]]) = Inl Buffer_Overflow"
proof -
  let ?r = "[Some ''1'', Some ''TEXT'', Some ''see you tomorrow'', Some ''2018-06-01 12:00:00'', Some ''kim'']"
  let ?ps = "[(''token'', ''t''), (''group_id'', ''3'')]" and ?s = "[Done, Rows [?r]]"
  have n: "atoi ''7'' = Inr 7" "atoi ''3'' = Inr 3" by code_simp+
  have a: "authorised scripted (world_of (\<lambda>_. []) (Rows [[Some ''7'']] # ?s)) ''t'' 7 (Rows [[Some ''7'']], ?s)"
    using scripted_user [of "''t''" "''7''" 7 0 Done ?s] n(1) by (simp add: authorised_def token_query_def sq_def)
  have q: "asked scripted (next_conn (world_of (\<lambda>_. []) (Rows [[Some ''7'']] # ?s))) (chats_query ''3'' (map_of ?ps ''latest''))
      (snd (db_query scripted (next_conn (world_of (\<lambda>_. []) (Rows [[Some ''7'']] # ?s))) (attendance_query 7 3)
        (Rows [[Some ''7'']], ?s))) (Some [?r]) (Rows [?r], [])"
    by (simp add: scripted_asked)
  show ?thesis
    by (rule long_chat_overflows [OF _ _ _ a n(2) _ _ q]) (simp_all add: texts text_row_def ROWS_MAX_def)
qed

section \<open>What the handlers answer\<close>

text \<open>C23: \<open>get_todolist\<close> answers a known user with the JSON array of the user's entries, in
  the order of the rows, having asked for the token and for that user's rows only, and gives back
  its connection and its results.\<close>

theorem todolist_answer:
  assumes "req_parameter req = entries ps" and "map_of ps ''token'' = Some token"
    and "authorised env w token i out1"
    and "asked env (next_conn w) (todos_query i) out1 (Some rs) out2" and "todo_rows_ok rs"
  shows "\<exists>w'. get_todolist env fd req w = Inr ((), w') \<and>
    sent w' = (sent w)(fd := sent w fd @
      response_bytes 200 ''OK'' (req_version req) [] (json_array (map todo_text rs))) \<and>
    queried w' = queried w @ [(next_conn w, token_query token), (next_conn w, todos_query i)] \<and>
    conns w' = conns w \<and> results w' = results w"
  using assms by (rule get_todolist_run)

theorem todolist_answer_witness:
  "\<exists>w'. get_todolist scripted 4 (request_with ''GET'' ''/todolist'' [(''token'', ''t'')])
      (world_of (\<lambda>_. []) [Rows [[Some ''7'']], Rows [[Some ''2018-06-01'', Some ''exam'']]]) = Inr ((), w') \<and>
    sent w' 4 = response_bytes 200 ''OK'' ''HTTP/1.1'' [] (json_array [todo_text [Some ''2018-06-01'', Some ''exam'']]) \<and>
    conns w' = []"
proof -
  let ?rs = "[[Some ''2018-06-01'', Some ''exam'']]" and ?w = "world_of (\<lambda>_. []) [Rows [[Some ''7'']], Rows [[Some ''2018-06-01'', Some ''exam'']]]"
  have seven: "atoi ''7'' = Inr 7" by code_simp
  have a: "authorised scripted ?w ''t'' 7 (Rows [[Some ''7'']], [Rows ?rs])"
    using scripted_user [of "''t''" "''7''" 7 0 Done "[Rows ?rs]"] seven
    by (simp add: authorised_def token_query_def sq_def)
  have t: "todo_rows_ok ?rs"
    by (simp add: todo_rows_ok_def text_row_def todo_text_def json_field_def quoted_def json_array_def LINE_MAX_def)
  from todolist_answer [OF _ _ a _ t, of "request_with ''GET'' ''/todolist'' [(''token'', ''t'')]" "[(''token'', ''t'')]"
      "(Rows ?rs, [])" 4]
  show ?thesis by (auto simp: scripted_asked)
qed

text \<open>Login with a wrong password: nothing is inserted, the answer has status
  \<^verbatim>\<open>ERROR\<close> and empty token and name, and the connection and its result are given back.\<close>

theorem wrong_password_refused:
  assumes "req_parameter req = entries ps" and "map_of ps ''ID'' = Some ID"
    and "map_of ps ''password'' = Some password"
    and "account env w ID stored name i out1" and "stored \<noteq> password"
  shows "\<exists>w'. login env fd req w = Inr ((), w') \<and>
    sent w' = (sent w)(fd := sent w fd @ response_bytes 200 ''OK'' (req_version req) [] (login_body ''ERROR'' [] [])) \<and>
    queried w' = queried w @ [(next_conn w, login_query ID)] \<and>
    conns w' = conns w \<and> results w' = results w"
  using assms by (rule login_wrong_password)

lemma scripted_account:
  assumes "NUL \<notin> set ID" "length (login_query ID) < 256" "NUL \<notin> set stored" "NUL \<notin> set name" "length name < 26"
    and "next_conn w = 0" "outside w = (Done, Rows [[Some stored, Some name, Some d]] # rs)"
    and "NUL \<notin> set d" "atoi d = Inr i"
  shows "account scripted w ID stored name i (Rows [[Some stored, Some name, Some d]], rs)"
  unfolding account_def using assms scripted_asked [of 0 "login_query ID" Done "[[Some stored, Some name, Some d]]" rs]
  by (intro conjI exI [of _ d] exI [of _ "[]"]) simp_all

theorem wrong_password_refused_witness:
  "\<exists>w'. login scripted 4 (request_with ''POST'' ''/login'' [(''ID'', ''kim''), (''password'', ''pw'')])
      (world_of (\<lambda>_. []) [Rows [[Some ''secret'', Some ''Kim'', Some ''7'']]]) = Inr ((), w') \<and>
    sent w' 4 = response_bytes 200 ''OK'' ''HTTP/1.1'' [] (login_body ''ERROR'' [] []) \<and>
    queried w' = [(0, login_query ''kim'')] \<and> conns w' = []"
proof -
  let ?w = "world_of (\<lambda>_. []) [Rows [[Some ''secret'', Some ''Kim'', Some ''7'']]]"
  have seven: "atoi ''7'' = Inr 7" by code_simp
  have a: "account scripted ?w ''kim'' ''secret'' ''Kim'' 7 (Rows [[Some ''secret'', Some ''Kim'', Some ''7'']], [])"
    by (rule scripted_account) (simp_all add: seven login_query_def sq_def)
  from wrong_password_refused [OF _ _ _ a, of "request_with ''POST'' ''/login'' [(''ID'', ''kim''), (''password'', ''pw'')]"
      "[(''ID'', ''kim''), (''password'', ''pw'')]" "''pw''" 4]
  show ?thesis by auto
qed

text \<open>\<open>post_progress\<close> is an update or an insert: it looks for the user's row and, as one
  is there or not, updates it or inserts it, with the number of the request; the answer says whether
  that statement went through, and the connection and the result set are given back.\<close>

theorem progress_stored:
  assumes "req_parameter req = entries ps" and "map_of ps ''token'' = Some token"
    and "map_of ps ''number'' = Some number"
    and "authorised env w token i out1"
    and "asked env (next_conn w) (progress_query i) out1 (Some rs) out2"
    and "NUL \<notin> set number" and "length (store_progress rs number i) < 256"
    and "db_query env (next_conn w) (store_progress rs number i) out2 = (ok, out3)"
  shows "\<exists>w'. post_progress env fd req w = Inr ((), w') \<and>
    sent w' = (sent w)(fd := sent w fd @
      response_bytes 200 ''OK'' (req_version req) [] (json_status (if ok then ''OK'' else ''ERROR''))) \<and>
    queried w' = queried w @ map (Pair (next_conn w)) [token_query token, progress_query i,
      (if rs = [] then insert_progress_query i number else update_progress_query number i)] \<and>
    conns w' = conns w \<and> results w' = results w"
  using post_progress_run [OF assms, of fd] unfolding store_progress_def by blast

theorem progress_stored_witness:
  "\<exists>w'. post_progress scripted 4 (request_with ''POST'' ''/progress'' [(''token'', ''t''), (''number'', ''30'')])
      (world_of (\<lambda>_. []) [Rows [[Some ''7'']], Rows [[Some ''20'']], Done]) = Inr ((), w') \<and>
    sent w' 4 = response_bytes 200 ''OK'' ''HTTP/1.1'' [] (json_status ''OK'') \<and>
    queried w' = [(0, token_query ''t''), (0, progress_query 7), (0, update_progress_query ''30'' 7)] \<and> conns w' = []"
proof -
  let ?w = "world_of (\<lambda>_. []) [Rows [[Some ''7'']], Rows [[Some ''20'']], Done]"
  have seven: "atoi ''7'' = Inr 7" by code_simp
  have a: "authorised scripted ?w ''t'' 7 (Rows [[Some ''7'']], [Rows [[Some ''20'']], Done])"
    using scripted_user [of "''t''" "''7''" 7 0 Done "[Rows [[Some ''20'']], Done]"] seven
    by (simp add: authorised_def token_query_def sq_def)
  have l: "length (store_progress [[Some ''20'']] ''30'' 7) < 256" by code_simp
  from progress_stored [OF _ _ _ a _ _ l, of "request_with ''POST'' ''/progress'' [(''token'', ''t''), (''number'', ''30'')]"
      "[(''token'', ''t''), (''number'', ''30'')]" "(Rows [[Some ''20'']], [Done])" True "(Done, [])" 4]
  show ?thesis by (auto simp: scripted_asked)
qed

section \<open>Groups\<close>

text \<open>C24: \<open>join_group\<close> decides who joins: it asks for the user of the token, then for the user
  with the ID, then whether the first owns the group, and sends the statement that adds the second one
  only if it does. The answer is \<^verbatim>\<open>NONE\<close> when no user has the ID, \<^verbatim>\<open>ERROR\<close> when the
  group is not the caller's, \<^verbatim>\<open>OK\<close> when the user was added and status 500 when that failed;
  in every case the connection stays open.\<close>

theorem join_group_decides:
  assumes "req_parameter req = entries ps" and "map_of ps ''token'' = Some token"
    and "map_of ps ''group_id'' = Some g" and "map_of ps ''ID'' = Some ID"
    and "authorised env w token i out1" and "NUL \<notin> set ID" and "length (id_query ID) < 256"
    and "asked env (next_conn w) (id_query ID) out1 (Some rs) out2" and "member_is rs m"
    and "NUL \<notin> set g" and "length (owner_query i g) < 256" and "\<And>j. m = Some j \<Longrightarrow> length (join_query j g) < 256"
    and "asked env (next_conn w) (owner_query i g) out2 (Some owners) out3"
    and "\<And>j. m = Some j \<Longrightarrow> fst (db_query env (next_conn w) (join_query j g) out3) = ok"
  shows "\<exists>w'. join_group env fd req w = Inr ((), w') \<and>
    sent w' = (sent w)(fd := sent w fd @ (case m of
        None \<Rightarrow> response_bytes 200 ''OK'' (req_version req) [] (json_status ''NONE'')
      | Some j \<Rightarrow>
          if owners = [] then response_bytes 200 ''OK'' (req_version req) [] (json_status ''ERROR'')
          else if ok then response_bytes 200 ''OK'' (req_version req) [] (json_status ''OK'')
          else response_bytes 500 ''Internal Server Error'' (req_version req) [] ''server error'')) \<and>
    queried w' = queried w @ map (Pair (next_conn w)) ([token_query token, id_query ID] @ (case m of
        None \<Rightarrow> []
      | Some j \<Rightarrow> owner_query i g # (if owners = [] then [] else [join_query j g]))) \<and>
    conns w' = next_conn w # conns w"
  using join_group_run [OF assms, where fd = fd] by (cases m) auto

theorem join_group_decides_witness:
  "\<exists>w'. join_group scripted 4 (request_with ''POST'' ''/join_group'' [(''token'', ''t''), (''group_id'', ''3''), (''ID'', ''lee'')])
      (world_of (\<lambda>_. []) [Rows [[Some ''7'']], Rows [[Some ''9'']], Rows [[Some ''3'']], Done]) = Inr ((), w') \<and>
    sent w' 4 = response_bytes 200 ''OK'' ''HTTP/1.1'' [] (json_status ''OK'') \<and>
    queried w' = map (Pair 0) [token_query ''t'', id_query ''lee'', owner_query 7 ''3'', join_query 9 ''3''] \<and> conns w' = [0]"
proof -
  let ?s = "[Rows [[Some ''9'']], Rows [[Some ''3'']], Done]" and ?ps = "[(''token'', ''t''), (''group_id'', ''3''), (''ID'', ''lee'')]"
  have n: "atoi ''7'' = Inr 7" "atoi ''9'' = Inr 9" by code_simp+
  have a: "authorised scripted (world_of (\<lambda>_. []) (Rows [[Some ''7'']] # ?s)) ''t'' 7 (Rows [[Some ''7'']], ?s)"
    using scripted_user [of "''t''" "''7''" 7 0 Done ?s] n(1) by (simp add: authorised_def token_query_def sq_def)
  have d: "length (dec 7) \<le> 11" "length (dec 9) \<le> 11" using n atoi_dec_length by blast+
  have l: "length (owner_query 7 ''3'') < 256" "length (join_query 9 ''3'') < 256" using d by (simp_all add: texts)
  have m: "member_is [[Some ''9'']] (Some 9)" using n(2) by (simp add: member_is_def)
  have "\<exists>w'. join_group scripted 4 (request_with ''POST'' ''/join_group'' ?ps) (world_of (\<lambda>_. []) (Rows [[Some ''7'']] # ?s)) = Inr ((), w') \<and>
      sent w' = ((\<lambda>_. [])(4 := [] @ response_bytes 200 ''OK'' ''HTTP/1.1'' [] (json_status ''OK''))) \<and>
      queried w' = [] @ map (Pair 0) ([token_query ''t'', id_query ''lee''] @ [owner_query 7 ''3'', join_query 9 ''3'']) \<and>
      conns w' = [0]"
    using join_group_decides [OF _ _ _ _ a _ _ _ m _ l(1), of "request_with ''POST'' ''/join_group'' ?ps" ?ps "''lee''"
      "(Rows [[Some ''9'']], [Rows [[Some ''3'']], Done])" "[[Some ''3'']]" "(Rows [[Some ''3'']], [Done])" True 4] l(2)
    by (simp add: scripted_asked texts)
  then show ?thesis by auto
qed

section \<open>Locations\<close>

text \<open>\<open>post_location\<close> does not test the result of \<open>getUserIdx\<close>: when the statement
  fails, the position is stored under the key \<^verbatim>\<open>-1\<close> and the client is told \<^verbatim>\<open>OK\<close>.\<close>

theorem failed_lookup_stores_minus_one:
  assumes "req_parameter req = entries ps" and "map_of ps ''token'' = Some token"
    and "map_of ps ''latitude'' = Some lat" and "map_of ps ''longitude'' = Some lon"
    and "length (token_query token) < 256" and "NUL \<notin> set token"
    and "db_query env (next_conn w) (token_query token) (connected env w) = (False, out1)"
    and "stores (locations w) f" and "position_ok (lat, lon)"
  shows "\<exists>w'. post_location env fd req w = Inr ((), w') \<and>
    stores (locations w') (f(''-1'' \<mapsto> lat @ ''|'' @ lon)) \<and>
    sent w' = (sent w)(fd := sent w fd @ response_bytes 200 ''OK'' (req_version req) [] status_ok_body)"
  using assms by (rule post_location_failed)

theorem failed_lookup_stores_minus_one_witness:
  "\<exists>w'. post_location scripted 4 (request_with ''POST'' ''/location''
      [(''token'', ''t''), (''latitude'', ''1''), (''longitude'', ''2'')]) (world_of (\<lambda>_. []) [Fails]) = Inr ((), w') \<and>
    stores (locations w') [''-1'' \<mapsto> ''1|2''] \<and>
    sent w' 4 = response_bytes 200 ''OK'' ''HTTP/1.1'' [] status_ok_body"
proof -
  have "stores (locations (world_of (\<lambda>_. []) [Fails])) (\<lambda>_. None)"
    by (simp add: stores_def) (auto simp: entries_def intro: exI [of _ "[]"])
  from failed_lookup_stores_minus_one [OF _ _ _ _ _ _ _ this, of
      "request_with ''POST'' ''/location'' [(''token'', ''t''), (''latitude'', ''1''), (''longitude'', ''2'')]"
      "[(''token'', ''t''), (''latitude'', ''1''), (''longitude'', ''2'')]" "''t''" "''1''" "''2''" scripted "(Fails, [])" 4]
  show ?thesis by (auto simp: token_query_def sq_def position_ok_def)
qed

end
