(* ===== verification/Location_Threads.thy ===== *)
theory Location_Threads
  imports Location
begin

text \<open>
  \<open>push_location\<close> and \<open>pop_location\<close> run by several threads (\<^verbatim>\<open>ttac.c\<close> 720--755). The mutex
  guards the list; \<open>pop_location\<close> reads the node's value pointer, and its caller the text,
  after the mutex is released.
\<close>

section \<open>The state\<close>

text \<open>
  The nodes of the list, in order, with their key and the address of their value, and the values on
  the heap: the array \<^verbatim>\<open>malloc\<close> returns is \<open>Unset\<close> until \<^verbatim>\<open>sprintf\<close> has written it. Nodes are never
  removed, so a node is its index. A reader that finds an array freed or not yet written is \<open>Crashed\<close>.
\<close>

datatype lvalue = Freed | Unset | Stored string

datatype lthread =
    Push string string
  | Push_locked string string
  | Push_freed nat string
  | Push_unset nat string
  | Pop string
  | Pop_locked string
  | Pop_found nat
  | Pop_have nat
  | Finished "string option"
  | Crashed

record lstate =
  mutex :: "nat option"
  nodes :: "(string \<times> nat) list"
  heap :: "nat \<Rightarrow> lvalue"
  next_addr :: nat
  lthreads :: "lthread list"

text \<open>The loop \<open>for(it=head;it!=NULL;it=it->next)\<close> with the comparison of the keys.\<close>

fun find_node :: "(string \<times> nat) list \<Rightarrow> string \<Rightarrow> nat option" where
  "find_node [] u = None"
| "find_node ((k, a) # ns) u = (if strcmp u k = 0 then Some 0 else map_option Suc (find_node ns u))"

definition set_thread :: "nat \<Rightarrow> lthread \<Rightarrow> lstate \<Rightarrow> lstate" where
  "set_thread i t s = s\<lparr>lthreads := (lthreads s)[i := t]\<rparr>"

definition new_value :: "lvalue \<Rightarrow> lstate \<Rightarrow> lstate" where
  "new_value v s = s\<lparr>heap := (heap s)(next_addr s := v), next_addr := Suc (next_addr s)\<rparr>"

text \<open>One step of thread \<open>i\<close>.\<close>

inductive lstep :: "lstate \<Rightarrow> lstate \<Rightarrow> bool" where
  Push_lock: "i < length (lthreads s) \<Longrightarrow> lthreads s ! i = Push u v \<Longrightarrow> mutex s = None \<Longrightarrow>
     lstep s (set_thread i (Push_locked u v) (s\<lparr>mutex := Some i\<rparr>))"
| Push_free: "i < length (lthreads s) \<Longrightarrow> lthreads s ! i = Push_locked u v \<Longrightarrow> find_node (nodes s) u = Some k \<Longrightarrow>
     lstep s (set_thread i (Push_freed k v) (s\<lparr>heap := (heap s)(snd (nodes s ! k) := Freed)\<rparr>))"
| Push_assign: "i < length (lthreads s) \<Longrightarrow> lthreads s ! i = Push_freed k v \<Longrightarrow>
     lstep s (set_thread i (Push_unset k v)
       (new_value Unset (s\<lparr>nodes := (nodes s)[k := (fst (nodes s ! k), next_addr s)]\<rparr>)))"
| Push_write: "i < length (lthreads s) \<Longrightarrow> lthreads s ! i = Push_unset k v \<Longrightarrow>
     lstep s (set_thread i (Finished None) (s\<lparr>heap := (heap s)(snd (nodes s ! k) := Stored v), mutex := None\<rparr>))"
| Push_append: "i < length (lthreads s) \<Longrightarrow> lthreads s ! i = Push_locked u v \<Longrightarrow> find_node (nodes s) u = None \<Longrightarrow>
     lstep s (set_thread i (Finished None)
       (new_value (Stored v) (s\<lparr>nodes := nodes s @ [(u, next_addr s)], mutex := None\<rparr>)))"
| Pop_lock: "i < length (lthreads s) \<Longrightarrow> lthreads s ! i = Pop u \<Longrightarrow> mutex s = None \<Longrightarrow>
     lstep s (set_thread i (Pop_locked u) (s\<lparr>mutex := Some i\<rparr>))"
| Pop_unlock: "i < length (lthreads s) \<Longrightarrow> lthreads s ! i = Pop_locked u \<Longrightarrow> find_node (nodes s) u = Some k \<Longrightarrow>
     lstep s (set_thread i (Pop_found k) (s\<lparr>mutex := None\<rparr>))"
| Pop_none: "i < length (lthreads s) \<Longrightarrow> lthreads s ! i = Pop_locked u \<Longrightarrow> find_node (nodes s) u = None \<Longrightarrow>
     lstep s (set_thread i (Finished None) (s\<lparr>mutex := None\<rparr>))"
| Pop_return: "i < length (lthreads s) \<Longrightarrow> lthreads s ! i = Pop_found k \<Longrightarrow>
     lstep s (set_thread i (Pop_have (snd (nodes s ! k))) s)"
| Pop_read: "i < length (lthreads s) \<Longrightarrow> lthreads s ! i = Pop_have a \<Longrightarrow>
     lstep s (set_thread i (case heap s a of Stored v \<Rightarrow> Finished (Some v) | _ \<Rightarrow> Crashed) s)"

inductive_cases lstepE: "lstep s s'"

fun in_section :: "lthread \<Rightarrow> bool" where
  "in_section (Push_locked u v) = True"
| "in_section (Push_freed k v) = True"
| "in_section (Push_unset k v) = True"
| "in_section (Pop_locked u) = True"
| "in_section t = False"

section \<open>Mutual exclusion\<close>

definition owner_only :: "lstate \<Rightarrow> bool" where
  "owner_only s \<longleftrightarrow> 
     (\<forall>i < length (lthreads s). in_section (lthreads s ! i) \<longleftrightarrow> mutex s = Some i) \<and>
     (\<forall>i \<in> set_option (mutex s). i < length (lthreads s))"

lemma owner_only_step: "owner_only s \<Longrightarrow> lstep s s' \<Longrightarrow> owner_only s'"
  by (erule lstepE) (auto simp: owner_only_def set_thread_def new_value_def nth_list_update split: option.splits lvalue.splits)

interpretation mutual_exclusion: kept lstep owner_only
  by unfold_locales (rule owner_only_step)

section \<open>The list\<close>

lemma find_node_bound: "find_node ns u = Some k \<Longrightarrow> k < length ns \<and> fst (ns ! k) = u"
  by (induction ns arbitrary: k) (auto split: if_splits)

lemma find_node_None: "find_node ns u = None \<longleftrightarrow> u \<notin> fst ` set ns"
proof (induction ns)
  case (Cons n ns)
  then show ?case by (cases n) auto
qed simp

text \<open>The node whose value the thread in the section has freed and not yet written again.\<close>

definition being_replaced :: "lstate \<Rightarrow> nat set" where
  "being_replaced s =
     (case mutex s of None \<Rightarrow> {}
      | Some i \<Rightarrow> (case lthreads s ! i of Push_freed k v \<Rightarrow> {k} | Push_unset k v \<Rightarrow> {k} | _ \<Rightarrow> {}))"

text \<open>
  Keys and value addresses are distinct, addresses are below the counter, and every value
  is there except the one that is being replaced.
\<close>

definition list_ok :: "lstate \<Rightarrow> bool" where
  "list_ok s \<longleftrightarrow> owner_only s \<and> distinct (map fst (nodes s)) \<and> distinct (map snd (nodes s)) \<and>
     (\<forall>a \<in> snd ` set (nodes s). a < next_addr s) \<and>
     (\<forall>k \<in> being_replaced s. k < length (nodes s)) \<and>
     (\<forall>k < length (nodes s). k \<notin> being_replaced s \<longrightarrow> (\<exists>v. heap s (snd (nodes s ! k)) = Stored v))"

lemma list_okD:
  assumes "list_ok s"
  shows "owner_only s" "distinct (map fst (nodes s))" "distinct (map snd (nodes s))"
    "\<And>a. a \<in> snd ` set (nodes s) \<Longrightarrow> a < next_addr s" "\<And>k. k \<in> being_replaced s \<Longrightarrow> k < length (nodes s)"
    "\<And>k. k < length (nodes s) \<Longrightarrow> k \<notin> being_replaced s \<Longrightarrow> \<exists>v. heap s (snd (nodes s ! k)) = Stored v"
  using assms by (auto simp: list_ok_def)

lemma in_section_owner: "owner_only s \<Longrightarrow> i < length (lthreads s) \<Longrightarrow> in_section (lthreads s ! i) \<Longrightarrow> mutex s = Some i"
  by (simp add: owner_only_def)

text \<open>A step of a thread outside the section leaves the owner's state alone.\<close>

lemma being_replaced_other:
  assumes "owner_only s" and "i < length (lthreads s)" and "\<not> in_section (lthreads s ! i)"
  shows "being_replaced (set_thread i t s) = being_replaced s"
proof (cases "mutex s")
  case (Some j)
  then have "j \<noteq> i" using assms by (auto simp: owner_only_def)
  then show ?thesis using Some by (simp add: being_replaced_def set_thread_def)
qed (simp add: being_replaced_def set_thread_def)

lemma set_thread_sel [simp]:
  "nodes (set_thread i t s) = nodes s" "heap (set_thread i t s) = heap s"
  "next_addr (set_thread i t s) = next_addr s" "mutex (set_thread i t s) = mutex s"
  "lthreads (set_thread i t s) = (lthreads s)[i := t]"
  by (simp_all add: set_thread_def)

lemma new_value_sel [simp]:
  "nodes (new_value v s) = nodes s" "heap (new_value v s) = (heap s)(next_addr s := v)"
  "next_addr (new_value v s) = Suc (next_addr s)" "mutex (new_value v s) = mutex s"
  "lthreads (new_value v s) = lthreads s"
  by (simp_all add: new_value_def)

lemma set_snd_update: "k < length ns \<Longrightarrow> snd ` set (ns[k := (x, a)]) \<subseteq> insert a (snd ` set ns)"
  by (auto dest!: subsetD [OF set_update_subset_insert])

lemma distinct_update_new: "distinct xs \<Longrightarrow> a \<notin> set xs \<Longrightarrow> distinct (xs[k := a])"
  by (cases "k < length xs") (auto simp: distinct_list_update)

lemma list_ok_free:
  assumes ok: "list_ok s" and Push_free: "i < length (lthreads s)" "lthreads s ! i = Push_locked u v" "find_node (nodes s) u = Some k"
    "s' = set_thread i (Push_freed k v) (s\<lparr>heap := (heap s)(snd (nodes s ! k) := Freed)\<rparr>)"
  shows "list_ok s'"
proof -
  note d = list_okD [OF ok]
  have "lstep s s'" unfolding Push_free(4) using Push_free(1-3) by (rule lstep.Push_free)
  with d(1) have own: "owner_only s'" by (rule owner_only_step)
  have m: "mutex s = Some i" using Push_free d(1) by (intro in_section_owner) simp_all
  have n: "being_replaced s = {}" using m Push_free by (simp add: being_replaced_def)
  have r: "being_replaced s' = {k}" using m Push_free by (simp add: being_replaced_def)
  have kl: "k < length (nodes s)" using find_node_bound [OF Push_free(3)] by simp
  have "snd (nodes s ! j) \<noteq> snd (nodes s ! k)" if "j < length (nodes s)" "j \<noteq> k" for j
    using d(3) that kl nth_eq_iff_index_eq [of "map snd (nodes s)" j k] by simp
  then show ?thesis using d own Push_free r n kl unfolding list_ok_def by auto
qed

lemma list_ok_assign:
  assumes ok: "list_ok s" and Push_assign: "i < length (lthreads s)" "lthreads s ! i = Push_freed k v"
    "s' = set_thread i (Push_unset k v) (new_value Unset (s\<lparr>nodes := (nodes s)[k := (fst (nodes s ! k), next_addr s)]\<rparr>))"
  shows "list_ok s'"
proof -
  note d = list_okD [OF ok]
  have "lstep s s'" unfolding Push_assign(3) using Push_assign(1-2) by (rule lstep.Push_assign)
  with d(1) have own: "owner_only s'" by (rule owner_only_step)
  have m: "mutex s = Some i" using Push_assign d(1) by (intro in_section_owner) simp_all
  have b: "being_replaced s = {k}" using m Push_assign by (simp add: being_replaced_def)
  have r: "being_replaced s' = {k}" using m Push_assign by (simp add: being_replaced_def)
  have kl: "k < length (nodes s)" using d(5) b by simp
  have fresh: "next_addr s \<notin> snd ` set (nodes s)" using d(4) by blast
  have keys: "map fst ((nodes s)[k := (fst (nodes s ! k), next_addr s)]) = map fst (nodes s)"
    using kl by (simp add: map_update) (metis length_map list_update_id nth_map)
  have addrs: "distinct (map snd ((nodes s)[k := (fst (nodes s ! k), next_addr s)]))"
    using distinct_update_new [OF d(3), of "next_addr s" k] fresh by (simp add: map_update)
  have live: "\<exists>x. heap s (snd (nodes s ! j)) = Stored x" if "j < length (nodes s)" "j \<noteq> k" for j
    using d(6) [of j] b that by simp
  have "snd (nodes s ! j) \<noteq> next_addr s" if "j < length (nodes s)" for j
    using fresh that by (metis image_eqI nth_mem)
  then have heap: "\<exists>x. heap s' (snd (nodes s' ! j)) = Stored x" if "j < length (nodes s')" "j \<noteq> k" for j
    using that live Push_assign by fastforce
  have kl': "k < length (nodes s')" using kl Push_assign by simp
  have bound: "a < next_addr s'" if "a \<in> snd ` set (nodes s')" for a
  proof -
    have "a \<in> insert (next_addr s) (snd ` set (nodes s))"
      using that Push_assign by (intro subsetD [OF set_snd_update [OF kl]]) simp
    moreover have "next_addr s' = Suc (next_addr s)" using Push_assign by simp
    ultimately show ?thesis using d(4) by (metis insertE less_Suc_eq)
  qed
  have "distinct (map fst (nodes s'))" "distinct (map snd (nodes s'))"
    using Push_assign keys addrs d(2) by simp_all
  then show ?thesis using own heap bound kl' by (simp add: list_ok_def r)
qed

lemma list_ok_write:
  assumes ok: "list_ok s" and Push_write: "i < length (lthreads s)" "lthreads s ! i = Push_unset k v"
    "s' = set_thread i (Finished None) (s\<lparr>heap := (heap s)(snd (nodes s ! k) := Stored v), mutex := None\<rparr>)"
  shows "list_ok s'"
proof -
  note d = list_okD [OF ok]
  have "lstep s s'" unfolding Push_write(3) using Push_write(1-2) by (rule lstep.Push_write)
  with d(1) have own: "owner_only s'" by (rule owner_only_step)
  have "mutex s = Some i" using Push_write d(1) by (intro in_section_owner) simp_all
  then have b: "being_replaced s = {k}" using Push_write by (simp add: being_replaced_def)
  have r: "being_replaced s' = {}" using Push_write by (simp add: being_replaced_def)
  have "\<exists>x. heap s' (snd (nodes s' ! j)) = Stored x" if "j < length (nodes s')" for j
    using that d(6) [of j] b Push_write by (cases "j = k") auto
  then show ?thesis using d(1-4) own r Push_write unfolding list_ok_def by auto
qed

lemma list_ok_append:
  assumes ok: "list_ok s" and Push_append: "i < length (lthreads s)" "lthreads s ! i = Push_locked u v" "find_node (nodes s) u = None"
    "s' = set_thread i (Finished None)
       (new_value (Stored v) (s\<lparr>nodes := nodes s @ [(u, next_addr s)], mutex := None\<rparr>))"
  shows "list_ok s'"
proof -
  note d = list_okD [OF ok]
  have "lstep s s'" unfolding Push_append(4) using Push_append(1-3) by (rule lstep.Push_append)
  with d(1) have own: "owner_only s'" by (rule owner_only_step)
  have m: "mutex s = Some i" using Push_append d(1) by (intro in_section_owner) simp_all
  have n: "being_replaced s = {}" using m Push_append by (simp add: being_replaced_def)
  have r: "being_replaced s' = {}" using Push_append by (simp add: being_replaced_def)
  have fresh: "next_addr s \<notin> snd ` set (nodes s)" using d(4) by blast
  have "snd (nodes s ! j) \<noteq> next_addr s" if "j < length (nodes s)" for j
    using fresh that by (metis image_eqI nth_mem)
  moreover have "u \<notin> fst ` set (nodes s)" using Push_append by (simp add: find_node_None)
  ultimately show ?thesis using d own Push_append r n fresh
    unfolding list_ok_def by (auto simp: nth_append less_Suc_eq)
qed

lemma list_ok_step:
  assumes ok: "list_ok s" and st: "lstep s s'"
  shows "list_ok s'"
proof -
  note d = list_okD [OF ok]
  have own: "owner_only s'" using d(1) st by (rule owner_only_step)
  show ?thesis
    using st
  proof cases
    case (Push_free i u v k)
    show ?thesis using ok Push_free(2-4,1) by (rule list_ok_free)
  next
    case (Push_assign i k v)
    show ?thesis using ok Push_assign(2-3,1) by (rule list_ok_assign)
  next
    case (Push_write i k v)
    show ?thesis using ok Push_write(2-3,1) by (rule list_ok_write)
  next
    case (Push_append i u v)
    show ?thesis using ok Push_append(2-4,1) by (rule list_ok_append)
  next
    case (Push_lock i u v)
    have "being_replaced s' = {}" "being_replaced s = {}" using Push_lock by (simp_all add: being_replaced_def)
    then show ?thesis using d own Push_lock unfolding list_ok_def by simp
  next
    case (Pop_lock i u)
    have "being_replaced s' = {}" "being_replaced s = {}" using Pop_lock by (simp_all add: being_replaced_def)
    then show ?thesis using d own Pop_lock unfolding list_ok_def by simp
  next
    case (Pop_unlock i u k)
    have "mutex s = Some i" using Pop_unlock d(1) by (intro in_section_owner) simp_all
    then have "being_replaced s' = {}" "being_replaced s = {}" using Pop_unlock by (simp_all add: being_replaced_def)
    then show ?thesis using d own Pop_unlock unfolding list_ok_def by simp
  next
    case (Pop_none i u)
    have "mutex s = Some i" using Pop_none d(1) by (intro in_section_owner) simp_all
    then have "being_replaced s' = {}" "being_replaced s = {}" using Pop_none by (simp_all add: being_replaced_def)
    then show ?thesis using d own Pop_none unfolding list_ok_def by simp
  next
    case (Pop_return i k)
    then have "being_replaced s' = being_replaced s" using d(1) by (simp add: being_replaced_other)
    then show ?thesis using d own Pop_return unfolding list_ok_def by simp
  next
    case (Pop_read i a)
    then have "being_replaced s' = being_replaced s" using d(1) by (simp add: being_replaced_other)
    then show ?thesis using d own Pop_read unfolding list_ok_def by simp
  qed
qed

interpretation location_lists: kept lstep list_ok
  by unfold_locales (rule list_ok_step)

section \<open>Readers of keys that nobody writes\<close>

text \<open>
  Every reader reads a key of \<open>K\<close>, every writer writes a key outside \<open>K\<close>, and no thread
  has read a freed value.
\<close>

definition calm :: "string set \<Rightarrow> (string \<times> nat) list \<Rightarrow> lthread \<Rightarrow> bool" where
  "calm K ns t \<longleftrightarrow>
     (case t of
        Push u v \<Rightarrow> u \<notin> K | Push_locked u v \<Rightarrow> u \<notin> K
      | Push_freed k v \<Rightarrow> k < length ns \<and> fst (ns ! k) \<notin> K
      | Push_unset k v \<Rightarrow> k < length ns \<and> fst (ns ! k) \<notin> K
      | Pop u \<Rightarrow> u \<in> K | Pop_locked u \<Rightarrow> u \<in> K
      | Pop_found k \<Rightarrow> k < length ns \<and> fst (ns ! k) \<in> K
      | Pop_have a \<Rightarrow> \<exists>k < length ns. fst (ns ! k) \<in> K \<and> snd (ns ! k) = a
      | Finished r \<Rightarrow> True | Crashed \<Rightarrow> False)"

definition undisturbed :: "string set \<Rightarrow> lstate \<Rightarrow> bool" where
  "undisturbed K s \<longleftrightarrow> list_ok s \<and> (\<forall>t \<in> set (lthreads s). calm K (nodes s) t)"

text \<open>The list grows, its keys stay, and so do the addresses under the keys of \<open>K\<close>.\<close>

definition extends :: "string set \<Rightarrow> (string \<times> nat) list \<Rightarrow> (string \<times> nat) list \<Rightarrow> bool" where
  "extends K ns ns' \<longleftrightarrow> length ns \<le> length ns' \<and>
     (\<forall>k < length ns. fst (ns' ! k) = fst (ns ! k) \<and> (fst (ns ! k) \<in> K \<longrightarrow> snd (ns' ! k) = snd (ns ! k)))"

lemma extends_refl [simp]: "extends K ns ns"
  by (simp add: extends_def)

lemma calm_extends: "extends K ns ns' \<Longrightarrow> calm K ns t \<Longrightarrow> calm K ns' t"
proof (cases t)
  case (Pop_have a)
  assume e: "extends K ns ns'" and "calm K ns t"
  then obtain k where "k < length ns" "fst (ns ! k) \<in> K" "snd (ns ! k) = a" using Pop_have by (auto simp: calm_def)
  then show ?thesis using e Pop_have unfolding calm_def extends_def by (auto intro!: exI [of _ k])
qed (auto simp: calm_def extends_def)

lemma undisturbed_update:
  assumes "\<forall>t \<in> set (lthreads s). calm K (nodes s) t" and "extends K (nodes s) ns" and "calm K ns t"
  shows "\<forall>x \<in> set ((lthreads s)[i := t]). calm K ns x"
  using assms calm_extends by (auto dest!: subsetD [OF set_update_subset_insert])

lemma reader_live:
  assumes u: "undisturbed K s" and k: "k < length (nodes s)" "fst (nodes s ! k) \<in> K"
  shows "\<exists>v. heap s (snd (nodes s ! k)) = Stored v"
proof -
  have "k \<notin> being_replaced s"
  proof
    assume b: "k \<in> being_replaced s"
    have own: "owner_only s" using u by (simp add: undisturbed_def list_ok_def)
    obtain i where m: "mutex s = Some i" "k \<in> (case lthreads s ! i of Push_freed k v \<Rightarrow> {k} | Push_unset k v \<Rightarrow> {k} | _ \<Rightarrow> {})"
      using b by (auto simp: being_replaced_def split: option.splits)
    then obtain v where v: "lthreads s ! i = Push_freed k v \<or> lthreads s ! i = Push_unset k v"
      by (auto split: lthread.splits)
    have "i < length (lthreads s)" using own m(1) by (auto simp: owner_only_def)
    then have "calm K (nodes s) (lthreads s ! i)" using u by (simp add: undisturbed_def)
    then show False using k v by (auto simp: calm_def)
  qed
  then show ?thesis using u k by (simp add: undisturbed_def list_ok_def)
qed

lemma calm_nth: "undisturbed K s \<Longrightarrow> i < length (lthreads s) \<Longrightarrow> calm K (nodes s) (lthreads s ! i)"
  by (simp add: undisturbed_def)

lemma undisturbed_step:
  assumes u: "undisturbed K s" and st: "lstep s s'"
  shows "undisturbed K s'"
proof -
  have ok: "list_ok s'" using u st list_ok_step by (auto simp: undisturbed_def)
  have all: "\<forall>t \<in> set (lthreads s). calm K (nodes s) t" using u by (simp add: undisturbed_def)
  have upd: "undisturbed K s'" if "lthreads s' = (lthreads s)[i := t]" "extends K (nodes s) (nodes s')"
    "calm K (nodes s') t" for i t
    using undisturbed_update [OF all that(2,3)] that(1) ok by (simp add: undisturbed_def)
  show ?thesis
    using st
  proof cases
    case (Push_lock i x v)
    then have "calm K (nodes s) (Push x v)" using calm_nth [OF u Push_lock(2)] by simp
    then show ?thesis using Push_lock by (intro upd) (auto simp: calm_def)
  next
    case (Push_free i x v k)
    have "calm K (nodes s) (Push_locked x v)" using calm_nth [OF u Push_free(2)] Push_free by simp
    then show ?thesis using Push_free find_node_bound [OF Push_free(4)]
      by (intro upd) (auto simp: calm_def)
  next
    case (Push_assign i k v)
    have c: "calm K (nodes s) (Push_freed k v)" using calm_nth [OF u Push_assign(2)] Push_assign by simp
    then have "extends K (nodes s) ((nodes s)[k := (fst (nodes s ! k), next_addr s)])"
      by (auto simp: extends_def calm_def nth_list_update)
    then show ?thesis using Push_assign c by (intro upd) (auto simp: calm_def)
  next
    case (Push_write i k v)
    then show ?thesis by (intro upd) (auto simp: calm_def)
  next
    case (Push_append i x v)
    have "extends K (nodes s) (nodes s @ [(x, next_addr s)])" by (simp add: extends_def nth_append)
    then show ?thesis using Push_append by (intro upd) (auto simp: calm_def)
  next
    case (Pop_lock i x)
    then have "calm K (nodes s) (Pop x)" using calm_nth [OF u Pop_lock(2)] by simp
    then show ?thesis using Pop_lock by (intro upd) (auto simp: calm_def)
  next
    case (Pop_unlock i x k)
    have "calm K (nodes s) (Pop_locked x)" using calm_nth [OF u Pop_unlock(2)] Pop_unlock by simp
    then show ?thesis using Pop_unlock find_node_bound [OF Pop_unlock(4)]
      by (intro upd) (auto simp: calm_def)
  next
    case (Pop_none i x)
    then show ?thesis by (intro upd) (auto simp: calm_def)
  next
    case (Pop_return i k)
    have "calm K (nodes s) (Pop_found k)" using calm_nth [OF u Pop_return(2)] Pop_return by simp
    then show ?thesis using Pop_return by (intro upd) (auto simp: calm_def)
  next
    case (Pop_read i a)
    have "calm K (nodes s) (Pop_have a)" using calm_nth [OF u Pop_read(2)] Pop_read by simp
    then obtain k where "k < length (nodes s)" "fst (nodes s ! k) \<in> K" "snd (nodes s ! k) = a"
      by (auto simp: calm_def)
    then obtain v where "heap s a = Stored v" using reader_live [OF u] by blast
    then show ?thesis using Pop_read by (intro upd) (auto simp: calm_def)
  qed
qed

interpretation quiet_readers: kept lstep "undisturbed K" for K
  by unfold_locales (rule undisturbed_step)

section \<open>A reader and a writer of the same key\<close>

text \<open>One node; thread 0 reads its key and thread 1 writes it.\<close>

definition contended :: "string \<Rightarrow> string \<Rightarrow> string \<Rightarrow> lstate" where
  "contended u old new = \<lparr>mutex = None, nodes = [(u, 0)], heap = (\<lambda>a. if a = 0 then Stored old else Freed),
     next_addr = 1, lthreads = [Pop u, Push u new]\<rparr>"

lemma contended_ok: "list_ok (contended u old new)"
  by (auto simp: list_ok_def contended_def owner_only_def being_replaced_def nth_Cons split: nat.splits)

lemma stale_read:
  "\<exists>s. lstep\<^sup>*\<^sup>* (contended u old new) s \<and> lthreads s ! 0 = Crashed"
proof -
  define s0 where "s0 = contended u old new"
  define s1 where "s1 = set_thread 0 (Pop_locked u) (s0\<lparr>mutex := Some 0\<rparr>)"
  define s2 where "s2 = set_thread 0 (Pop_found 0) (s1\<lparr>mutex := None\<rparr>)"
  define s3 where "s3 = set_thread 0 (Pop_have 0) s2"
  define s4 where "s4 = set_thread 1 (Push_locked u new) (s3\<lparr>mutex := Some 1\<rparr>)"
  define s5 where "s5 = set_thread 1 (Push_freed 0 new) (s4\<lparr>heap := (heap s4)(0 := Freed)\<rparr>)"
  define s6 where "s6 = set_thread 0 Crashed s5"
  note d = s0_def s1_def s2_def s3_def s4_def s5_def s6_def contended_def set_thread_def
  have "lstep s0 s1" unfolding s1_def by (rule Pop_lock) (simp_all add: d)
  moreover have "lstep s1 s2" unfolding s2_def by (rule Pop_unlock [of _ _ u]) (simp_all add: d)
  moreover have "lstep s2 s3" using Pop_return [of 0 s2 0] by (simp add: d)
  moreover have "lstep s3 s4" unfolding s4_def by (rule Push_lock) (simp_all add: d)
  moreover have "lstep s4 s5" using Push_free [of 1 s4 u new 0] by (simp add: d)
  moreover have "lstep s5 s6" using Pop_read [of 0 s5 0] by (simp add: d)
  ultimately have "lstep\<^sup>*\<^sup>* s0 s6" by (meson converse_rtranclp_into_rtranclp rtranclp.rtrancl_refl)
  moreover have "lthreads s6 ! 0 = Crashed" by (simp add: d)
  ultimately show ?thesis unfolding s0_def by blast
qed

text \<open>The same reader can look at the new value before it is written.\<close>

lemma unset_read:
  "\<exists>s. lstep\<^sup>*\<^sup>* (contended u old new) s \<and> lthreads s = [Crashed, Push_unset 0 new]"
proof -
  define s0 where "s0 = contended u old new"
  define s1 where "s1 = set_thread 0 (Pop_locked u) (s0\<lparr>mutex := Some 0\<rparr>)"
  define s2 where "s2 = set_thread 0 (Pop_found 0) (s1\<lparr>mutex := None\<rparr>)"
  define s3 where "s3 = set_thread 1 (Push_locked u new) (s2\<lparr>mutex := Some 1\<rparr>)"
  define s4 where "s4 = set_thread 1 (Push_freed 0 new) (s3\<lparr>heap := (heap s3)(0 := Freed)\<rparr>)"
  define s5 where "s5 = set_thread 1 (Push_unset 0 new) (new_value Unset (s4\<lparr>nodes := [(u, 1)]\<rparr>))"
  define s6 where "s6 = set_thread 0 (Pop_have 1) s5"
  define s7 where "s7 = set_thread 0 Crashed s6"
  note d = s0_def s1_def s2_def s3_def s4_def s5_def s6_def s7_def contended_def set_thread_def new_value_def
  have "lstep s0 s1" unfolding s1_def by (rule Pop_lock) (simp_all add: d)
  moreover have "lstep s1 s2" unfolding s2_def by (rule Pop_unlock [of _ _ u]) (simp_all add: d)
  moreover have "lstep s2 s3" unfolding s3_def by (rule Push_lock) (simp_all add: d)
  moreover have "lstep s3 s4" using Push_free [of 1 s3 u new 0] by (simp add: d)
  moreover have "lstep s4 s5" using Push_assign [of 1 s4 0 new] by (simp add: d)
  moreover have "lstep s5 s6" using Pop_return [of 0 s5 0] by (simp add: d)
  moreover have "lstep s6 s7" using Pop_read [of 0 s6 1] by (simp add: d)
  ultimately have "lstep\<^sup>*\<^sup>* s0 s7" by (meson converse_rtranclp_into_rtranclp rtranclp.rtrancl_refl)
  moreover have "lthreads s7 = [Crashed, Push_unset 0 new]" by (simp add: d)
  ultimately show ?thesis unfolding s0_def by blast
qed

end
