(* ===== verification/Location_Runs.thy ===== *)
theory Location_Runs
  imports Location_Threads "HOL-Library.Multiset"
begin

text \<open>
  Whole runs of the threads that push and pop locations: they end, no thread is stuck, and
  what they leave in the list is what some order of the pushes alone would have left.
\<close>

section \<open>Runs end\<close>

text \<open>The steps a thread has left.\<close>

fun steps_left :: "lthread \<Rightarrow> nat" where
  "steps_left (Push u v) = 4"
| "steps_left (Push_locked u v) = 3"
| "steps_left (Push_freed k v) = 2"
| "steps_left (Push_unset k v) = 1"
| "steps_left (Pop u) = 4"
| "steps_left (Pop_locked u) = 3"
| "steps_left (Pop_found k) = 2"
| "steps_left (Pop_have a) = 1"
| "steps_left (Finished r) = 0"
| "steps_left Crashed = 0"

definition work :: "lstate \<Rightarrow> nat" where
  "work s = sum_list (map steps_left (lthreads s))"

lemma sum_list_swap:
  fixes f :: "'a \<Rightarrow> 'b :: comm_monoid_add"
  assumes "i < length xs"
  shows "sum_list (map f (xs[i := t])) + f (xs ! i) = sum_list (map f xs) + f t"
proof -
  have "xs = take i xs @ xs ! i # drop (Suc i) xs" using assms by (rule id_take_nth_drop)
  then have "sum_list (map f xs) = sum_list (map f (take i xs)) + (f (xs ! i) + sum_list (map f (drop (Suc i) xs)))"
    by (metis list.simps(9) map_append sum_list.Cons sum_list.append)
  then show ?thesis using assms by (simp add: upd_conv_take_nth_drop ac_simps)
qed

lemma work_update:
  assumes "i < length ts" and "steps_left t < steps_left (ts ! i)"
  shows "sum_list (map steps_left (ts[i := t])) < sum_list (map steps_left ts)"
  using sum_list_swap [OF assms(1), of steps_left t] assms(2) by linarith

lemma lstep_work: "lstep s s' \<Longrightarrow> work s' < work s"
  by (erule lstepE) (auto simp: work_def intro!: work_update split: option.splits lvalue.splits)

lemma lstep_bounded: "(lstep ^^ n) s s' \<Longrightarrow> n + work s' \<le> work s"
proof (induction n arbitrary: s')
  case (Suc n)
  then obtain t where "(lstep ^^ n) s t" "lstep t s'" by auto
  then show ?case using Suc.IH lstep_work [of t s'] by fastforce
qed simp

text \<open>The threads stay, and those that crash are in \<open>pop_location\<close>.\<close>

fun reads :: "lthread \<Rightarrow> bool" where
  "reads (Pop u) = True"
| "reads (Pop_locked u) = True"
| "reads (Pop_found k) = True"
| "reads (Pop_have a) = True"
| "reads t = False"

lemma same_threads: "lstep\<^sup>*\<^sup>* s s' \<Longrightarrow> length (lthreads s') = length (lthreads s)"
proof (induction rule: rtranclp_induct)
  case (step t u)
  have "length (lthreads u) = length (lthreads t)" using step.hyps(2) by (cases rule: lstep.cases) simp_all
  then show ?case using step.IH by simp
qed simp

lemma crash_step:
  assumes "lstep s s'" and "lthreads s' ! i = Crashed"
  shows "lthreads s ! i = Crashed \<or> reads (lthreads s ! i)"
  using assms by (cases rule: lstep.cases) (auto simp: nth_list_update split: if_splits lvalue.splits)

lemma reader_step:
  assumes "lstep s s'" and "reads (lthreads s' ! i)"
  shows "reads (lthreads s ! i)"
  using assms by (cases rule: lstep.cases) (auto simp: nth_list_update split: if_splits lvalue.splits)

lemma only_readers_crash:
  assumes "lstep\<^sup>*\<^sup>* s s'" and "lthreads s' ! i = Crashed \<or> reads (lthreads s' ! i)"
  shows "lthreads s ! i = Crashed \<or> reads (lthreads s ! i)"
  using assms by (induction rule: rtranclp_induct) (blast dest: crash_step reader_step)+

section \<open>No thread is stuck\<close>

lemma owner_steps:
  assumes "owner_only s" and "mutex s = Some i"
  shows "\<exists>s'. lstep s s' \<and> (\<exists>t. lthreads s' = (lthreads s)[i := t])"
proof -
  have i: "i < length (lthreads s)" "in_section (lthreads s ! i)" using assms by (auto simp: owner_only_def)
  show ?thesis
  proof (cases "lthreads s ! i")
    case (Push_locked u v)
    then show ?thesis using Push_free [OF i(1) Push_locked] Push_append [OF i(1) Push_locked]
      by (cases "find_node (nodes s) u") (fastforce intro: exI)+
  next
    case (Push_freed k v)
    from Push_assign [OF i(1) this] show ?thesis by fastforce
  next
    case (Push_unset k v)
    from Push_write [OF i(1) this] show ?thesis by fastforce
  next
    case (Pop_locked u)
    then show ?thesis using Pop_unlock [OF i(1) Pop_locked] Pop_none [OF i(1) Pop_locked]
      by (cases "find_node (nodes s) u") (fastforce intro: exI)+
  qed (use i in simp_all)
qed

lemma someone_steps:
  assumes "owner_only s" and "work s \<noteq> 0"
  shows "\<exists>s'. lstep s s'"
proof (cases "mutex s")
  case None
  obtain t where "t \<in> set (lthreads s)" "steps_left t \<noteq> 0" using assms(2) by (auto simp: work_def sum_list_eq_0_iff)
  then obtain i where i: "i < length (lthreads s)" "steps_left (lthreads s ! i) \<noteq> 0" by (metis in_set_conv_nth)
  have "\<not> in_section (lthreads s ! i)" using assms(1) i(1) None by (simp add: owner_only_def)
  then show ?thesis
    using i None Push_lock [of i s] Pop_lock [of i s] Pop_return [of i s] Pop_read [of i s]
    by (cases "lthreads s ! i") (simp_all, blast+)
next
  case (Some i)
  then show ?thesis using owner_steps [OF assms(1)] by blast
qed

lemma runs_finish: "owner_only s \<Longrightarrow> \<exists>s'. lstep\<^sup>*\<^sup>* s s' \<and> work s' = 0"
proof (induction "work s" arbitrary: s rule: less_induct)
  case less
  show ?case
  proof (cases "work s = 0")
    case False
    then obtain t where t: "lstep s t" using someone_steps less.prems by blast
    then have "owner_only t" using owner_only_step less.prems by blast
    then obtain s' where "lstep\<^sup>*\<^sup>* t s'" "work s' = 0" using less.hyps lstep_work t by blast
    then show ?thesis using t by (meson converse_rtranclp_into_rtranclp)
  qed blast
qed

lemma work_0_iff: "work s = 0 \<longleftrightarrow> (\<forall>t \<in> set (lthreads s). t = Crashed \<or> (\<exists>r. t = Finished r))"
proof -
  have "steps_left t = 0 \<longleftrightarrow> t = Crashed \<or> (\<exists>r. t = Finished r)" for t by (cases t) simp_all
  then show ?thesis by (simp add: work_def sum_list_eq_0_iff)
qed

section \<open>Finishing without a crash\<close>

text \<open>
  No thread has crashed, and none holds the address of a value that is gone: so it is when the
  threads start, and a scheduler can keep it so. A reader that has its address reads at once; a
  reader that has found its node waits while the writer in the section replaces the value.
\<close>

fun harmless :: "(string \<times> nat) list \<Rightarrow> (nat \<Rightarrow> lvalue) \<Rightarrow> lthread \<Rightarrow> bool" where
  "harmless ns h (Pop_found k) = (k < length ns)"
| "harmless ns h (Pop_have a) = (\<exists>v. h a = Stored v)"
| "harmless ns h Crashed = False"
| "harmless ns h t = True"

definition unharmed :: "lstate \<Rightarrow> bool" where
  "unharmed s \<longleftrightarrow> list_ok s \<and> (\<forall>t \<in> set (lthreads s). harmless (nodes s) (heap s) t)"

definition holding :: "lstate \<Rightarrow> bool" where
  "holding s \<longleftrightarrow> (\<exists>a. Pop_have a \<in> set (lthreads s))"

lemma harmless_more:
  "harmless ns h t \<Longrightarrow> length ns \<le> length ns' \<Longrightarrow> (\<forall>a. t \<noteq> Pop_have a) \<or> h' = h \<Longrightarrow> harmless ns' h' t"
  by (cases t) auto

lemma unharmed_update:
  assumes "unharmed s" and "list_ok s'" and "lthreads s' = (lthreads s)[i := t]"
    and "length (nodes s) \<le> length (nodes s')" and "\<not> holding s \<or> heap s' = heap s" and "harmless (nodes s') (heap s') t"
  shows "unharmed s'"
proof -
  have "harmless (nodes s') (heap s') x" if x: "x \<in> set (lthreads s)" for x
  proof (rule harmless_more)
    show "harmless (nodes s) (heap s) x" using assms(1) x by (simp add: unharmed_def)
    show "(\<forall>a. x \<noteq> Pop_have a) \<or> heap s' = heap s" using assms(5) x by (auto simp: holding_def)
  qed (rule assms(4))
  then show ?thesis
    using assms(2,3,6) by (auto simp: unharmed_def dest!: subsetD [OF set_update_subset_insert])
qed

lemma unharmed_start:
  "list_ok s \<Longrightarrow> \<forall>t \<in> set (lthreads s). (\<exists>u v. t = Push u v) \<or> (\<exists>u. t = Pop u) \<Longrightarrow> unharmed s"
  by (auto simp: unharmed_def)

text \<open>A step of a thread that does not take an address, while no thread holds one.\<close>

lemma unharmed_step:
  assumes u: "unharmed s" and none: "\<not> holding s" and st: "lstep s s'"
    and no: "\<And>i k. i < length (lthreads s) \<Longrightarrow> lthreads s ! i = Pop_found k \<Longrightarrow> s' \<noteq> set_thread i (Pop_have (snd (nodes s ! k))) s"
  shows "unharmed s'"
proof -
  have ok: "list_ok s'" using u st list_ok_step by (auto simp: unharmed_def)
  note update = unharmed_update [OF u ok]
  show ?thesis
    using st
  proof cases
    case (Push_lock i x v)
    then show ?thesis using none by (intro update [of i "Push_locked x v"]) simp_all
  next
    case (Push_free i x v k)
    then show ?thesis using none by (intro update [of i "Push_freed k v"]) simp_all
  next
    case (Push_assign i k v)
    then show ?thesis using none by (intro update [of i "Push_unset k v"]) simp_all
  next
    case (Push_write i k v)
    then show ?thesis using none by (intro update [of i "Finished None"]) simp_all
  next
    case (Push_append i x v)
    then show ?thesis using none by (intro update [of i "Finished None"]) simp_all
  next
    case (Pop_lock i x)
    then show ?thesis using none by (intro update [of i "Pop_locked x"]) simp_all
  next
    case (Pop_unlock i x k)
    then show ?thesis using find_node_bound [OF Pop_unlock(4)] none by (intro update [of i "Pop_found k"]) simp_all
  next
    case (Pop_none i x)
    then show ?thesis using none by (intro update [of i "Finished None"]) simp_all
  next
    case (Pop_return i k)
    then show ?thesis using no [of i k] by blast
  next
    case (Pop_read i a)
    then have "holding s" unfolding holding_def by (metis nth_mem)
    then show ?thesis using none by blast
  qed
qed

lemma reader_turn:
  assumes u: "unharmed s" and h: "holding s"
  shows "\<exists>s'. lstep s s' \<and> unharmed s'"
proof -
  obtain i a where i: "i < length (lthreads s)" "lthreads s ! i = Pop_have a"
    using h unfolding holding_def by (metis in_set_conv_nth)
  then have "harmless (nodes s) (heap s) (Pop_have a)" using u unfolding unharmed_def by (metis nth_mem)
  then obtain v where v: "heap s a = Stored v" by auto
  have st: "lstep s (set_thread i (Finished (Some v)) s)" using Pop_read [OF i] v by simp
  have "list_ok (set_thread i (Finished (Some v)) s)" using u st list_ok_step by (auto simp: unharmed_def)
  then have "unharmed (set_thread i (Finished (Some v)) s)"
    by (intro unharmed_update [OF u, of _ i "Finished (Some v)"]) simp_all
  then show ?thesis using st by blast
qed

text \<open>While the section is busy its thread goes on; otherwise every value is there.\<close>

lemma owner_turn:
  assumes u: "unharmed s" and none: "\<not> holding s" and m: "mutex s = Some i"
  shows "\<exists>s'. lstep s s' \<and> unharmed s'"
proof -
  have own: "owner_only s" using u by (simp add: unharmed_def list_ok_def)
  obtain s' where st: "lstep s s'" "\<exists>t. lthreads s' = (lthreads s)[i := t]" using owner_steps [OF own m] by blast
  have "s' \<noteq> set_thread j (Pop_have (snd (nodes s ! k))) s" if "j < length (lthreads s)" "lthreads s ! j = Pop_found k" for j k
  proof
    assume e: "s' = set_thread j (Pop_have (snd (nodes s ! k))) s"
    have "in_section (lthreads s ! i)" "i < length (lthreads s)" using own m by (auto simp: owner_only_def)
    then have "j \<noteq> i" using that(2) by auto
    moreover have "lthreads s' ! j = Pop_have (snd (nodes s ! k))" using e that(1) by simp
    ultimately have "lthreads s ! j = Pop_have (snd (nodes s ! k))" using st(2) that(1) by auto
    then show False using that(2) by simp
  qed
  then show ?thesis using unharmed_step [OF u none st(1)] st(1) by blast
qed

lemma free_turn:
  assumes u: "unharmed s" and none: "\<not> holding s" and m: "mutex s = None" and w: "work s \<noteq> 0"
  shows "\<exists>s'. lstep s s' \<and> unharmed s'"
proof -
  have ok: "list_ok s" and own: "owner_only s" using u by (simp_all add: unharmed_def list_ok_def)
  obtain s' where st: "lstep s s'" using someone_steps [OF own w] by blast
  show ?thesis
  proof (cases "\<exists>i k. i < length (lthreads s) \<and> lthreads s ! i = Pop_found k \<and> s' = set_thread i (Pop_have (snd (nodes s ! k))) s")
    case True
    then obtain i k where i: "i < length (lthreads s)" "lthreads s ! i = Pop_found k"
      "s' = set_thread i (Pop_have (snd (nodes s ! k))) s" by blast
    have "harmless (nodes s) (heap s) (Pop_found k)" using u i(1,2) unfolding unharmed_def by (metis nth_mem)
    moreover have "being_replaced s = {}" using m by (simp add: being_replaced_def)
    ultimately have "\<exists>v. heap s (snd (nodes s ! k)) = Stored v" using list_okD(6) [OF ok, of k] by simp
    moreover have "list_ok s'" using ok st by (rule list_ok_step)
    ultimately have "unharmed s'" using i(3)
      by (intro unharmed_update [OF u, of s' i "Pop_have (snd (nodes s ! k))"]) simp_all
    then show ?thesis using st by blast
  next
    case False
    then have "unharmed s'" by (intro unharmed_step [OF u none st]) blast
    then show ?thesis using st by blast
  qed
qed

lemma runs_finish_unharmed: "unharmed s \<Longrightarrow> \<exists>s'. lstep\<^sup>*\<^sup>* s s' \<and> work s' = 0 \<and> unharmed s'"
proof (induction "work s" arbitrary: s rule: less_induct)
  case less
  show ?case
  proof (cases "work s = 0")
    case False
    have "\<exists>t. lstep s t \<and> unharmed t"
      using reader_turn [OF less.prems] owner_turn [OF less.prems] free_turn [OF less.prems _ _ False]
      by (cases "mutex s") blast+
    then obtain t where t: "lstep s t" "unharmed t" by blast
    then obtain s' where "lstep\<^sup>*\<^sup>* t s'" "work s' = 0" "unharmed s'" using less.hyps lstep_work by blast
    then show ?thesis using t by (meson converse_rtranclp_into_rtranclp)
  qed (use less.prems in blast)
qed

section \<open>What the list holds\<close>

text \<open>
  The text that is about to be stored for a node, and the map the list stands for: a push
  counts from the step in which it frees the old value or appends the node.
\<close>

definition arriving :: "lstate \<Rightarrow> nat \<Rightarrow> string option" where
  "arriving s k =
     (case mutex s of None \<Rightarrow> None
      | Some i \<Rightarrow> (case lthreads s ! i of Push_freed j v \<Rightarrow> if j = k then Some v else None
          | Push_unset j v \<Rightarrow> if j = k then Some v else None | _ \<Rightarrow> None))"

fun stored :: "lvalue \<Rightarrow> string option" where
  "stored (Stored v) = Some v"
| "stored _ = None"

definition holds_map :: "lstate \<Rightarrow> string \<Rightarrow> string option" where
  "holds_map s u =
     (case find_node (nodes s) u of None \<Rightarrow> None
      | Some k \<Rightarrow> (case arriving s k of Some v \<Rightarrow> Some v | None \<Rightarrow> stored (heap s (snd (nodes s ! k)))))"

fun to_push :: "lthread \<Rightarrow> (string \<times> string) multiset" where
  "to_push (Push u v) = {#(u, v)#}"
| "to_push (Push_locked u v) = {#(u, v)#}"
| "to_push t = {#}"

definition pushes :: "lstate \<Rightarrow> (string \<times> string) multiset" where
  "pushes s = sum_list (map to_push (lthreads s))"

lemma no_pushes: "(\<And>t. t \<in> set (lthreads s) \<Longrightarrow> to_push t = {#}) \<Longrightarrow> pushes s = {#}"
proof -
  have "(\<And>t. t \<in> set ts \<Longrightarrow> to_push t = {#}) \<Longrightarrow> sum_list (map to_push ts) = {#}" for ts
    by (induction ts) simp_all
  then show "(\<And>t. t \<in> set (lthreads s) \<Longrightarrow> to_push t = {#}) \<Longrightarrow> pushes s = {#}" by (simp add: pushes_def)
qed

definition put_each :: "(string \<Rightarrow> string option) \<Rightarrow> (string \<times> string) list \<Rightarrow> string \<Rightarrow> string option" where
  "put_each f ws = foldl (\<lambda>f (u, v). f(u \<mapsto> v)) f ws"

lemma find_node_cong: "map fst ns = map fst ns' \<Longrightarrow> find_node ns u = find_node ns' u"
proof (induction ns arbitrary: ns')
  case (Cons n ns)
  then obtain n' ns'' where "ns' = n' # ns''" by (cases ns') auto
  then show ?case using Cons by (cases n, cases n') auto
qed simp

lemma find_node_append:
  "find_node (ns @ [(w, a)]) u = (case find_node ns u of Some k \<Rightarrow> Some k | None \<Rightarrow> if u = w then Some (length ns) else None)"
proof (induction ns)
  case (Cons n ns)
  then show ?case by (cases n) (auto split: option.splits)
qed simp

lemma pushes_update:
  assumes "i < length (lthreads s)" and "lthreads s' = (lthreads s)[i := t]"
  shows "pushes s' + to_push (lthreads s ! i) = pushes s + to_push t"
  using sum_list_swap [OF assms(1), of to_push t] assms(2) by (simp add: pushes_def)

text \<open>A step that is neither of a writer in its section nor changes the list.\<close>

lemma holds_map_same:
  assumes "nodes s' = nodes s" and "heap s' = heap s" and "\<And>k. arriving s' k = arriving s k"
  shows "holds_map s' = holds_map s"
proof -
  have "arriving s' = arriving s" using assms(3) by (rule ext)
  then show ?thesis unfolding holds_map_def [abs_def] assms(1,2) by (simp only:)
qed

lemma arriving_other:
  assumes "owner_only s" and "i < length (lthreads s)" and "\<not> in_section (lthreads s ! i)"
  shows "arriving (set_thread i t s) k = arriving s k"
proof (cases "mutex s")
  case (Some j)
  then have "j \<noteq> i" using assms by (auto simp: owner_only_def)
  then show ?thesis using Some by (simp add: arriving_def)
qed (simp add: arriving_def)

lemma step_without_push:
  assumes "i < length (lthreads s)" and "lthreads s' = (lthreads s)[i := t]" and "to_push (lthreads s ! i) = to_push t"
    and "holds_map s' = holds_map s"
  shows "\<exists>ws. pushes s = pushes s' + mset ws \<and> holds_map s' = put_each (holds_map s) ws"
  using pushes_update [OF assms(1,2)] assms(3,4) by (intro exI [of _ "[]"]) (simp add: put_each_def)

lemma step_with_push:
  assumes "i < length (lthreads s)" and "lthreads s' = (lthreads s)[i := t]" and "lthreads s ! i = Push_locked u v"
    and "to_push t = {#}" and "holds_map s' = (holds_map s)(u \<mapsto> v)"
  shows "\<exists>ws. pushes s = pushes s' + mset ws \<and> holds_map s' = put_each (holds_map s) ws"
  using pushes_update [OF assms(1,2)] assms(3-5) by (intro exI [of _ "[(u, v)]"]) (simp add: put_each_def)

lemma address_below: "list_ok s \<Longrightarrow> j < length (nodes s) \<Longrightarrow> snd (nodes s ! j) < next_addr s"
  by (rule list_okD(4)) simp_all

lemma free_holds_map:
  assumes ok: "list_ok s" and i: "i < length (lthreads s)" "lthreads s ! i = Push_locked u v"
    and k: "find_node (nodes s) u = Some k"
    and s': "s' = set_thread i (Push_freed k v) (s\<lparr>heap := (heap s)(snd (nodes s ! k) := Freed)\<rparr>)"
  shows "holds_map s' = (holds_map s)(u \<mapsto> v)"
proof
  fix w
  have m: "mutex s = Some i" using list_okD(1) [OF ok] i by (intro in_section_owner) simp_all
  have a: "arriving s j = None" for j using m i(2) by (simp add: arriving_def)
  have a': "arriving s' j = (if j = k then Some v else None)" for j using m i(1) s' by (simp add: arriving_def)
  show "holds_map s' w = ((holds_map s)(u \<mapsto> v)) w"
  proof (cases "find_node (nodes s) w")
    case None
    then show ?thesis using k s' by (auto simp: holds_map_def)
  next
    case (Some j)
    have n: "nodes s' = nodes s" "heap s' = (heap s)(snd (nodes s ! k) := Freed)" using s' by simp_all
    have d: "snd (nodes s ! j) \<noteq> snd (nodes s ! k)" if "j \<noteq> k"
      using list_okD(3) [OF ok] that find_node_bound [OF k] find_node_bound [OF Some]
        nth_eq_iff_index_eq [of "map snd (nodes s)" j k] by simp
    show ?thesis
    proof (cases "j = k")
      case True
      then have "w = u" using find_node_bound [OF k] find_node_bound [OF Some] by simp
      then show ?thesis using k by (simp add: holds_map_def n a')
    next
      case False
      then have "w \<noteq> u" using k Some by auto
      then show ?thesis using Some False d [OF False] by (simp add: holds_map_def n a a')
    qed
  qed
qed

lemma assign_holds_map:
  assumes ok: "list_ok s" and i: "i < length (lthreads s)" "lthreads s ! i = Push_freed k v"
    and s': "s' = set_thread i (Push_unset k v) (new_value Unset (s\<lparr>nodes := (nodes s)[k := (fst (nodes s ! k), next_addr s)]\<rparr>))"
  shows "holds_map s' = holds_map s"
proof
  fix w
  have m: "mutex s = Some i" using list_okD(1) [OF ok] i by (intro in_section_owner) simp_all
  have a: "arriving s j = (if j = k then Some v else None)" for j using m i(2) by (simp add: arriving_def)
  have a': "arriving s' j = (if j = k then Some v else None)" for j using m i(1) s' by (simp add: arriving_def)
  have f: "find_node (nodes s') w = find_node (nodes s) w"
    using s' by (intro find_node_cong) (simp add: map_update, metis list_update_id map_update)
  show "holds_map s' w = holds_map s w"
  proof (cases "find_node (nodes s) w")
    case None
    then show ?thesis using f by (simp add: holds_map_def)
  next
    case (Some j)
    then have j: "j < length (nodes s)" "j < length (nodes s)" using find_node_bound by blast+
    have "snd (nodes s ! j) \<noteq> next_addr s" using address_below [OF ok j(1)] by simp
    then show ?thesis using Some f a a' s' j by (cases "j = k") (simp_all add: holds_map_def)
  qed
qed

lemma write_holds_map:
  assumes ok: "list_ok s" and i: "i < length (lthreads s)" "lthreads s ! i = Push_unset k v"
    and s': "s' = set_thread i (Finished None) (s\<lparr>heap := (heap s)(snd (nodes s ! k) := Stored v), mutex := None\<rparr>)"
  shows "holds_map s' = holds_map s"
proof
  fix w
  have m: "mutex s = Some i" using list_okD(1) [OF ok] i by (intro in_section_owner) simp_all
  have a: "arriving s j = (if j = k then Some v else None)" for j using m i(2) by (simp add: arriving_def)
  have a': "arriving s' j = None" for j using s' by (simp add: arriving_def)
  have "being_replaced s = {k}" using m i by (simp add: being_replaced_def)
  then have k: "k < length (nodes s)" using list_okD(5) [OF ok] by simp
  show "holds_map s' w = holds_map s w"
  proof (cases "find_node (nodes s) w")
    case None
    then show ?thesis using s' by (simp add: holds_map_def)
  next
    case (Some j)
    then have "j < length (nodes s)" using find_node_bound by blast
    then have "snd (nodes s ! j) \<noteq> snd (nodes s ! k)" if "j \<noteq> k"
      using list_okD(3) [OF ok] that k nth_eq_iff_index_eq [of "map snd (nodes s)" j k] by simp
    then show ?thesis using Some a a' s' by (cases "j = k") (simp_all add: holds_map_def)
  qed
qed

lemma append_holds_map:
  assumes ok: "list_ok s" and i: "i < length (lthreads s)" "lthreads s ! i = Push_locked u v"
    and k: "find_node (nodes s) u = None"
    and s': "s' = set_thread i (Finished None) (new_value (Stored v) (s\<lparr>nodes := nodes s @ [(u, next_addr s)], mutex := None\<rparr>))"
  shows "holds_map s' = (holds_map s)(u \<mapsto> v)"
proof
  fix w
  have m: "mutex s = Some i" using list_okD(1) [OF ok] i by (intro in_section_owner) simp_all
  have a: "arriving s j = None" "arriving s' j = None" for j using m i(2) s' by (simp_all add: arriving_def)
  show "holds_map s' w = ((holds_map s)(u \<mapsto> v)) w"
  proof (cases "find_node (nodes s) w")
    case None
    then show ?thesis using k s' a by (auto simp: holds_map_def find_node_append)
  next
    case (Some j)
    then have j: "j < length (nodes s)" "w \<noteq> u" using find_node_bound k by auto
    have "snd (nodes s ! j) \<noteq> next_addr s" using address_below [OF ok j(1)] by simp
    then show ?thesis using Some a s' j by (simp add: holds_map_def find_node_append nth_append)
  qed
qed

lemma lstep_holds_map:
  assumes ok: "list_ok s" and st: "lstep s s'"
  shows "\<exists>ws. pushes s = pushes s' + mset ws \<and> holds_map s' = put_each (holds_map s) ws"
  using st
proof cases
  case (Push_lock i u v)
  have "holds_map s' = holds_map s" using Push_lock by (intro holds_map_same) (simp_all add: arriving_def)
  then show ?thesis using Push_lock by (intro step_without_push [of i s s' "Push_locked u v"]) simp_all
next
  case (Push_free i u v k)
  have "holds_map s' = (holds_map s)(u \<mapsto> v)" using ok Push_free(2-4) Push_free(1) by (rule free_holds_map)
  then show ?thesis using Push_free by (intro step_with_push [of i s s' "Push_freed k v" u v]) simp_all
next
  case (Push_assign i k v)
  have "holds_map s' = holds_map s" using ok Push_assign(2,3) Push_assign(1) by (rule assign_holds_map)
  then show ?thesis using Push_assign by (intro step_without_push [of i s s' "Push_unset k v"]) simp_all
next
  case (Push_write i k v)
  have "holds_map s' = holds_map s" using ok Push_write(2,3) Push_write(1) by (rule write_holds_map)
  then show ?thesis using Push_write by (intro step_without_push [of i s s' "Finished None"]) simp_all
next
  case (Push_append i u v)
  have "holds_map s' = (holds_map s)(u \<mapsto> v)" using ok Push_append(2-4) Push_append(1) by (rule append_holds_map)
  then show ?thesis using Push_append by (intro step_with_push [of i s s' "Finished None" u v]) simp_all
next
  case (Pop_lock i u)
  have "holds_map s' = holds_map s" using Pop_lock by (intro holds_map_same) (simp_all add: arriving_def)
  then show ?thesis using Pop_lock by (intro step_without_push [of i s s' "Pop_locked u"]) simp_all
next
  case (Pop_unlock i u k)
  have "mutex s = Some i" using list_okD(1) [OF ok] Pop_unlock by (intro in_section_owner) simp_all
  then have "holds_map s' = holds_map s" using Pop_unlock by (intro holds_map_same) (simp_all add: arriving_def)
  then show ?thesis using Pop_unlock by (intro step_without_push [of i s s' "Pop_found k"]) simp_all
next
  case (Pop_none i u)
  have "mutex s = Some i" using list_okD(1) [OF ok] Pop_none by (intro in_section_owner) simp_all
  then have "holds_map s' = holds_map s" using Pop_none by (intro holds_map_same) (simp_all add: arriving_def)
  then show ?thesis using Pop_none by (intro step_without_push [of i s s' "Finished None"]) simp_all
next
  case (Pop_return i k)
  have "arriving s' j = arriving s j" for j
    using list_okD(1) [OF ok] Pop_return arriving_other [of s i "Pop_have (snd (nodes s ! k))" j] by simp
  then have "holds_map s' = holds_map s" using Pop_return by (intro holds_map_same) simp_all
  then show ?thesis using Pop_return by (intro step_without_push [of i s s' "Pop_have (snd (nodes s ! k))"]) simp_all
next
  case (Pop_read i a)
  let ?t = "case heap s a of Stored v \<Rightarrow> Finished (Some v) | _ \<Rightarrow> Crashed"
  have "arriving s' j = arriving s j" for j
    using list_okD(1) [OF ok] Pop_read arriving_other [of s i ?t j] by simp
  then have "holds_map s' = holds_map s" using Pop_read by (intro holds_map_same) simp_all
  moreover have "to_push ?t = {#}" by (simp split: lvalue.split)
  ultimately show ?thesis using Pop_read by (intro step_without_push [of i s s' ?t]) simp_all
qed

lemma put_each_append: "put_each f (xs @ ys) = put_each (put_each f xs) ys"
  by (simp add: put_each_def)

lemma run_holds_map:
  assumes "lstep\<^sup>*\<^sup>* s s'" and "list_ok s"
  shows "\<exists>ws. pushes s = pushes s' + mset ws \<and> holds_map s' = put_each (holds_map s) ws"
  using assms
proof (induction rule: rtranclp_induct)
  case base
  then show ?case by (intro exI [of _ "[]"]) (simp add: put_each_def)
next
  case (step t t')
  then obtain ws where ws: "pushes s = pushes t + mset ws" "holds_map t = put_each (holds_map s) ws" by blast
  have "list_ok t" using step.hyps(1) step.prems by (rule location_lists.reached)
  then obtain ws' where "pushes t = pushes t' + mset ws'" "holds_map t' = put_each (holds_map t) ws'"
    using lstep_holds_map step.hyps(2) by blast
  then show ?case using ws by (intro exI [of _ "ws @ ws'"]) (simp add: put_each_append ac_simps)
qed

end
