(* ===== verification/Server_Properties.thy ===== *)
theory Server_Properties
  imports Server Location_Runs Scripted
begin

text \<open>
  The properties of the accept loop with its threads, and of the list of locations that the
  threads share.
\<close>

section \<open>The accept loop\<close>

text \<open>In every state the server reaches, a thread serves a descriptor that \<^verbatim>\<open>accept\<close>
  has returned (-1 if a later \<^verbatim>\<open>accept\<close> failed before the thread read its argument), and the loop
  has started exactly one thread for every accepted connection.\<close>

theorem threads_serve_accepted:
  assumes "(server_step env)\<^sup>*\<^sup>* (initial, w) (s, w')"
  shows "(\<forall>t \<in> set (threads s). set_option (thread_fd t) \<subseteq> insert (-1) (set (accepted s))) \<and>
    length (threads s) + (if main_at s = Spawning then 1 else 0) = length (accepted s)"
proof -
  have "threads_known (s, w')" using assms initial_invariants(1) by (rule known_threads.reached)
  then show ?thesis by (auto simp: threads_known_def)
qed

theorem threads_serve_accepted_witness:
  "\<exists>s w'. (server_step scripted)\<^sup>*\<^sup>* (initial, world_of (\<lambda>_. []) []) (s, w') \<and> threads s = [Serving 5, Serving 5] \<and>
     length (threads s) = length (accepted s)"
proof -
  obtain w' where r: "(server_step scripted)\<^sup>*\<^sup>* (initial, world_of (\<lambda>_. []) [])
      (\<lparr>clnt_sock = Some 5, main_at = Accepting, threads = [Serving 5, Serving 5], accepted = [4, 5]\<rparr>, w')"
    using race_run [of 4 5 scripted "world_of (\<lambda>_. []) []"] by auto
  from threads_serve_accepted [OF r] r show ?thesis by (intro exI conjI) (assumption, simp_all)
qed

text \<open>C14: If every thread reads its argument before the loop accepts again, the connections
  are served one by one: whenever the loop is back at \<^verbatim>\<open>accept\<close> and no thread is still starting,
  the threads serve exactly the accepted descriptors, each once and in order.\<close>

theorem one_thread_per_connection:
  assumes "(patient_step env)\<^sup>*\<^sup>* (initial, w) (s, w')"
    and "main_at s = Accepting" and "Starting \<notin> set (threads s)"
  shows "map thread_fd (threads s) = map Some (accepted s)"
proof -
  have "one_each (s, w')" using assms(1) initial_invariants(2) by (rule one_thread_each.reached)
  then have "map (will_serve s) (threads s) = map Some (accepted s)" using assms(2) by (simp add: one_each_def)
  moreover have "will_serve s t = thread_fd t" if "t \<in> set (threads s)" for t
    proof -
    have "t \<noteq> Starting" using that assms(3) by blast
    then show ?thesis by - (cases t; simp add: will_serve_def)
  qed
  ultimately show ?thesis by (metis (no_types, lifting) map_cong)
qed

theorem one_thread_per_connection_witness:
  "\<exists>s w'. (patient_step scripted)\<^sup>*\<^sup>* (initial, world_of (\<lambda>_. []) []) (s, w') \<and>
     map thread_fd (threads s) = [Some 4] \<and> map Some (accepted s) = [Some 4]"
proof -
  define w where "w = world_of (\<lambda>_. []) []"
  define w1 where "w1 = w\<lparr>printed := printed w @ ''new client connected...'' @ NL\<rparr>"
  define s where "s = (\<lambda>m t. \<lparr>clnt_sock = Some 4, main_at = m, threads = t, accepted = [4 :: int]\<rparr>)"
  have "patient_step scripted (initial, w) (s Spawning [], w1)"
    using Accept [of initial 4 scripted w] by (simp add: patient_step_def initial_def s_def w1_def)
  moreover have "patient_step scripted (s Spawning [], w1) (s Accepting [Starting], w1)"
    using Spawn [of "s Spawning []" scripted w1] by (simp add: patient_step_def s_def)
  moreover have "patient_step scripted (s Accepting [Starting], w1) (s Accepting [Serving 4], w1)"
    using Read_argument [of 0 "s Accepting [Starting]" 4 scripted w1] by (simp add: patient_step_def s_def)
  ultimately have r: "(patient_step scripted)\<^sup>*\<^sup>* (initial, w) (s Accepting [Serving 4], w1)"
    by (meson converse_rtranclp_into_rtranclp rtranclp.rtrancl_refl)
  have "map thread_fd (threads (s Accepting [Serving 4])) = map Some (accepted (s Accepting [Serving 4]))"
    by (rule one_thread_per_connection [OF r]) (simp_all add: s_def)
  then show ?thesis using r unfolding w_def by (intro exI conjI) (assumption, simp_all add: s_def)
qed

text \<open>C15: Without that scheduling the argument is lost: the loop passes the address of its own
  variable, so for any two connections there is a run in which both threads serve the second one
  and no thread ever serves the first.\<close>

theorem connection_can_be_lost:
  assumes "a \<noteq> -1" and "b \<noteq> -1"
  shows "\<exists>w'. (server_step env)\<^sup>*\<^sup>* (initial, w)
    (\<lparr>clnt_sock = Some b, main_at = Accepting, threads = [Serving b, Serving b], accepted = [a, b]\<rparr>, w')"
  using assms by (rule race_run)

theorem connection_can_be_lost_witness:
  "\<exists>w'. (server_step scripted)\<^sup>*\<^sup>* (initial, world_of (\<lambda>_. []) [])
    (\<lparr>clnt_sock = Some 5, main_at = Accepting, threads = [Serving 5, Serving 5], accepted = [4, 5]\<rparr>, w')"
  by (rule connection_can_be_lost) simp_all

section \<open>The shared list of locations\<close>

text \<open>C17: The mutex protects the list: in every interleaving of the threads that push and pop,
  at most one thread is in a critical section, the keys stay distinct, and whenever the mutex is
  free every node has a live value that has been written.\<close>

theorem location_list_protected:
  assumes "list_ok s" and "lstep\<^sup>*\<^sup>* s s'"
  shows "(\<forall>i j. i < length (lthreads s') \<and> j < length (lthreads s') \<and>
       in_section (lthreads s' ! i) \<and> in_section (lthreads s' ! j) \<longrightarrow> i = j) \<and>
    distinct (map fst (nodes s')) \<and>
    (mutex s' = None \<longrightarrow> (\<forall>k < length (nodes s'). \<exists>v. heap s' (snd (nodes s' ! k)) = Stored v))"
proof -
  have ok: "list_ok s'" using assms(2,1) by (rule location_lists.reached)
  have "being_replaced s' = {}" if "mutex s' = None" using that by (simp add: being_replaced_def)
  then show ?thesis using ok by (auto simp: list_ok_def owner_only_def)
qed

theorem location_list_protected_witness:
  "\<exists>s'. lstep\<^sup>*\<^sup>* (contended ''7'' ''1|2'' ''3|4'') s' \<and> mutex s' = Some 0 \<and> distinct (map fst (nodes s'))"
proof -
  define s where "s = contended ''7'' ''1|2'' ''3|4''"
  have "lstep s (set_thread 0 (Pop_locked ''7'') (s\<lparr>mutex := Some 0\<rparr>))"
    by (rule Pop_lock) (simp_all add: s_def contended_def)
  then have r: "lstep\<^sup>*\<^sup>* s (set_thread 0 (Pop_locked ''7'') (s\<lparr>mutex := Some 0\<rparr>))" by (rule r_into_rtranclp)
  from location_list_protected [OF _ r] have "distinct (map fst (nodes (set_thread 0 (Pop_locked ''7'') (s\<lparr>mutex := Some 0\<rparr>))))"
    using contended_ok unfolding s_def by blast
  then show ?thesis using r unfolding s_def by (intro exI conjI) (assumption, simp_all)
qed

text \<open>Readers of keys that nobody writes are safe: however the threads interleave, no
  \<open>pop_location\<close> of a key outside the keys being written reads a value that is freed or unwritten.\<close>

theorem undisturbed_readers_are_safe:
  assumes "undisturbed K s" and "lstep\<^sup>*\<^sup>* s s'"
  shows "Crashed \<notin> set (lthreads s')"
proof -
  have "undisturbed K s'" using assms(2,1) by (rule quiet_readers.reached)
  then show ?thesis by (auto simp: undisturbed_def calm_def)
qed

theorem undisturbed_readers_are_safe_witness:
  "\<exists>s'. lstep\<^sup>*\<^sup>* \<lparr>mutex = None, nodes = [(''7'', 0)], heap = (\<lambda>_. Stored ''1|2''), next_addr = 1,
      lthreads = [Pop ''7'', Push ''8'' ''3|4'']\<rparr> s' \<and> mutex s' = Some 0 \<and> Crashed \<notin> set (lthreads s')"
proof -
  define s where "s = \<lparr>mutex = None, nodes = [(''7'', 0)], heap = (\<lambda>_. Stored ''1|2''), next_addr = 1,
      lthreads = [Pop ''7'', Push ''8'' ''3|4'']\<rparr>"
  have "lstep s (set_thread 0 (Pop_locked ''7'') (s\<lparr>mutex := Some 0\<rparr>))"
    by (rule Pop_lock) (simp_all add: s_def)
  then have r: "lstep\<^sup>*\<^sup>* s (set_thread 0 (Pop_locked ''7'') (s\<lparr>mutex := Some 0\<rparr>))" by (rule r_into_rtranclp)
  have "undisturbed {''7''} s"
    by (auto simp: undisturbed_def list_ok_def owner_only_def being_replaced_def s_def calm_def nth_Cons split: nat.splits)
  from undisturbed_readers_are_safe [OF this r] show ?thesis
    using r unfolding s_def by (intro exI conjI) (assumption, simp_all)
qed

text \<open>A reader and a writer of the same key are not: \<open>pop_location\<close> returns the value's
  pointer after it has released the mutex, and there is an interleaving in which the writer frees
  the value before the reader looks at it, and one in which the reader looks at the new value
  before the writer has written it.\<close>

theorem freed_position_can_be_read:
  "list_ok (contended u old new) \<and> (\<exists>s. lstep\<^sup>*\<^sup>* (contended u old new) s \<and> lthreads s ! 0 = Crashed) \<and>
   (\<exists>s. lstep\<^sup>*\<^sup>* (contended u old new) s \<and> lthreads s = [Crashed, Push_unset 0 new])"
  using contended_ok stale_read unset_read by blast

text \<open>C18: The list is serializable: however the threads interleave, what it holds is what the
  pushes that have taken effect leave when they are run one after the other, in some order, on the
  map it held before; no push is lost, and none takes effect twice.\<close>

theorem location_runs_serializable:
  assumes "list_ok s" and "lstep\<^sup>*\<^sup>* s s'"
  shows "\<exists>ws. pushes s = pushes s' + mset ws \<and> holds_map s' = put_each (holds_map s) ws"
  using assms(2,1) by (rule run_holds_map)

theorem location_runs_serializable_witness:
  "\<exists>s'. lstep\<^sup>*\<^sup>* (contended ''7'' ''1|2'' ''3|4'') s' \<and> pushes s' = {#} \<and> holds_map s' ''7'' = Some ''3|4''"
proof -
  let ?s = "contended ''7'' ''1|2'' ''3|4''"
  have ok: "list_ok ?s" by (rule contended_ok)
  obtain s' where s': "lstep\<^sup>*\<^sup>* ?s s'" "work s' = 0" using runs_finish [OF list_okD(1) [OF ok]] by blast
  have "to_push t = {#}" if "t \<in> set (lthreads s')" for t
    using s'(2) that unfolding work_0_iff by auto
  then have none: "pushes s' = {#}" by (simp add: no_pushes)
  obtain ws where ws: "pushes ?s = pushes s' + mset ws" "holds_map s' = put_each (holds_map ?s) ws"
    using location_runs_serializable [OF ok s'(1)] by blast
  have "mset ws = {#(''7'', ''3|4'')#}" using ws(1) none by (simp add: pushes_def contended_def)
  then have "ws = [(''7'', ''3|4'')]" by simp
  then have "holds_map s' ''7'' = Some ''3|4''" using ws(2) by (simp add: put_each_def)
  then show ?thesis using s'(1) none by blast
qed

text \<open>C19: Deadlock freedom and termination: from every well-formed state in which no thread has crashed
  or holds the address of a value that is gone (every state in which the threads are about to start is
  one), there is a run in which all threads return and none crashes; no run is longer than the steps
  the threads have left together; and a run stops only when every thread has returned or has crashed,
  which only a reader can.\<close>

theorem location_threads_finish:
  assumes "unharmed s"
  shows "(\<exists>s'. lstep\<^sup>*\<^sup>* s s' \<and> length (lthreads s') = length (lthreads s) \<and> (\<forall>t \<in> set (lthreads s'). \<exists>r. t = Finished r)) \<and>
    (\<forall>n s'. (lstep ^^ n) s s' \<longrightarrow> n \<le> work s) \<and>
    (\<forall>s'. lstep\<^sup>*\<^sup>* s s' \<and> \<not> (\<exists>s''. lstep s' s'') \<longrightarrow>
       (\<forall>i < length (lthreads s). (\<exists>r. lthreads s' ! i = Finished r) \<or> lthreads s' ! i = Crashed \<and> reads (lthreads s ! i)))"
proof (intro conjI allI impI)
  have own: "owner_only s" using assms by (simp add: unharmed_def list_ok_def)
  obtain s' where s': "lstep\<^sup>*\<^sup>* s s'" "work s' = 0" "unharmed s'" using runs_finish_unharmed [OF assms] by blast
  have "\<exists>r. t = Finished r" if "t \<in> set (lthreads s')" for t
    using that s'(2,3) unfolding work_0_iff unharmed_def by (metis harmless.simps(3))
  then show "\<exists>s'. lstep\<^sup>*\<^sup>* s s' \<and> length (lthreads s') = length (lthreads s) \<and> (\<forall>t \<in> set (lthreads s'). \<exists>r. t = Finished r)"
    using s'(1) same_threads [OF s'(1)] by blast
  show "n \<le> work s" if "(lstep ^^ n) s s'" for n s' using lstep_bounded [OF that] by simp
  fix s' i assume st: "lstep\<^sup>*\<^sup>* s s' \<and> \<not> (\<exists>s''. lstep s' s'')" and i: "i < length (lthreads s)"
  then have "owner_only s'" using own mutual_exclusion.reached by blast
  then have "work s' = 0" using st someone_steps by blast
  then have "lthreads s' ! i = Crashed \<or> (\<exists>r. lthreads s' ! i = Finished r)"
    using i same_threads st unfolding work_0_iff by (metis nth_mem)
  moreover have "lthreads s ! i \<noteq> Crashed"
    using assms i unfolding unharmed_def by (metis harmless.simps(3) nth_mem)
  ultimately show "(\<exists>r. lthreads s' ! i = Finished r) \<or> lthreads s' ! i = Crashed \<and> reads (lthreads s ! i)"
    using only_readers_crash st i by blast
qed

theorem location_threads_finish_witness:
  "\<exists>s'. lstep\<^sup>*\<^sup>* (contended ''7'' ''1|2'' ''3|4'') s' \<and> length (lthreads s') = 2 \<and> (\<forall>t \<in> set (lthreads s'). \<exists>r. t = Finished r)"
proof -
  have "unharmed (contended ''7'' ''1|2'' ''3|4'')"
    by (rule unharmed_start [OF contended_ok]) (simp add: contended_def)
  moreover have "length (lthreads (contended ''7'' ''1|2'' ''3|4'')) = 2" by (simp add: contended_def)
  ultimately show ?thesis using location_threads_finish by metis
qed

end
