(* ===== verification/Server_Runs.thy ===== *)
theory Server_Runs
  imports Handler_Returns
begin

text \<open>
  The accept loop with clients that send short requests and a database that answers: no thread
  is ever stuck, and the threads of the connections accepted so far can all return.
\<close>

section \<open>Connections that can be served\<close>

definition serveable :: "'w env \<Rightarrow> input \<Rightarrow> int \<Rightarrow> bool" where
  "serveable env inp fd \<longleftrightarrow> (\<exists>req hs ps. parse_request fd inp = Inr req \<and> req_header req = entries hs \<and>
     req_parameter req = entries ps \<and> brief ps \<and> answers env ps)"

definition healthy :: "(int \<Rightarrow> input) \<Rightarrow> server \<times> 'w world \<Rightarrow> bool" where
  "healthy inp sw = (case sw of (s, w) \<Rightarrow>
     one_each sw \<and> -1 \<notin> set (accepted s) \<and> ready w \<and> mem_ok (memory w) \<and> incoming w = inp)"

lemma served_accepted:
  assumes "one_each (s, w)" and "i < length (threads s)"
  shows "\<exists>fd \<in> set (accepted s). will_serve s (threads s ! i) = Some fd"
proof -
  have e: "map (will_serve s) (threads s) @ (if main_at s = Spawning then [clnt_sock s] else []) = map Some (accepted s)"
    using assms(1) by (simp only: one_each_def prod.case)
  have "will_serve s (threads s ! i) \<in> set (map Some (accepted s))"
    unfolding e [symmetric] using assms(2) by simp
  then show ?thesis by auto
qed

lemma serving_returns:
  assumes all: "\<forall>fd. fd \<noteq> -1 \<longrightarrow> serveable env (inp fd) fd" and "clock_ok env"
    and h: "healthy inp (s, w)" and i: "i < length (threads s)" "threads s ! i = Serving fd"
  shows "\<exists>w'. http_thread env regex_compile fd w = Inr ((), w') \<and> ready w'"
proof -
  have "fd \<in> set (accepted s)" using served_accepted [of s w i] h i by (auto simp: healthy_def will_serve_def)
  then have "fd \<noteq> -1" using h by (auto simp: healthy_def)
  then have "serveable env (incoming w fd) fd" using all h by (simp add: healthy_def)
  then show ?thesis using h assms(2) unfolding serveable_def healthy_def by (auto intro: thread_returns)
qed

lemma healthy_step:
  assumes all: "\<forall>fd. fd \<noteq> -1 \<longrightarrow> serveable env (inp fd) fd" and "clock_ok env"
    and h: "healthy inp sw" and st: "patient_step env sw sw'"
  shows "healthy inp sw'"
proof -
  have one: "one_each sw'" using one_each_step [OF _ st] h by (auto simp: healthy_def split: prod.splits)
  have "server_step env sw sw'" using st by (simp add: patient_step_def)
  then show ?thesis
  proof cases
    case (Serve i s fd w w')
    then obtain w2 where "http_thread env regex_compile fd w = Inr ((), w2)" "ready w2"
      using serving_returns [OF all assms(2), of s w i fd] h by blast
    then have "ready w'" using Serve(5) by simp
    moreover have "mem_ok (memory w')" using http_thread_memory(1) [OF Serve(5)] h Serve by (simp add: healthy_def)
    ultimately show ?thesis using h one Serve http_thread_incoming [OF Serve(5)] by (simp add: healthy_def)
  qed (use h one in \<open>auto simp: healthy_def ready_def\<close>)
qed

section \<open>Work that is left\<close>

fun to_do :: "thread \<Rightarrow> nat" where
  "to_do Starting = 2"
| "to_do (Serving fd) = 1"
| "to_do (Returned fd) = 0"

definition work :: "server \<Rightarrow> nat" where
  "work s = sum_list (map to_do (threads s)) + (if main_at s = Spawning then 3 else 0)"

lemma sum_list_update_less:
  assumes "i < length ts" and "to_do t < to_do (ts ! i)"
  shows "sum_list (map to_do (ts[i := t])) < sum_list (map to_do ts)"
  using assms by (induction ts arbitrary: i) (auto split: nat.splits)

text \<open>A thread that has not returned has a step.\<close>

lemma thread_steps:
  assumes all: "\<forall>fd. fd \<noteq> -1 \<longrightarrow> serveable env (inp fd) fd" and "clock_ok env"
    and h: "healthy inp (s, w)" and i: "i < length (threads s)" "0 < to_do (threads s ! i)"
  shows "\<exists>s' w'. patient_step env (s, w) (s', w') \<and> work s' < work s \<and> accepted s' = accepted s"
proof (cases "threads s ! i")
  case Starting
  have "one_each (s, w)" using h by (simp add: healthy_def)
  from served_accepted [OF this i(1)] obtain fd where fd: "clnt_sock s = Some fd"
    using Starting by (auto simp: will_serve_def)
  let ?s = "s\<lparr>threads := (threads s)[i := Serving fd]\<rparr>"
  have "server_step env (s, w) (?s, w)" using i(1) Starting fd by (rule Read_argument)
  moreover have "(threads s)[i := Serving fd] \<noteq> threads s" using i(1) Starting by (metis nth_list_update_eq thread.distinct(1))
  ultimately have "patient_step env (s, w) (?s, w)" by (simp add: patient_step_def)
  moreover have "work ?s < work s"
    using sum_list_update_less [OF i(1), of "Serving fd"] Starting by (simp add: work_def)
  ultimately show ?thesis by auto
next
  case (Serving fd)
  obtain w' where w': "http_thread env regex_compile fd w = Inr ((), w')"
    using serving_returns [OF all assms(2) h i(1) Serving] by blast
  let ?s = "s\<lparr>threads := (threads s)[i := Returned fd]\<rparr>"
  have "server_step env (s, w) (?s, w')" using i(1) Serving w' by (rule Serve)
  moreover have "(threads s)[i := Returned fd] \<noteq> threads s" using i(1) Serving by (metis nth_list_update_eq thread.distinct(5))
  ultimately have "patient_step env (s, w) (?s, w')" by (simp add: patient_step_def)
  moreover have "work ?s < work s"
    using sum_list_update_less [OF i(1), of "Returned fd"] Serving by (simp add: work_def)
  ultimately show ?thesis by auto
qed (use i in simp)

lemma can_finish:
  assumes all: "\<forall>fd. fd \<noteq> -1 \<longrightarrow> serveable env (inp fd) fd" and clock: "clock_ok env" and "healthy inp (s, w)"
  shows "\<exists>s' w'. (patient_step env)\<^sup>*\<^sup>* (s, w) (s', w') \<and> accepted s' = accepted s \<and>
    threads s' = map Returned (accepted s)"
  using assms(3)
proof (induction "work s" arbitrary: s w rule: less_induct)
  case less
  have more: ?case if "patient_step env (s, w) (s', w')" "work s' < work s" "accepted s' = accepted s" for s' w'
    using less.hyps [OF that(2), of w'] healthy_step [OF all clock less.prems that(1)] that
    by (metis converse_rtranclp_into_rtranclp)
  show ?case
  proof (cases "main_at s")
    case Spawning
    let ?s = "s\<lparr>main_at := Accepting, threads := threads s @ [Starting]\<rparr>"
    have "patient_step env (s, w) (?s, w)" using Spawn [OF Spawning] by (simp add: patient_step_def Spawning)
    moreover have "work ?s < work s" by (simp add: work_def Spawning)
    ultimately show ?thesis by (rule more) simp
  next
    case Accepting
    show ?thesis
    proof (cases "\<exists>i < length (threads s). 0 < to_do (threads s ! i)")
      case True
      then show ?thesis using thread_steps [OF all clock less.prems] more by blast
    next
      case False
      then have r: "\<forall>t \<in> set (threads s). \<exists>fd. t = Returned fd"
        by (metis bot_nat_0.not_eq_extremum in_set_conv_nth to_do.elims zero_neq_numeral zero_neq_one)
      have "map (will_serve s) (threads s) = map Some (accepted s)"
        using less.prems Accepting by (simp add: healthy_def one_each_def)
      then have "threads s = map Returned (accepted s)"
        using r by (intro nth_equalityI) (auto simp: list_eq_iff_nth_eq will_serve_def all_set_conv_all_nth split: option.splits)
      then show ?thesis by blast
    qed
  qed
qed

section \<open>From the start\<close>

lemma healthy_initial: "ready w \<Longrightarrow> mem_ok (memory w) \<Longrightarrow> healthy (incoming w) (initial, w)"
  using initial_invariants(2) [of w] by (simp add: healthy_def) (simp add: initial_def)

lemma healthy_reached:
  assumes "\<forall>fd. fd \<noteq> -1 \<longrightarrow> serveable env (inp fd) fd" and "clock_ok env"
    and "(patient_step env)\<^sup>*\<^sup>* sw sw'" and "healthy inp sw"
  shows "healthy inp sw'"
  using assms(3,4) by (induction rule: rtranclp_induct) (auto intro: healthy_step [OF assms(1,2)])

lemma patient_server: "(patient_step env)\<^sup>*\<^sup>* sw sw' \<Longrightarrow> (server_step env)\<^sup>*\<^sup>* sw sw'"
  by (erule rtranclp_mono [THEN predicate2D, rotated]) (auto simp: patient_step_def)

lemma returned_all: "returned_fds (map Returned fds) = fds"
  by (induction fds) (simp_all add: returned_fds_def)

text \<open>A request for the list of groups, as its client writes it.\<close>

definition sample_list :: "(string \<times> string) list" where
  "sample_list = [(''token'', ''t'')]"

definition sample_get :: string where
  "sample_get = request_bytes ''GET'' (''/group_list'' @ ''?'' @ form sample_list) ''HTTP/1.1'' [] []"

lemma first_accept:
  "fd \<noteq> -1 \<Longrightarrow> \<exists>w1. (patient_step env)\<^sup>*\<^sup>* (initial, w)
     (\<lparr>clnt_sock = Some fd, main_at = Spawning, threads = [], accepted = [fd]\<rparr>, w1)"
  using Accept [of initial fd env w]
  by (intro exI [of _ "w\<lparr>printed := printed w @ ''new client connected...'' @ NL\<rparr>"] r_into_rtranclp)
    (simp add: patient_step_def initial_def)

lemma brief_sample: "brief sample_list"
  by (simp add: brief_def sample_list_def)

lemma sample_get_parsed:
  "parse_request fd [Data sample_get] = Inr (get_request ''GET'' ''/group_list'' ''HTTP/1.1'' [] sample_list)"
proof -
  have get: "get_ok ''GET'' ''/group_list'' ''HTTP/1.1'' [] sample_list"
    by (simp add: get_ok_def is_get_def line_ok_def plain_pairs_def headers_ok_def lowered_def sample_list_def)
  have "length sample_get \<le> 300" unfolding sample_get_def by code_simp
  then have "delivers [Data sample_get] sample_get"
    by (intro delivers_one) (simp_all add: LINE_MAX_def sample_get_def request_bytes_def)
  then show ?thesis unfolding sample_get_def by (rule parse_get [OF get])
qed

lemma sample_get_served: "serveable steady [Data sample_get] fd"
  unfolding serveable_def using sample_get_parsed [of fd] brief_sample steady_answers
  by (intro exI conjI) (assumption, simp_all add: get_request_def)

end
