(* ===== verification/Progress_Wire.thy ===== *)
theory Progress_Wire
  imports Wire_Runs
begin

text \<open>
  The progress of the users over the wire. The table of the database is abstracted to a map from
  user numbers to texts, and what is assumed of the database are the laws of its three statements on
  that map; under them \<open>post_progress\<close> and \<open>get_progress\<close> are the update and the lookup of it.
\<close>

section \<open>The table\<close>

definition int32 :: "int \<Rightarrow> bool" where
  "int32 i \<longleftrightarrow> -2147483648 \<le> i \<and> i \<le> 2147483647"

definition stored_rows :: "string option \<Rightarrow> rows" where
  "stored_rows v = (case v of None \<Rightarrow> [] | Some s \<Rightarrow> [[Some s]])"

text \<open>
  \<open>view out\<close> is the table in a state of the database: a select gives the user's row, an update of
  a row that exists and an insert of one that does not set it, and connecting leaves it alone.
\<close>

definition progress_table :: "'w env \<Rightarrow> ('w \<Rightarrow> int \<Rightarrow> string option) \<Rightarrow> bool" where
  "progress_table env view \<longleftrightarrow>
     (\<forall>c i out. int32 i \<longrightarrow> (\<exists>out'. asked env c (progress_query i) out (Some (stored_rows (view out i))) out' \<and>
        view out' = view out)) \<and>
     (\<forall>c i n out s. int32 i \<longrightarrow> int32 n \<longrightarrow> view out i = Some s \<longrightarrow>
        (\<exists>out'. db_query env c (update_progress_query (dec n) i) out = (True, out') \<and> view out' = (view out)(i \<mapsto> dec n))) \<and>
     (\<forall>c i n out. int32 i \<longrightarrow> int32 n \<longrightarrow> view out i = None \<longrightarrow>
        (\<exists>out'. db_query env c (insert_progress_query i (dec n)) out = (True, out') \<and> view out' = (view out)(i \<mapsto> dec n))) \<and>
     (\<forall>c out. view (snd (db_connect env c out)) = view out \<and> view (db_close env c out) = view out)"

lemma table_laws:
  assumes "progress_table env view"
  shows "int32 i \<Longrightarrow> \<exists>out'. asked env c (progress_query i) out (Some (stored_rows (view out i))) out' \<and> view out' = view out"
    and "int32 i \<Longrightarrow> int32 n \<Longrightarrow> view out i = Some s \<Longrightarrow>
      \<exists>out'. db_query env c (update_progress_query (dec n) i) out = (True, out') \<and> view out' = (view out)(i \<mapsto> dec n)"
    and "int32 i \<Longrightarrow> int32 n \<Longrightarrow> view out i = None \<Longrightarrow>
      \<exists>out'. db_query env c (insert_progress_query i (dec n)) out = (True, out') \<and> view out' = (view out)(i \<mapsto> dec n)"
    and "view (snd (db_connect env c out)) = view out" and "view (db_close env c out) = view out"
  using assms unfolding progress_table_def by blast+

text \<open>Whichever of the two statements the handler picks, it sets the user's entry.\<close>

lemma table_store:
  assumes "progress_table env view" and "int32 i" and "int32 n" and "view out i = v"
  shows "\<exists>out'. db_query env c (store_progress (stored_rows v) (dec n) i) out = (True, out') \<and>
    view out' = (view out)(i \<mapsto> dec n)"
proof (cases v)
  case None
  then show ?thesis using table_laws(3) [OF assms(1-3), of out c] assms(4)
    by (simp add: store_progress_def stored_rows_def)
next
  case (Some s)
  then show ?thesis using table_laws(2) [OF assms(1-3), of out s c] assms(4)
    by (simp add: store_progress_def stored_rows_def)
qed

text \<open>The token of user \<open>i\<close>, whose lookup does not change the table.\<close>

definition token_for :: "'w env \<Rightarrow> ('w \<Rightarrow> int \<Rightarrow> string option) \<Rightarrow> string \<Rightarrow> int \<Rightarrow> bool" where
  "token_for env view token i \<longleftrightarrow> i \<noteq> -1 \<and> (\<forall>c out. \<exists>out'. user_is env c token out i out' \<and> view out' = view out)"

lemma token_int32: "token_for env view token i \<Longrightarrow> int32 i"
  using atoi_range by (fastforce simp: token_for_def user_is_def int32_def)

lemma token_authorised:
  assumes "token_for env view token i" and "progress_table env view"
  obtains out1 where "authorised env w token i out1" and "view out1 = view (outside w)"
proof -
  obtain out1 where u: "user_is env (next_conn w) token (connected env w) i out1" "view out1 = view (connected env w)"
    using assms(1) unfolding token_for_def by blast
  have "view (connected env w) = view (outside w)" using table_laws(4) [OF assms(2)] by (simp add: connected_def)
  then show ?thesis using that [of out1] u assms(1) by (simp add: authorised_def token_for_def)
qed

section \<open>The two handlers\<close>

lemma get_progress_run:
  assumes ps: "req_parameter req = entries ps" "map_of ps ''token'' = Some token"
    and user: "authorised env w token i out1"
    and rows: "asked env (next_conn w) (progress_query i) out1 (Some (stored_rows v)) out2"
    and v: "\<And>s. v = Some s \<Longrightarrow> NUL \<notin> set s \<and> length s \<le> 200"
  shows "\<exists>w'. get_progress env fd req w = Inr ((), w') \<and>
    sent w' = (sent w)(fd := sent w fd @ response_bytes 200 ''OK'' (req_version req) []
      (progress_body (case v of None \<Rightarrow> ''0'' | Some s \<Rightarrow> s))) \<and>
    outside w' = db_close env (next_conn w) out2"
proof -
  have u: "user_is env (next_conn w) token (connected env w) i out1" "i \<noteq> -1"
    using user by (simp_all add: authorised_def)
  obtain o1 where o1: "db_query env (next_conn w) (progress_query i) out1 = (True, o1)"
    "db_store env (next_conn w) o1 = (Some (stored_rows v), out2)" using rows by (auto simp: asked_def)
  have f: "fmt 256 (progress_body s) = Inr (progress_body s)" if "NUL \<notin> set s" "length s \<le> 200" for s
    using that by (subst fmt_ok) (simp_all add: progress_body_def json_field_def quoted_def)
  show ?thesis
    using u(2) progress_query_fits [OF user_range [OF u(1)]] v
    by (simp add: get_progress_def ps lift_Inr known_run [OF u(1)] del: abind_apply lift_apply fmt_ok, cases v)
      (simp_all add: o1 f stored_rows_def text_column_def column_def mysql_query_def mysql_store_result_def
        mysql_free_result_def connection_push_def reply_ok_def del: fmt_ok)
qed

lemma dec_short: "int32 n \<Longrightarrow> length (dec n) \<le> 11"
  by (simp add: int32_def length_dec)

lemma post_progress_updates:
  assumes t: "progress_table env view" "token_for env view token i"
    and ps: "req_parameter req = entries ps" "map_of ps ''token'' = Some token" "map_of ps ''number'' = Some (dec n)"
    and n: "int32 n"
  shows "\<exists>w'. post_progress env fd req w = Inr ((), w') \<and> view (outside w') = (view (outside w))(i \<mapsto> dec n) \<and>
    sent w' = (sent w)(fd := sent w fd @ response_bytes 200 ''OK'' (req_version req) [] (json_status ''OK''))"
proof -
  note i = token_int32 [OF t(2)]
  obtain out1 where u: "authorised env w token i out1" "view out1 = view (outside w)"
    using token_authorised [OF t(2,1)] by blast
  obtain out2 where r: "asked env (next_conn w) (progress_query i) out1 (Some (stored_rows (view out1 i))) out2"
    "view out2 = view out1" using table_laws(1) [OF t(1) i] by blast
  have len: "NUL \<notin> set (dec n)" "length (store_progress rs (dec n) i) < 256" for rs
    using dec_short [OF n] dec_short [OF i] dec_no_nul
    by (simp_all add: store_progress_def update_progress_query_def insert_progress_query_def)
  obtain out3 where q: "db_query env (next_conn w) (store_progress (stored_rows (view out1 i)) (dec n) i) out2 = (True, out3)"
    "view out3 = (view out1)(i \<mapsto> dec n)"
    using table_store [OF t(1) i n, of out2 "view out1 i" "next_conn w"] r(2) by auto
  show ?thesis
    using post_progress_run [OF ps u(1) r(1) len q(1), of fd] q(2) u(2) table_laws(5) [OF t(1)] by auto
qed

lemma get_progress_looks_up:
  assumes t: "progress_table env view" "token_for env view token i"
    and ps: "req_parameter req = entries ps" "map_of ps ''token'' = Some token"
    and v: "\<And>s. view (outside w) i = Some s \<Longrightarrow> NUL \<notin> set s \<and> length s \<le> 200"
  shows "\<exists>w'. get_progress env fd req w = Inr ((), w') \<and> view (outside w') = view (outside w) \<and>
    sent w' = (sent w)(fd := sent w fd @ response_bytes 200 ''OK'' (req_version req) []
      (progress_body (case view (outside w) i of None \<Rightarrow> ''0'' | Some s \<Rightarrow> s)))"
proof -
  obtain out1 where u: "authorised env w token i out1" "view out1 = view (outside w)"
    using token_authorised [OF t(2,1)] by blast
  obtain out2 where r: "asked env (next_conn w) (progress_query i) out1 (Some (stored_rows (view (outside w) i))) out2"
    "view out2 = view out1" using table_laws(1) [OF t(1) token_int32 [OF t(2)], of "next_conn w" out1] u(2) by auto
  show ?thesis using get_progress_run [OF ps u(1) r(1) v, of fd] r(2) u(2) table_laws(5) [OF t(1)] by auto
qed

section \<open>Over the wire\<close>

lemma progress_targets:
  "is_post m \<Longrightarrow> \<not> is_get m \<Longrightarrow> target_of m ''/progress'' = To_post_progress"
  "is_get m \<Longrightarrow> target_of m (''/progress'' @ ''?'' @ q) = To_get_progress"
  by (simp_all add: target_of_def resources_def starts_def by_method_def)

lemma progress_posted:
  assumes t: "progress_table env view" "token_for env view token i"
    and ok: "post_ok m ''/progress'' version hs kvs"
    and del: "delivers (incoming w fd) (request_bytes m ''/progress'' version hs (form kvs @ rest))"
    and ps: "map_of kvs ''token'' = Some token" "map_of kvs ''number'' = Some (dec n)"
    and n: "int32 n" and mem: "mem_ok (memory w)"
  shows "\<exists>w'. http_thread env regex_compile fd w = Inr ((), w') \<and> view (outside w') = (view (outside w))(i \<mapsto> dec n) \<and>
    sent w' = (sent w)(fd := sent w fd @ response_bytes 200 ''OK'' version [] (json_status ''OK''))"
proof -
  let ?req = "post_request m ''/progress'' version hs kvs"
  obtain h h' where serves: "\<And>v. run_target (target_of m ''/progress'') env fd ?req (with_request ?req h w) = Inr ((), v) \<Longrightarrow>
    http_thread env regex_compile fd w = Inr ((), v\<lparr>memory := h', closed := closed v @ [fd]\<rparr>)"
    using thread_on_post [OF ok del mem] by blast
  obtain v where v: "post_progress env fd ?req (with_request ?req h w) = Inr ((), v)"
    "view (outside v) = (view (outside w))(i \<mapsto> dec n)"
    "sent v = (sent w)(fd := sent w fd @ response_bytes 200 ''OK'' version [] (json_status ''OK''))"
    using post_progress_updates [OF t _ ps n, of ?req fd "with_request ?req h w"] by auto
  have "target_of m ''/progress'' = To_post_progress" using progress_targets(1) post_is_post [OF ok] by blast
  then have run: "http_thread env regex_compile fd w = Inr ((), v\<lparr>memory := h', closed := closed v @ [fd]\<rparr>)"
    using v(1) by (intro serves) simp
  show ?thesis using run v(2,3) by (intro exI conjI) (assumption, simp_all)
qed

lemma progress_got:
  assumes t: "progress_table env view" "token_for env view token i"
    and ok: "get_ok m ''/progress'' version hs kvs"
    and del: "delivers (incoming w fd) (request_bytes m (''/progress'' @ ''?'' @ form kvs) version hs rest)"
    and ps: "map_of kvs ''token'' = Some token"
    and v: "\<And>s. view (outside w) i = Some s \<Longrightarrow> NUL \<notin> set s \<and> length s \<le> 200" and mem: "mem_ok (memory w)"
  shows "\<exists>w'. http_thread env regex_compile fd w = Inr ((), w') \<and> view (outside w') = view (outside w) \<and>
    sent w' = (sent w)(fd := sent w fd @ response_bytes 200 ''OK'' version []
      (progress_body (case view (outside w) i of None \<Rightarrow> ''0'' | Some s \<Rightarrow> s)))"
proof -
  let ?req = "get_request m ''/progress'' version hs kvs"
  obtain h h' where serves: "\<And>v. run_target (target_of m (''/progress'' @ ''?'' @ form kvs)) env fd ?req (with_request ?req h w) = Inr ((), v) \<Longrightarrow>
    http_thread env regex_compile fd w = Inr ((), v\<lparr>memory := h', closed := closed v @ [fd]\<rparr>)"
    using thread_on_get [OF ok del mem] by blast
  obtain x where x: "get_progress env fd ?req (with_request ?req h w) = Inr ((), x)" "view (outside x) = view (outside w)"
    "sent x = (sent w)(fd := sent w fd @ response_bytes 200 ''OK'' version []
      (progress_body (case view (outside w) i of None \<Rightarrow> ''0'' | Some s \<Rightarrow> s)))"
    using get_progress_looks_up [OF t _ ps, of ?req "with_request ?req h w" fd] v by auto
  have "target_of m (''/progress'' @ ''?'' @ form kvs) = To_get_progress"
    using ok by (intro progress_targets(2)) (simp add: get_ok_def)
  then have run: "http_thread env regex_compile fd w = Inr ((), x\<lparr>memory := h', closed := closed x @ [fd]\<rparr>)"
    using x(1) by (intro serves) (simp only: run_target.simps)
  show ?thesis using run x(2,3) by (intro exI conjI) (assumption, simp_all)
qed

section \<open>A database with the laws\<close>

text \<open>
  It keeps the last statement and a table of texts, and takes the statements apart by their
  fixed parts; every other select is answered with user 7.
\<close>

definition after_prefix :: "string \<Rightarrow> string \<Rightarrow> string option" where
  "after_prefix p q = (if take (length p) q = p then Some (drop (length p) q) else None)"

definition ledger_update :: "string \<Rightarrow> (string \<times> string) list \<Rightarrow> (string \<times> string) list" where
  "ledger_update q t =
     (case after_prefix ''update progress set number = '' q of
        Some r \<Rightarrow> (let n = takeWhile (\<lambda>c. c \<noteq> CHR '' '') r
                   in AList.update (drop (length n + length '' where user_idx = '') r) n t)
      | None \<Rightarrow>
          (case after_prefix ''insert into progress (user_idx,number) values('' q of
             Some r \<Rightarrow> (let u = takeWhile (\<lambda>c. c \<noteq> CHR '','') r in AList.update u (butlast (drop (Suc (length u)) r)) t)
           | None \<Rightarrow> t))"

fun ledger_rows :: "string \<times> (string \<times> string) list \<Rightarrow> rows" where
  "ledger_rows (q, t) =
     (case after_prefix ''select number from progress where user_idx = '' q of
        Some u \<Rightarrow> stored_rows (map_of t u)
      | None \<Rightarrow> [[Some ''7'']])"

definition ledger :: "(string \<times> (string \<times> string) list) env" where
  "ledger = \<lparr>db_options = (\<lambda>c opt s. s), db_connect = (\<lambda>c s. (True, s)),
     db_query = (\<lambda>c q s. (True, (q, ledger_update q (snd s)))), db_store = (\<lambda>c s. (Some (ledger_rows s), s)),
     db_commit = (\<lambda>c s. s), db_close = (\<lambda>c s. s), db_error = (\<lambda>c s. ''error''),
     seed_rand = (\<lambda>s. s), rand_next = (\<lambda>s. (7, s)), local_time = (\<lambda>s. ((118, 5, 1, 12, 0, 0), s))\<rparr>"

definition ledger_view :: "string \<times> (string \<times> string) list \<Rightarrow> int \<Rightarrow> string option" where
  "ledger_view s i = (if int32 i then map_of (snd s) (dec i) else None)"

lemma ledger_sel [simp]:
  "db_connect ledger c s = (True, s)" "db_query ledger c q s = (True, (q, ledger_update q (snd s)))"
  "db_store ledger c s = (Some (ledger_rows s), s)" "db_close ledger c s = s"
  by (simp_all add: ledger_def)

lemma dec_no_blank: "CHR '' '' \<notin> set (dec i)" "CHR '','' \<notin> set (dec i)"
  using dec_chars [of "CHR '' ''" i] dec_chars [of "CHR '',''" i] by (auto simp: is_digit_def)

lemma dec_inject: "int32 i \<Longrightarrow> int32 j \<Longrightarrow> dec i = dec j \<Longrightarrow> i = j"
  by (metis atoi_dec int32_def sum.inject(2))

lemma ledger_updates:
  "ledger_update (update_progress_query (dec n) i) t = AList.update (dec i) (dec n) t"
  "ledger_update (insert_progress_query i (dec n)) t = AList.update (dec i) (dec n) t"
  "ledger_update (progress_query i) t = t" "ledger_update (token_query u) t = t"
proof -
  have "takeWhile (\<lambda>c. c \<noteq> CHR '' '') (dec n @ CHR '' '' # r) = dec n"
    "takeWhile (\<lambda>c. c \<noteq> CHR '','') (dec i @ CHR '','' # r) = dec i" for r
    using dec_no_blank [of n] dec_no_blank [of i] by (auto simp: takeWhile_append takeWhile_eq_all_conv)
  then show "ledger_update (update_progress_query (dec n) i) t = AList.update (dec i) (dec n) t"
    "ledger_update (insert_progress_query i (dec n)) t = AList.update (dec i) (dec n) t"
    by (simp_all add: ledger_update_def after_prefix_def update_progress_query_def insert_progress_query_def Let_def)
  show "ledger_update (progress_query i) t = t" "ledger_update (token_query u) t = t"
    by (simp_all add: ledger_update_def after_prefix_def progress_query_def token_query_def)
qed

lemma ledger_view_update:
  assumes "int32 i"
  shows "ledger_view (q, AList.update (dec i) s t) = (ledger_view (q', t))(i \<mapsto> s)"
proof (rule ext)
  fix j show "ledger_view (q, AList.update (dec i) s t) j = ((ledger_view (q', t))(i \<mapsto> s)) j"
    using assms dec_inject [OF assms, of j] by (auto simp: ledger_view_def update_conv')
qed

lemma ledger_view_statement: "ledger_view (q, t) = ledger_view (q', t)"
  by (rule ext) (simp add: ledger_view_def)

lemma ledger_select:
  "ledger_rows (progress_query i, t) = stored_rows (map_of t (dec i))" "ledger_rows (token_query u, t) = [[Some ''7'']]"
  by (simp_all add: after_prefix_def progress_query_def token_query_def)

lemma ledger_table: "progress_table ledger ledger_view"
  unfolding progress_table_def
proof (intro conjI allI impI)
  fix c i out assume "int32 i"
  then show "\<exists>out'. asked ledger c (progress_query i) out (Some (stored_rows (ledger_view out i))) out' \<and>
      ledger_view out' = ledger_view out"
    using ledger_view_statement by (cases out)
      (auto simp: asked_def ledger_updates ledger_select ledger_view_def simp del: ledger_rows.simps)
next
  fix c i n out s assume "int32 i"
  from ledger_view_update [OF this]
  show "\<exists>out'. db_query ledger c (update_progress_query (dec n) i) out = (True, out') \<and>
      ledger_view out' = (ledger_view out)(i \<mapsto> dec n)"
    by (cases out) (simp add: ledger_updates)
next
  fix c i n out assume "int32 i"
  from ledger_view_update [OF this]
  show "\<exists>out'. db_query ledger c (insert_progress_query i (dec n)) out = (True, out') \<and>
      ledger_view out' = (ledger_view out)(i \<mapsto> dec n)"
    by (cases out) (simp add: ledger_updates)
qed simp_all

lemma ledger_token:
  assumes "NUL \<notin> set token" and "length token \<le> 60"
  shows "token_for ledger ledger_view token 7"
proof -
  have seven: "atoi ''7'' = Inr 7" by code_simp
  have len: "length (token_query token) < 256" using assms(2) by (simp add: token_query_def sq_def)
  have "user_is ledger c token out 7 (token_query token, snd out)" for c out
    unfolding user_is_def using assms(1) len seven
    by (intro conjI exI [of _ "''7''"] exI [of _ "[]"])
      (simp_all add: asked_def ledger_updates ledger_select del: ledger_rows.simps)
  then show ?thesis using ledger_view_statement by (fastforce simp: token_for_def)
qed

end
