(* ===== verification/Error_Tables.thy ===== *)
theory Error_Tables
  imports Error_Codes Error_Names Sql_States "HOL-Library.Sublist"
begin

text \<open>
  What the three tables of the server's errors have to do with each other: the two lists of
  numbers agree, the numbers fill the two announced sections, and the SQLSTATE table goes
  through the errors in the order of their numbers, as a binary search needs it.
\<close>

definition errmsg_section_start :: "nat list" where
  "errmsg_section_start = [1000, 3000]"

definition errmsg_section_size :: "nat list" where
  "errmsg_section_size = [886, 194]"

section \<open>The tables, piece by piece\<close>

lemma codes_1: "map snd error_codes_1 = [1000..<1072]"
  by (simp add: error_codes_1_def)

lemma agree_1: "map (\<lambda>(n, c, m). (n, c)) error_names_1 = error_codes_1"
  by (simp add: error_codes_1_def error_names_1_def)

lemma states_1: "subseq (map fst sql_states_1) (map fst error_codes_1)"
  by (simp add: sql_states_1_def error_codes_1_def)

lemma codes_2: "map snd error_codes_2 = [1072..<1144]"
  by (simp add: error_codes_2_def)

lemma agree_2: "map (\<lambda>(n, c, m). (n, c)) error_names_2 = error_codes_2"
  by (simp add: error_codes_2_def error_names_2_def)

lemma states_2: "subseq (map fst sql_states_2) (map fst error_codes_2)"
  by (simp add: sql_states_2_def error_codes_2_def)

lemma codes_3: "map snd error_codes_3 = [1144..<1216]"
  by (simp add: error_codes_3_def)

lemma agree_3: "map (\<lambda>(n, c, m). (n, c)) error_names_3 = error_codes_3"
  by (simp add: error_codes_3_def error_names_3_def)

lemma states_3: "subseq (map fst sql_states_3) (map fst error_codes_3)"
  by (simp add: sql_states_3_def error_codes_3_def)

lemma codes_4: "map snd error_codes_4 = [1216..<1288]"
  by (simp add: error_codes_4_def)

lemma agree_4: "map (\<lambda>(n, c, m). (n, c)) error_names_4 = error_codes_4"
  by (simp add: error_codes_4_def error_names_4_def)

lemma states_4: "subseq (map fst sql_states_4) (map fst error_codes_4)"
  by (simp add: sql_states_4_def error_codes_4_def)

lemma codes_5: "map snd error_codes_5 = [1288..<1360]"
  by (simp add: error_codes_5_def)

lemma agree_5: "map (\<lambda>(n, c, m). (n, c)) error_names_5 = error_codes_5"
  by (simp add: error_codes_5_def error_names_5_def)

lemma states_5: "subseq (map fst sql_states_5) (map fst error_codes_5)"
  by (simp add: sql_states_5_def error_codes_5_def)

lemma codes_6: "map snd error_codes_6 = [1360..<1432]"
  by (simp add: error_codes_6_def)

lemma agree_6: "map (\<lambda>(n, c, m). (n, c)) error_names_6 = error_codes_6"
  by (simp add: error_codes_6_def error_names_6_def)

lemma states_6: "subseq (map fst sql_states_6) (map fst error_codes_6)"
  by (simp add: sql_states_6_def error_codes_6_def)

lemma codes_7: "map snd error_codes_7 = [1432..<1504]"
  by (simp add: error_codes_7_def)

lemma agree_7: "map (\<lambda>(n, c, m). (n, c)) error_names_7 = error_codes_7"
  by (simp add: error_codes_7_def error_names_7_def)

lemma states_7: "subseq (map fst sql_states_7) (map fst error_codes_7)"
  by (simp add: sql_states_7_def error_codes_7_def)

lemma codes_8: "map snd error_codes_8 = [1504..<1576]"
  by (simp add: error_codes_8_def)

lemma agree_8: "map (\<lambda>(n, c, m). (n, c)) error_names_8 = error_codes_8"
  by (simp add: error_codes_8_def error_names_8_def)

lemma states_8: "subseq (map fst sql_states_8) (map fst error_codes_8)"
  by (simp add: sql_states_8_def error_codes_8_def)

lemma codes_9: "map snd error_codes_9 = [1576..<1648]"
  by (simp add: error_codes_9_def)

lemma agree_9: "map (\<lambda>(n, c, m). (n, c)) error_names_9 = error_codes_9"
  by (simp add: error_codes_9_def error_names_9_def)

lemma states_9: "subseq (map fst sql_states_9) (map fst error_codes_9)"
  by (simp add: sql_states_9_def error_codes_9_def)

lemma codes_10: "map snd error_codes_10 = [1648..<1720]"
  by (simp add: error_codes_10_def)

lemma agree_10: "map (\<lambda>(n, c, m). (n, c)) error_names_10 = error_codes_10"
  by (simp add: error_codes_10_def error_names_10_def)

lemma states_10: "subseq (map fst sql_states_10) (map fst error_codes_10)"
  by (simp add: sql_states_10_def error_codes_10_def)

lemma codes_11: "map snd error_codes_11 = [1720..<1792]"
  by (simp add: error_codes_11_def)

lemma agree_11: "map (\<lambda>(n, c, m). (n, c)) error_names_11 = error_codes_11"
  by (simp add: error_codes_11_def error_names_11_def)

lemma states_11: "subseq (map fst sql_states_11) (map fst error_codes_11)"
  by (simp add: sql_states_11_def error_codes_11_def)

lemma codes_12: "map snd error_codes_12 = [1792..<1864]"
  by (simp add: error_codes_12_def)

lemma agree_12: "map (\<lambda>(n, c, m). (n, c)) error_names_12 = error_codes_12"
  by (simp add: error_codes_12_def error_names_12_def)

lemma states_12: "subseq (map fst sql_states_12) (map fst error_codes_12)"
  by (simp add: sql_states_12_def error_codes_12_def)

lemma codes_13: "map snd error_codes_13 = [1864..<1886] @ [3000..<3050]"
  by (simp add: error_codes_13_def)

lemma agree_13: "map (\<lambda>(n, c, m). (n, c)) error_names_13 = error_codes_13"
  by (simp add: error_codes_13_def error_names_13_def)

lemma states_13: "subseq (map fst sql_states_13) (map fst error_codes_13)"
  by (simp add: sql_states_13_def error_codes_13_def)

lemma codes_14: "map snd error_codes_14 = [3050..<3122]"
  by (simp add: error_codes_14_def)

lemma agree_14: "map (\<lambda>(n, c, m). (n, c)) error_names_14 = error_codes_14"
  by (simp add: error_codes_14_def error_names_14_def)

lemma states_14: "subseq (map fst sql_states_14) (map fst error_codes_14)"
  by (simp add: sql_states_14_def error_codes_14_def)

lemma codes_15: "map snd error_codes_15 = [3122..<3194]"
  by (simp add: error_codes_15_def)

lemma agree_15: "map (\<lambda>(n, c, m). (n, c)) error_names_15 = error_codes_15"
  by (simp add: error_codes_15_def error_names_15_def)

lemma states_15: "subseq (map fst sql_states_15) (map fst error_codes_15)"
  by (simp add: sql_states_15_def error_codes_15_def)

section \<open>The whole tables\<close>

lemma upt_join: "a \<le> b \<Longrightarrow> b \<le> c \<Longrightarrow> [a..<b] @ [b..<c] = [a..<c]"
  by (metis le_add_diff_inverse upt_add_eq_append)
lemma upt_join_more: "a \<le> b \<Longrightarrow> b \<le> c \<Longrightarrow> [a..<b] @ [b..<c] @ xs = [a..<c] @ xs"
  using upt_join [of a b c] by (metis append_assoc)

lemma error_codes_numbers: "map snd error_codes = [1000..<1886] @ [3000..<3194]"
  unfolding error_codes_def map_append codes_1 codes_2 codes_3 codes_4 codes_5 codes_6 codes_7 codes_8 codes_9 codes_10 codes_11 codes_12 codes_13 codes_14 codes_15 append_assoc
  by (simp add: upt_join upt_join_more del: upt_rec_numeral)

lemma error_names_codes: "map (\<lambda>(n, c, m). (n, c)) error_names = error_codes"
  unfolding error_names_def error_codes_def map_append agree_1 agree_2 agree_3 agree_4 agree_5 agree_6 agree_7 agree_8 agree_9 agree_10 agree_11 agree_12 agree_13 agree_14 agree_15 ..

lemma section_numbers:
  "concat (map (\<lambda>(s, n). [s..<s + n]) (zip errmsg_section_start errmsg_section_size)) = [1000..<1886] @ [3000..<3194]"
  by (simp add: errmsg_section_start_def errmsg_section_size_def del: upt_rec_numeral)

lemma states_subseq: "subseq (map fst sql_states) (map fst error_codes)"
  unfolding sql_states_def error_codes_def map_append append_assoc
  by (intro list_emb_append_mono states_1 states_2 states_3 states_4 states_5 states_6 states_7 states_8 states_9 states_10 states_11 states_12 states_13 states_14 states_15)

text \<open>A subsequence of the names picks a subsequence of the entries.\<close>

lemma subseq_entries:
  "subseq xs (map f ys) \<Longrightarrow> \<exists>zs. subseq zs ys \<and> map f zs = xs"
proof (induction ys arbitrary: xs)
  case Nil
  then have "xs = []" by (metis list.simps(8) list_emb_Nil2)
  then show ?case by (intro exI [of _ "[]"]) simp
next
  case (Cons y ys)
  show ?case
  proof (cases xs)
    case Nil
    then show ?thesis by (intro exI [of _ "[]"]) simp
  next
    case (Cons x xs')
    show ?thesis
    proof (cases "x = f y")
      case True
      then obtain zs where "subseq zs ys" "map f zs = xs'" using Cons.IH [of xs'] Cons.prems Cons by auto
      then have "subseq (y # zs) (y # ys)" "map f (y # zs) = xs" using Cons True by auto
      then show ?thesis by blast
    next
      case False
      then obtain zs where "subseq zs ys" "map f zs = xs" using Cons.IH [of xs] Cons.prems Cons by auto
      then show ?thesis by (intro exI [of _ zs]) (simp add: list_emb_Cons)
    qed
  qed
qed

lemma sorted_upts: "b \<le> c \<Longrightarrow> sorted_wrt (<) ([a..<b] @ [c..<d :: nat])"
  by (auto simp: sorted_wrt_append)

lemma sorted_wrt_subseq: "subseq xs ys \<Longrightarrow> sorted_wrt P ys \<Longrightarrow> sorted_wrt P xs"
  by (induction rule: list_emb.induct) (auto dest: list_emb_set)
text \<open>The entries of the error table the SQLSTATE table refers to.\<close>

lemma states_entries:
  "\<exists>es. subseq es error_codes \<and> map fst es = map fst sql_states \<and> sorted_wrt (<) (map snd es)"
proof -
  obtain es where es: "subseq es error_codes" "map fst es = map fst sql_states"
    using subseq_entries [OF states_subseq] by blast
  have "subseq (map snd es) (map snd error_codes)" using es(1) by (rule subseq_map)
  then have "sorted_wrt (<) (map snd es)"
    unfolding error_codes_numbers by (rule sorted_wrt_subseq, intro sorted_upts) simp
  then show ?thesis using es by blast
qed

end
