(* ===== verification/Byte_Order.thy ===== *)
theory Byte_Order
  imports "HOL-Library.Word"
begin

unbundle bit_operations_syntax

text \<open>
  The byte order functions of the MySQL client headers the server is built with
  (\<^verbatim>\<open>src/mysql/include/my_byteorder.h\<close> and the four headers it takes its parts from). Memory is a
  total map from addresses to bytes; a definition reads and writes exactly the bytes the C
  function does, at the width the C function has. Two reference functions, \<open>le_load\<close> and
  \<open>le_store\<close>, say what "low byte first" means; every function is proved to be one of them.
  Shifting a byte into the sign bit of an \<open>int\<close> is modelled as the wrap-around of compilers.
\<close>

type_synonym bytes_at = "nat \<Rightarrow> 8 word"

section \<open>The reference: low byte first\<close>

definition le_load :: "bytes_at \<Rightarrow> nat \<Rightarrow> nat \<Rightarrow> nat" where
  "le_load m p n = (\<Sum>i<n. 256 ^ i * unat (m (p + i)))"

definition le_store :: "bytes_at \<Rightarrow> nat \<Rightarrow> nat \<Rightarrow> nat \<Rightarrow> bytes_at" where
  "le_store m p n v = (\<lambda>i. if p \<le> i \<and> i < p + n then of_nat (v div 256 ^ (i - p)) else m i)"

lemma unat_byte: "unat (x :: 8 word) < 256"
  using unsigned_less [of x, where ?'a = nat] by simp

lemma le_load_Suc: "le_load m p (Suc n) = le_load m p n + 256 ^ n * unat (m (p + n))"
  by (simp add: le_load_def)

lemma le_load_less: "le_load m p n < 256 ^ n"
proof (induction n)
  case (Suc n)
  have "le_load m p n + 256 ^ n * unat (m (p + n)) < 256 ^ n + 256 ^ n * unat (m (p + n))" using Suc by simp
  also have "\<dots> = 256 ^ n * Suc (unat (m (p + n)))" by simp
  also have "\<dots> \<le> 256 ^ n * 256" using unat_byte [of "m (p + n)"] by (intro mult_le_mono2) simp
  finally show ?case by (simp add: le_load_Suc)
qed (simp add: le_load_def)

lemma le_load_cong: "(\<And>i. i < n \<Longrightarrow> m (p + i) = m' (q + i)) \<Longrightarrow> le_load m p n = le_load m' q n"
  by (simp add: le_load_def)

lemma mod_256_power_Suc: "v mod 256 ^ Suc n = v mod 256 ^ n + 256 ^ n * (v div 256 ^ n mod (256 :: nat))"
  using mod_mult2_eq [of v "256 ^ n" 256] by (simp add: ac_simps)

lemma le_load_store: "le_load (le_store m p n v) p n = v mod 256 ^ n"
proof -
  have "k \<le> n \<Longrightarrow> le_load (le_store m p n v) p k = v mod 256 ^ k" for k
  proof (induction k)
    case (Suc k)
    then have "unat (le_store m p n v (p + k)) = v div 256 ^ k mod 256"
      by (simp add: le_store_def unat_of_nat)
    then show ?case using Suc by (simp add: le_load_Suc mod_256_power_Suc del: power_Suc)
  qed (simp add: le_load_def)
  then show ?thesis by simp
qed

lemma le_load_digit: "k < n \<Longrightarrow> le_load m p n div 256 ^ k mod 256 = unat (m (p + k))"
proof (induction n)
  case (Suc n)
  show ?case
  proof (cases "k = n")
    case True
    then show ?thesis using le_load_less [of m p n] unat_byte [of "m (p + n)"]
      by (simp add: le_load_Suc div_add1_eq)
  next
    case False
    then have "k < n" using Suc by simp
    then obtain d where "n = Suc k + d" by (metis less_natE add_Suc)
    then have p: "256 ^ n = (256 :: nat) ^ k * (256 * 256 ^ d)" by (simp add: power_add)
    have "(le_load m p n + 256 ^ k * (256 * 256 ^ d) * unat (m (p + n))) div 256 ^ k
        = le_load m p n div 256 ^ k + 256 * 256 ^ d * unat (m (p + n))"
      by (simp add: mult.assoc)
    also have "\<dots> mod 256 = le_load m p n div 256 ^ k mod 256"
      by (simp add: mult.assoc)
    finally show ?thesis using Suc \<open>k < n\<close> by (simp add: le_load_Suc p)
  qed
qed simp

lemma le_store_load: "le_store m p n (le_load m p n) = m"
proof
  fix i
  show "le_store m p n (le_load m p n) i = m i"
  proof (cases "p \<le> i \<and> i < p + n")
    case True
    then have i: "i - p < n" "p + (i - p) = i" by auto
    then have "unat (of_nat (le_load m p n div 256 ^ (i - p)) :: 8 word) = unat (m i)"
      using le_load_digit [of "i - p" n m p] by (auto simp: unat_of_nat)
    then show ?thesis using True by (simp add: le_store_def word_unat_eq_iff)
  qed (auto simp: le_store_def)
qed

lemma le_store_frame: "i < p \<or> p + n \<le> i \<Longrightarrow> le_store m p n v i = m i"
  by (auto simp: le_store_def)

lemma le_load_frame: "p + n \<le> q \<or> q + k \<le> p \<Longrightarrow> le_load (le_store m p n v) q k = le_load m q k"
  by (rule le_load_cong) (auto simp: le_store_def)

lemma le_store_0 [simp]: "le_store m p 0 v = m"
  by (rule ext) (auto simp: le_store_def)

lemma le_store_Suc: "le_store m p (Suc n) v = (le_store m p n v)(p + n := of_nat (v div 256 ^ n))"
  by (auto simp: le_store_def fun_eq_iff less_Suc_eq)

lemma le_store_append:
  "le_store (le_store m p n v) (p + n) k (v div 256 ^ n) = le_store m p (n + k) v"
proof (induction k)
  case (Suc k)
  have "v div 256 ^ n div 256 ^ k = v div 256 ^ (n + k)" by (simp add: div_mult2_eq power_add)
  then show ?case using Suc by (simp add: le_store_Suc add.assoc)
qed simp

lemma digit_mod: "i < n \<Longrightarrow> (v mod 256 ^ n) div 256 ^ i mod 256 = v div 256 ^ i mod (256 :: nat)"
  proof -
  assume "i < n"
  then have "unat (le_store (\<lambda>_. 0) 0 n v (0 + i)) = v div 256 ^ i mod 256" by (simp add: le_store_def unat_of_nat)
  then show ?thesis
    using le_load_digit [OF \<open>i < n\<close>, of "le_store (\<lambda>_. 0) 0 n v" 0] le_load_store [of "\<lambda>_. 0" 0 n v] by simp
qed

lemma le_store_mod: "le_store m p n (v mod 256 ^ n) = le_store m p n v"
proof
  fix i
  have "of_nat ((v mod 256 ^ n) div 256 ^ j) = (of_nat (v div 256 ^ j) :: 8 word)" if "j < n" for j
    using digit_mod [OF that, of v] by (simp add: word_unat_eq_iff unat_of_nat)
  then show "le_store m p n (v mod 256 ^ n) i = le_store m p n v i" by (auto simp: le_store_def)
qed

lemma unat_widen: "8 \<le> LENGTH('a::len) \<Longrightarrow> unat (ucast (b :: 8 word) :: 'a word) = unat b"
  by (simp add: unsigned_ucast_eq take_bit_nat_eq_self less_le_trans [OF unat_byte]
      order_trans [OF _ power_increasing [of 8 "LENGTH('a)" 2]])

lemma unat_shifted:
  fixes b :: "8 word"
  assumes "k + 8 \<le> LENGTH('a::len)"
  shows "unat (push_bit k (ucast b) :: 'a word) = 2 ^ k * unat b"
proof -
  have "2 ^ k * unat b < 2 ^ k * 2 ^ 8" using unat_byte [of b] by simp
  also have "\<dots> = 2 ^ (k + 8)" by (simp add: power_add)
  also have "\<dots> \<le> 2 ^ LENGTH('a)" using assms by (intro power_increasing) simp_all
  finally have l: "2 ^ k * unat b < 2 ^ LENGTH('a)" .
  have "unat (push_bit k (ucast b) :: 'a word) = take_bit LENGTH('a) (push_bit k (unat (ucast b :: 'a word)))"
    by (simp add: unsigned_push_bit_eq)
  then show ?thesis using l assms by (simp add: push_bit_eq_mult take_bit_nat_eq_self ac_simps unat_widen)
qed

lemma unat_sum:
  "unat (x :: 'a::len word) = a \<Longrightarrow> unat y = b \<Longrightarrow> a + b < 2 ^ LENGTH('a) \<Longrightarrow> unat (x + y) = a + b"
  by (simp add: unat_word_ariths)

lemma ucast_byte: "ucast (a :: 'a::len word) = (of_nat (unat a) :: 8 word)"
  by simp

lemma ucast_drop_byte: "ucast (drop_bit k (a :: 'a::len word)) = (of_nat (unat a div 2 ^ k) :: 8 word)"
proof -
  have "unat (drop_bit k a) = drop_bit k (take_bit LENGTH('a) (unat a))" by (rule unsigned_drop_bit_eq)
  also have "\<dots> = unat a div 2 ^ k"
    by (simp add: take_bit_nat_eq_self [OF unsigned_less] drop_bit_eq_div)
  finally show ?thesis by (simp only: ucast_byte)
qed

text \<open>The sums over the first bytes, written out.\<close>

lemma le_load_2: "le_load m p 2 = unat (m p) + 2 ^ 8 * unat (m (p + 1))"
  by (simp add: le_load_def lessThan_nat_numeral)

lemma le_load_3: "le_load m p 3 = le_load m p 2 + 2 ^ 16 * unat (m (p + 2))"
  by (simp add: le_load_def lessThan_nat_numeral)

lemma le_load_4: "le_load m p 4 = le_load m p 3 + 2 ^ 24 * unat (m (p + 3))"
  by (simp add: le_load_def lessThan_nat_numeral)

lemma le_load_5: "le_load m p 5 = le_load m p 4 + 2 ^ 32 * unat (m (p + 4))"
  by (simp add: le_load_def lessThan_nat_numeral)

lemma le_load_6: "le_load m p 6 = le_load m p 5 + 2 ^ 40 * unat (m (p + 5))"
  by (simp add: le_load_def lessThan_nat_numeral)

lemma le_load_8: "le_load m p 8 = le_load m p 4 + 2 ^ 32 * le_load m (p + 4) 4"
  by (simp add: le_load_def lessThan_nat_numeral ac_simps)

lemma le_store_word:
  "le_store m p (numeral k) (unat a)
    = (le_store m p (pred_numeral k) (unat a))(p + pred_numeral k := ucast (drop_bit (8 * pred_numeral k) a))"
proof -
  have k: "numeral k = Suc (pred_numeral k)" by (rule numeral_eq_Suc)
  have p: "(256 :: nat) ^ j = 2 ^ (8 * j)" for j by (simp add: power_mult)
  show ?thesis by (simp only: k le_store_Suc ucast_drop_byte p)
qed

lemma le_store_first: "le_store m p (Suc 0) (unat a) = m(p := ucast a)"
  by (simp add: le_store_Suc)

section \<open>The functions for every processor\<close>

definition sint2korr :: "bytes_at \<Rightarrow> nat \<Rightarrow> 16 word" where
  "sint2korr m A = ucast (m A) + push_bit 8 (ucast (m (A + 1)))"

definition sint4korr :: "bytes_at \<Rightarrow> nat \<Rightarrow> 32 word" where
  "sint4korr m A = ucast (m A) + push_bit 8 (ucast (m (A + 1))) + push_bit 16 (ucast (m (A + 2))) +
     push_bit 24 (ucast (m (A + 3)))"

definition uint2korr :: "bytes_at \<Rightarrow> nat \<Rightarrow> 16 word" where
  "uint2korr m A = ucast (m A) + push_bit 8 (ucast (m (A + 1)))"

definition uint4korr :: "bytes_at \<Rightarrow> nat \<Rightarrow> 32 word" where
  "uint4korr m A = ucast (m A) + push_bit 8 (ucast (m (A + 1))) + push_bit 16 (ucast (m (A + 2))) +
     push_bit 24 (ucast (m (A + 3)))"

definition uint8korr :: "bytes_at \<Rightarrow> nat \<Rightarrow> 64 word" where
  "uint8korr m A =
     ucast (ucast (m A) + push_bit 8 (ucast (m (A + 1))) + push_bit 16 (ucast (m (A + 2))) +
       push_bit 24 (ucast (m (A + 3))) :: 32 word) +
     push_bit 32 (ucast (ucast (m (A + 4)) + push_bit 8 (ucast (m (A + 5))) +
       push_bit 16 (ucast (m (A + 6))) + push_bit 24 (ucast (m (A + 7))) :: 32 word))"

definition sint8korr :: "bytes_at \<Rightarrow> nat \<Rightarrow> 64 word" where
  "sint8korr m A = uint8korr m A"

definition int2store :: "bytes_at \<Rightarrow> nat \<Rightarrow> 16 word \<Rightarrow> bytes_at" where
  "int2store m T A = (let def_temp = ucast A :: 32 word in
     m(T := ucast def_temp, T + 1 := ucast (drop_bit 8 def_temp)))"

definition int4store :: "bytes_at \<Rightarrow> nat \<Rightarrow> 32 word \<Rightarrow> bytes_at" where
  "int4store m T A = m(T := ucast A, T + 1 := ucast (drop_bit 8 A), T + 2 := ucast (drop_bit 16 A),
     T + 3 := ucast (drop_bit 24 A))"

definition int8store :: "bytes_at \<Rightarrow> nat \<Rightarrow> 64 word \<Rightarrow> bytes_at" where
  "int8store m T A = (let def_temp = ucast A; def_temp2 = ucast (drop_bit 32 A) in
     int4store (int4store m T def_temp) (T + 4) def_temp2)"

definition sint3korr :: "bytes_at \<Rightarrow> nat \<Rightarrow> 32 word" where
  "sint3korr m A =
    (if m (A + 2) AND 128 \<noteq> 0
     then push_bit 24 255 OR push_bit 16 (ucast (m (A + 2))) OR push_bit 8 (ucast (m (A + 1))) OR ucast (m A)
     else push_bit 16 (ucast (m (A + 2))) OR push_bit 8 (ucast (m (A + 1))) OR ucast (m A))"

definition uint3korr :: "bytes_at \<Rightarrow> nat \<Rightarrow> 32 word" where
  "uint3korr m A = ucast (m A) + push_bit 8 (ucast (m (A + 1))) + push_bit 16 (ucast (m (A + 2)))"

definition uint5korr :: "bytes_at \<Rightarrow> nat \<Rightarrow> 64 word" where
  "uint5korr m A =
     ucast (ucast (m A) + push_bit 8 (ucast (m (A + 1))) + push_bit 16 (ucast (m (A + 2))) +
       push_bit 24 (ucast (m (A + 3))) :: 32 word) + push_bit 32 (ucast (m (A + 4)))"

definition uint6korr :: "bytes_at \<Rightarrow> nat \<Rightarrow> 64 word" where
  "uint6korr m A =
     ucast (ucast (m A) + push_bit 8 (ucast (m (A + 1))) + push_bit 16 (ucast (m (A + 2))) +
       push_bit 24 (ucast (m (A + 3))) :: 32 word) + push_bit 32 (ucast (m (A + 4))) +
     push_bit 40 (ucast (m (A + 5)))"

definition int3store :: "bytes_at \<Rightarrow> nat \<Rightarrow> 32 word \<Rightarrow> bytes_at" where
  "int3store m T A = m(T := ucast A, T + 1 := ucast (drop_bit 8 A), T + 2 := ucast (drop_bit 16 A))"

definition int5store :: "bytes_at \<Rightarrow> nat \<Rightarrow> 64 word \<Rightarrow> bytes_at" where
  "int5store m T A = m(T := ucast A, T + 1 := ucast (drop_bit 8 A), T + 2 := ucast (drop_bit 16 A),
     T + 3 := ucast (drop_bit 24 A), T + 4 := ucast (drop_bit 32 A))"

definition int6store :: "bytes_at \<Rightarrow> nat \<Rightarrow> 64 word \<Rightarrow> bytes_at" where
  "int6store m T A = m(T := ucast A, T + 1 := ucast (drop_bit 8 A), T + 2 := ucast (drop_bit 16 A),
     T + 3 := ucast (drop_bit 24 A), T + 4 := ucast (drop_bit 32 A), T + 5 := ucast (drop_bit 40 A))"

section \<open>The functions for the x86\<close>

text \<open>There an access through a cast pointer reads or writes the object low byte first.\<close>

definition x86_sint2korr :: "bytes_at \<Rightarrow> nat \<Rightarrow> 16 word" where
  "x86_sint2korr m A = of_nat (le_load m A 2)"

definition x86_sint4korr :: "bytes_at \<Rightarrow> nat \<Rightarrow> 32 word" where
  "x86_sint4korr m A = of_nat (le_load m A 4)"

definition x86_uint2korr :: "bytes_at \<Rightarrow> nat \<Rightarrow> 16 word" where
  "x86_uint2korr m A = of_nat (le_load m A 2)"

definition x86_uint4korr :: "bytes_at \<Rightarrow> nat \<Rightarrow> 32 word" where
  "x86_uint4korr m A = of_nat (le_load m A 4)"

definition x86_uint8korr :: "bytes_at \<Rightarrow> nat \<Rightarrow> 64 word" where
  "x86_uint8korr m A = of_nat (le_load m A 8)"

definition x86_sint8korr :: "bytes_at \<Rightarrow> nat \<Rightarrow> 64 word" where
  "x86_sint8korr m A = of_nat (le_load m A 8)"

definition x86_int2store :: "bytes_at \<Rightarrow> nat \<Rightarrow> 16 word \<Rightarrow> bytes_at" where
  "x86_int2store m T A = le_store m T 2 (unat A)"

definition x86_int4store :: "bytes_at \<Rightarrow> nat \<Rightarrow> 32 word \<Rightarrow> bytes_at" where
  "x86_int4store m T A = le_store m T 4 (unat A)"

definition x86_int8store :: "bytes_at \<Rightarrow> nat \<Rightarrow> 64 word \<Rightarrow> bytes_at" where
  "x86_int8store m T A = le_store m T 8 (unat A)"

section \<open>Every function is one of the two references\<close>

lemma unat_uint2korr: "unat (uint2korr m A) = le_load m A 2"
  unfolding uint2korr_def le_load_2 using unat_byte [of "m A"] unat_byte [of "m (A + 1)"]
  by (intro unat_sum unat_shifted) (simp_all add: unat_widen)

lemma unat_uint3korr: "unat (uint3korr m A) = le_load m A 3"
  unfolding uint3korr_def le_load_3 le_load_2
  using unat_byte [of "m A"] unat_byte [of "m (A + 1)"] unat_byte [of "m (A + 2)"]
  by (intro unat_sum unat_shifted) (simp_all add: unat_widen)

lemma unat_four:
  "unat (ucast (m A) + push_bit 8 (ucast (m (A + 1))) + push_bit 16 (ucast (m (A + 2))) +
     push_bit 24 (ucast (m (A + 3))) :: 32 word) = le_load m A 4"
  unfolding le_load_4 le_load_3 le_load_2
  using unat_byte [of "m A"] unat_byte [of "m (A + 1)"] unat_byte [of "m (A + 2)"] unat_byte [of "m (A + 3)"]
  by (intro unat_sum unat_shifted) (simp_all add: unat_widen)

lemma unat_uint4korr: "unat (uint4korr m A) = le_load m A 4"
  unfolding uint4korr_def by (rule unat_four)

lemma unat_four_wide:
  "unat (ucast (ucast (m A) + push_bit 8 (ucast (m (A + 1))) + push_bit 16 (ucast (m (A + 2))) +
     push_bit 24 (ucast (m (A + 3))) :: 32 word) :: 64 word) = le_load m A 4"
  using le_load_less [of m A 4]
  by (simp add: unsigned_ucast_eq take_bit_nat_eq_self unat_four [simplified])

lemma unat_uint5korr: "unat (uint5korr m A) = le_load m A 5"
  unfolding uint5korr_def le_load_5
  using le_load_less [of m A 4] unat_byte [of "m (A + 4)"]
  by (intro unat_sum unat_shifted unat_four_wide) simp_all

lemma unat_uint6korr: "unat (uint6korr m A) = le_load m A 6"
  unfolding uint6korr_def le_load_6 le_load_5
  using le_load_less [of m A 4] unat_byte [of "m (A + 4)"] unat_byte [of "m (A + 5)"]
  by (intro unat_sum unat_shifted unat_four_wide) simp_all

lemma unat_uint8korr: "unat (uint8korr m A) = le_load m A 8"
proof -
  have a: "A + 5 = (A + 4) + 1" "A + 6 = (A + 4) + 2" "A + 7 = (A + 4) + 3" by simp_all
  have w: "unat (push_bit 32 w :: 64 word) = 2 ^ 32 * n" if "unat w = n" "n < 2 ^ 32" for w :: "64 word" and n
  proof -
    have "unat (push_bit 32 w) = take_bit LENGTH(64) (push_bit 32 (unat w))" by (rule unsigned_push_bit_eq)
    then show ?thesis using that by (simp only: push_bit_eq_mult) (simp add: take_bit_nat_eq_self)
  qed
  show ?thesis
    unfolding uint8korr_def le_load_8 a
    using le_load_less [of m A 4] le_load_less [of m "A + 4" 4]
    by (intro unat_sum w unat_four_wide) simp_all
qed

lemma sint_same: "sint2korr = uint2korr" "sint4korr = uint4korr" "sint8korr = uint8korr"
  by (simp_all add: fun_eq_iff sint2korr_def uint2korr_def sint4korr_def uint4korr_def sint8korr_def)

text \<open>The stores. A store at most as wide as its argument writes the argument's low bytes.\<close>

lemmas store_steps = le_store_word le_store_first

lemma int2store_le: "int2store m T A = le_store m T 2 (unat A)"
proof -
  have "unat (ucast A :: 32 word) = unat A"
    using unsigned_less [of A, where ?'a = nat] by (simp add: unsigned_ucast_eq take_bit_nat_eq_self)
  moreover have "int2store m T A = le_store m T 2 (unat (ucast A :: 32 word))"
    by (simp add: int2store_def Let_def store_steps del: unsigned_ucast_eq)
  ultimately show ?thesis by simp
qed

lemma int3store_le: "int3store m T A = le_store m T 3 (unat A)"
  by (simp add: int3store_def store_steps)

lemma int4store_le: "int4store m T A = le_store m T 4 (unat A)"
  by (simp add: int4store_def store_steps)

lemma int5store_le: "int5store m T A = le_store m T 5 (unat A)"
  by (simp add: int5store_def store_steps)

lemma int6store_le: "int6store m T A = le_store m T 6 (unat A)"
  by (simp add: int6store_def store_steps)

lemma int8store_le: "int8store m T A = le_store m T 8 (unat A)"
proof -
  have l: "unat (ucast A :: 32 word) = unat A mod 256 ^ 4"
    by (simp add: unsigned_ucast_eq take_bit_eq_mod)
  have "unat (drop_bit 32 A) = drop_bit 32 (take_bit LENGTH(64) (unat A))" by (rule unsigned_drop_bit_eq)
  also have "\<dots> = unat A div 256 ^ 4"
    by (simp only: take_bit_nat_eq_self [OF unsigned_less]) (simp add: drop_bit_eq_div)
  finally have "unat (ucast (drop_bit 32 A) :: 32 word) = unat A div 256 ^ 4 mod 256 ^ 4"
    by (simp only: unsigned_ucast_eq) (simp add: take_bit_eq_mod)
  then show ?thesis
    using le_store_append [of m T 4 "unat A" 4]
    by (simp only: int8store_def Let_def int4store_le l le_store_mod) simp
qed

section \<open>The signed three byte integer\<close>

lemma bit_shifted:
  fixes b :: "8 word"
  assumes "k + 8 \<le> LENGTH('a::len)"
  shows "bit (push_bit k (ucast b) :: 'a word) n \<longleftrightarrow> k \<le> n \<and> n < k + 8 \<and> bit b (n - k)"
proof -
  have "bit b j \<Longrightarrow> j < 8" for j using bit_imp_le_length [of b j] by simp
  then have "bit b (n - k) \<Longrightarrow> n < k + 8" by (metis add.commute less_diff_conv2 linorder_not_less nat_le_linear trans_less_add1)
  then show ?thesis using assms by (auto simp: bit_simps)
qed

lemma or_uint3korr:
  "push_bit 16 (ucast (m (A + 2))) OR push_bit 8 (ucast (m (A + 1))) OR ucast (m A) = uint3korr m A"
proof -
  let ?z = "push_bit 0 (ucast (m A)) :: 32 word" and ?y = "push_bit 8 (ucast (m (A + 1))) :: 32 word"
    and ?x = "push_bit 16 (ucast (m (A + 2))) :: 32 word"
  have "?z + ?y = ?z OR ?y" by (rule disjunctive_add) (auto simp: bit_shifted simp del: push_bit_0_id)
  moreover have "(?z OR ?y) + ?x = (?z OR ?y) OR ?x"
    by (rule disjunctive_add) (auto simp: bit_shifted bit_or_iff simp del: push_bit_0_id)
  ultimately show ?thesis by (simp add: uint3korr_def ac_simps)
qed

lemma sign_bit: "(b :: 8 word) AND 128 \<noteq> 0 \<longleftrightarrow> 128 \<le> unat b"
proof -
  have "b AND 2 ^ 7 = 0 \<longleftrightarrow> \<not> bit b 7" by (rule and_exp_eq_0_iff_not_bit)
  moreover have "bit b 7 \<longleftrightarrow> odd (unat b div 2 ^ 7)"
    using bit_unsigned_iff [of b 7, where ?'a = nat] by (simp add: bit_iff_odd)
  moreover have "odd (unat b div 2 ^ 7) \<longleftrightarrow> 128 \<le> unat b"
  proof -
    have "unat b div 128 = (if 128 \<le> unat b then 1 else 0)" using unat_byte [of b] by (auto simp: div_nat_eqI)
    then show ?thesis by simp
  qed
  ultimately show ?thesis by simp
qed

lemma sint3korr_cases:
  "sint3korr m A = (if 2 ^ 23 \<le> le_load m A 3 then word_of_int (int (le_load m A 3) - 2 ^ 24) else word_of_int (int (le_load m A 3)))"
proof -
  have b: "128 \<le> unat (m (A + 2)) \<longleftrightarrow> 2 ^ 23 \<le> le_load m A 3"
  proof (cases "128 \<le> unat (m (A + 2))")
    case True
    then show ?thesis by (simp add: le_load_3)
  next
    case False
    then have "65536 * unat (m (A + 2)) \<le> 65536 * 127" by simp
    then show ?thesis using False le_load_less [of m A 2] by (simp add: le_load_3)
  qed
  have u: "uint3korr m A = word_of_int (int (le_load m A 3))"
    by (simp flip: unat_uint3korr)
  have "push_bit 24 255 + uint3korr m A = push_bit 24 255 OR (uint3korr m A :: 32 word)"
  proof (rule disjunctive_add)
    fix n
    have "24 \<le> n" if "bit (push_bit 24 255 :: 32 word) n" using that by (simp only: bit_push_bit_iff)
    moreover have "n < 24" if "bit (uint3korr m A) n"
      using that unfolding or_uint3korr [symmetric] bit_or_iff
      by (auto simp: bit_shifted bit_shifted [of 0, simplified])
    ultimately show "\<not> bit (push_bit 24 255 :: 32 word) n \<or> \<not> bit (uint3korr m A) n" by auto
  qed
  moreover have "push_bit 24 255 = (word_of_int (- (2 ^ 24)) :: 32 word)"
    by (simp add: push_bit_eq_mult word_uint_eq_iff)
  ultimately have "push_bit 24 255 OR uint3korr m A = (word_of_int (int (le_load m A 3) - 2 ^ 24) :: 32 word)"
    by (metis u wi_hom_add add.commute diff_conv_add_uminus)
  then show ?thesis
    unfolding sint3korr_def or_uint3korr sign_bit b by (simp only: u)
qed

lemma sint_sint3korr:
  "sint (sint3korr m A) = (if 2 ^ 23 \<le> le_load m A 3 then int (le_load m A 3) - 2 ^ 24 else int (le_load m A 3))"
proof -
  have "sint (word_of_int k :: 32 word) = k" if "- (2 ^ 31) \<le> k" "k < 2 ^ 31" for k
    using that by (simp add: sint_sbintrunc' signed_take_bit_int_eq_self)
  note s = this
  show ?thesis
  proof (cases "2 ^ 23 \<le> le_load m A 3")
    case True
    then show ?thesis using s [of "int (le_load m A 3) - 2 ^ 24"] le_load_less [of m A 3]
      unfolding sint3korr_cases by simp
  next
    case False
    then show ?thesis using s [of "int (le_load m A 3)"] unfolding sint3korr_cases by simp
  qed
qed

section \<open>What a pair of a store and a load promises\<close>

locale byte_codec =
  fixes put :: "bytes_at \<Rightarrow> nat \<Rightarrow> 'a::len word \<Rightarrow> bytes_at"
    and get :: "bytes_at \<Rightarrow> nat \<Rightarrow> 'a word"
    and n :: nat
  assumes put_le: "put m p a = le_store m p n (unat a)"
    and get_le: "unat (get m p) = le_load m p n"
begin

lemma get_put: "get (put m p a) p = of_nat (unat a mod 256 ^ n)"
proof -
  have "unat (get (put m p a) p) = unat a mod 256 ^ n" by (simp only: get_le put_le le_load_store)
  then show ?thesis by (metis of_nat_unat ucast_id)
qed

lemma get_put_small: "unat a < 256 ^ n \<Longrightarrow> get (put m p a) p = a"
  by (simp add: get_put)

lemma put_get: "put m p (get m p) = m"
  by (simp only: put_le get_le le_store_load)

lemma put_elsewhere: "i < p \<or> p + n \<le> i \<Longrightarrow> put m p a i = m i"
  by (simp only: put_le le_store_frame)

lemma get_elsewhere: "p + n \<le> q \<or> q + n \<le> p \<Longrightarrow> get (put m p a) q = get m q"
  by (simp only: word_unat_eq_iff get_le put_le le_load_frame)

lemma get_bound: "unat (get m p) < 256 ^ n"
  by (simp only: get_le le_load_less)

end

interpretation int2: byte_codec int2store uint2korr 2
  by unfold_locales (rule int2store_le unat_uint2korr)+

interpretation int3: byte_codec int3store uint3korr 3
  by unfold_locales (rule int3store_le unat_uint3korr)+

interpretation int4: byte_codec int4store uint4korr 4
  by unfold_locales (rule int4store_le unat_uint4korr)+

interpretation int5: byte_codec int5store uint5korr 5
  by unfold_locales (rule int5store_le unat_uint5korr)+

interpretation int6: byte_codec int6store uint6korr 6
  by unfold_locales (rule int6store_le unat_uint6korr)+

interpretation int8: byte_codec int8store uint8korr 8
  by unfold_locales (rule int8store_le unat_uint8korr)+

lemma wide_enough:
  "unat (a2 :: 16 word) mod 256 ^ 2 = unat a2"
  "unat (a4 :: 32 word) mod 256 ^ 4 = unat a4"
  "unat (a8 :: 64 word) mod 256 ^ 8 = unat a8"
  using unsigned_less [of a2, where ?'a = nat] unsigned_less [of a4, where ?'a = nat]
    unsigned_less [of a8, where ?'a = nat] by simp_all

end
