(* ===== verification/Endian.thy ===== *)
theory Endian
  imports Byte_Order
begin

text \<open>
  \<^verbatim>\<open>src/mysql/include/little_endian.h\<close> and \<^verbatim>\<open>big_endian.h\<close>: the accesses whose code depends on
  the byte order of the processor. A \<^verbatim>\<open>float\<close>, a \<^verbatim>\<open>double\<close> or an integer is its bit pattern, and
  \<open>repr_le\<close>, \<open>repr_be\<close> and \<open>repr_mixed\<close> are the bytes of the object that holds it on a little
  endian processor, on a big endian one, and on one that keeps the two halves of a \<^verbatim>\<open>double\<close> the
  other way round. The lemmas show which of the functions store in the machine independent order
  and which in the order of the processor.
\<close>

section \<open>Objects in memory\<close>

definition repr_le :: "nat \<Rightarrow> 'a::len word \<Rightarrow> 8 word list" where
  "repr_le n v = map (\<lambda>i. of_nat (unat v div 256 ^ i)) [0..<n]"

definition repr_be :: "nat \<Rightarrow> 'a::len word \<Rightarrow> 8 word list" where
  "repr_be n v = rev (repr_le n v)"

definition repr_mixed :: "64 word \<Rightarrow> 8 word list" where
  "repr_mixed v = repr_le 4 (ucast (drop_bit 32 v) :: 32 word) @ repr_le 4 (ucast v :: 32 word)"

definition value_le :: "8 word list \<Rightarrow> 'a::len word" where
  "value_le bs = of_nat (le_load (\<lambda>i. bs ! i) 0 (length bs))"

definition value_be :: "8 word list \<Rightarrow> 'a::len word" where
  "value_be bs = value_le (rev bs)"

definition value_mixed :: "8 word list \<Rightarrow> 64 word" where
  "value_mixed bs = value_le (drop 4 bs @ take 4 bs)"

definition object_at :: "bytes_at \<Rightarrow> nat \<Rightarrow> nat \<Rightarrow> 8 word list" where
  "object_at m p n = map m [p..<p + n]"

definition memcpy_to :: "bytes_at \<Rightarrow> nat \<Rightarrow> 8 word list \<Rightarrow> bytes_at" where
  "memcpy_to m p bs = (\<lambda>i. if p \<le> i \<and> i < p + length bs then bs ! (i - p) else m i)"

section \<open>\<^verbatim>\<open>little_endian.h\<close>\<close>

definition le_float4get :: "bytes_at \<Rightarrow> nat \<Rightarrow> 32 word" where
  "le_float4get m M = value_le (object_at m M 4)"

definition le_float4store :: "bytes_at \<Rightarrow> nat \<Rightarrow> 32 word \<Rightarrow> bytes_at" where
  "le_float4store m V M = memcpy_to m V (repr_le 4 M)"

definition le_float8get :: "bytes_at \<Rightarrow> nat \<Rightarrow> 64 word" where
  "le_float8get m M = value_le (object_at m M 8)"

definition le_float8store :: "bytes_at \<Rightarrow> nat \<Rightarrow> 64 word \<Rightarrow> bytes_at" where
  "le_float8store m V M = memcpy_to m V (repr_le 8 M)"

definition le_floatget :: "bytes_at \<Rightarrow> nat \<Rightarrow> 32 word" where
  "le_floatget m M = le_float4get m M"

definition le_floatstore :: "bytes_at \<Rightarrow> nat \<Rightarrow> 32 word \<Rightarrow> bytes_at" where
  "le_floatstore m V M = le_float4store m V M"

definition mixed_doublestore :: "bytes_at \<Rightarrow> nat \<Rightarrow> 64 word \<Rightarrow> bytes_at" where
  "mixed_doublestore m T V = (let r = repr_mixed V in
     m(T := r ! 4, T + 1 := r ! 5, T + 2 := r ! 6, T + 3 := r ! 7,
       T + 4 := r ! 0, T + 5 := r ! 1, T + 6 := r ! 2, T + 7 := r ! 3))"

definition mixed_doubleget :: "bytes_at \<Rightarrow> nat \<Rightarrow> 64 word" where
  "mixed_doubleget m M = value_mixed
     [m (M + 4), m (M + 5), m (M + 6), m (M + 7), m M, m (M + 1), m (M + 2), m (M + 3)]"

definition le_doublestore :: "bytes_at \<Rightarrow> nat \<Rightarrow> 64 word \<Rightarrow> bytes_at" where
  "le_doublestore m T V = memcpy_to m T (repr_le 8 V)"

definition le_doubleget :: "bytes_at \<Rightarrow> nat \<Rightarrow> 64 word" where
  "le_doubleget m M = value_le (object_at m M 8)"

definition le_ushortget :: "bytes_at \<Rightarrow> nat \<Rightarrow> 16 word" where
  "le_ushortget m pM = uint2korr m pM"

definition le_shortget :: "bytes_at \<Rightarrow> nat \<Rightarrow> 16 word" where
  "le_shortget m pM = sint2korr m pM"

definition le_longget :: "bytes_at \<Rightarrow> nat \<Rightarrow> 32 word" where
  "le_longget m pM = sint4korr m pM"

definition le_ulongget :: "bytes_at \<Rightarrow> nat \<Rightarrow> 32 word" where
  "le_ulongget m pM = uint4korr m pM"

definition le_shortstore :: "bytes_at \<Rightarrow> nat \<Rightarrow> 16 word \<Rightarrow> bytes_at" where
  "le_shortstore m T V = int2store m T V"

definition le_longstore :: "bytes_at \<Rightarrow> nat \<Rightarrow> 32 word \<Rightarrow> bytes_at" where
  "le_longstore m T V = int4store m T V"

definition le_longlongget :: "bytes_at \<Rightarrow> nat \<Rightarrow> 64 word" where
  "le_longlongget m M = value_le (object_at m M 8)"

definition le_longlongstore :: "bytes_at \<Rightarrow> nat \<Rightarrow> 64 word \<Rightarrow> bytes_at" where
  "le_longlongstore m T V = memcpy_to m T (repr_le 8 V)"

section \<open>\<^verbatim>\<open>big_endian.h\<close>\<close>

definition be_float4store :: "bytes_at \<Rightarrow> nat \<Rightarrow> 32 word \<Rightarrow> bytes_at" where
  "be_float4store m T A = (let r = repr_be 4 A in
     m(T := r ! 3, T + 1 := r ! 2, T + 2 := r ! 1, T + 3 := r ! 0))"

definition be_float4get :: "bytes_at \<Rightarrow> nat \<Rightarrow> 32 word" where
  "be_float4get m M = value_be [m (M + 3), m (M + 2), m (M + 1), m M]"

definition be_float8store :: "bytes_at \<Rightarrow> nat \<Rightarrow> 64 word \<Rightarrow> bytes_at" where
  "be_float8store m T V = (let r = repr_be 8 V in
     m(T := r ! 7, T + 1 := r ! 6, T + 2 := r ! 5, T + 3 := r ! 4,
       T + 4 := r ! 3, T + 5 := r ! 2, T + 6 := r ! 1, T + 7 := r ! 0))"

definition be_float8get :: "bytes_at \<Rightarrow> nat \<Rightarrow> 64 word" where
  "be_float8get m M = value_be
     [m (M + 7), m (M + 6), m (M + 5), m (M + 4), m (M + 3), m (M + 2), m (M + 1), m M]"

definition be_ushortget :: "bytes_at \<Rightarrow> nat \<Rightarrow> 16 word" where
  "be_ushortget m pM = ucast (m (pM + 1)) + push_bit 8 (ucast (m pM))"

definition be_shortget :: "bytes_at \<Rightarrow> nat \<Rightarrow> 16 word" where
  "be_shortget m pM = ucast (m (pM + 1)) + push_bit 8 (ucast (m pM))"

definition be_longget :: "bytes_at \<Rightarrow> nat \<Rightarrow> 32 word" where
  "be_longget m pM = value_be [m pM, m (pM + 1), m (pM + 2), m (pM + 3)]"

definition be_ulongget :: "bytes_at \<Rightarrow> nat \<Rightarrow> 32 word" where
  "be_ulongget m pM = value_be [m pM, m (pM + 1), m (pM + 2), m (pM + 3)]"

definition be_shortstore :: "bytes_at \<Rightarrow> nat \<Rightarrow> 16 word \<Rightarrow> bytes_at" where
  "be_shortstore m T A = (let def_temp = scast A :: 32 word in
     m(T + 1 := ucast def_temp, T := ucast (drop_bit 8 def_temp)))"

definition be_longstore :: "bytes_at \<Rightarrow> nat \<Rightarrow> 32 word \<Rightarrow> bytes_at" where
  "be_longstore m T A = m(T + 3 := ucast A, T + 2 := ucast (signed_drop_bit 8 A),
     T + 1 := ucast (signed_drop_bit 16 A), T := ucast (signed_drop_bit 24 A))"

definition be_floatget :: "bytes_at \<Rightarrow> nat \<Rightarrow> 32 word" where
  "be_floatget m M = value_be (object_at m M 4)"

definition be_floatstore :: "bytes_at \<Rightarrow> nat \<Rightarrow> 32 word \<Rightarrow> bytes_at" where
  "be_floatstore m T V = memcpy_to m T (repr_be 4 V)"

definition be_doubleget :: "bytes_at \<Rightarrow> nat \<Rightarrow> 64 word" where
  "be_doubleget m M = value_be (object_at m M 8)"

definition be_doublestore :: "bytes_at \<Rightarrow> nat \<Rightarrow> 64 word \<Rightarrow> bytes_at" where
  "be_doublestore m T V = memcpy_to m T (repr_be 8 V)"

definition be_longlongget :: "bytes_at \<Rightarrow> nat \<Rightarrow> 64 word" where
  "be_longlongget m M = value_be (object_at m M 8)"

definition be_longlongstore :: "bytes_at \<Rightarrow> nat \<Rightarrow> 64 word \<Rightarrow> bytes_at" where
  "be_longlongstore m T V = memcpy_to m T (repr_be 8 V)"

section \<open>Which order they store in\<close>

lemma length_repr [simp]: "length (repr_le n v) = n" "length (repr_be n v) = n"
  by (simp_all add: repr_le_def repr_be_def)

lemma repr_le_nth: "i < n \<Longrightarrow> repr_le n v ! i = of_nat (unat v div 256 ^ i)"
  by (simp add: repr_le_def)

lemma repr_be_nth: "i < n \<Longrightarrow> repr_be n v ! i = of_nat (unat v div 256 ^ (n - Suc i))"
  by (simp add: repr_be_def rev_nth repr_le_nth)

lemma memcpy_repr_le: "memcpy_to m p (repr_le n v) = le_store m p n (unat v)"
  by (rule ext) (auto simp: memcpy_to_def le_store_def repr_le_nth)

lemma le_store_explicit:
  "le_store m p 4 v = m(p := of_nat v, p + 1 := of_nat (v div 256), p + 2 := of_nat (v div 256 ^ 2), p + 3 := of_nat (v div 256 ^ 3))"
  "le_store m p 8 v = m(p := of_nat v, p + 1 := of_nat (v div 256), p + 2 := of_nat (v div 256 ^ 2), p + 3 := of_nat (v div 256 ^ 3),
     p + 4 := of_nat (v div 256 ^ 4), p + 5 := of_nat (v div 256 ^ 5), p + 6 := of_nat (v div 256 ^ 6), p + 7 := of_nat (v div 256 ^ 7))"
proof -
  have k: "numeral k = Suc (pred_numeral k)" for k by (rule numeral_eq_Suc)
  have s: "le_store m p (numeral k) v = (le_store m p (pred_numeral k) v)(p + pred_numeral k := of_nat (v div 256 ^ pred_numeral k))" for k
    by (metis k le_store_Suc)
  have o: "le_store m p (Suc 0) v = m(p := of_nat v)" by (simp add: le_store_Suc)
  show "le_store m p 4 v = m(p := of_nat v, p + 1 := of_nat (v div 256), p + 2 := of_nat (v div 256 ^ 2), p + 3 := of_nat (v div 256 ^ 3))"
    by (simp add: s o)
  show "le_store m p 8 v = m(p := of_nat v, p + 1 := of_nat (v div 256), p + 2 := of_nat (v div 256 ^ 2), p + 3 := of_nat (v div 256 ^ 3),
     p + 4 := of_nat (v div 256 ^ 4), p + 5 := of_nat (v div 256 ^ 5), p + 6 := of_nat (v div 256 ^ 6), p + 7 := of_nat (v div 256 ^ 7))"
    by (simp add: s o)
qed

lemma be_float4store_le: "be_float4store m T A = le_store m T 4 (unat A)"
  by (simp add: be_float4store_def Let_def repr_be_nth le_store_explicit)

lemma be_float8store_le: "be_float8store m T A = le_store m T 8 (unat A)"
  by (simp add: be_float8store_def Let_def repr_be_nth le_store_explicit)

lemma le_float_stores: "le_float4store m T A = le_store m T 4 (unat A)" "le_float8store m T D = le_store m T 8 (unat D)"
  by (simp_all add: le_float4store_def le_float8store_def memcpy_repr_le)

lemma list_object_4: "[m p, m (p + 1), m (p + 2), m (p + 3)] = object_at m p 4"
  by (simp add: object_at_def upt_rec numeral_eq_Suc)

lemma list_object_8: "[m p, m (p + 1), m (p + 2), m (p + 3), m (p + 4), m (p + 5), m (p + 6), m (p + 7)] = object_at m p 8"
  by (simp add: object_at_def upt_rec numeral_eq_Suc)

lemma be_float_gets: "be_float4get m M = le_float4get m M" "be_float8get m M = le_float8get m M"
  unfolding be_float4get_def be_float8get_def le_float4get_def le_float8get_def value_be_def
  by (simp_all only: list_object_4 [symmetric] list_object_8 [symmetric] rev.simps append.simps)

lemma memcpy_explicit:
  "memcpy_to m p [a, b] = m(p := a, p + 1 := b)"
  "memcpy_to m p [a, b, c, d] = m(p := a, p + 1 := b, p + 2 := c, p + 3 := d)"
  by (rule ext, auto simp: memcpy_to_def nth_Cons' less_Suc_eq)+

lemma repr_be_explicit:
  "repr_be 2 v = [of_nat (unat v div 256), of_nat (unat v)]"
  "repr_be 4 v = [of_nat (unat v div 256 ^ 3), of_nat (unat v div 256 ^ 2), of_nat (unat v div 256), of_nat (unat v)]"
  by (simp_all add: repr_be_def repr_le_def upt_rec)

lemma signed_drop_byte:
  assumes "k + 8 \<le> LENGTH('a::len)"
  shows "ucast (signed_drop_bit k (A :: 'a word)) = (ucast (drop_bit k A) :: 8 word)"
  by (rule bit_word_eqI) (use assms in \<open>auto simp: bit_simps\<close>)

lemma be_longstore_native: "be_longstore m T A = memcpy_to m T (repr_be 4 A)"
  by (simp add: be_longstore_def signed_drop_byte repr_be_explicit memcpy_explicit ucast_drop_byte fun_upd_twist)

lemma be_shortstore_native: "be_shortstore m T A = memcpy_to m T (repr_be 2 A)"
proof -
  have "ucast (scast A :: 32 word) = (ucast A :: 8 word)" "ucast (drop_bit 8 (scast A :: 32 word)) = (ucast (drop_bit 8 A) :: 8 word)"
    by (rule bit_word_eqI, auto simp: bit_simps)+
  then show ?thesis
    by (simp add: be_shortstore_def repr_be_explicit memcpy_explicit ucast_drop_byte fun_upd_twist)
qed

lemma mixed_doublestore_le: "mixed_doublestore m T V = le_store m T 8 (unat V)"
proof -
  have l: "unat (ucast V :: 32 word) = unat V mod 256 ^ 4"
    by (simp add: unsigned_ucast_eq take_bit_eq_mod)
  have "unat (drop_bit 32 V) = drop_bit 32 (take_bit LENGTH(64) (unat V))" by (rule unsigned_drop_bit_eq)
  also have "\<dots> = unat V div 256 ^ 4"
    by (simp only: take_bit_nat_eq_self [OF unsigned_less]) (simp add: drop_bit_eq_div)
  finally have h: "unat (ucast (drop_bit 32 V) :: 32 word) = unat V div 256 ^ 4 mod 256 ^ 4"
    by (simp only: unsigned_ucast_eq) (simp add: take_bit_eq_mod)
  have "mixed_doublestore m T V
      = le_store (le_store m T 4 (unat V mod 256 ^ 4)) (T + 4) 4 (unat V div 256 ^ 4 mod 256 ^ 4)"
    by (simp add: mixed_doublestore_def repr_mixed_def nth_append repr_le_nth l h le_store_explicit ac_simps)
  also have "\<dots> = le_store m T 8 (unat V)"
    using le_store_append [of m T 4 "unat V" 4] by (simp only: le_store_mod) simp
  finally show ?thesis .
qed

lemma mixed_doubleget_le: "mixed_doubleget m M = le_doubleget m M"
  unfolding mixed_doubleget_def value_mixed_def le_doubleget_def list_object_8 [symmetric]
  by (simp add: numeral_eq_Suc)

lemma value_le_repr: "256 ^ n = (2 :: nat) ^ LENGTH('a) \<Longrightarrow> value_le (repr_le n (v :: 'a::len word)) = v"
proof -
  assume n: "256 ^ n = (2 :: nat) ^ LENGTH('a)"
  have "le_load (\<lambda>i. repr_le n v ! i) 0 n = le_load (le_store (\<lambda>_. 0) 0 n (unat v)) 0 n"
    by (rule le_load_cong) (simp add: repr_le_nth le_store_def)
  also have "\<dots> = unat v" unfolding le_load_store n by (simp add: unsigned_less)
  finally show ?thesis by (simp add: value_le_def)
qed

lemma value_be_repr: "256 ^ n = (2 :: nat) ^ LENGTH('a) \<Longrightarrow> value_be (repr_be n (v :: 'a::len word)) = v"
  by (simp add: value_be_def repr_be_def value_le_repr)

lemma object_memcpy: "length bs = n \<Longrightarrow> object_at (memcpy_to m p bs) p n = bs"
  by (rule nth_equalityI) (auto simp: object_at_def memcpy_to_def)

lemma be_short_gets: "be_shortget m M = value_be (object_at m M 2)" "be_ushortget m M = value_be (object_at m M 2)"
proof -
  have u: "unat (ucast (m (M + 1)) + push_bit 8 (ucast (m M)) :: 16 word) = unat (m (M + 1)) + 2 ^ 8 * unat (m M)"
    using unat_byte [of "m M"] unat_byte [of "m (M + 1)"]
    by (intro unat_sum unat_shifted) (simp_all add: unat_widen)
  have "le_load (\<lambda>i. rev (object_at m M 2) ! i) 0 (length (object_at m M 2)) = unat (m (M + 1)) + 2 ^ 8 * unat (m M)"
    by (simp add: object_at_def upt_rec numeral_eq_Suc le_load_def)
  then show "be_shortget m M = value_be (object_at m M 2)" "be_ushortget m M = value_be (object_at m M 2)"
    unfolding be_shortget_def be_ushortget_def value_be_def value_le_def length_rev
    by (simp_all only: u [symmetric] of_nat_unat ucast_id)
qed

lemma be_long_gets: "be_longget m M = value_be (object_at m M 4)" "be_ulongget m M = value_be (object_at m M 4)"
  unfolding be_longget_def be_ulongget_def list_object_4 by (rule refl)+

end
