(* ===== verification/Client_Inline.thy ===== *)
theory Client_Inline
  imports Byte_Order Prelude
begin

text \<open>
  The remaining code of the MySQL client headers that is more than a declaration: the flags of the
  protocol (\<^verbatim>\<open>mysql_com.h\<close>), the types of columns and the macros that classify them
  (\<^verbatim>\<open>binary_log_types.h\<close>, \<^verbatim>\<open>mysql.h\<close>), the errors of the client and the macro that looks up
  their texts (\<^verbatim>\<open>errmsg.h\<close>), the inline functions on strings of \<^verbatim>\<open>m_string.h\<close> and the
  points in time of \<^verbatim>\<open>my_global.h\<close>.
\<close>

section \<open>Flags of the protocol\<close>

definition refresh_flags :: "(string \<times> 64 word) list" where
  "refresh_flags = [
     (''REFRESH_GRANT'', 1), (''REFRESH_LOG'', 2), (''REFRESH_TABLES'', 4),
     (''REFRESH_HOSTS'', 8), (''REFRESH_STATUS'', 16), (''REFRESH_THREADS'', 32),
     (''REFRESH_SLAVE'', 64), (''REFRESH_MASTER'', 128), (''REFRESH_ERROR_LOG'', 256),
     (''REFRESH_ENGINE_LOG'', 512), (''REFRESH_BINARY_LOG'', 1024), (''REFRESH_RELAY_LOG'', 2048),
     (''REFRESH_GENERAL_LOG'', 4096), (''REFRESH_SLOW_LOG'', 8192), (''REFRESH_READ_LOCK'', 16384),
     (''REFRESH_FAST'', 32768), (''REFRESH_QUERY_CACHE'', 65536), (''REFRESH_QUERY_CACHE_FREE'', 131072),
     (''REFRESH_DES_KEY_FILE'', 262144), (''REFRESH_USER_RESOURCES'', 524288), (''REFRESH_FOR_EXPORT'', 1048576),
     (''REFRESH_OPTIMIZER_COSTS'', 2097152)]"

definition client_flags :: "(string \<times> 64 word) list" where
  "client_flags = [
     (''CLIENT_LONG_PASSWORD'', 1), (''CLIENT_FOUND_ROWS'', 2), (''CLIENT_LONG_FLAG'', 4),
     (''CLIENT_CONNECT_WITH_DB'', 8), (''CLIENT_NO_SCHEMA'', 16), (''CLIENT_COMPRESS'', 32),
     (''CLIENT_ODBC'', 64), (''CLIENT_LOCAL_FILES'', 128), (''CLIENT_IGNORE_SPACE'', 256),
     (''CLIENT_PROTOCOL_41'', 512), (''CLIENT_INTERACTIVE'', 1024), (''CLIENT_SSL'', 2048),
     (''CLIENT_IGNORE_SIGPIPE'', 4096), (''CLIENT_TRANSACTIONS'', 8192), (''CLIENT_RESERVED'', 16384),
     (''CLIENT_RESERVED2'', 32768), (''CLIENT_MULTI_STATEMENTS'', 65536), (''CLIENT_MULTI_RESULTS'', 131072),
     (''CLIENT_PS_MULTI_RESULTS'', 262144), (''CLIENT_PLUGIN_AUTH'', 524288), (''CLIENT_CONNECT_ATTRS'', 1048576),
     (''CLIENT_PLUGIN_AUTH_LENENC_CLIENT_DATA'', 2097152), (''CLIENT_CAN_HANDLE_EXPIRED_PASSWORDS'', 4194304), (''CLIENT_SESSION_TRACK'', 8388608),
     (''CLIENT_DEPRECATE_EOF'', 16777216), (''CLIENT_SSL_VERIFY_SERVER_CERT'', 1073741824), (''CLIENT_REMEMBER_OPTIONS'', 2147483648)]"

definition flag :: "(string \<times> 64 word) list \<Rightarrow> string \<Rightarrow> 64 word" where
  "flag t n = (case map_of t n of Some v \<Rightarrow> v | None \<Rightarrow> 0)"

definition any_of :: "64 word list \<Rightarrow> 64 word" where
  "any_of vs = foldr (OR) vs 0"

definition CLIENT_ALL_FLAGS :: "64 word" where
  "CLIENT_ALL_FLAGS = any_of (map (flag client_flags) [
     ''CLIENT_LONG_PASSWORD'', ''CLIENT_FOUND_ROWS'', ''CLIENT_LONG_FLAG'',
     ''CLIENT_CONNECT_WITH_DB'', ''CLIENT_NO_SCHEMA'', ''CLIENT_COMPRESS'',
     ''CLIENT_ODBC'', ''CLIENT_LOCAL_FILES'', ''CLIENT_IGNORE_SPACE'',
     ''CLIENT_PROTOCOL_41'', ''CLIENT_INTERACTIVE'', ''CLIENT_SSL'',
     ''CLIENT_IGNORE_SIGPIPE'', ''CLIENT_TRANSACTIONS'', ''CLIENT_RESERVED'',
     ''CLIENT_RESERVED2'', ''CLIENT_MULTI_STATEMENTS'', ''CLIENT_MULTI_RESULTS'',
     ''CLIENT_PS_MULTI_RESULTS'', ''CLIENT_SSL_VERIFY_SERVER_CERT'', ''CLIENT_REMEMBER_OPTIONS'',
     ''CLIENT_PLUGIN_AUTH'', ''CLIENT_CONNECT_ATTRS'', ''CLIENT_PLUGIN_AUTH_LENENC_CLIENT_DATA'',
     ''CLIENT_CAN_HANDLE_EXPIRED_PASSWORDS'', ''CLIENT_SESSION_TRACK'', ''CLIENT_DEPRECATE_EOF''])"

definition CLIENT_BASIC_FLAGS :: "64 word" where
  "CLIENT_BASIC_FLAGS = ((CLIENT_ALL_FLAGS AND NOT (flag client_flags ''CLIENT_SSL''))
     AND NOT (flag client_flags ''CLIENT_COMPRESS''))
     AND NOT (flag client_flags ''CLIENT_SSL_VERIFY_SERVER_CERT'')"

definition server_status_flags :: "(string \<times> 64 word) list" where
  "server_status_flags = [
     (''SERVER_STATUS_IN_TRANS'', 1), (''SERVER_STATUS_AUTOCOMMIT'', 2), (''SERVER_MORE_RESULTS_EXISTS'', 8),
     (''SERVER_QUERY_NO_GOOD_INDEX_USED'', 16), (''SERVER_QUERY_NO_INDEX_USED'', 32), (''SERVER_STATUS_CURSOR_EXISTS'', 64),
     (''SERVER_STATUS_LAST_ROW_SENT'', 128), (''SERVER_STATUS_DB_DROPPED'', 256), (''SERVER_STATUS_NO_BACKSLASH_ESCAPES'', 512),
     (''SERVER_STATUS_METADATA_CHANGED'', 1024), (''SERVER_QUERY_WAS_SLOW'', 2048), (''SERVER_PS_OUT_PARAMS'', 4096),
     (''SERVER_STATUS_IN_TRANS_READONLY'', 8192), (''SERVER_SESSION_STATE_CHANGED'', 16384)]"

definition SERVER_STATUS_CLEAR_SET :: "64 word" where
  "SERVER_STATUS_CLEAR_SET = any_of (map (flag server_status_flags) [
     ''SERVER_QUERY_NO_GOOD_INDEX_USED'', ''SERVER_QUERY_NO_INDEX_USED'', ''SERVER_MORE_RESULTS_EXISTS'',
     ''SERVER_STATUS_METADATA_CHANGED'', ''SERVER_QUERY_WAS_SLOW'', ''SERVER_STATUS_DB_DROPPED'',
     ''SERVER_STATUS_CURSOR_EXISTS'', ''SERVER_STATUS_LAST_ROW_SENT'', ''SERVER_SESSION_STATE_CHANGED''])"

text \<open>Every flag is a bit of its own, and the unions are what their names say.\<close>

lemma flags_are_bits:
  "map snd refresh_flags = map (\<lambda>i. 2 ^ i) [0..<22]"
  "map snd client_flags = map (\<lambda>i. 2 ^ i) ([0..<25] @ [30, 31])"
  "map snd server_status_flags = map (\<lambda>i. 2 ^ i) ([0, 1] @ [3..<15])"
  by (simp_all add: refresh_flags_def client_flags_def server_status_flags_def upt_rec)

lemma distinct_flags:
  "distinct (map fst refresh_flags)" "distinct (map fst client_flags)" "distinct (map fst server_status_flags)"
  by (simp_all add: refresh_flags_def client_flags_def server_status_flags_def)

lemma client_unions:
  "CLIENT_ALL_FLAGS = any_of (map snd client_flags)"
  "CLIENT_BASIC_FLAGS = any_of (map snd (filter (\<lambda>(n, v).
     n \<notin> {''CLIENT_SSL'', ''CLIENT_COMPRESS'', ''CLIENT_SSL_VERIFY_SERVER_CERT''}) client_flags))"
  by (simp_all add: CLIENT_BASIC_FLAGS_def CLIENT_ALL_FLAGS_def client_flags_def flag_def any_of_def)

text \<open>Clearing the flags of the last statement keeps the state of the transaction.\<close>

lemma clear_set_keeps:
  "n \<in> {''SERVER_STATUS_IN_TRANS'', ''SERVER_STATUS_AUTOCOMMIT'', ''SERVER_STATUS_NO_BACKSLASH_ESCAPES'',
     ''SERVER_PS_OUT_PARAMS'', ''SERVER_STATUS_IN_TRANS_READONLY''} \<longleftrightarrow>
   n \<in> fst ` set server_status_flags \<and> flag server_status_flags n AND SERVER_STATUS_CLEAR_SET = 0"
  by (auto simp: SERVER_STATUS_CLEAR_SET_def server_status_flags_def flag_def any_of_def)

section \<open>Columns\<close>

definition enum_field_types :: "(string \<times> nat) list" where
  "enum_field_types = [
     (''MYSQL_TYPE_DECIMAL'', 0), (''MYSQL_TYPE_TINY'', 1), (''MYSQL_TYPE_SHORT'', 2),
     (''MYSQL_TYPE_LONG'', 3), (''MYSQL_TYPE_FLOAT'', 4), (''MYSQL_TYPE_DOUBLE'', 5),
     (''MYSQL_TYPE_NULL'', 6), (''MYSQL_TYPE_TIMESTAMP'', 7), (''MYSQL_TYPE_LONGLONG'', 8),
     (''MYSQL_TYPE_INT24'', 9), (''MYSQL_TYPE_DATE'', 10), (''MYSQL_TYPE_TIME'', 11),
     (''MYSQL_TYPE_DATETIME'', 12), (''MYSQL_TYPE_YEAR'', 13), (''MYSQL_TYPE_NEWDATE'', 14),
     (''MYSQL_TYPE_VARCHAR'', 15), (''MYSQL_TYPE_BIT'', 16), (''MYSQL_TYPE_TIMESTAMP2'', 17),
     (''MYSQL_TYPE_DATETIME2'', 18), (''MYSQL_TYPE_TIME2'', 19), (''MYSQL_TYPE_JSON'', 245),
     (''MYSQL_TYPE_NEWDECIMAL'', 246), (''MYSQL_TYPE_ENUM'', 247), (''MYSQL_TYPE_SET'', 248),
     (''MYSQL_TYPE_TINY_BLOB'', 249), (''MYSQL_TYPE_MEDIUM_BLOB'', 250), (''MYSQL_TYPE_LONG_BLOB'', 251),
     (''MYSQL_TYPE_BLOB'', 252), (''MYSQL_TYPE_VAR_STRING'', 253), (''MYSQL_TYPE_STRING'', 254),
     (''MYSQL_TYPE_GEOMETRY'', 255)]"

definition field_type :: "string \<Rightarrow> nat" where
  "field_type n = the (map_of enum_field_types n)"

definition IS_NUM :: "nat \<Rightarrow> bool" where
  "IS_NUM t \<longleftrightarrow> (t \<le> field_type ''MYSQL_TYPE_INT24'' \<and> t \<noteq> field_type ''MYSQL_TYPE_TIMESTAMP'') \<or>
     t = field_type ''MYSQL_TYPE_YEAR'' \<or> t = field_type ''MYSQL_TYPE_NEWDECIMAL''"

definition IS_LONGDATA :: "nat \<Rightarrow> bool" where
  "IS_LONGDATA t \<longleftrightarrow> field_type ''MYSQL_TYPE_TINY_BLOB'' \<le> t \<and> t \<le> field_type ''MYSQL_TYPE_STRING''"

lemma column_kinds:
  "distinct (map snd enum_field_types)"
  "map fst (filter (\<lambda>(n, t). IS_NUM t) enum_field_types) =
     [''MYSQL_TYPE_DECIMAL'', ''MYSQL_TYPE_TINY'', ''MYSQL_TYPE_SHORT'', ''MYSQL_TYPE_LONG'',
      ''MYSQL_TYPE_FLOAT'', ''MYSQL_TYPE_DOUBLE'', ''MYSQL_TYPE_NULL'', ''MYSQL_TYPE_LONGLONG'',
      ''MYSQL_TYPE_INT24'', ''MYSQL_TYPE_YEAR'', ''MYSQL_TYPE_NEWDECIMAL'']"
  "map fst (filter (\<lambda>(n, t). IS_LONGDATA t) enum_field_types) =
     [''MYSQL_TYPE_TINY_BLOB'', ''MYSQL_TYPE_MEDIUM_BLOB'', ''MYSQL_TYPE_LONG_BLOB'', ''MYSQL_TYPE_BLOB'',
      ''MYSQL_TYPE_VAR_STRING'', ''MYSQL_TYPE_STRING'']"
  by (simp_all add: IS_NUM_def IS_LONGDATA_def field_type_def enum_field_types_def)

section \<open>Errors of the client\<close>

definition client_error_codes :: "(string \<times> int) list" where
  "client_error_codes = [
     (''CR_UNKNOWN_ERROR'', 2000), (''CR_SOCKET_CREATE_ERROR'', 2001), (''CR_CONNECTION_ERROR'', 2002),
     (''CR_CONN_HOST_ERROR'', 2003), (''CR_IPSOCK_ERROR'', 2004), (''CR_UNKNOWN_HOST'', 2005),
     (''CR_SERVER_GONE_ERROR'', 2006), (''CR_VERSION_ERROR'', 2007), (''CR_OUT_OF_MEMORY'', 2008),
     (''CR_WRONG_HOST_INFO'', 2009), (''CR_LOCALHOST_CONNECTION'', 2010), (''CR_TCP_CONNECTION'', 2011),
     (''CR_SERVER_HANDSHAKE_ERR'', 2012), (''CR_SERVER_LOST'', 2013), (''CR_COMMANDS_OUT_OF_SYNC'', 2014),
     (''CR_NAMEDPIPE_CONNECTION'', 2015), (''CR_NAMEDPIPEWAIT_ERROR'', 2016), (''CR_NAMEDPIPEOPEN_ERROR'', 2017),
     (''CR_NAMEDPIPESETSTATE_ERROR'', 2018), (''CR_CANT_READ_CHARSET'', 2019), (''CR_NET_PACKET_TOO_LARGE'', 2020),
     (''CR_EMBEDDED_CONNECTION'', 2021), (''CR_PROBE_SLAVE_STATUS'', 2022), (''CR_PROBE_SLAVE_HOSTS'', 2023),
     (''CR_PROBE_SLAVE_CONNECT'', 2024), (''CR_PROBE_MASTER_CONNECT'', 2025), (''CR_SSL_CONNECTION_ERROR'', 2026),
     (''CR_MALFORMED_PACKET'', 2027), (''CR_WRONG_LICENSE'', 2028), (''CR_NULL_POINTER'', 2029),
     (''CR_NO_PREPARE_STMT'', 2030), (''CR_PARAMS_NOT_BOUND'', 2031), (''CR_DATA_TRUNCATED'', 2032),
     (''CR_NO_PARAMETERS_EXISTS'', 2033), (''CR_INVALID_PARAMETER_NO'', 2034), (''CR_INVALID_BUFFER_USE'', 2035),
     (''CR_UNSUPPORTED_PARAM_TYPE'', 2036), (''CR_SHARED_MEMORY_CONNECTION'', 2037), (''CR_SHARED_MEMORY_CONNECT_REQUEST_ERROR'', 2038),
     (''CR_SHARED_MEMORY_CONNECT_ANSWER_ERROR'', 2039), (''CR_SHARED_MEMORY_CONNECT_FILE_MAP_ERROR'', 2040), (''CR_SHARED_MEMORY_CONNECT_MAP_ERROR'', 2041),
     (''CR_SHARED_MEMORY_FILE_MAP_ERROR'', 2042), (''CR_SHARED_MEMORY_MAP_ERROR'', 2043), (''CR_SHARED_MEMORY_EVENT_ERROR'', 2044),
     (''CR_SHARED_MEMORY_CONNECT_ABANDONED_ERROR'', 2045), (''CR_SHARED_MEMORY_CONNECT_SET_ERROR'', 2046), (''CR_CONN_UNKNOW_PROTOCOL'', 2047),
     (''CR_INVALID_CONN_HANDLE'', 2048), (''CR_UNUSED_1'', 2049), (''CR_FETCH_CANCELED'', 2050),
     (''CR_NO_DATA'', 2051), (''CR_NO_STMT_METADATA'', 2052), (''CR_NO_RESULT_SET'', 2053),
     (''CR_NOT_IMPLEMENTED'', 2054), (''CR_SERVER_LOST_EXTENDED'', 2055), (''CR_STMT_CLOSED'', 2056),
     (''CR_NEW_STMT_METADATA'', 2057), (''CR_ALREADY_CONNECTED'', 2058), (''CR_AUTH_PLUGIN_CANNOT_LOAD'', 2059),
     (''CR_DUPLICATE_CONNECTION_ATTR'', 2060), (''CR_AUTH_PLUGIN_ERR'', 2061), (''CR_INSECURE_API_ERR'', 2062)]"

definition CR_ERROR_FIRST :: int where "CR_ERROR_FIRST = 2000"

definition CR_ERROR_LAST :: int where "CR_ERROR_LAST = 2062"

definition CR_UNKNOWN_ERROR :: int where "CR_UNKNOWN_ERROR = 2000"

text \<open>The array \<^verbatim>\<open>client_errors\<close> is the library's; the macro \<^verbatim>\<open>ER\<close> indexes it.\<close>

definition element :: "'a list \<Rightarrow> int \<Rightarrow> 'a res" where
  "element xs i = (if 0 \<le> i \<and> i < int (length xs) then Inr (xs ! nat i) else Inl Out_Of_Bounds)"

definition ER :: "string list \<Rightarrow> int \<Rightarrow> string res" where
  "ER client_errors X =
     (if X \<ge> CR_ERROR_FIRST \<and> X \<le> CR_ERROR_LAST then element client_errors (X - CR_ERROR_FIRST)
      else element client_errors CR_UNKNOWN_ERROR)"

lemma client_codes_numbered: "map snd client_error_codes = [CR_ERROR_FIRST..CR_ERROR_LAST]"
  by (simp add: client_error_codes_def CR_ERROR_FIRST_def CR_ERROR_LAST_def upto_rec1)

lemma client_codes_count: "length client_error_codes = 63"
  by (simp add: client_error_codes_def)

text \<open>
  With a text for each error and the empty text at the end of the list, every error finds its
  text, and any other number reads far behind the array: the macro indexes it with
  \<^verbatim>\<open>CR_UNKNOWN_ERROR\<close> and not with \<^verbatim>\<open>CR_UNKNOWN_ERROR-CR_ERROR_FIRST\<close>.
\<close>

lemma ER_lookup:
  assumes "length client_errors = Suc (length client_error_codes)"
  shows "i < length client_error_codes \<Longrightarrow>
      ER client_errors (snd (client_error_codes ! i)) = Inr (client_errors ! i)"
    and "X \<notin> snd ` set client_error_codes \<Longrightarrow> ER client_errors X = Inl Out_Of_Bounds"
proof -
  have nth: "snd (client_error_codes ! i) = 2000 + int i" if "i < length client_error_codes"
  proof -
    have "snd (client_error_codes ! i) = map snd client_error_codes ! i" using that by simp
    also have "\<dots> = CR_ERROR_FIRST + int i"
      unfolding client_codes_numbered using that
      by (subst nth_upto) (simp_all add: client_codes_count CR_ERROR_FIRST_def CR_ERROR_LAST_def)
    finally show ?thesis by (simp add: CR_ERROR_FIRST_def)
  qed
  show "ER client_errors (snd (client_error_codes ! i)) = Inr (client_errors ! i)" if "i < length client_error_codes"
    using assms that nth [OF that]
    by (simp add: ER_def element_def CR_ERROR_FIRST_def CR_ERROR_LAST_def client_codes_count)
  have "snd ` set client_error_codes = {CR_ERROR_FIRST..CR_ERROR_LAST}"
    using arg_cong [OF client_codes_numbered, of set] by simp
  then show "ER client_errors X = Inl Out_Of_Bounds" if "X \<notin> snd ` set client_error_codes"
    using assms that
    by (auto simp: ER_def element_def CR_UNKNOWN_ERROR_def client_codes_count)
qed

section \<open>Trailing spaces\<close>

text \<open>
  \<open>skip_trailing_space\<close> goes back over eight bytes at a time, then over single bytes; it returns
  the address behind the last byte that is not a space. Memory is that of \<open>Byte_Order\<close>.
\<close>

function skip_words :: "bytes_at \<Rightarrow> nat \<Rightarrow> nat \<Rightarrow> nat" where
  "skip_words m ptr limit =
     (if 8 \<le> limit - ptr \<and> uint8korr m (limit - 8) = 0x2020202020202020 then skip_words m ptr (limit - 8) else limit)"
  by pat_completeness auto
termination by (relation "measure (\<lambda>(m, ptr, limit). limit)") auto

fun skip_bytes :: "bytes_at \<Rightarrow> nat \<Rightarrow> nat \<Rightarrow> nat" where
  "skip_bytes m ptr limit =
     (if ptr < limit \<and> m (limit - 1) = 0x20 then skip_bytes m ptr (limit - 1) else limit)"

definition skip_trailing_space :: "bytes_at \<Rightarrow> nat \<Rightarrow> nat \<Rightarrow> nat" where
  "skip_trailing_space m ptr len = skip_bytes m ptr (skip_words m ptr (ptr + len))"

declare skip_words.simps [simp del] skip_bytes.simps [simp del]

lemma space_word: "le_load (\<lambda>_. 0x20) q 8 = 0x2020202020202020"
proof -
  have "{..<8::nat} = {0, 1, 2, 3, 4, 5, 6, 7}" by auto
  then show ?thesis by (simp add: le_load_def)
qed

lemma uint8korr_spaces: "uint8korr m a = 0x2020202020202020 \<longleftrightarrow> (\<forall>i<8. m (a + i) = 0x20)"
proof
  assume "uint8korr m a = 0x2020202020202020"
  then have l: "le_load m a 8 = le_load (\<lambda>_. 0x20) a 8"
    unfolding space_word using unat_uint8korr [of m a] by simp
  show "\<forall>i<8. m (a + i) = 0x20"
  proof (intro allI impI)
    fix i :: nat assume "i < 8"
    then have "unat (m (a + i)) = unat (0x20 :: 8 word)"
      using le_load_digit [of i 8 m a] le_load_digit [of i 8 "\<lambda>_. 0x20" a] l by simp
    then show "m (a + i) = 0x20" by (simp only: word_unat_eq_iff)
  qed
next
  assume "\<forall>i<8. m (a + i) = 0x20"
  then have "le_load m a 8 = 0x2020202020202020"
    using le_load_cong [of 8 m a "\<lambda>_. 0x20" a] space_word by simp
  then show "uint8korr m a = 0x2020202020202020"
    using unat_uint8korr [of m a] by (simp add: word_unat_eq_iff)
qed

text \<open>The bytes from \<open>a\<close> up to \<open>b\<close> are spaces.\<close>

definition blank :: "bytes_at \<Rightarrow> nat \<Rightarrow> nat \<Rightarrow> bool" where
  "blank m a b \<longleftrightarrow> (\<forall>i. a \<le> i \<and> i < b \<longrightarrow> m i = 0x20)"

lemma blank_join: "blank m a b \<Longrightarrow> blank m b c \<Longrightarrow> blank m a c"
  unfolding blank_def by (meson not_le)

lemma blank_empty [simp]: "blank m a a"
  by (auto simp: blank_def)

lemma blank_word: "uint8korr m a = 0x2020202020202020 \<Longrightarrow> blank m a (a + 8)"
  unfolding uint8korr_spaces blank_def by (metis add_diff_inverse_nat nat_add_left_cancel_less not_le)

lemma skip_words_spec:
  "ptr \<le> limit \<Longrightarrow> ptr \<le> skip_words m ptr limit \<and> skip_words m ptr limit \<le> limit \<and>
     blank m (skip_words m ptr limit) limit"
proof (induction m ptr limit rule: skip_words.induct)
  case (1 m ptr limit)
  show ?case
  proof (cases "8 \<le> limit - ptr \<and> uint8korr m (limit - 8) = 0x2020202020202020")
    case True
    then have s: "skip_words m ptr limit = skip_words m ptr (limit - 8)" by (subst skip_words.simps) (rule if_P)
    from True have "limit - 8 + 8 = limit" "ptr \<le> limit - 8" by linarith+
    then have "blank m (limit - 8) limit" using True blank_word [of m "limit - 8"] by simp
    with 1(1) [OF True \<open>ptr \<le> limit - 8\<close>] show ?thesis unfolding s by (meson blank_join diff_le_self le_trans)
  next
    case False
    then have "skip_words m ptr limit = limit" by (subst skip_words.simps) (rule if_not_P)
    then show ?thesis using 1(2) by simp
  qed
qed

lemma skip_bytes_spec:
  "ptr \<le> limit \<Longrightarrow> ptr \<le> skip_bytes m ptr limit \<and> skip_bytes m ptr limit \<le> limit \<and>
     blank m (skip_bytes m ptr limit) limit \<and>
     (skip_bytes m ptr limit = ptr \<or> m (skip_bytes m ptr limit - 1) \<noteq> 0x20)"
proof (induction m ptr limit rule: skip_bytes.induct)
  case (1 m ptr limit)
  show ?case
  proof (cases "ptr < limit \<and> m (limit - 1) = 0x20")
    case True
    then have s: "skip_bytes m ptr limit = skip_bytes m ptr (limit - 1)" by (subst skip_bytes.simps) (rule if_P)
    from True have "ptr \<le> limit - 1" by linarith
    have "blank m (limit - 1) limit" unfolding blank_def
    proof (intro allI impI)
      fix i assume "limit - 1 \<le> i \<and> i < limit"
      then have "i = limit - 1" by linarith
      then show "m i = 0x20" using True by simp
    qed
    with 1(1) [OF True \<open>ptr \<le> limit - 1\<close>] show ?thesis unfolding s by (meson blank_join diff_le_self le_trans)
  next
    case False
    then have "skip_bytes m ptr limit = limit" by (subst skip_bytes.simps) (rule if_not_P)
    then show ?thesis using 1(2) False by auto
  qed
qed

lemma skip_trailing_space_spec:
  "ptr \<le> skip_trailing_space m ptr len" "skip_trailing_space m ptr len \<le> ptr + len"
  "blank m (skip_trailing_space m ptr len) (ptr + len)"
  "skip_trailing_space m ptr len = ptr \<or> m (skip_trailing_space m ptr len - 1) \<noteq> 0x20"
proof -
  have w: "ptr \<le> skip_words m ptr (ptr + len)" "skip_words m ptr (ptr + len) \<le> ptr + len"
    "blank m (skip_words m ptr (ptr + len)) (ptr + len)"
    using skip_words_spec [of ptr "ptr + len" m] by auto
  note b = skip_bytes_spec [OF w(1), of m, folded skip_trailing_space_def]
  show "ptr \<le> skip_trailing_space m ptr len" using b by blast
  show "skip_trailing_space m ptr len \<le> ptr + len" using b w(2) by linarith
  show "blank m (skip_trailing_space m ptr len) (ptr + len)" using b w(3) blank_join by blast
  show "skip_trailing_space m ptr len = ptr \<or> m (skip_trailing_space m ptr len - 1) \<noteq> 0x20" using b by blast
qed

text \<open>There is one such position: \<open>trimmed\<close> finds it byte by byte on the list of bytes.\<close>

definition trimmed :: "8 word list \<Rightarrow> nat" where
  "trimmed bs = length (dropWhile (\<lambda>b. b = 0x20) (rev bs))"

lemma trimmed_append: "blank m (ptr + k) (ptr + len) \<Longrightarrow> k \<le> len \<Longrightarrow> k = 0 \<or> m (ptr + k - 1) \<noteq> 0x20 \<Longrightarrow>
  trimmed (map m [ptr..<ptr + len]) = k"
proof -
  assume a: "blank m (ptr + k) (ptr + len)" "k \<le> len" "k = 0 \<or> m (ptr + k - 1) \<noteq> 0x20"
  have "[ptr..<ptr + len] = [ptr..<ptr + k] @ [ptr + k..<ptr + len]"
    using upt_add_eq_append [of ptr "ptr + k" "len - k"] a(2) by simp
  moreover have "dropWhile (\<lambda>b. b = 0x20) (rev (map m [ptr + k..<ptr + len]) @ ys) = dropWhile (\<lambda>b. b = 0x20) ys" for ys
    by (rule dropWhile_append2) (use a(1) in \<open>auto simp: blank_def\<close>)
  moreover have "length (dropWhile (\<lambda>b. b = 0x20) (rev (map m [ptr..<ptr + k]))) = k"
  proof (cases k)
    case (Suc j)
    then show ?thesis using a(3) by (simp add: rev_map)
  qed simp
  ultimately show ?thesis by (simp add: trimmed_def)
qed

lemma skip_trailing_space_trims: "skip_trailing_space m ptr len = ptr + trimmed (map m [ptr..<ptr + len])"
proof -
  obtain k where k: "skip_trailing_space m ptr len = ptr + k"
    using skip_trailing_space_spec(1) [of ptr m len] le_Suc_ex by blast
  have "trimmed (map m [ptr..<ptr + len]) = k"
    using skip_trailing_space_spec [where m = m and ptr = ptr and len = len] unfolding k
    by (intro trimmed_append) auto
  then show ?thesis using k by simp
qed

section \<open>Strings with their length\<close>

text \<open>A C string is the bytes before its NUL; \<open>LEX_STRING\<close> is a pointer and a length.\<close>

record lex_string =
  lex_str :: nat
  lex_length :: nat

partial_function (option) c_strlen :: "bytes_at \<Rightarrow> nat \<Rightarrow> nat option" where
  "c_strlen m p = (if m p = 0 then Some 0 else Option.bind (c_strlen m (p + 1)) (\<lambda>n. Some (Suc n)))"

definition lex_string_set :: "bytes_at \<Rightarrow> nat \<Rightarrow> lex_string option" where
  "lex_string_set m c_str = map_option (\<lambda>n. \<lparr>lex_str = c_str, lex_length = n\<rparr>) (c_strlen m c_str)"

definition lex_cstring_set :: "bytes_at \<Rightarrow> nat \<Rightarrow> lex_string option" where
  "lex_cstring_set m c_str = map_option (\<lambda>n. \<lparr>lex_str = c_str, lex_length = n\<rparr>) (c_strlen m c_str)"

lemma lex_strings_set:
  assumes "m (p + n) = 0" and "\<forall>i<n. m (p + i) \<noteq> 0"
  shows "lex_string_set m p = Some \<lparr>lex_str = p, lex_length = n\<rparr>"
    and "lex_cstring_set m p = Some \<lparr>lex_str = p, lex_length = n\<rparr>"
proof -
  have "c_strlen m p = Some n" using assms
  proof (induction n arbitrary: p)
    case (Suc n)
    have "c_strlen m (p + 1) = Some n" using Suc.prems by (intro Suc.IH) auto
    then show ?case using Suc.prems(2) [rule_format, of 0] by (subst c_strlen.simps) simp
  qed (subst c_strlen.simps, simp)
  then show "lex_string_set m p = Some \<lparr>lex_str = p, lex_length = n\<rparr>"
    "lex_cstring_set m p = Some \<lparr>lex_str = p, lex_length = n\<rparr>"
    by (simp_all add: lex_string_set_def lex_cstring_set_def)
qed

section \<open>Points in time\<close>

text \<open>
  \<open>my_getsystime\<close>, the time in units of 100 nanoseconds, is an argument. \<^verbatim>\<open>time_t\<close> and
  \<^verbatim>\<open>long\<close> have 64 bits; the difference of two \<^verbatim>\<open>time_t\<close> may overflow.
\<close>

record timespec =
  tv_sec :: int
  tv_nsec :: int

definition set_timespec_nsec :: "64 word \<Rightarrow> 64 word \<Rightarrow> timespec" where
  "set_timespec_nsec systime nsec =
     (let now = systime + nsec div 100 in
      \<lparr>tv_sec = sint (now div 10000000), tv_nsec = sint ((now mod 10000000) * 100 + nsec mod 100)\<rparr>)"

definition set_timespec :: "64 word \<Rightarrow> 64 word \<Rightarrow> timespec" where
  "set_timespec systime sec = set_timespec_nsec systime (sec * 1000000000)"

definition cmp_timespec :: "timespec \<Rightarrow> timespec \<Rightarrow> int" where
  "cmp_timespec ts1 ts2 =
     (if tv_sec ts1 > tv_sec ts2 \<or> tv_sec ts1 = tv_sec ts2 \<and> tv_nsec ts1 > tv_nsec ts2 then 1
      else if tv_sec ts1 < tv_sec ts2 \<or> tv_sec ts1 = tv_sec ts2 \<and> tv_nsec ts1 < tv_nsec ts2 then -1
      else 0)"

definition diff_timespec :: "timespec \<Rightarrow> timespec \<Rightarrow> 64 word res" where
  "diff_timespec ts1 ts2 =
     (let d = tv_sec ts1 - tv_sec ts2 in
      if - (2 ^ 63) \<le> d \<and> d < 2 ^ 63
      then Inr (word_of_int d * 1000000000 + word_of_int (tv_nsec ts1) - word_of_int (tv_nsec ts2))
      else Inl Int_Overflow)"

text \<open>Times as numbers of nanoseconds.\<close>

definition nanoseconds :: "timespec \<Rightarrow> int" where
  "nanoseconds t = tv_sec t * 10 ^ 9 + tv_nsec t"

definition normal_time :: "timespec \<Rightarrow> bool" where
  "normal_time t \<longleftrightarrow> 0 \<le> tv_nsec t \<and> tv_nsec t < 10 ^ 9"

lemma set_timespec_nsec_sum:
  assumes "uint systime + uint nsec div 100 < 2 ^ 64"
  shows "normal_time (set_timespec_nsec systime nsec)"
    and "nanoseconds (set_timespec_nsec systime nsec) = 100 * uint systime + uint nsec"
proof -
  define now where "now = systime + nsec div 100"
  have now: "uint now = uint systime + uint nsec div 100"
    using assms by (simp add: now_def uint_plus_if' uint_div)
  have s: "uint (now div 10000000) = uint now div 10000000" by (simp add: uint_div)
  have "uint now div 10000000 < 2 ^ 63" using uint_bounded [of now] by simp
  moreover have "- (2 ^ 63) \<le> uint now div 10000000"
    by (rule order_trans [of _ 0]) (simp_all add: pos_imp_zdiv_nonneg_iff)
  ultimately have sec: "sint (now div 10000000) = uint now div 10000000"
    unfolding sint_uint s by (intro signed_take_bit_int_eq_self) simp_all
  have "uint (now mod 10000000) = uint now mod 10000000" "uint (nsec mod 100) = uint nsec mod 100"
    by (simp_all add: uint_mod)
  moreover have "0 \<le> uint now mod 10000000" "uint now mod 10000000 < 10000000" "0 \<le> uint nsec mod 100" "uint nsec mod 100 < 100"
    by simp_all
  ultimately have ns: "uint ((now mod 10000000) * 100 + nsec mod 100) = uint now mod 10000000 * 100 + uint nsec mod 100"
    by (simp add: uint_word_ariths)
  have nsec: "sint ((now mod 10000000) * 100 + nsec mod 100) = uint now mod 10000000 * 100 + uint nsec mod 100"
  proof -
    have "uint now mod 10000000 < 10000000" "uint nsec mod 100 < 100" by simp_all
    then have "uint now mod 10000000 * 100 + uint nsec mod 100 < 1000000100" by linarith
    then have "uint now mod 10000000 * 100 + uint nsec mod 100 < 2 ^ 63" by simp
    then show ?thesis unfolding sint_uint ns by (intro signed_take_bit_int_eq_self) simp_all
  qed
  show "normal_time (set_timespec_nsec systime nsec)"
    unfolding normal_time_def set_timespec_nsec_def Let_def now_def [symmetric] timespec.simps nsec
    using pos_mod_bound [of 10000000 "uint now"] pos_mod_bound [of 100 "uint nsec"] by simp
  show "nanoseconds (set_timespec_nsec systime nsec) = 100 * uint systime + uint nsec"
    unfolding nanoseconds_def set_timespec_nsec_def Let_def now_def [symmetric] timespec.simps nsec sec
    using now by simp presburger
qed

lemma set_timespec_sum:
  assumes "uint sec * 10 ^ 9 < 2 ^ 64" and "uint systime + uint sec * 10 ^ 7 < 2 ^ 64"
  shows "normal_time (set_timespec systime sec)"
    and "nanoseconds (set_timespec systime sec) = 100 * uint systime + uint sec * 10 ^ 9"
proof -
  have "uint (sec * 1000000000) = uint sec * 1000000000" using assms(1) by (simp add: uint_word_ariths)
  moreover have "uint sec * 1000000000 div 100 = uint sec * 10000000" by simp
  ultimately show "normal_time (set_timespec systime sec)"
    "nanoseconds (set_timespec systime sec) = 100 * uint systime + uint sec * 10 ^ 9"
    using set_timespec_nsec_sum [of systime "sec * 1000000000"] assms(2) by (simp_all add: set_timespec_def)
qed

text \<open>\<open>cmp_timespec\<close> is the order of the numbers, \<open>diff_timespec\<close> their difference modulo \<open>2\<^sup>6\<^sup>4\<close>.\<close>

lemma cmp_timespec_sgn:
  "normal_time a \<Longrightarrow> normal_time b \<Longrightarrow> cmp_timespec a b = sgn (nanoseconds a - nanoseconds b)"
  unfolding normal_time_def nanoseconds_def cmp_timespec_def by (auto simp: sgn_if)

lemma diff_timespec_word:
  "diff_timespec a b = Inr d \<Longrightarrow> d = word_of_int (nanoseconds a - nanoseconds b)"
  by (auto simp: diff_timespec_def nanoseconds_def Let_def algebra_simps split: if_splits)

lemma diff_timespec_exact:
  assumes "diff_timespec a b = Inr d" "0 \<le> nanoseconds a - nanoseconds b" "nanoseconds a - nanoseconds b < 2 ^ 64"
  shows "uint d = nanoseconds a - nanoseconds b"
  unfolding diff_timespec_word [OF assms(1)] uint_word_of_int using assms(2,3) by simp

end
