(* ===== verification/Header_Properties.thy ===== *)
theory Header_Properties
  imports Error_Tables Endian Client_Inline
begin

text \<open>
  The properties of the tables, the byte order functions and the inline functions on strings of
  the MySQL headers.
\<close>

section \<open>The error tables\<close>

text \<open>\<^verbatim>\<open>mysqld_ername.h\<close> lists exactly the errors of \<^verbatim>\<open>mysqld_error.h\<close>, with the same names
  and numbers in the same order; the numbers are those of the sections that the start and size
  arrays announce; and the SQLSTATE table is sorted for a binary search: its entries are errors of
  \<^verbatim>\<open>mysqld_error.h\<close> and their numbers strictly increase.\<close>

theorem error_tables_agree:
  "map (\<lambda>(n, c, m). (n, c)) error_names = error_codes \<and>
   map snd error_codes = concat (map (\<lambda>(s, n). [s..<s + n]) (zip errmsg_section_start errmsg_section_size)) \<and>
   (\<exists>es. subseq es error_codes \<and> map fst es = map fst sql_states \<and> sorted_wrt (<) (map snd es))"
  using states_entries unfolding error_names_codes error_codes_numbers section_numbers by simp

section \<open>The byte order functions\<close>

text \<open>C33: Storing and loading are inverse: for each of the six widths, a load gives back the low
  bytes of what was stored at the address, a store of what was loaded changes nothing, and a store
  touches no byte below the address nor any from its width on; the signed three byte load is the two's
  complement reading.\<close>

theorem byte_order_round_trips:
  "uint2korr (int2store m p a2) p = a2 \<and> uint4korr (int4store m p a4) p = a4 \<and> uint8korr (int8store m p a8) p = a8 \<and>
   uint3korr (int3store m p a4) p = of_nat (unat a4 mod 256 ^ 3) \<and>
   uint5korr (int5store m p a8) p = of_nat (unat a8 mod 256 ^ 5) \<and>
   uint6korr (int6store m p a8) p = of_nat (unat a8 mod 256 ^ 6) \<and>
   int2store m p (uint2korr m p) = m \<and> int3store m p (uint3korr m p) = m \<and> int4store m p (uint4korr m p) = m \<and>
   int5store m p (uint5korr m p) = m \<and> int6store m p (uint6korr m p) = m \<and> int8store m p (uint8korr m p) = m \<and>
   (p \<le> q \<and> q < p + 2 \<or> int2store m p a2 q = m q) \<and> (p \<le> q \<and> q < p + 3 \<or> int3store m p a4 q = m q) \<and>
   (p \<le> q \<and> q < p + 4 \<or> int4store m p a4 q = m q) \<and> (p \<le> q \<and> q < p + 5 \<or> int5store m p a8 q = m q) \<and>
   (p \<le> q \<and> q < p + 6 \<or> int6store m p a8 q = m q) \<and> (p \<le> q \<and> q < p + 8 \<or> int8store m p a8 q = m q) \<and>
   sint (sint3korr m p) = (if 2 ^ 23 \<le> unat (uint3korr m p) then int (unat (uint3korr m p)) - 2 ^ 24
     else int (unat (uint3korr m p)))"
  unfolding int2.get_put int3.get_put int4.get_put int5.get_put int6.get_put int8.get_put wide_enough
    int2.put_get int3.put_get int4.put_get int5.put_get int6.put_get int8.put_get sint_sint3korr unat_uint3korr
  using int2.put_elsewhere [of q p m a2] int3.put_elsewhere [of q p m a4] int4.put_elsewhere [of q p m a4]
    int5.put_elsewhere [of q p m a8] int6.put_elsewhere [of q p m a8] int8.put_elsewhere [of q p m a8]
  by (intro conjI) (simp_all, linarith+)

text \<open>The optimised functions for the x86, which access the bytes through a cast pointer,
  compute the same as the functions for every processor that shift single bytes.\<close>

theorem x86_functions_equivalent:
  "x86_uint2korr m p = uint2korr m p \<and> x86_uint4korr m p = uint4korr m p \<and> x86_uint8korr m p = uint8korr m p \<and>
   x86_sint2korr m p = sint2korr m p \<and> x86_sint4korr m p = sint4korr m p \<and> x86_sint8korr m p = sint8korr m p \<and>
   x86_int2store m p a2 = int2store m p a2 \<and> x86_int4store m p a4 = int4store m p a4 \<and>
   x86_int8store m p a8 = int8store m p a8"
  unfolding sint_same x86_uint2korr_def x86_uint4korr_def x86_uint8korr_def x86_sint2korr_def x86_sint4korr_def
    x86_sint8korr_def x86_int2store_def x86_int4store_def x86_int8store_def int2store_le int4store_le int8store_le
    unat_uint2korr [symmetric] unat_uint4korr [symmetric] unat_uint8korr [symmetric]
  by simp

text \<open>Floating point values are stored in one format by every processor: the little endian,
  the big endian and the mixed versions write the same bytes and read the same values back; the
  remaining stores of the big endian header write the order of the processor, and its loads read
  them back.\<close>

theorem floats_are_machine_independent:
  "be_float4store m p a = le_float4store m p a \<and> be_float8store m p d = le_float8store m p d \<and>
   be_float4get m p = le_float4get m p \<and> be_float8get m p = le_float8get m p \<and>
   mixed_doublestore m p d = le_doublestore m p d \<and> mixed_doubleget m p = le_doubleget m p \<and>
   be_longget (be_longstore m p a) p = a \<and> be_shortget (be_shortstore m p s) p = s \<and>
   be_longlongget (be_longlongstore m p d) p = d \<and> le_longlongget (le_longlongstore m p d) p = d"
proof -
  have "be_shortget (be_shortstore m p s) p = s"
    unfolding be_short_gets be_shortstore_native by (simp add: object_memcpy value_be_repr)
  moreover have "be_longget (be_longstore m p a) p = a"
    unfolding be_long_gets be_longstore_native by (simp add: object_memcpy value_be_repr)
  moreover have "be_longlongget (be_longlongstore m p d) p = d"
    unfolding be_longlongget_def be_longlongstore_def by (simp add: object_memcpy value_be_repr)
  moreover have "le_longlongget (le_longlongstore m p d) p = d"
    unfolding le_longlongget_def le_longlongstore_def by (simp add: object_memcpy value_le_repr)
  ultimately show ?thesis
    by (simp add: be_float4store_le be_float8store_le le_float_stores be_float_gets mixed_doublestore_le
        le_doublestore_def memcpy_repr_le mixed_doubleget_le)
qed

text \<open>Every load of a header reads back what its store has written.\<close>

lemma little_endian_reads_back:
  "le_float4get (le_float4store m p a) p = a" "le_float8get (le_float8store m p d) p = d"
  "le_floatget (le_floatstore m p a) p = a" "le_doubleget (le_doublestore m p d) p = d"
  "le_shortget (le_shortstore m p s) p = s" "le_ushortget (le_shortstore m p s) p = s"
  "le_longget (le_longstore m p a) p = a" "le_ulongget (le_longstore m p a) p = a"
  "le_longlongget (le_longlongstore m p d) p = d"
proof -
  show f: "le_float4get (le_float4store m p a) p = a" "le_float8get (le_float8store m p d) p = d"
    unfolding le_float4get_def le_float4store_def le_float8get_def le_float8store_def
    by (simp_all add: object_memcpy value_le_repr)
  show "le_floatget (le_floatstore m p a) p = a" unfolding le_floatget_def le_floatstore_def by (rule f(1))
  show "le_doubleget (le_doublestore m p d) p = d" "le_longlongget (le_longlongstore m p d) p = d"
    unfolding le_doubleget_def le_doublestore_def le_longlongget_def le_longlongstore_def
    by (simp_all add: object_memcpy value_le_repr)
  show "le_shortget (le_shortstore m p s) p = s" "le_ushortget (le_shortstore m p s) p = s"
    "le_longget (le_longstore m p a) p = a" "le_ulongget (le_longstore m p a) p = a"
    unfolding le_shortget_def le_ushortget_def le_shortstore_def le_longget_def le_ulongget_def le_longstore_def
      sint_same int2.get_put int4.get_put wide_enough by simp_all
qed

lemma big_endian_reads_back:
  "be_float4get (be_float4store m p a) p = a" "be_float8get (be_float8store m p d) p = d"
  "be_floatget (be_floatstore m p a) p = a" "be_doubleget (be_doublestore m p d) p = d"
  "be_shortget (be_shortstore m p s) p = s" "be_ushortget (be_shortstore m p s) p = s"
  "be_longget (be_longstore m p a) p = a" "be_ulongget (be_longstore m p a) p = a"
  "be_longlongget (be_longlongstore m p d) p = d" "mixed_doubleget (mixed_doublestore m p d) p = d"
proof -
  show "be_float4get (be_float4store m p a) p = a" "be_float8get (be_float8store m p d) p = d"
    using floats_are_machine_independent [of m p a d] little_endian_reads_back(1,2)
      be_float_gets [of "be_float4store m p a" p] be_float_gets [of "be_float8store m p d" p] by simp_all
  show "be_floatget (be_floatstore m p a) p = a" "be_doubleget (be_doublestore m p d) p = d"
    "be_longlongget (be_longlongstore m p d) p = d"
    unfolding be_floatget_def be_floatstore_def be_doubleget_def be_doublestore_def be_longlongget_def be_longlongstore_def
    by (simp_all add: object_memcpy value_be_repr)
  show "be_shortget (be_shortstore m p s) p = s" "be_ushortget (be_shortstore m p s) p = s"
    unfolding be_short_gets be_shortstore_native by (simp_all add: object_memcpy value_be_repr)
  show "be_longget (be_longstore m p a) p = a" "be_ulongget (be_longstore m p a) p = a"
    unfolding be_long_gets be_longstore_native by (simp_all add: object_memcpy value_be_repr)
  show "mixed_doubleget (mixed_doublestore m p d) p = d"
    unfolding mixed_doubleget_le mixed_doublestore_le
    using little_endian_reads_back(4) [of m p d] by (simp add: le_doublestore_def memcpy_repr_le)
qed

text \<open>C34: The versions of the byte order functions for different processors agree. The optimised
  functions for the x86 compute the same as those that shift single bytes; floating point values
  are stored in one format by the little endian, the big endian and the mixed header, and every
  value these headers store, a float, a double or an integer of two, four or eight bytes, the loads of
  the same header read back, the signed and the unsigned one.\<close>

theorem processor_versions_agree:
  "x86_uint2korr m p = uint2korr m p \<and> x86_uint4korr m p = uint4korr m p \<and> x86_uint8korr m p = uint8korr m p \<and>
   x86_sint2korr m p = sint2korr m p \<and> x86_sint4korr m p = sint4korr m p \<and> x86_sint8korr m p = sint8korr m p \<and>
   x86_int2store m p a2 = int2store m p a2 \<and> x86_int4store m p a4 = int4store m p a4 \<and>
   x86_int8store m p a8 = int8store m p a8 \<and>
   be_float4store m p a = le_float4store m p a \<and> be_float8store m p d = le_float8store m p d \<and>
   be_float4get m p = le_float4get m p \<and> be_float8get m p = le_float8get m p \<and>
   mixed_doublestore m p d = le_doublestore m p d \<and> mixed_doubleget m p = le_doubleget m p \<and>
   le_float4get (le_float4store m p a) p = a \<and> le_float8get (le_float8store m p d) p = d \<and>
   le_floatget (le_floatstore m p a) p = a \<and> le_doubleget (le_doublestore m p d) p = d \<and>
   le_shortget (le_shortstore m p s) p = s \<and> le_ushortget (le_shortstore m p s) p = s \<and>
   le_longget (le_longstore m p a) p = a \<and> le_ulongget (le_longstore m p a) p = a \<and>
   le_longlongget (le_longlongstore m p d) p = d \<and>
   be_float4get (be_float4store m p a) p = a \<and> be_float8get (be_float8store m p d) p = d \<and>
   be_floatget (be_floatstore m p a) p = a \<and> be_doubleget (be_doublestore m p d) p = d \<and>
   be_shortget (be_shortstore m p s) p = s \<and> be_ushortget (be_shortstore m p s) p = s \<and>
   be_longget (be_longstore m p a) p = a \<and> be_ulongget (be_longstore m p a) p = a \<and>
   be_longlongget (be_longlongstore m p d) p = d \<and>
   mixed_doubleget (mixed_doublestore m p d) p = d"
  using x86_functions_equivalent floats_are_machine_independent little_endian_reads_back big_endian_reads_back by simp

section \<open>Trailing spaces\<close>

text \<open>C35: \<open>skip_trailing_space\<close>, which goes back eight bytes at a time as long as they are all
  spaces, returns the address behind the last byte of the string that is not a space, as the
  byte by byte search does, for any bytes, address and length; it never leaves the string.\<close>

theorem skip_trailing_space_exact:
  "skip_trailing_space m ptr len = ptr + trimmed (map m [ptr..<ptr + len]) \<and>
   ptr \<le> skip_trailing_space m ptr len \<and> skip_trailing_space m ptr len \<le> ptr + len"
  using skip_trailing_space_trims skip_trailing_space_spec(1,2) by simp

end
