(* ===== verification/Spec2Isabelle.thy ===== *)
theory Spec2Isabelle
  imports Psi_Properties Text_Properties Request_Properties Handler_Properties Server_Properties Server_Runs Progress_Wire Header_Properties
begin

text \<open>
  A verification development for a small HTTP server in C (\<^verbatim>\<open>src/ttac.c\<close> and the files beside it):
  to-do lists, progress, groups, chat and locations of users over a MySQL database.

  \<^bold>\<open>The program.\<close> \<^verbatim>\<open>main\<close> accepts connections and starts a thread for each. The thread
  (\<^verbatim>\<open>http_thread\<close>) reads and parses a request (\<^verbatim>\<open>http.c\<close>, over the buffered streams of
  \<^verbatim>\<open>stream.c\<close>, the string functions of \<^verbatim>\<open>string_util.c\<close> and the dictionaries of
  \<^verbatim>\<open>list.c\<close>), picks a handler by regular expression, and closes the socket. A handler checks
  its parameters, opens a database connection (\<^verbatim>\<open>connection_queue.c\<close>), looks up the user of the
  token, runs its statements and writes one response. Positions are kept in a list shared by the
  threads under a mutex. The server is built with the headers of the MySQL client library.

  \<^bold>\<open>Values and faults.\<close> \<open>Prelude\<close> has the faults (every case of undefined behaviour is a
  value), the result type \<open>fault + 'a\<close> and the locale \<open>kept\<close> for invariants of step
  relations. \<open>C_Memory\<close> has blocks of bytes with indeterminate contents, pointers into them
  (one may point before its block; a read or write there is a fault), and the library functions the
  code calls, with \<^verbatim>\<open>size_t\<close> wrap-around where a negative length reaches them. \<open>free\<close> takes
  \<^verbatim>\<open>NULL\<close> or the start of a block and faults on any other pointer. A \<^verbatim>\<open>char\<close> is
  signed and an \<^verbatim>\<open>int\<close> is an \<open>int\<close> with overflow a fault where the code computes the size of a
  buffer: the growth of a line or an output (\<open>grown\<close>) and \<open>sz+1\<close> in \<open>read_sz\<close>. So no body has more than
  2147483646 characters, and the lengths and indices that the string functions of the parser keep in an
  \<^verbatim>\<open>int\<close>, of a line or a body, fit; their definitions do not test for it.

  \<^bold>\<open>Text.\<close> \<open>String_Util\<close>, \<open>Stream_IO\<close>, \<open>Query_Params\<close>, \<open>Form_Data\<close> and
  \<open>Http_Request\<close> are \<^verbatim>\<open>string_util.c\<close>, \<^verbatim>\<open>stream.c\<close> and the parser in \<^verbatim>\<open>http.c\<close>,
  function by function, each loop a function with its termination proof; a loop that comes back to
  its test unchanged is \<open>Diverges\<close>. A descriptor is the list of results its reads will have
  (data of any length, or a failure). The lemmas relate each function to a specification on
  strings: \<open>line_of\<close>, \<open>decode\<close>, \<open>pairs_of\<close>, and \<open>parse_bytes\<close> for whole requests, so that
  \<open>parse_request\<close> refines \<open>parse_bytes\<close>. \<open>Dic_List\<close> and \<open>Request_Memory\<close> are \<^verbatim>\<open>list.c\<close>
  and the memory of a request on a heap of cells; their locale \<open>dictionary\<close> is the interface
  the other components use, and everywhere else a dictionary is its list of entries.
  \<open>Request_Wire\<close> and \<open>Response_Wire\<close> have the messages as bytes.

  \<^bold>\<open>Handlers.\<close> \<open>Server_State\<close> is the state: sockets, connection handles, allocated result
  sets, statements sent, the list of locations, the memory of the requests being served and the
  outputs; a handler is a function on it that may fault. The MySQL client library, \<^verbatim>\<open>rand\<close> and the clock are the record \<open>env\<close>, an argument
  of every definition: the properties assume nothing of it but what they name (\<open>asked\<close>,
  \<open>user_is\<close>, \<open>account\<close>, \<open>answers\<close>, \<open>progress_table\<close>), and \<open>Scripted\<close> has an \<open>env\<close> for which the hypotheses hold.
  \<open>Accounts\<close>, \<open>Activities\<close> and \<open>Location\<close> are the thirteen handlers of \<^verbatim>\<open>ttac.c\<close> with
  every branch, \<open>Router\<close> the expressions and \<^verbatim>\<open>http_thread\<close>. \<open>Handler_Contract\<close> is a small
  logic of triples over the state; \<open>Handlers_Keep\<close> proves the locale \<open>request_handler\<close> for every
  handler (one answer, statements within their buffers, which handles and results stay allocated),
  and \<open>Handler_Runs\<close> and \<open>Group_Runs\<close> compute the runs on given answers of the database.
  \<open>Progress_Wire\<close> assumes no single answers but the laws of a table (\<open>progress_table\<close>: what the
  select, the update and the insert do to a map) and proves the two handlers to be its update and
  lookup; \<open>ledger\<close> is a database that has the laws. \<open>Handler_Returns\<close> is
  the same logic for total correctness (\<open>returns P m Q\<close>): its rules take a handler apart and leave
  as side conditions the bounds the code relies on without testing them, so that \<open>brief\<close> requests on
  a database with \<open>answers\<close> are served; \<open>steady\<close> is such a database. It bounds a list of rows by
  \<open>ROWS_MAX\<close> = 7000000, which keeps 100 characters for each below \<open>LINE_MAX\<close>.

  \<^bold>\<open>Threads.\<close> \<open>Server\<close> is \<^verbatim>\<open>main\<close>: the accept loop and its threads as a step relation, in which
  a request, from its first byte to the close of its socket, is one step: what it says of the loop, the
  descriptors, the handles and the memory of the requests does not depend on how two requests
  interleave, and nothing about races inside a request is concluded from it. \<open>Location_Threads\<close> has
  those: it splits \<open>push_location\<close> and \<open>pop_location\<close> into their steps (the old value is freed, the
  node gets an array that is not yet written, the array is written, the mutex is released, the reader
  takes the address, the reader reads) under any interleaving, with the two ways a reader can
  fault, and \<open>Location_Runs\<close> shows that every run of them ends, that none deadlocks, that a
  schedule without a fault exists, and that each is equal to its pushes done one after the other. Invariants are proved
  once per relation and reach every state through \<open>kept\<close>. \<open>Typing\<close> is the types that C
  leaves implicit: terminated texts, entries of two texts and a bar, distinct open handles. The
  parser establishes them, a thread that runs alone keeps them, and no fault but an overflow is left in
  reading a typed list that no other thread is writing. \<open>Server_Runs\<close> puts the loop and the total logic together: what is left to do (\<open>work\<close>)
  falls with each step of a thread, and no thread is stuck.

  \<^bold>\<open>MySQL headers.\<close> \<open>Error_Codes\<close>, \<open>Error_Names\<close> and \<open>Sql_States\<close> are the tables of
  \<^verbatim>\<open>mysqld_error.h\<close>, \<^verbatim>\<open>mysqld_ername.h\<close> and \<^verbatim>\<open>sql_state.h\<close> row by row, in pieces of 72
  rows; \<open>Error_Tables\<close> relates them. \<open>Byte_Order\<close> and \<open>Endian\<close> are the byte order functions
  on machine words, proved equal to two reference functions.
  The inline functions of \<^verbatim>\<open>mysql/psi\<close> and \<^verbatim>\<open>thr_*.h\<close> wrap locks, files, sockets and
  sessions in calls to the performance schema. \<open>Psi_Calls\<close> has those calls and the system calls
  as data, what they answer as a parameter (\<open>host\<close>, with the options of the build in
  \<open>have_psi\<close> and \<open>safe_mutex\<close>), programs that record them in order, and two small logics:
  \<open>within\<close> relates an instrumented program to the plain one, \<open>judged\<close> checks its calls with an
  automaton. \<open>Psi_Thread\<close>, \<open>Psi_File\<close>, \<open>Psi_Socket\<close> and \<open>Psi_Statement\<close> are the functions
  of \<^verbatim>\<open>mysql_thread.h\<close>, \<^verbatim>\<open>mysql_file.h\<close>, \<^verbatim>\<open>mysql_socket.h\<close> and the headers on
  statements, stages, transactions, tables, prepared statements, programs and memory, as a POSIX system compiles them. The
  locale \<open>instrumented_session\<close> is the order of the calls on a session, \<open>instrumented_object\<close> in
  \<open>Psi_Lives\<close> the life of a lock; \<open>Psi_Properties\<close> shows that the instrumentation changes no
  result (except the length \<open>accept\<close> gives its caller), that each wait it starts is ended once, with the
  result or the number of bytes of the call, and that it is handed only what it gave out.
  \<open>Client_Inline\<close> has what else is code in these headers: the flags of \<^verbatim>\<open>mysql_com.h\<close>, the
  column types, the client's errors with the macro that looks up their texts, the search for
  trailing spaces of \<^verbatim>\<open>m_string.h\<close> and the points in time of \<^verbatim>\<open>my_global.h\<close>.

  \<^bold>\<open>Properties.\<close> The theories \<open>Text_Properties\<close>, \<open>Request_Properties\<close>,
  \<open>Handler_Properties\<close>, \<open>Server_Properties\<close>, \<open>Header_Properties\<close>, \<open>Psi_Properties\<close> and this one hold the
  properties, each after a text with its number; a theorem named \<open>..._witness\<close> applies the one
  before it to concrete data.

  \<^bold>\<open>Bounds.\<close> Growing buffers are sized by \<open>sz*3/2\<close> in \<^verbatim>\<open>int\<close>, which overflows above
  \<open>LINE_MAX\<close> = 715827881 bytes; the lemmas on streams assume no more than that is unread or
  written. No fuel is used: loops are total functions, the two list traversals on the heap and \<open>c_strlen\<close> are
  \<open>partial_function (option)\<close>, and their lemmas prove that they return.

  \<^bold>\<open>Not modelled.\<close> The MySQL client library, the performance schema and \<^verbatim>\<open>mysys\<close> (no code in the
  repository), the declarations of the other headers, the Windows branches of the inline functions, those that only assert the
  owner of a lock, and \<^verbatim>\<open>mysql_mdl.h\<close> and the other parts in C++,
  POSIX expressions beyond literals and anchors, the memory of stack buffers after a handler has
  returned, the debugging output of \<^verbatim>\<open>parse_parameter\<close>, the loss of data on the client's side
  of a socket, and the overloads under \<^verbatim>\<open>__cplusplus\<close> in \<^verbatim>\<open>my_byteorder.h\<close>, which are
  not compiled in a C program. In \<open>Server\<close> a request is one step, so what two handlers do to the
  database at the same time is not described; the list of locations is, in \<open>Location_Threads\<close>. The two
  \<^verbatim>\<open>dic_list\<close> structures of a request and the boundary of a multipart body, which the code never
  frees, are not cells of \<open>Request_Memory\<close>.
\<close>

section \<open>Properties that span the components\<close>

text \<open>C1: Whatever arrives on a connection, if its thread returns, the request was parsed, the
  descriptor is closed once, and the client got exactly one response on that descriptor and on no
  other, with status 200, 404 or 500 and the version of its request; only a resource that the code
  leaves unanswered for the method gets no bytes. All statements went to the thread's own connection
  handle and fit their buffers.\<close>

theorem one_response_per_connection:
  assumes "http_thread env regex_compile fd w = Inr (u, w')"
  shows "\<exists>req. parse_request fd (incoming w fd) = Inr req \<and> closed w' = closed w @ [fd] \<and>
    (if target_of (req_method req) (req_path req) = Unanswered then sent w' = sent w
     else \<exists>code msg body. (code, msg) \<in> {(200, ''OK''), (404, ''Not Found''), (500, ''Internal Server Error'')} \<and>
       sent w' = (sent w)(fd := sent w fd @ response_bytes code msg (req_version req) [] body)) \<and>
    (\<exists>qs. queried w' = queried w @ map (Pair (next_conn w)) qs \<and> (\<forall>q \<in> set qs. length q < 2000))"
proof -
  obtain req info m h v m' where r: "parse_request fd (incoming w fd) = Inr req" "print_request_info req = Inr info"
    "build_request (memory w) (req_method req) (req_path req) (req_version req) (req_header req)
      (req_body req) (req_parameter req) = Inr (m, h)"
    "run_target (target_of (req_method req) (req_path req)) env fd req
      (w\<lparr>memory := m, printed := printed w @ info\<rparr>) = Inr ((), v)"
    "clear_requset m h = Some (Inr m')" "w' = v\<lparr>memory := m', closed := closed v @ [fd]\<rparr>"
    using assms by (rule http_thread_run)
  have q: "\<exists>qs. queried w' = queried w @ map (Pair (next_conn w)) qs \<and> (\<forall>q \<in> set qs. length q < 2000)"
    using run_target_frame(6) [OF r(4)] r(6) by simp
  show ?thesis using r(1) http_thread_frame(1) [OF assms] http_thread_answer [OF assms r(1)] q by blast
qed

lemma unknown_path: "target_of m ''/x'' = Not_Found"
  by (simp add: target_of_def resources_def starts_def)

lemma sample_post:
  "post_ok ''POST'' ''/x'' ''HTTP/1.1'' (form_headers [(''a'', ''b'')]) [(''a'', ''b'')]"
  "delivers [Data (request_bytes ''POST'' ''/x'' ''HTTP/1.1'' (form_headers [(''a'', ''b'')]) (form [(''a'', ''b'')]))]
     (request_bytes ''POST'' ''/x'' ''HTTP/1.1'' (form_headers [(''a'', ''b'')]) (form [(''a'', ''b'')] @ []))"
proof -
  show "post_ok ''POST'' ''/x'' ''HTTP/1.1'' (form_headers [(''a'', ''b'')]) [(''a'', ''b'')]"
    by (rule form_headers_ok) (simp_all add: is_post_def line_ok_def plain_pairs_def)
  have "length (request_bytes ''POST'' ''/x'' ''HTTP/1.1'' (form_headers [(''a'', ''b'')]) (form [(''a'', ''b'')])) \<le> 200"
    by code_simp
  then show "delivers [Data (request_bytes ''POST'' ''/x'' ''HTTP/1.1'' (form_headers [(''a'', ''b'')]) (form [(''a'', ''b'')]))]
     (request_bytes ''POST'' ''/x'' ''HTTP/1.1'' (form_headers [(''a'', ''b'')]) (form [(''a'', ''b'')] @ []))"
    unfolding append_Nil2 by (intro delivers_one) (simp_all add: LINE_MAX_def request_bytes_def)
qed

theorem one_response_per_connection_witness:
  "\<exists>w' code msg body. http_thread scripted regex_compile 4 (world_of (\<lambda>_. [Data (request_bytes ''POST'' ''/x'' ''HTTP/1.1''
      (form_headers [(''a'', ''b'')]) (form [(''a'', ''b'')]))]) []) = Inr ((), w') \<and> closed w' = [4] \<and>
    sent w' = (\<lambda>_. [])(4 := response_bytes code msg ''HTTP/1.1'' [] body)"
proof -
  let ?w = "world_of (\<lambda>_. [Data (request_bytes ''POST'' ''/x'' ''HTTP/1.1'' (form_headers [(''a'', ''b'')]) (form [(''a'', ''b'')]))]) []"
  let ?req = "post_request ''POST'' ''/x'' ''HTTP/1.1'' (form_headers [(''a'', ''b'')]) [(''a'', ''b'')]"
  have del: "delivers (incoming ?w 4) (request_bytes ''POST'' ''/x'' ''HTTP/1.1'' (form_headers [(''a'', ''b'')]) (form [(''a'', ''b'')] @ []))"
    using sample_post(2) by simp
  obtain h h' where i: "\<And>v. run_target (target_of ''POST'' ''/x'') scripted 4 ?req (with_request ?req h ?w) = Inr ((), v) \<Longrightarrow>
    http_thread scripted regex_compile 4 ?w = Inr ((), v\<lparr>memory := h', closed := closed v @ [4]\<rparr>)"
    using thread_on_post [OF sample_post(1) del] mem_ok_empty by auto
  have "\<exists>v. run_target (target_of ''POST'' ''/x'') scripted 4 ?req (with_request ?req h ?w) = Inr ((), v)"
    unfolding unknown_path by simp
  then obtain w' where w': "http_thread scripted regex_compile 4 ?w = Inr ((), w')" using i by blast
  have p: "parse_request 4 (incoming ?w 4) = Inr ?req" using sample_post(1) del by (rule parse_post)
  have t: "target_of (req_method ?req) (req_path ?req) \<noteq> Unanswered" by (simp add: post_request_def unknown_path)
  show ?thesis using one_response_per_connection [OF w'] w' t unfolding p by auto
qed

text \<open>C2: Requests are served: if the bytes of a connection parse and its parameters are short, the
  database answers each statement with the rows the code reads of it, and the entries in the list of
  locations are short, the thread returns. It has answered (but for a method the resource does not
  know), closed its descriptor and given its memory back, and the entries are still short, so the next
  request is served too. No other behaviour of the database is assumed: any statement may be refused.\<close>

theorem requests_are_served:
  assumes "parse_request fd (incoming w fd) = Inr req"
    and "req_header req = entries hs" and "req_parameter req = entries ps" and "brief ps"
    and "answers env ps" and "clock_ok env" and "ready w" and "mem_ok (memory w)"
  shows "\<exists>w'. http_thread env regex_compile fd w = Inr ((), w') \<and> ready w' \<and> mem_ok (memory w') \<and>
    closed w' = closed w @ [fd] \<and>
    (if target_of (req_method req) (req_path req) = Unanswered then sent w' = sent w
     else \<exists>code msg body. (code, msg) \<in> {(200, ''OK''), (404, ''Not Found''), (500, ''Internal Server Error'')} \<and>
       sent w' = (sent w)(fd := sent w fd @ response_bytes code msg (req_version req) [] body))"
proof -
  obtain w' where run: "http_thread env regex_compile fd w = Inr ((), w')" and w': "ready w'"
    using thread_returns [OF assms] by blast
  show ?thesis
    using run w' http_thread_memory(1) [OF run assms(8)] http_thread_frame(1) [OF run]
      http_thread_answer [OF run assms(1)] by blast
qed

theorem requests_are_served_witness:
  "\<exists>w'. http_thread steady regex_compile 4 (steady_world (\<lambda>_. [Data sample_get])) = Inr ((), w') \<and>
    closed w' = [4] \<and>
    (\<exists>code msg body. (code, msg) \<in> {(200, ''OK''), (404, ''Not Found''), (500, ''Internal Server Error'')} \<and>
       sent w' = (\<lambda>_. [])(4 := response_bytes code msg ''HTTP/1.1'' [] body))"
proof -
  let ?w = "steady_world (\<lambda>_. [Data sample_get])"
  let ?req = "get_request ''GET'' ''/group_list'' ''HTTP/1.1'' [] sample_list"
  have parse: "parse_request 4 (incoming ?w 4) = Inr ?req" using sample_get_parsed by (simp add: steady_world_def)
  have es: "req_header ?req = entries (lowered [])" "req_parameter ?req = entries sample_list"
    by (simp_all add: get_request_def)
  have "target_of (req_method ?req) (req_path ?req) \<noteq> Unanswered"
    by (simp add: get_request_def target_of_def resources_def starts_def by_method_def)
  moreover have "closed ?w = []" "sent ?w = (\<lambda>_. [])" "req_version ?req = ''HTTP/1.1''"
    by (simp_all add: steady_world_def get_request_def)
  ultimately show ?thesis
    using requests_are_served [OF parse es brief_sample steady_answers steady_clock ready_steady]
    by (simp only: if_False append_Nil) blast
qed



text \<open>C16: What each thread leaves behind. In every state the accept loop reaches, the threads that have
  returned can be listed, in some order, each with the descriptor it has closed, the connection handles it
  has left allocated and the number of result sets it has, and this accounts for all that is closed and
  allocated: every one has closed its descriptor once, and none has left more than one handle and one
  result set. The strings and nodes that \<open>build_request\<close> has put into the requests are all given back. (The
  two \<^verbatim>\<open>dic_list\<close> structures of a request and a multipart boundary are not cells of that memory; the
  code never frees them.)\<close>

theorem threads_clean_up:
  assumes "(server_step env)\<^sup>*\<^sup>* (initial, w) (s, w')" and "mem_ok (memory w)"
  shows "(\<exists>ls :: leaving list. mset (map left_fd ls) = mset (returned_fds (threads s)) \<and>
      (\<forall>l \<in> set ls. length (left_conns l) \<le> 1 \<and> 0 \<le> left_results l \<and> left_results l \<le> 1) \<and>
      closed w' = closed w @ map left_fd ls \<and> conns w' = concat (map left_conns (rev ls)) @ conns w \<and>
      results w' = results w + sum_list (map left_results ls)) \<and>
    cells (memory w') = cells (memory w)"
proof -
  have "left_behind w (s, w')" using assms(1) left_behind_initial by (rule leaks.reached)
  then show ?thesis using assms(2) unfolding left_behind_def leaves_little_def prod.case
    by (elim conjE) (intro conjI, assumption, simp)
qed

theorem threads_clean_up_witness:
  "\<exists>s w'. (server_step steady)\<^sup>*\<^sup>* (initial, steady_world (\<lambda>_. [Data sample_get])) (s, w') \<and> threads s = [Returned 4] \<and>
     closed w' = [4] \<and> length (conns w') \<le> 1 \<and> 0 \<le> results w' \<and> results w' \<le> 1 \<and> cells (memory w') = cells empty_mem"
proof -
  define w where "w = steady_world (\<lambda>_. [Data sample_get])"
  define s where "s = \<lparr>clnt_sock = Some 4, main_at = Spawning, threads = [], accepted = [4 :: int]\<rparr>"
  obtain w1 where r: "(patient_step steady)\<^sup>*\<^sup>* (initial, w) (s, w1)" using first_accept [of 4 steady w] by (auto simp: s_def)
  have all: "\<forall>fd. fd \<noteq> -1 \<longrightarrow> serveable steady (incoming w fd) fd"
    using sample_get_served by (auto simp: w_def steady_world_def)
  have ready: "ready w" "mem_ok (memory w)" unfolding w_def by (rule ready_steady)+
  have h: "healthy (incoming w) (s, w1)" by (rule healthy_reached [OF all steady_clock r healthy_initial [OF ready]])
  obtain s' w2 where f: "(patient_step steady)\<^sup>*\<^sup>* (s, w1) (s', w2)" "threads s' = [Returned 4]"
    using can_finish [OF all steady_clock h] by (auto simp: s_def)
  have run: "(server_step steady)\<^sup>*\<^sup>* (initial, w) (s', w2)" using patient_server [OF rtranclp_trans [OF r f(1)]] .
  have four: "returned_fds (threads s') = [4]" using f(2) by (simp add: returned_fds_def)
  from threads_clean_up [OF run ready(2), unfolded four]
  obtain ls :: "leaving list" where ls: "mset (map left_fd ls) = mset [4]"
    "\<forall>l \<in> set ls. length (left_conns l) \<le> 1 \<and> 0 \<le> left_results l \<and> left_results l \<le> 1"
    "closed w2 = closed w @ map left_fd ls" "conns w2 = concat (map left_conns (rev ls)) @ conns w"
    "results w2 = results w + sum_list (map left_results ls)" "cells (memory w2) = cells (memory w)" by blast
  obtain l where l: "ls = [l]" "left_fd l = 4" using ls(1) by (cases ls) auto
  have "closed w = []" "conns w = []" "results w = 0" "memory w = empty_mem" by (simp_all add: w_def steady_world_def)
  then show ?thesis using run f(2) ls(2-6) l unfolding w_def [symmetric] by (intro exI conjI) (assumption, simp_all)
qed

text \<open>C4: The locations end to end: a client that posts a position with its token is answered
  \<^verbatim>\<open>OK\<close>, and a later GET for that user's number, on another connection, is answered with exactly
  that position, whatever the other entries of the list are and however the bytes of the two
  requests are split into reads.\<close>

theorem location_over_the_wire:
  assumes "post_ok m1 ''/location'' v1 hs1 kvs1"
    and "delivers (incoming w fd1) (request_bytes m1 ''/location'' v1 hs1 (form kvs1 @ rest1))"
    and "map_of kvs1 ''token'' = Some token" and "map_of kvs1 ''latitude'' = Some lat"
    and "map_of kvs1 ''longitude'' = Some lon"
    and "user_is env (next_conn w) token (connected env w) i out1"
    and "get_ok m2 ''/location'' v2 hs2 kvs2"
    and "delivers (incoming w fd2) (request_bytes m2 (''/location'' @ ''?'' @ form kvs2) v2 hs2 rest2)"
    and "map_of kvs2 ''token'' = Some t" and "map_of kvs2 ''user_ID'' = Some (dec i)"
    and "stores (locations w) f" and "position_ok (lat, lon)" and "CHR ''|'' \<notin> set lat"
    and "length (location_body lat lon) < 256" and "mem_ok (memory w)"
  shows "\<exists>w1 w2. http_thread env regex_compile fd1 w = Inr ((), w1) \<and> http_thread env regex_compile fd2 w1 = Inr ((), w2) \<and>
    sent w1 = (sent w)(fd1 := sent w fd1 @ response_bytes 200 ''OK'' v1 [] status_ok_body) \<and>
    sent w2 = (sent w1)(fd2 := sent w1 fd2 @ response_bytes 200 ''OK'' v2 [] (location_body lat lon)) \<and>
    closed w2 = closed w @ [fd1, fd2]"
proof -
  obtain w1 where w1: "http_thread env regex_compile fd1 w = Inr ((), w1)"
    "stores (locations w1) (f(dec i \<mapsto> lat @ ''|'' @ lon))"
    "sent w1 = (sent w)(fd1 := sent w fd1 @ response_bytes 200 ''OK'' v1 [] status_ok_body)"
    "closed w1 = closed w @ [fd1]" "incoming w1 = incoming w" "mem_ok (memory w1)"
    using location_posted [OF assms(1-6) assms(11,12,15)] by blast
  have "delivers (incoming w1 fd2) (request_bytes m2 (''/location'' @ ''?'' @ form kvs2) v2 hs2 rest2)"
    using assms(8) w1(5) by simp
  from location_got [OF assms(7) this assms(9,10) w1(2) _ w1(6) assms(13,12,14)] w1
  show ?thesis by fastforce
qed

definition sample_report :: "(string \<times> string) list" where
  "sample_report = [(''token'', ''t''), (''latitude'', ''1.5''), (''longitude'', ''2'')]"

definition sample_request :: "(string \<times> string) list" where
  "sample_request = [(''token'', ''t''), (''user_ID'', ''7'')]"

definition sample_inputs :: "int \<Rightarrow> input" where
  "sample_inputs fd = (if fd = 4 then [Data (request_bytes ''POST'' ''/location'' ''HTTP/1.1'' (form_headers sample_report) (form sample_report))]
     else [Data (request_bytes ''GET'' (''/location'' @ ''?'' @ form sample_request) ''HTTP/1.1'' [] [])])"

lemma sample_positions:
  "post_ok ''POST'' ''/location'' ''HTTP/1.1'' (form_headers sample_report) sample_report"
  "get_ok ''GET'' ''/location'' ''HTTP/1.1'' [] sample_request"
  "delivers (sample_inputs 4) (request_bytes ''POST'' ''/location'' ''HTTP/1.1'' (form_headers sample_report) (form sample_report @ []))"
  "delivers (sample_inputs 5) (request_bytes ''GET'' (''/location'' @ ''?'' @ form sample_request) ''HTTP/1.1'' [] [])"
  "user_is scripted 0 ''t'' (Done, [Rows [[Some ''7'']]]) 7 (Rows [[Some ''7'']], [])"
  "stores [] (\<lambda>_. None)" "position_ok (''1.5'', ''2'')"
  "map_of sample_report ''token'' = Some ''t''" "map_of sample_report ''latitude'' = Some ''1.5''"
  "map_of sample_report ''longitude'' = Some ''2''"
proof -
  show "post_ok ''POST'' ''/location'' ''HTTP/1.1'' (form_headers sample_report) sample_report"
    by (rule form_headers_ok) (simp_all add: is_post_def line_ok_def plain_pairs_def sample_report_def)
  show "get_ok ''GET'' ''/location'' ''HTTP/1.1'' [] sample_request"
    by (simp add: get_ok_def is_get_def line_ok_def plain_pairs_def headers_ok_def lowered_def sample_request_def)
  have "length (request_bytes ''POST'' ''/location'' ''HTTP/1.1'' (form_headers sample_report) (form sample_report)) \<le> 300"
    "length (request_bytes ''GET'' (''/location'' @ ''?'' @ form sample_request) ''HTTP/1.1'' [] []) \<le> 300"
    by code_simp+
  then show "delivers (sample_inputs 4) (request_bytes ''POST'' ''/location'' ''HTTP/1.1'' (form_headers sample_report) (form sample_report @ []))"
    "delivers (sample_inputs 5) (request_bytes ''GET'' (''/location'' @ ''?'' @ form sample_request) ''HTTP/1.1'' [] [])"
    unfolding append_Nil2 sample_inputs_def by (auto intro!: delivers_one simp: LINE_MAX_def request_bytes_def)
  have "atoi ''7'' = Inr 7" by code_simp
  then show "user_is scripted 0 ''t'' (Done, [Rows [[Some ''7'']]]) 7 (Rows [[Some ''7'']], [])"
    using scripted_user [of "''t''" "''7''" 7 0 Done "[]"] by (simp add: token_query_def sq_def)
  show "stores [] (\<lambda>_. None)" by (simp add: stores_def) (auto simp: entries_def intro: exI [of _ "[]"])
  show "position_ok (''1.5'', ''2'')" "map_of sample_report ''token'' = Some ''t''"
    "map_of sample_report ''latitude'' = Some ''1.5''" "map_of sample_report ''longitude'' = Some ''2''"
    by (simp_all add: position_ok_def sample_report_def)
qed

theorem location_over_the_wire_witness:
  "\<exists>w1 w2. http_thread scripted regex_compile 4 (world_of sample_inputs [Rows [[Some ''7'']]]) = Inr ((), w1) \<and>
    http_thread scripted regex_compile 5 w1 = Inr ((), w2) \<and>
    sent w2 5 = response_bytes 200 ''OK'' ''HTTP/1.1'' [] (location_body ''1.5'' ''2'') \<and> closed w2 = [4, 5]"
proof -
  note p = sample_positions
  have seven: "dec 7 = ''7''" by code_simp
  have q: "map_of sample_request ''token'' = Some ''t''" "map_of sample_request ''user_ID'' = Some (dec 7)"
    "CHR ''|'' \<notin> set ''1.5''" "length (location_body ''1.5'' ''2'') < 256"
    by (simp_all add: sample_request_def seven location_body_def json_field_def quoted_def)
  show ?thesis
    using location_over_the_wire [where w = "world_of sample_inputs [Rows [[Some ''7'']]]" and ?fd1.0 = 4 and ?fd2.0 = 5
        and ?rest1.0 = "[]" and ?rest2.0 = "[]" and env = scripted and i = 7 and f = "\<lambda>_. None" and ?out1.0 = "(Rows [[Some ''7'']], [])",
        OF p(1) _ p(8-10) _ p(2) _ q(1,2) _ p(7) q(3,4)]
      p(3-6) mem_ok_empty by auto
qed

text \<open>C5: The types that C does not check, for a thread that runs from its start to its end while no
  other thread is at work. Whatever bytes arrive, a request that parses is made of terminated texts. If
  every entry of the list of locations is a user number with two texts joined by a bar, and the open
  connection handles are distinct and older than the next one, the thread keeps it so. And when it has
  returned, a handler that cuts an entry at its bar does not leave the entry: reading a location
  returns, or overflows the array the answer is formatted in, and has no other fault. (A thread that
  writes the entry at the same time can make the reader fault, as \<open>freed_position_can_be_read\<close> in
  \<open>Server_Properties\<close> shows.)\<close>

theorem thread_keeps_types:
  assumes "http_thread env regex_compile fd w = Inr (u, w')" and "world_typed w"
  shows "world_typed w' \<and>
    (\<forall>fd inp req t u. parse_request fd inp = Inr req \<longrightarrow> request_typed req \<and>
      (find_value (req_parameter req) ''token'' = Inr (Some t) \<and> find_value (req_parameter req) ''user_ID'' = Inr (Some u) \<longrightarrow>
       get_location env fd req w' = Inl Buffer_Overflow \<or> (\<exists>v. get_location env fd req w' = Inr ((), v))))"
proof -
  have w': "world_typed w'" using assms by (rule http_thread_typed)
  then have "located (locations w')" by (simp add: world_typed_def)
  then show ?thesis using w' parse_request_typed get_location_typed by blast
qed

theorem thread_keeps_types_witness:
  "\<exists>w' req. http_thread scripted regex_compile 4 (world_of sample_inputs [Rows [[Some ''7'']]]) = Inr ((), w') \<and>
     world_typed w' \<and> parse_request 5 (sample_inputs 5) = Inr req \<and> request_typed req \<and>
     (get_location scripted 5 req w' = Inl Buffer_Overflow \<or> (\<exists>v. get_location scripted 5 req w' = Inr ((), v)))"
proof -
  let ?w = "world_of sample_inputs [Rows [[Some ''7'']]]"
  let ?req = "get_request ''GET'' ''/location'' ''HTTP/1.1'' [] sample_request"
  have typed: "world_typed ?w"
    unfolding world_typed_def located_def using mem_ok_empty by (intro conjI exI [of _ "[]"]) (simp_all add: entries_def)
  obtain w' where run: "http_thread scripted regex_compile 4 ?w = Inr ((), w')"
    using location_posted [where w = ?w and fd = 4 and rest = "[]" and env = scripted and i = 7 and f = "\<lambda>_. None"
        and ?out1.0 = "(Rows [[Some ''7'']], [])", OF sample_positions(1) _ sample_positions(8-10) _ _ sample_positions(7)]
      sample_positions(3,5,6) mem_ok_empty by auto
  have p: "parse_request 5 (sample_inputs 5) = Inr ?req" using sample_positions(2,4) by (rule parse_get)
  have "find_value (req_parameter ?req) ''token'' = Inr (Some ''t'')"
    "find_value (req_parameter ?req) ''user_ID'' = Inr (Some ''7'')"
    by (simp_all add: get_request_def sample_request_def)
  with thread_keeps_types [OF run typed] p run show ?thesis
    by (intro exI [of _ w'] exI [of _ ?req]) simp
qed

text \<open>C6: Login end to end: a POST with the ID and password of an account is answered with
  status \<^verbatim>\<open>OK\<close>, a fresh token of 50 letters and digits and the account's name; the token has been
  inserted for the account's number, and the connection handle and the results are given back.\<close>

theorem login_over_the_wire:
  assumes "post_ok m ''/login'' version hs kvs"
    and "delivers (incoming w fd) (request_bytes m ''/login'' version hs (form kvs @ rest))"
    and "map_of kvs ''ID'' = Some ID" and "map_of kvs ''password'' = Some password"
    and "account env w ID password name i out1" and "mem_ok (memory w)"
    and "rands env 50 out1 = (rs, out2)" and "\<forall>r \<in> set rs. 0 \<le> r"
    and "fst (db_query env (next_conn w) (new_token_query (token_of rs) i) out2)"
  shows "\<exists>w'. http_thread env regex_compile fd w = Inr ((), w') \<and>
    sent w' = (sent w)(fd := sent w fd @ response_bytes 200 ''OK'' version [] (login_body ''OK'' (token_of rs) name)) \<and>
    queried w' = queried w @ [(next_conn w, login_query ID), (next_conn w, new_token_query (token_of rs) i)] \<and>
    conns w' = conns w \<and> results w' = results w \<and> closed w' = closed w @ [fd]"
  using assms by (rule login_served)

definition sample_login :: "(string \<times> string) list" where
  "sample_login = [(''ID'', ''kim''), (''password'', ''secret'')]"

theorem login_over_the_wire_witness:
  "\<exists>w'. http_thread scripted regex_compile 4 (world_of (\<lambda>_. [Data (request_bytes ''POST'' ''/login'' ''HTTP/1.1''
      (form_headers sample_login) (form sample_login))]) [Rows [[Some ''secret'', Some ''Kim'', Some ''7'']], Done]) = Inr ((), w') \<and>
    sent w' 4 = response_bytes 200 ''OK'' ''HTTP/1.1'' [] (login_body ''OK'' (token_of (replicate 50 7)) ''Kim'') \<and>
    conns w' = [] \<and> closed w' = [4]"
proof -
  let ?w = "world_of (\<lambda>_. [Data (request_bytes ''POST'' ''/login'' ''HTTP/1.1'' (form_headers sample_login) (form sample_login))])
    [Rows [[Some ''secret'', Some ''Kim'', Some ''7'']], Done]"
  have seven: "atoi ''7'' = Inr 7" by code_simp
  have post: "post_ok ''POST'' ''/login'' ''HTTP/1.1'' (form_headers sample_login) sample_login"
    by (rule form_headers_ok) (simp_all add: is_post_def line_ok_def plain_pairs_def sample_login_def)
  have "length (request_bytes ''POST'' ''/login'' ''HTTP/1.1'' (form_headers sample_login) (form sample_login)) \<le> 300"
    by code_simp
  then have del: "delivers (incoming ?w 4) (request_bytes ''POST'' ''/login'' ''HTTP/1.1'' (form_headers sample_login) (form sample_login @ []))"
    unfolding append_Nil2 world_of_sel by (intro delivers_one) (simp_all add: LINE_MAX_def request_bytes_def)
  have acc: "account scripted ?w ''kim'' ''secret'' ''Kim'' 7 (Rows [[Some ''secret'', Some ''Kim'', Some ''7'']], [Done])"
    by (rule scripted_account) (simp_all add: seven login_query_def sq_def)
  have ps: "map_of sample_login ''ID'' = Some ''kim''" "map_of sample_login ''password'' = Some ''secret''"
    by (simp_all add: sample_login_def)
  have r: "rands scripted 50 (Rows [[Some ''secret'', Some ''Kim'', Some ''7'']], [Done]) =
      (replicate 50 7, (Rows [[Some ''secret'', Some ''Kim'', Some ''7'']], [Done]))" by (rule scripted_rands)
  from login_over_the_wire [OF post del ps acc _ r] mem_ok_empty
  show ?thesis by auto
qed

text \<open>C7: Progress end to end, against a table: if the database keeps a map from users to texts that
  its select reads and its update and insert set, a POST of a number over one connection sets the
  user's entry and no other, whether the user had one or not, and a GET with a token of the same user
  over a later connection is answered with that number.\<close>

theorem progress_over_the_wire:
  assumes "progress_table env view" and "token_for env view token i" and "token_for env view token' i"
    and "post_ok m ''/progress'' version hs kvs"
    and "delivers (incoming w fd) (request_bytes m ''/progress'' version hs (form kvs @ rest))"
    and "map_of kvs ''token'' = Some token" and "map_of kvs ''number'' = Some (dec n)" and "int32 n"
    and "get_ok m' ''/progress'' version' hs' kvs'"
    and "delivers (incoming w fd') (request_bytes m' (''/progress'' @ ''?'' @ form kvs') version' hs' rest')"
    and "map_of kvs' ''token'' = Some token'" and "mem_ok (memory w)"
  shows "\<exists>w1 w2. http_thread env regex_compile fd w = Inr ((), w1) \<and>
    view (outside w1) = (view (outside w))(i \<mapsto> dec n) \<and>
    sent w1 = (sent w)(fd := sent w fd @ response_bytes 200 ''OK'' version [] (json_status ''OK'')) \<and>
    http_thread env regex_compile fd' w1 = Inr ((), w2) \<and> view (outside w2) = view (outside w1) \<and>
    sent w2 = (sent w1)(fd' := sent w1 fd' @ response_bytes 200 ''OK'' version' [] (progress_body (dec n)))"
proof -
  obtain w1 where w1: "http_thread env regex_compile fd w = Inr ((), w1)"
    "view (outside w1) = (view (outside w))(i \<mapsto> dec n)"
    "sent w1 = (sent w)(fd := sent w fd @ response_bytes 200 ''OK'' version [] (json_status ''OK''))"
    using progress_posted [OF assms(1,2,4-8,12)] by blast
  have "delivers (incoming w1 fd') (request_bytes m' (''/progress'' @ ''?'' @ form kvs') version' hs' rest')"
    using assms(10) http_thread_incoming [OF w1(1)] by simp
  moreover have "NUL \<notin> set s \<and> length s \<le> 200" if "view (outside w1) i = Some s" for s
    using that w1(2) dec_no_nul [of n] dec_short [OF assms(8)] by simp
  moreover have "mem_ok (memory w1)" using http_thread_memory(1) [OF w1(1) assms(12)] .
  ultimately obtain w2 where "http_thread env regex_compile fd' w1 = Inr ((), w2)" "view (outside w2) = view (outside w1)"
    "sent w2 = (sent w1)(fd' := sent w1 fd' @ response_bytes 200 ''OK'' version' []
      (progress_body (case view (outside w1) i of None \<Rightarrow> ''0'' | Some s \<Rightarrow> s)))"
    using progress_got [OF assms(1,3,9) _ assms(11)] by blast
  then show ?thesis using w1 by auto
qed

definition sample_progress :: "(string \<times> string) list" where
  "sample_progress = [(''token'', ''t''), (''number'', ''30'')]"

definition sample_user :: "(string \<times> string) list" where
  "sample_user = [(''token'', ''t'')]"

definition progress_world :: "(string \<times> (string \<times> string) list) world" where
  "progress_world = \<lparr>outside = ([], []),
     incoming = (\<lambda>fd. [Data (if fd = 4
       then request_bytes ''POST'' ''/progress'' ''HTTP/1.1'' (form_headers sample_progress) (form sample_progress)
       else request_bytes ''GET'' (''/progress'' @ ''?'' @ form sample_user) ''HTTP/1.1'' [] [])]),
     sent = (\<lambda>_. []), closed = [], conns = [], next_conn = 0, results = 0, queried = [], locations = [],
     printed = [], logged = [], memory = empty_mem\<rparr>"

theorem progress_over_the_wire_witness:
  "\<exists>w1 w2. http_thread ledger regex_compile 4 progress_world = Inr ((), w1) \<and>
    http_thread ledger regex_compile 5 w1 = Inr ((), w2) \<and>
    sent w2 5 = response_bytes 200 ''OK'' ''HTTP/1.1'' [] (progress_body ''30'')"
proof -
  have thirty: "dec 30 = ''30''" by code_simp
  have post: "post_ok ''POST'' ''/progress'' ''HTTP/1.1'' (form_headers sample_progress) sample_progress"
    by (rule form_headers_ok) (simp_all add: is_post_def line_ok_def plain_pairs_def sample_progress_def)
  have get: "get_ok ''GET'' ''/progress'' ''HTTP/1.1'' [] sample_user"
    by (simp add: get_ok_def is_get_def line_ok_def plain_pairs_def headers_ok_def lowered_def sample_user_def)
  have "length (request_bytes ''POST'' ''/progress'' ''HTTP/1.1'' (form_headers sample_progress) (form sample_progress)) \<le> 300"
    "length (request_bytes ''GET'' (''/progress'' @ ''?'' @ form sample_user) ''HTTP/1.1'' [] []) \<le> 300"
    by code_simp+
  then have del: "delivers (incoming progress_world 4)
      (request_bytes ''POST'' ''/progress'' ''HTTP/1.1'' (form_headers sample_progress) (form sample_progress @ []))"
    "delivers (incoming progress_world 5) (request_bytes ''GET'' (''/progress'' @ ''?'' @ form sample_user) ''HTTP/1.1'' [] [])"
    unfolding progress_world_def by (auto intro!: delivers_one simp: LINE_MAX_def request_bytes_def)
  have ps: "map_of sample_progress ''token'' = Some ''t''" "map_of sample_progress ''number'' = Some (dec 30)"
    "map_of sample_user ''token'' = Some ''t''" "int32 30" "mem_ok (memory progress_world)" "sent progress_world = (\<lambda>_. [])"
    by (simp_all add: sample_progress_def sample_user_def thirty int32_def progress_world_def mem_ok_empty)
  have t: "token_for ledger ledger_view ''t'' 7" by (rule ledger_token) simp_all
  from progress_over_the_wire [OF ledger_table t t post del(1) ps(1,2,4) get del(2) ps(3,5)] ps(6)
  show ?thesis by (auto simp: thirty)
qed

section \<open>What a client can do\<close>

text \<open>A token of 173 characters or more stops the process, whatever is in the database: on every
  resource that authenticates, the statement for the token is written past the end of its array
  before anything has been checked.\<close>

theorem long_token_overflows:
  assumes "post_ok m path version hs kvs"
    and "delivers (incoming w fd) (request_bytes m path version hs (form kvs @ rest))"
    and "mem_ok (memory w)" and "authenticates (target_of m path)"
    and "\<forall>k \<in> set (required (target_of m path)). map_of kvs k \<noteq> None"
    and "map_of kvs ''token'' = Some token" and "173 \<le> length token"
  shows "http_thread env regex_compile fd w = Inl Buffer_Overflow"
proof -
  have "256 \<le> length (token_query token)" using assms(7) by (simp add: token_query_def sq_def)
  then have "run_target (target_of m path) env fd (post_request m path version hs kvs) v = Inl Buffer_Overflow" for v
    by (intro long_token_fault [OF _ assms(5,4,6)]) simp_all
  then show ?thesis
    by (intro thread_fails [OF parse_post [OF assms(1,2)] _ _ assms(3)]) (simp_all add: post_request_def)
qed

definition sample_position :: "string \<Rightarrow> (string \<times> string) list" where
  "sample_position token = [(''token'', token), (''latitude'', ''1''), (''longitude'', ''2'')]"

theorem long_token_overflows_witness:
  "http_thread scripted regex_compile 4 (world_of (\<lambda>_. [Data (request_bytes ''POST'' ''/location'' ''HTTP/1.1''
      (form_headers (sample_position (replicate 200 CHR ''x''))) (form (sample_position (replicate 200 CHR ''x''))))]) []) =
    Inl Buffer_Overflow"
proof -
  let ?kvs = "sample_position (replicate 200 CHR ''x'')"
  let ?b = "request_bytes ''POST'' ''/location'' ''HTTP/1.1'' (form_headers ?kvs) (form ?kvs)"
  have post: "post_ok ''POST'' ''/location'' ''HTTP/1.1'' (form_headers ?kvs) ?kvs"
    by (rule form_headers_ok) (simp_all add: is_post_def line_ok_def plain_pairs_def sample_position_def)
  have "length ?b \<le> 1000" by code_simp
  then have del: "delivers (incoming (world_of (\<lambda>_. [Data ?b]) []) 4)
      (request_bytes ''POST'' ''/location'' ''HTTP/1.1'' (form_headers ?kvs) (form ?kvs @ []))"
    unfolding append_Nil2 world_of_sel by (intro delivers_one) (simp_all add: LINE_MAX_def request_bytes_def)
  have t: "target_of ''POST'' ''/location'' = To_post_location"
    using location_targets(1) [of "''POST''" "[]"] by (simp add: is_post_def is_get_def)
  from long_token_overflows [OF post del, of "replicate 200 CHR ''x''" scripted] mem_ok_empty
  show ?thesis unfolding t by (simp add: authenticates_def sample_position_def)
qed

text \<open>C8: Login without a password: an ID that ends its literal and adds a \<^verbatim>\<open>union\<close> makes
  the statement select a row of the client's choice. If the database answers that statement
  with the row it spells out, a client that knows no password gets a token for any number.\<close>

definition injected_ID :: "string \<Rightarrow> string \<Rightarrow> string \<Rightarrow> string" where
  "injected_ID password name number =
     CHR 0x27 # '' union select '' @ sq password @ '','' @ sq name @ '','' @ CHR 0x27 # number"

lemma injected_statement:
  "login_query (injected_ID password name number) =
    ''select password,name,idx from user where ID='' @ sq [] @ '' union select '' @ sq password @ '','' @
      sq name @ '','' @ sq number"
  by (simp add: login_query_def injected_ID_def sq_def)

theorem login_by_injection:
  assumes "post_ok m ''/login'' version hs kvs"
    and "delivers (incoming w fd) (request_bytes m ''/login'' version hs (form kvs @ rest))"
    and "map_of kvs ''ID'' = Some (injected_ID password name number)" and "map_of kvs ''password'' = Some password"
    and "asked env (next_conn w) (''select password,name,idx from user where ID='' @ sq [] @ '' union select '' @
        sq password @ '','' @ sq name @ '','' @ sq number)
      (connected env w) (Some [[Some password, Some name, Some number]]) out1"
    and "NUL \<notin> set (password @ name @ number)" and "length (password @ name @ number) < 150" and "length name < 26"
    and "atoi number = Inr i" and "mem_ok (memory w)"
    and "rands env 50 out1 = (rs, out2)" and "\<forall>r \<in> set rs. 0 \<le> r"
    and "fst (db_query env (next_conn w) (new_token_query (token_of rs) i) out2)"
  shows "\<exists>w'. http_thread env regex_compile fd w = Inr ((), w') \<and>
    sent w' = (sent w)(fd := sent w fd @ response_bytes 200 ''OK'' version [] (login_body ''OK'' (token_of rs) name)) \<and>
    (next_conn w, new_token_query (token_of rs) i) \<in> set (queried w')"
proof -
  have "account env w (injected_ID password name number) password name i out1"
    unfolding account_def injected_statement using assms(5-9) by (auto simp: injected_ID_def sq_def)
  from login_served [OF assms(1-4) this assms(10-13)]
  show ?thesis by auto
qed

definition sample_injection :: "(string \<times> string) list" where
  "sample_injection = [(''ID'', injected_ID ''x'' ''n'' ''1''), (''password'', ''x'')]"

theorem login_by_injection_witness:
  "\<exists>w'. http_thread scripted regex_compile 4 (world_of (\<lambda>_. [Data (request_bytes ''POST'' ''/login'' ''HTTP/1.1''
      (form_headers sample_injection) (form sample_injection))]) [Rows [[Some ''x'', Some ''n'', Some ''1'']], Done]) = Inr ((), w') \<and>
    sent w' 4 = response_bytes 200 ''OK'' ''HTTP/1.1'' [] (login_body ''OK'' (token_of (replicate 50 7)) ''n'') \<and>
    (0, new_token_query (token_of (replicate 50 7)) 1) \<in> set (queried w')"
proof -
  let ?row = "[[Some ''x'', Some ''n'', Some ''1'']]"
  let ?b = "request_bytes ''POST'' ''/login'' ''HTTP/1.1'' (form_headers sample_injection) (form sample_injection)"
  let ?w = "world_of (\<lambda>_. [Data ?b]) [Rows ?row, Done]"
  have one: "atoi ''1'' = Inr 1" by code_simp
  have post: "post_ok ''POST'' ''/login'' ''HTTP/1.1'' (form_headers sample_injection) sample_injection"
    by (rule form_headers_ok) (simp_all add: is_post_def line_ok_def plain_pairs_def sample_injection_def injected_ID_def sq_def)
  have "length ?b \<le> 1000" by code_simp
  then have del: "delivers (incoming ?w 4) (request_bytes ''POST'' ''/login'' ''HTTP/1.1'' (form_headers sample_injection) (form sample_injection @ []))"
    unfolding append_Nil2 world_of_sel by (intro delivers_one) (simp_all add: LINE_MAX_def request_bytes_def)
  have ps: "map_of sample_injection ''ID'' = Some (injected_ID ''x'' ''n'' ''1'')"
    "map_of sample_injection ''password'' = Some ''x''"
    by (simp_all add: sample_injection_def)
  have a: "asked scripted (next_conn ?w) q (connected scripted ?w) (Some ?row) (Rows ?row, [Done])" for q
    by (simp add: scripted_asked)
  have r: "rands scripted 50 (Rows ?row, [Done]) = (replicate 50 7, (Rows ?row, [Done]))" by (rule scripted_rands)
  from login_by_injection [OF post del ps a _ _ _ one _ r] mem_ok_empty
  show ?thesis by auto
qed

end
